(* ===== verification/Prelude.thy ===== *)
theory Prelude
  imports Main "HOL-Library.Word"
begin

text \<open>
  Shared vocabulary of the TelegramActionHub development.
  \<^item> The named collections the component theories fill.
  \<^item> The semantics of the JavaScript built-ins the sources call on strings:
    \<open>String.prototype.split\<close> and \<open>Array.prototype.join\<close> with a one-character
    separator, \<open>Number.prototype.toString\<close> on integers, and
    \<open>String.prototype.toLowerCase\<close>/\<open>toUpperCase\<close> on ASCII letters. These are not code of the
    repository; they are written from the ECMAScript semantics.
  \<^item> The Telegram wire data the dispatcher reads (\<open>Update\<close>, \<open>Message\<close>,
    \<open>CallbackQuery\<close>), the arguments a command handler receives, the JavaScript errors
    that can be thrown inside the dispatcher, and the observable effects of the
    \<open>TelegramAPI\<close> object (listener notifications, timers, HTTP requests, handler calls).
  \<^item> Generic list lemmas the components share.
\<close>

named_theorems tg_defs "unfolding rules of the TelegramAPI operations"
named_theorems tg_frame "fields an operation of TelegramAPI leaves unchanged"

type_synonym update_id = int
type_synonym handler_id = nat
type_synonym listener_id = nat
type_synonym millis = nat

section \<open>JavaScript built-ins\<close>

subsection \<open>split and join with a one-character separator\<close>

text \<open>
  \<open>s.split(c)\<close> always returns at least one piece; consecutive separators give empty
  pieces; \<open>''''.split(c)\<close> is \<open>['''']\<close>.
\<close>

fun js_split :: "char \<Rightarrow> string \<Rightarrow> string list" where
  "js_split c [] = [[]]"
| "js_split c (x # xs) =
     (if x = c then [] # js_split c xs
      else (case js_split c xs of [] \<Rightarrow> [[x]] | w # ws \<Rightarrow> (x # w) # ws))"

fun js_join :: "char \<Rightarrow> string list \<Rightarrow> string" where
  "js_join c [] = []"
| "js_join c [w] = w"
| "js_join c (w # v # ws) = w @ c # js_join c (v # ws)"

text \<open>\<open>xs.join(sep)\<close> with a separator of several characters.\<close>

fun js_join_str :: "string \<Rightarrow> string list \<Rightarrow> string" where
  "js_join_str sep [] = []"
| "js_join_str sep [w] = w"
| "js_join_str sep (w # v # ws) = w @ sep @ js_join_str sep (v # ws)"

text \<open>\<open>s.padStart(n, c)\<close> with a one-character pad.\<close>

definition pad_start :: "nat \<Rightarrow> char \<Rightarrow> string \<Rightarrow> string" where
  "pad_start n c s = replicate (n - length s) c @ s"

lemma js_split_not_Nil [simp]: "js_split c s \<noteq> []"
  by (induction s) (auto split: list.split)

lemma js_split_Cons_other:
  "x \<noteq> c \<Longrightarrow> js_split c (x # xs) = (x # hd (js_split c xs)) # tl (js_split c xs)"
  by (cases "js_split c xs") auto

lemma js_join_Cons: "ws \<noteq> [] \<Longrightarrow> js_join c (w # ws) = w @ c # js_join c ws"
  by (cases ws) auto

lemma js_join_split [simp]: "js_join c (js_split c s) = s"
proof (induction s)
  case Nil
  then show ?case by simp
next
  case (Cons x xs)
  show ?case
  proof (cases "x = c")
    case True
    with Cons.IH show ?thesis by (simp add: js_join_Cons)
  next
    case False
    obtain w ws where sp: "js_split c xs = w # ws"
      by (cases "js_split c xs") auto
    with Cons.IH have "js_join c (w # ws) = xs" by simp
    with False sp show ?thesis by (cases ws) auto
  qed
qed

lemma js_split_pieces: "w \<in> set (js_split c s) \<Longrightarrow> c \<notin> set w"
proof (induction s arbitrary: w)
  case Nil
  then show ?case by simp
next
  case (Cons x xs)
  then show ?case
    by (cases "x = c"; cases "js_split c xs") (auto split: if_splits)
qed

lemma js_split_no_sep: "c \<notin> set s \<Longrightarrow> js_split c s = [s]"
  by (induction s) auto

lemma hd_js_split: "hd (js_split c s) = takeWhile (\<lambda>x. x \<noteq> c) s"
  by (induction s) (auto split: list.split)

lemma js_join_tl_split:
  "js_join c (tl (js_split c s)) = drop 1 (dropWhile (\<lambda>x. x \<noteq> c) s)"
proof (induction s)
  case Nil
  then show ?case by simp
next
  case (Cons x xs)
  then show ?case
    by (cases "x = c") (auto split: list.split)
qed

text \<open>The first piece, the separator and the rejoined rest give back the string.\<close>

lemma js_split_head_rest:
  "c \<in> set s \<Longrightarrow> hd (js_split c s) @ c # js_join c (tl (js_split c s)) = s"
proof -
  assume "c \<in> set s"
  then have "dropWhile (\<lambda>x. x \<noteq> c) s = c # drop 1 (dropWhile (\<lambda>x. x \<noteq> c) s)"
    by (induction s) auto
  then have "takeWhile (\<lambda>x. x \<noteq> c) s @ c # drop 1 (dropWhile (\<lambda>x. x \<noteq> c) s) = s"
    by (metis takeWhile_dropWhile_id)
  then show ?thesis by (simp add: hd_js_split js_join_tl_split)
qed

lemma js_split_join:
  "ws \<noteq> [] \<Longrightarrow> (\<forall>w \<in> set ws. c \<notin> set w) \<Longrightarrow> js_split c (js_join c ws) = ws"
proof (induction ws rule: js_join.induct)
  case (1 c)
  then show ?case by simp
next
  case (2 c w)
  then show ?case by (simp add: js_split_no_sep)
next
  case (3 c w v ws)
  have app: "c \<notin> set u \<Longrightarrow> js_split c (u @ c # r) = u # js_split c r" for u r
    by (induction u) auto
  from "3.prems" have "c \<notin> set w" by simp
  with "3.IH" "3.prems" show ?case by (simp add: app)
qed

subsection \<open>Number.prototype.toString on integers\<close>

fun digits_of_nat :: "nat \<Rightarrow> string" where
  "digits_of_nat n =
     (if n < 10 then [char_of (48 + n)]
      else digits_of_nat (n div 10) @ [char_of (48 + n mod 10)])"

declare digits_of_nat.simps [simp del]

definition string_of_int :: "int \<Rightarrow> string" where
  "string_of_int i =
     (if i < 0 then CHR ''-'' # digits_of_nat (nat (- i)) else digits_of_nat (nat i))"

definition is_digit :: "char \<Rightarrow> bool" where
  "is_digit d \<longleftrightarrow> 48 \<le> (of_char d :: nat) \<and> (of_char d :: nat) < 58"

definition nat_of_digits :: "string \<Rightarrow> nat" where
  "nat_of_digits ds = foldl (\<lambda>n d. 10 * n + (of_char d - 48)) 0 ds"

lemma of_char_digit: "d < 10 \<Longrightarrow> (of_char (char_of (48 + d)) :: nat) = 48 + d"
  by (simp add: of_char_of)

text \<open>The ten digit characters, so that \<open>simp\<close> prints literals.\<close>

lemma char_of_digit_simps [simp]:
  "char_of (48::nat) = CHR ''0''" "char_of (49::nat) = CHR ''1''"
  "char_of (50::nat) = CHR ''2''" "char_of (51::nat) = CHR ''3''"
  "char_of (52::nat) = CHR ''4''" "char_of (53::nat) = CHR ''5''"
  "char_of (54::nat) = CHR ''6''" "char_of (55::nat) = CHR ''7''"
  "char_of (56::nat) = CHR ''8''" "char_of (57::nat) = CHR ''9''"
  by code_simp+

lemma digits_of_nat_digits: "d \<in> set (digits_of_nat n) \<Longrightarrow> is_digit d"
proof (induction n rule: digits_of_nat.induct)
  case (1 n)
  then show ?case
    by (subst (asm) digits_of_nat.simps)
       (auto simp: is_digit_def of_char_digit split: if_splits)
qed

lemma digits_of_nat_not_Nil [simp]: "digits_of_nat n \<noteq> []"
  by (subst digits_of_nat.simps) simp

lemma nat_of_digits_snoc:
  "nat_of_digits (ds @ [d]) = 10 * nat_of_digits ds + (of_char d - 48)"
  by (simp add: nat_of_digits_def)

text \<open>Printing then reading the decimal digits gives the number back.\<close>

lemma nat_of_digits_of_nat [simp]: "nat_of_digits (digits_of_nat n) = n"
proof (induction n rule: digits_of_nat.induct)
  case (1 n)
  show ?case
  proof (cases "n < 10")
    case True
    then show ?thesis
      by (subst digits_of_nat.simps) (simp add: nat_of_digits_def of_char_digit)
  next
    case False
    then have "digits_of_nat n = digits_of_nat (n div 10) @ [char_of (48 + n mod 10)]"
      by (subst digits_of_nat.simps) simp
    with "1.IH" False show ?thesis
      by (simp add: nat_of_digits_snoc of_char_digit)
  qed
qed

lemma digits_of_nat_inj: "digits_of_nat m = digits_of_nat n \<Longrightarrow> m = n"
  by (metis nat_of_digits_of_nat)

lemma string_of_int_inj: "string_of_int i = string_of_int j \<Longrightarrow> i = j"
proof -
  assume eq: "string_of_int i = string_of_int j"
  have minus: "\<not> is_digit (CHR ''-'')" by (simp add: is_digit_def)
  have hd_dig: "is_digit (hd (digits_of_nat n))" for n
    using digits_of_nat_digits hd_in_set digits_of_nat_not_Nil by blast
  have hd_eq: "hd (string_of_int i) = hd (string_of_int j)"
    using eq by simp
  show "i = j"
  proof (cases "i < 0"; cases "j < 0")
    assume "i < 0" "j < 0"
    with eq show ?thesis by (auto simp: string_of_int_def dest: digits_of_nat_inj)
  next
    assume "\<not> i < 0" "\<not> j < 0"
    with eq show ?thesis by (auto simp: string_of_int_def dest: digits_of_nat_inj)
  next
    assume "i < 0" "\<not> j < 0"
    with hd_eq minus hd_dig[of "nat j"] show ?thesis
      by (simp add: string_of_int_def)
  next
    assume "\<not> i < 0" "j < 0"
    with hd_eq minus hd_dig[of "nat i"] show ?thesis
      by (simp add: string_of_int_def)
  qed
qed

subsection \<open>String.prototype.toLowerCase and toUpperCase on ASCII\<close>

definition js_lower_char :: "char \<Rightarrow> char" where
  "js_lower_char x =
     (if 65 \<le> (of_char x :: nat) \<and> (of_char x :: nat) \<le> 90
      then char_of ((of_char x :: nat) + 32) else x)"

definition js_lower :: "string \<Rightarrow> string" where
  "js_lower s = map js_lower_char s"

lemma js_lower_char_idem [simp]: "js_lower_char (js_lower_char x) = js_lower_char x"
  by (simp add: js_lower_char_def of_char_of)

lemma js_lower_idem [simp]: "js_lower (js_lower s) = js_lower s"
  by (simp add: js_lower_def)

definition js_upper_char :: "char \<Rightarrow> char" where
  "js_upper_char x =
     (if 97 \<le> (of_char x :: nat) \<and> (of_char x :: nat) \<le> 122
      then char_of ((of_char x :: nat) - 32) else x)"

definition js_upper :: "string \<Rightarrow> string" where
  "js_upper s = map js_upper_char s"

lemma js_upper_no_lower:
  "c \<in> set (js_upper s) \<Longrightarrow> \<not> (97 \<le> (of_char c :: nat) \<and> (of_char c :: nat) \<le> 122)"
  by (auto simp: js_upper_def js_upper_char_def of_char_of)

lemma js_upper_lower_char [simp]: "js_upper_char (js_lower_char c) = js_upper_char c"
proof -
  have "of_char c < (256::nat)" by (rule nat_of_char_less_256)
  then show ?thesis by (auto simp: js_upper_char_def js_lower_char_def of_char_of)
qed

lemma js_upper_lower [simp]: "js_upper (js_lower s) = js_upper s"
  by (simp add: js_upper_def js_lower_def)

section \<open>JavaScript values passed as callbacks\<close>

text \<open>A JavaScript argument that is either a function (with its identity) or anything else.\<close>

datatype js_value = JsFunction nat | JsOther

section \<open>Telegram wire data\<close>

text \<open>
  The fields of the Bot API objects that \<open>processUpdate\<close> reads. A field that
  may be absent in the JSON is an \<open>option\<close>.
\<close>

record message =
  msg_chat :: int
  msg_text :: "string option"

record callback_query =
  cq_id :: string
  cq_data :: string
  cq_message :: "message option"

record tg_update =
  update_id :: update_id
  upd_message :: "message option"
  upd_callback :: "callback_query option"

text \<open>The arguments a command handler is called with, one constructor per call site.\<close>

datatype call_args =
    CallbackArgs callback_query
  | CallbackParamArgs callback_query string
  | MessageArgs message "string list"
  | MessageOnly message

text \<open>JavaScript errors that can be thrown inside a dispatcher step, with their \<open>message\<close>.\<close>

datatype js_error =
    TypeError string
  | NetworkError string
  | HandlerError string

fun error_message :: "js_error \<Rightarrow> string" where
  "error_message (TypeError m) = m"
| "error_message (NetworkError m) = m"
| "error_message (HandlerError m) = m"

text \<open>
  Observable effects of the \<open>TelegramAPI\<close> object, in the order they happen:
  \<open>PostMessage\<close> is \<open>sendMessage(text)\<close>, \<open>PostKeyboard\<close> the same with an
  inline keyboard (rows of button text and callback data), \<open>PostDocument\<close> is
  \<open>sendFile\<close>'s \<open>sendDocument\<close> upload (path, file name, caption).
\<close>

datatype effect =
    Notify listener_id bool
  | ArmReconnect millis
  | GetMe
  | GetUpdates int
  | AnswerCallback string
  | Invoke handler_id call_args
  | PostMessage string
  | PostKeyboard string "(string \<times> string) list list"
  | PostDocument string string string

section \<open>Shared list lemmas\<close>

lemma sorted_last_Max:
  "sorted_wrt (<) (xs :: int list) \<Longrightarrow> xs \<noteq> [] \<Longrightarrow> last xs = Max (set xs)"
proof (induction xs rule: rev_induct)
  case Nil
  then show ?case by simp
next
  case (snoc x xs)
  then show ?case
    by (cases "xs = []") (auto simp: sorted_wrt_append intro: Max_eqI)
qed

lemma sorted_wrt_map_inj:
  "sorted_wrt (<) (map f xs) \<Longrightarrow> x \<in> set xs \<Longrightarrow> y \<in> set xs \<Longrightarrow> f x = f y \<Longrightarrow> x = y"
  for f :: "'a \<Rightarrow> int"
proof (induction xs)
  case Nil
  then show ?case by simp
next
  case (Cons z zs)
  then show ?case by auto
qed

end
