(* ===== verification/Registry.thy ===== *)
theory Registry
  imports Prelude
begin

text \<open>
  The command registry of \<open>TelegramAPI\<close> (\<open>src/src/api/telegramAPI.js\<close>): the plain
  object \<open>this.commandHandlers = {}\<close>, \<open>registerCommandHandler\<close>, and the two routing
  decisions \<open>processUpdate\<close> takes on it, for callback data (exact key, then the
  \<open>command_param\<close> split on \<open>_\<close>) and for \<open>/command\<close> messages (lower-cased first word,
  space-separated parameters).

  A lookup \<open>this.commandHandlers[key]\<close> on a plain object also finds the members of
  \<open>Object.prototype\<close>; they are truthy, so the code takes them for handlers.
  \<open>resolve\<close> models this: an own key gives the registered handler, a key of
  \<open>object_proto_keys\<close> gives the inherited member.
\<close>

type_synonym registry = "string \<rightharpoonup> handler_id"

definition object_proto_keys :: "string list" where
  "object_proto_keys =
     [''constructor'', ''__proto__'', ''hasOwnProperty'', ''isPrototypeOf'',
      ''propertyIsEnumerable'', ''toLocaleString'', ''toString'', ''valueOf'',
      ''__defineGetter__'', ''__defineSetter__'', ''__lookupGetter__'', ''__lookupSetter__'']"

text \<open>
  Calling an inherited member with the handler's arguments: \<open>__proto__\<close> is not a
  function, and \<open>__defineGetter__\<close>/\<open>__defineSetter__\<close> reject a non-callable second
  argument; the others return without effect.
\<close>

definition inherited_call_throws :: "string \<Rightarrow> bool" where
  "inherited_call_throws k \<longleftrightarrow> k \<in> {''__proto__'', ''__defineGetter__'', ''__defineSetter__''}"

datatype target = Registered handler_id | Inherited string

definition resolve :: "registry \<Rightarrow> string \<Rightarrow> target option" where
  "resolve r k =
     (case r k of
        Some h \<Rightarrow> Some (Registered h)
      | None \<Rightarrow> if k \<in> set object_proto_keys then Some (Inherited k) else None)"

definition register_command_handler :: "registry \<Rightarrow> string \<Rightarrow> js_value \<Rightarrow> registry" where
  "register_command_handler r command handler =
     (case handler of JsFunction h \<Rightarrow> r(command \<mapsto> h) | JsOther \<Rightarrow> r)"

subsection \<open>Routing of callback data\<close>

datatype cb_route =
    RouteExact target
  | RouteParam target string
  | NoParamHandler string
  | NotImplemented

definition route_callback :: "registry \<Rightarrow> string \<Rightarrow> cb_route" where
  "route_callback r data =
     (case resolve r data of
        Some t \<Rightarrow> RouteExact t
      | None \<Rightarrow>
          if CHR ''_'' \<in> set data then
            (let parts = js_split (CHR ''_'') data; command = hd parts in
             case resolve r command of
               Some t \<Rightarrow> RouteParam t (js_join (CHR ''_'') (tl parts))
             | None \<Rightarrow> NoParamHandler command)
          else NotImplemented)"

subsection \<open>Routing of text messages\<close>

datatype msg_route =
    RouteCommand target "string list"
  | UnknownCommand string
  | RouteDefault target
  | Ignored

definition route_message :: "registry \<Rightarrow> string \<Rightarrow> msg_route" where
  "route_message r text =
     (if take 1 text = ''/'' then
        (let parts = js_split (CHR '' '') (drop 1 text); command = js_lower (hd parts) in
         case resolve r command of
           Some t \<Rightarrow> RouteCommand t (tl parts)
         | None \<Rightarrow> UnknownCommand command)
      else
        (case resolve r ''message'' of
           Some t \<Rightarrow> RouteDefault t
         | None \<Rightarrow> Ignored))"

subsection \<open>Lookup and registration\<close>

lemma resolve_registered [simp]: "r k = Some h \<Longrightarrow> resolve r k = Some (Registered h)"
  by (simp add: resolve_def)

lemma resolve_None_iff:
  "resolve r k = None \<longleftrightarrow> r k = None \<and> k \<notin> set object_proto_keys"
  by (simp add: resolve_def split: option.split)

lemma resolve_own_or_proto:
  "resolve r k = Some (Inherited n) \<Longrightarrow> r k = None \<and> n = k \<and> k \<in> set object_proto_keys"
  by (simp add: resolve_def split: option.splits if_splits)

lemma register_other_key:
  "k \<noteq> command \<Longrightarrow> register_command_handler r command v k = r k"
  by (simp add: register_command_handler_def split: js_value.split)

lemma proto_keys_no_space:
  "k \<in> set object_proto_keys \<Longrightarrow> CHR '' '' \<notin> set k"
  by (auto simp: object_proto_keys_def)

lemmas routing_defs = route_callback_def route_message_def resolve_def

lemma route_callback_split:
  assumes "resolve r (cmd @ CHR ''_'' # p) = None" "CHR ''_'' \<notin> set cmd"
  shows "route_callback r (cmd @ CHR ''_'' # p) =
           (case resolve r cmd of Some t \<Rightarrow> RouteParam t p | None \<Rightarrow> NoParamHandler cmd)"
proof -
  have tw: "takeWhile (\<lambda>x. x \<noteq> CHR ''_'') (cmd @ CHR ''_'' # p) = cmd"
    using assms(2) by (induction cmd) auto
  have dw: "dropWhile (\<lambda>x. x \<noteq> CHR ''_'') (cmd @ CHR ''_'' # p) = CHR ''_'' # p"
    using assms(2) by (induction cmd) auto
  show ?thesis
    using assms(1)
    by (simp add: route_callback_def hd_js_split js_join_tl_split tw dw split: option.split)
qed

text \<open>
  C5. Parameterized callback routing. Callback data \<open>cmd_p\<close> with no handler of its
  own, whose command part \<open>cmd\<close> has no underscore and a registered handler, is
  routed to that handler with parameter \<open>p\<close>, the whole rest after the first
  underscore (\<open>params.join('_')\<close> gives back \<open>p\<close> even when \<open>p\<close> contains
  underscores).
\<close>

theorem route_callback_param:
  assumes "resolve r (cmd @ CHR ''_'' # p) = None" "CHR ''_'' \<notin> set cmd" "r cmd = Some h"
  shows "route_callback r (cmd @ CHR ''_'' # p) = RouteParam (Registered h) p"
  using route_callback_split[OF assms(1,2)] assms(3) by simp

theorem route_callback_param_witness: "route_callback [''file'' \<mapsto> 3] ''file_42'' = RouteParam (Registered 3) ''42''"
  using route_callback_param[of "[''file'' \<mapsto> 3]" "''file''" "''42''" 3]
  by (simp add: resolve_def object_proto_keys_def)

lemma route_message_command:
  assumes "r (js_lower cmd) = Some h" "CHR '' '' \<notin> set cmd" "\<forall>p \<in> set ps. CHR '' '' \<notin> set p"
  shows "route_message r (CHR ''/'' # js_join (CHR '' '') (cmd # ps)) = RouteCommand (Registered h) ps"
proof -
  have "js_split (CHR '' '') (js_join (CHR '' '') (cmd # ps)) = cmd # ps"
    using assms(2,3) by (intro js_split_join) auto
  with assms(1) show ?thesis by (simp add: route_message_def Let_def)
qed

text \<open>
  Message command parsing. For a message \<open>/cmd p1 ... pn\<close> built with single
  spaces, the command looked up is \<open>cmd\<close> lower-cased and the parameters are exactly
  \<open>p1 ... pn\<close>; an empty parameter (two consecutive spaces) is passed on as an empty
  string, since the code splits on \<open>' '\<close>, not on whitespace.
\<close>

theorem route_message_split:
  assumes "CHR '' '' \<notin> set cmd" "\<forall>p \<in> set ps. CHR '' '' \<notin> set p"
  shows "route_message r (CHR ''/'' # js_join (CHR '' '') (cmd # ps)) =
    (case resolve r (js_lower cmd) of
       Some t \<Rightarrow> RouteCommand t ps
     | None \<Rightarrow> UnknownCommand (js_lower cmd))"
proof -
  have "js_split (CHR '' '') (js_join (CHR '' '') (cmd # ps)) = cmd # ps"
    using assms by (intro js_split_join) auto
  then show ?thesis by (simp add: route_message_def Let_def split: option.split)
qed

theorem route_message_split_witness: "route_message [''cmd'' \<mapsto> 4] ''/CMD a  b'' = RouteCommand (Registered 4) [''a'', '''', ''b'']"
proof -
  have low: "js_lower ''CMD'' = ''cmd''" by code_simp
  show ?thesis
    using route_message_split[of "''CMD''" "[''a'', '''', ''b'']" "[''cmd'' \<mapsto> 4]"]
    by (simp add: low resolve_def)
qed

text \<open>
  Registration. Registering a function under a key makes it the handler of that key
  (the last registration wins) and leaves every other key as it was; registering a
  non-function changes nothing.
\<close>

theorem register_last_wins:
  "register_command_handler r k (JsFunction h) k = Some h
   \<and> (k' \<noteq> k \<longrightarrow> register_command_handler r k v k' = r k')
   \<and> register_command_handler r k JsOther = r"
  by (simp add: register_command_handler_def split: js_value.split)

theorem register_last_wins_witness: "register_command_handler Map.empty ''a'' (JsFunction 1) ''a'' = Some 1
   \<and> register_command_handler Map.empty ''a'' (JsFunction 2) ''b'' = None
   \<and> register_command_handler Map.empty ''a'' JsOther = Map.empty"
  using register_last_wins[of Map.empty "''a''" 1 "''b''" "JsFunction 2"] by simp

end
