(* ===== verification/Connection.thy ===== *)
theory Connection
  imports Registry
begin

text \<open>
  The connection state machine of \<open>class TelegramAPI\<close> in \<open>src/src/api/telegramAPI.js\<close>.
  The record \<open>tg\<close> holds the fields of the object; each method that changes them is a
  function from the state (and the method's arguments) to the new state and the list of
  observable effects it produces (\<open>effect\<close>): listener notifications, the reconnect
  timeout it arms, the \<open>getMe\<close> request it issues.

  Asynchronous methods are split at their \<open>await\<close>: the synchronous part is one function,
  and the completion of the awaited request is a separate event carrying the response.
  \<open>conn_step\<close> is the machine over these events; \<open>conn_run\<close> runs a list of them.

  Field correspondence: \<open>api\<close> is \<open>this.api !== null\<close>; \<open>reconnect_timer = Some d\<close>
  means a reconnect timeout of \<open>d\<close> ms is pending; \<open>update_polling_interval\<close> means the
  3000 ms polling interval is armed. Logging is not modelled.
\<close>

record tg =
  api :: bool
  token :: "string option"
  chat_id :: "string option"
  last_update_id :: int
  connected :: bool
  connection_listeners :: "listener_id list"
  command_handlers :: registry
  reconnect_timer :: "millis option"
  reconnect_attempts :: nat
  max_reconnect_attempts :: nat
  update_polling_interval :: bool
  is_polling :: bool

definition tg_init :: tg where
  "tg_init =
     \<lparr>api = False, token = None, chat_id = None, last_update_id = 0, connected = False,
      connection_listeners = [], command_handlers = Map.empty, reconnect_timer = None,
      reconnect_attempts = 0, max_reconnect_attempts = 10, update_polling_interval = False,
      is_polling = False\<rparr>"

text \<open>\<open>if (this.token && this.chatId)\<close>: both set and non-empty.\<close>

definition has_credentials :: "tg \<Rightarrow> bool" where
  "has_credentials s \<longleftrightarrow>
     (case (token s, chat_id s) of (Some t, Some c) \<Rightarrow> t \<noteq> [] \<and> c \<noteq> [] | _ \<Rightarrow> False)"

subsection \<open>Listeners\<close>

definition set_connected :: "tg \<Rightarrow> bool \<Rightarrow> tg \<times> effect list" where
  "set_connected s status =
     (s\<lparr>connected := status\<rparr>,
      if connected s \<noteq> status then map (\<lambda>l. Notify l status) (connection_listeners s) else [])"

definition add_connection_listener :: "tg \<Rightarrow> js_value \<Rightarrow> tg \<times> effect list" where
  "add_connection_listener s v =
     (case v of
        JsFunction l \<Rightarrow> (s\<lparr>connection_listeners := connection_listeners s @ [l]\<rparr>, [Notify l (connected s)])
      | JsOther \<Rightarrow> (s, []))"

definition remove_connection_listener :: "tg \<Rightarrow> listener_id \<Rightarrow> tg" where
  "remove_connection_listener s l =
     s\<lparr>connection_listeners := filter (\<lambda>x. x \<noteq> l) (connection_listeners s)\<rparr>"

definition register_handler :: "tg \<Rightarrow> string \<Rightarrow> js_value \<Rightarrow> tg" where
  "register_handler s command v =
     s\<lparr>command_handlers := register_command_handler (command_handlers s) command v\<rparr>"

subsection \<open>Polling interval\<close>

definition start_update_polling :: "tg \<Rightarrow> tg" where
  "start_update_polling s =
     (if is_polling s then s else s\<lparr>is_polling := True, update_polling_interval := True\<rparr>)"

definition stop_update_polling :: "tg \<Rightarrow> tg" where
  "stop_update_polling s = s\<lparr>update_polling_interval := False, is_polling := False\<rparr>"

subsection \<open>Disconnection and reconnection\<close>

definition backoff_delay :: "nat \<Rightarrow> millis" where
  "backoff_delay a = min 30000 (2 ^ a * 1000)"

definition handle_disconnection :: "tg \<Rightarrow> tg \<times> effect list" where
  "handle_disconnection s =
     (let (s1, e1) = set_connected s False;
          s2 = (stop_update_polling s1)\<lparr>reconnect_timer := None\<rparr>
      in if reconnect_attempts s2 < max_reconnect_attempts s2
         then (let d = backoff_delay (reconnect_attempts s2)
               in (s2\<lparr>reconnect_timer := Some d\<rparr>, e1 @ [ArmReconnect d]))
         else (s2, e1))"

text \<open>
  The answer to \<open>GET /getMe\<close>: a response whose \<open>result\<close> has a truthy \<open>id\<close> or not,
  or a rejected request (after the transport's retries).
\<close>

datatype me_response = MeOk bool | MeFailed

definition test_connection :: "tg \<Rightarrow> me_response \<Rightarrow> (tg \<times> effect list) \<times> bool" where
  "test_connection s resp =
     (if \<not> api s then (handle_disconnection s, False)
      else case resp of
        MeOk has_id \<Rightarrow> (if has_id then ((s\<lparr>reconnect_attempts := 0\<rparr>, []), True) else ((s, []), False))
      | MeFailed \<Rightarrow> (handle_disconnection s, False))"

definition initialize :: "tg \<Rightarrow> string \<Rightarrow> string \<Rightarrow> (tg \<times> effect list) \<times> bool" where
  "initialize s tok chat =
     (let s1 = s\<lparr>token := Some tok, chat_id := Some chat, api := (tok \<noteq> [])\<rparr>
      in if api s1 \<and> chat \<noteq> []
         then (let (s2, e2) = set_connected s1 True; s3 = start_update_polling s2
               in ((s3, e2 @ [GetMe]), connected s3))
         else (let (s2, e2) = set_connected s1 False in ((s2, e2), connected s2)))"

text \<open>The callback of the reconnect timeout, up to the \<open>getMe\<close> it issues.\<close>

definition reconnect_fire :: "tg \<Rightarrow> tg \<times> effect list" where
  "reconnect_fire s =
     (let s1 = s\<lparr>reconnect_timer := None, reconnect_attempts := Suc (reconnect_attempts s)\<rparr>
      in if has_credentials s1 then (s1\<lparr>api := True\<rparr>, [GetMe]) else (s1, []))"

text \<open>\<open>this.testConnection().then(success => ...)\<close> in the reconnect callback.\<close>

definition reconnect_liveness :: "tg \<Rightarrow> me_response \<Rightarrow> tg \<times> effect list" where
  "reconnect_liveness s resp =
     (let ((s1, e1), ok) = test_connection s resp
      in if ok then (let (s2, e2) = set_connected s1 True in (start_update_polling s2, e1 @ e2))
         else (s1, e1))"

subsection \<open>The machine\<close>

datatype conn_event =
    Initialize string string
  | InitLiveness me_response
  | ReconnectTimer
  | ReconnectLiveness me_response
  | PollFailure
  | AddListener js_value
  | RemoveListener listener_id
  | RegisterHandler string js_value

fun conn_step :: "tg \<Rightarrow> conn_event \<Rightarrow> tg \<times> effect list" where
  "conn_step s (Initialize t c) = fst (initialize s t c)"
| "conn_step s (InitLiveness r) = fst (test_connection s r)"
| "conn_step s ReconnectTimer = (if reconnect_timer s = None then (s, []) else reconnect_fire s)"
| "conn_step s (ReconnectLiveness r) = reconnect_liveness s r"
| "conn_step s PollFailure = handle_disconnection s"
| "conn_step s (AddListener v) = add_connection_listener s v"
| "conn_step s (RemoveListener l) = (remove_connection_listener s l, [])"
| "conn_step s (RegisterHandler c v) = (register_handler s c v, [])"

fun conn_run :: "tg \<Rightarrow> conn_event list \<Rightarrow> tg \<times> effect list" where
  "conn_run s [] = (s, [])"
| "conn_run s (e # es) =
     (let (s1, e1) = conn_step s e; (s2, e2) = conn_run s1 es in (s2, e1 @ e2))"

text \<open>A connected object with credentials, one listener and the handlers the app registers.\<close>

definition tg_demo :: tg where
  "tg_demo = tg_init\<lparr>api := True, token := Some ''bot-token'', chat_id := Some ''42'',
     connected := True, connection_listeners := [1],
     command_handlers := [''storage'' \<mapsto> 1, ''back'' \<mapsto> 2, ''file'' \<mapsto> 3, ''sms_logs'' \<mapsto> 4],
     update_polling_interval := True, is_polling := True\<rparr>"

subsection \<open>Observations of a run\<close>

text \<open>The delays of the reconnect timeouts a run arms, in order.\<close>

definition armed_delays :: "effect list \<Rightarrow> millis list" where
  "armed_delays effs = [d. ArmReconnect d \<leftarrow> effs]"

text \<open>The statuses listener \<open>l\<close> is called with, in order.\<close>

fun notifications :: "listener_id \<Rightarrow> effect list \<Rightarrow> bool list" where
  "notifications l [] = []"
| "notifications l (Notify l' b # es) =
     (if l' = l then b # notifications l es else notifications l es)"
| "notifications l (_ # es) = notifications l es"

text \<open>\<open>n\<close> reconnect timeouts that fire and whose \<open>getMe\<close> fails.\<close>

definition failed_rounds :: "nat \<Rightarrow> conn_event list" where
  "failed_rounds n = concat (replicate n [ReconnectTimer, ReconnectLiveness MeFailed])"

text \<open>The states the object reaches from the constructor by any sequence of events.\<close>

inductive conn_reachable :: "tg \<Rightarrow> bool" where
  init: "conn_reachable tg_init"
| step: "conn_reachable s \<Longrightarrow> conn_reachable (fst (conn_step s e))"

definition conn_inv :: "tg \<Rightarrow> bool" where
  "conn_inv s \<longleftrightarrow> max_reconnect_attempts s = 10 \<and> reconnect_attempts s \<le> 10
     \<and> (\<forall>d. reconnect_timer s = Some d \<longrightarrow> reconnect_attempts s < 10 \<and> 1000 \<le> d \<and> d \<le> 30000)
     \<and> update_polling_interval s = is_polling s"

declare set_connected_def [tg_defs] add_connection_listener_def [tg_defs]
  remove_connection_listener_def [tg_defs] register_handler_def [tg_defs]
  start_update_polling_def [tg_defs] stop_update_polling_def [tg_defs]
  handle_disconnection_def [tg_defs] test_connection_def [tg_defs] initialize_def [tg_defs]
  reconnect_fire_def [tg_defs] reconnect_liveness_def [tg_defs]

subsection \<open>Frame lemmas\<close>

lemma conn_step_frame [tg_frame]:
  "max_reconnect_attempts (fst (conn_step s e)) = max_reconnect_attempts s"
  "last_update_id (fst (conn_step s e)) = last_update_id s"
  by (cases e; simp add: tg_defs Let_def split: prod.split me_response.split js_value.split)+

lemma conn_run_frame [tg_frame]:
  "max_reconnect_attempts (fst (conn_run s es)) = max_reconnect_attempts s"
  "last_update_id (fst (conn_run s es)) = last_update_id s"
  by (induction es arbitrary: s) (simp_all add: conn_step_frame case_prod_beta)

lemma conn_run_append:
  "conn_run s (xs @ ys) =
     (let (s1, e1) = conn_run s xs; (s2, e2) = conn_run s1 ys in (s2, e1 @ e2))"
  by (induction xs arbitrary: s) (simp_all split: prod.split)

subsection \<open>Reconnection, listeners, reachable states\<close>

lemma armed_delays_simps [simp]:
  "armed_delays [] = []"
  "armed_delays (e # effs) = (case e of ArmReconnect d \<Rightarrow> d # armed_delays effs | _ \<Rightarrow> armed_delays effs)"
  "armed_delays (xs @ ys) = armed_delays xs @ armed_delays ys"
  by (simp_all add: armed_delays_def split: effect.split)

lemma armed_delays_notify [simp]: "armed_delays (map (\<lambda>l. Notify l b) ls) = []"
  by (induction ls) simp_all

lemma failed_round:
  assumes "reconnect_timer s \<noteq> None" "has_credentials s" "\<not> connected s"
  defines "r \<equiv> conn_run s [ReconnectTimer, ReconnectLiveness MeFailed]"
  shows "reconnect_attempts (fst r) = Suc (reconnect_attempts s)"
    and "\<not> connected (fst r)" and "has_credentials (fst r)"
    and "max_reconnect_attempts (fst r) = max_reconnect_attempts s"
    and "reconnect_timer (fst r) =
           (if Suc (reconnect_attempts s) < max_reconnect_attempts s
            then Some (backoff_delay (Suc (reconnect_attempts s))) else None)"
    and "snd r = GetMe #
           (if Suc (reconnect_attempts s) < max_reconnect_attempts s
            then [ArmReconnect (backoff_delay (Suc (reconnect_attempts s)))] else [])"
  using assms by (simp_all add: tg_defs has_credentials_def Let_def split: option.splits)

lemma conn_run_append':
  "conn_run s (xs @ ys) =
     (fst (conn_run (fst (conn_run s xs)) ys), snd (conn_run s xs) @ snd (conn_run (fst (conn_run s xs)) ys))"
  by (simp add: conn_run_append case_prod_beta)

lemma failed_rounds_Suc:
  "failed_rounds (Suc n) = [ReconnectTimer, ReconnectLiveness MeFailed] @ failed_rounds n"
  by (simp add: failed_rounds_def)

lemma failed_rounds_run:
  assumes "reconnect_timer s \<noteq> None" "has_credentials s" "\<not> connected s"
    and "reconnect_attempts s + n \<le> max_reconnect_attempts s"
  shows "reconnect_attempts (fst (conn_run s (failed_rounds n))) = reconnect_attempts s + n
    \<and> armed_delays (snd (conn_run s (failed_rounds n))) =
        map backoff_delay (filter (\<lambda>j. j < max_reconnect_attempts s)
          [Suc (reconnect_attempts s) ..< Suc (reconnect_attempts s + n)])
    \<and> reconnect_timer (fst (conn_run s (failed_rounds n))) =
        (if n = 0 then reconnect_timer s
         else if reconnect_attempts s + n < max_reconnect_attempts s
         then Some (backoff_delay (reconnect_attempts s + n)) else None)"
  using assms
proof (induction n arbitrary: s)
  case 0
  then show ?case by (simp add: failed_rounds_def)
next
  case (Suc n)
  let ?a = "reconnect_attempts s" and ?m = "max_reconnect_attempts s"
  obtain s1 e1 where r1eq: "conn_run s [ReconnectTimer, ReconnectLiveness MeFailed] = (s1, e1)"
    by (cases "conn_run s [ReconnectTimer, ReconnectLiveness MeFailed]")
  have r1: "reconnect_attempts s1 = Suc ?a" "\<not> connected s1" "has_credentials s1"
    "max_reconnect_attempts s1 = ?m"
    "reconnect_timer s1 = (if Suc ?a < ?m then Some (backoff_delay (Suc ?a)) else None)"
    "e1 = GetMe # (if Suc ?a < ?m then [ArmReconnect (backoff_delay (Suc ?a))] else [])"
    using failed_round[OF Suc.prems(1-3), unfolded r1eq] by simp_all
  have run: "conn_run s (failed_rounds (Suc n)) =
      (fst (conn_run s1 (failed_rounds n)), e1 @ snd (conn_run s1 (failed_rounds n)))"
    by (simp only: failed_rounds_Suc conn_run_append' r1eq fst_conv snd_conv)
  show ?case
  proof (cases n)
    case 0
    with r1 Suc.prems(4) show ?thesis
      unfolding run by (simp add: failed_rounds_def)
  next
    case (Suc k)
    with Suc.prems(4) have lt: "Suc ?a < ?m" by simp
    with r1 have pre: "reconnect_timer s1 \<noteq> None" by simp
    from Suc.prems(4) r1 have bound: "reconnect_attempts s1 + n \<le> max_reconnect_attempts s1"
      by simp
    have upt_eq: "[Suc ?a ..< Suc (?a + Suc n)] = Suc ?a # [Suc (Suc ?a) ..< Suc (Suc ?a + n)]"
      by (simp add: upt_conv_Cons)
    from Suc.IH[OF pre r1(3) r1(2) bound] r1 lt Suc show ?thesis
      unfolding run by (simp add: upt_conv_Cons del: upt_Suc)
  qed
qed

lemma backoff_delay_bounds: "1000 \<le> backoff_delay a \<and> backoff_delay a \<le> 30000"
  by (simp add: backoff_delay_def)

text \<open>
  C6. Reconnection backoff. From a connected state with credentials and a fresh counter,
  a failed poll followed by ten reconnect timeouts whose liveness checks all fail arms
  exactly ten reconnect timeouts, with delays \<open>min(30000, 2^n * 1000)\<close> for
  \<open>n = 0..9\<close>, and leaves no timeout pending with the counter at 10.
\<close>

theorem reconnect_backoff_schedule:
  assumes "connected s" "has_credentials s" "reconnect_attempts s = 0"
    "max_reconnect_attempts s = 10"
  shows "armed_delays (snd (conn_run s (PollFailure # failed_rounds 10))) =
           [1000, 2000, 4000, 8000, 16000, 30000, 30000, 30000, 30000, 30000]
    \<and> reconnect_timer (fst (conn_run s (PollFailure # failed_rounds 10))) = None
    \<and> reconnect_attempts (fst (conn_run s (PollFailure # failed_rounds 10))) = 10"
proof -
  obtain s1 e1 where h: "handle_disconnection s = (s1, e1)" by fastforce
  have s1: "reconnect_timer s1 = Some 1000" "token s1 = token s" "chat_id s1 = chat_id s"
    "\<not> connected s1" "reconnect_attempts s1 = 0" "max_reconnect_attempts s1 = 10"
    "armed_delays e1 = [1000]"
    using assms h by (auto simp: tg_defs Let_def backoff_delay_def)
  then have "has_credentials s1" using assms(2) by (simp add: has_credentials_def)
  have run: "conn_run s (PollFailure # failed_rounds 10) =
      (fst (conn_run s1 (failed_rounds 10)), e1 @ snd (conn_run s1 (failed_rounds 10)))"
    by (simp add: h case_prod_beta)
  have r: "reconnect_attempts (fst (conn_run s1 (failed_rounds 10))) = 10
    \<and> armed_delays (snd (conn_run s1 (failed_rounds 10))) =
        map backoff_delay (filter (\<lambda>j. j < 10) [1 ..< 11])
    \<and> reconnect_timer (fst (conn_run s1 (failed_rounds 10))) = None"
    using failed_rounds_run[of s1 10] s1 \<open>has_credentials s1\<close> by simp
  have "map backoff_delay (filter (\<lambda>j. j < 10) [1 ..< 11]) =
      [2000, 4000, 8000, 16000, 30000, 30000, 30000, 30000, 30000]"
    by (simp add: backoff_delay_def upt_rec)
  with r s1 show ?thesis unfolding run by simp
qed

theorem reconnect_backoff_schedule_witness: "armed_delays (snd (conn_run tg_demo (PollFailure # failed_rounds 10))) =
           [1000, 2000, 4000, 8000, 16000, 30000, 30000, 30000, 30000, 30000]
    \<and> reconnect_timer (fst (conn_run tg_demo (PollFailure # failed_rounds 10))) = None
    \<and> reconnect_attempts (fst (conn_run tg_demo (PollFailure # failed_rounds 10))) = 10"
  by (rule reconnect_backoff_schedule) (simp_all add: tg_demo_def tg_init_def has_credentials_def)

lemma handle_disconnection_inv: "conn_inv s \<Longrightarrow> conn_inv (fst (handle_disconnection s))"
  using backoff_delay_bounds by (simp add: conn_inv_def tg_defs Let_def)

lemma conn_step_inv: "conn_inv s \<Longrightarrow> conn_inv (fst (conn_step s e))"
  using backoff_delay_bounds
  by (cases e) (auto simp: conn_inv_def tg_defs Let_def split: prod.split me_response.split js_value.split)

lemma notifications_append [simp]:
  "notifications l (xs @ ys) = notifications l xs @ notifications l ys"
  by (induction l xs rule: notifications.induct) simp_all

lemma notifications_map_Notify [simp]:
  "notifications l (map (\<lambda>x. Notify x b) ls) = replicate (count_list ls l) b"
  by (induction ls) simp_all

lemma last_replicate_Cons:
  "last (c # replicate n b) = (if n = 0 then c else b)"
  by (induction n) auto

lemma set_connected_sync:
  assumes "l \<in> set (connection_listeners s)"
  shows "last (connected s # notifications l (snd (set_connected s b))) = b"
  using assms by (simp add: set_connected_def last_replicate_Cons count_list_0_iff)

lemma handle_disconnection_sync:
  assumes "l \<in> set (connection_listeners s)"
  shows "last (connected s # notifications l (snd (handle_disconnection s))) = False"
    and "connection_listeners (fst (handle_disconnection s)) = connection_listeners s"
    and "connected (fst (handle_disconnection s)) = False"
  using assms by (simp_all add: handle_disconnection_def set_connected_def Let_def
      last_replicate_Cons count_list_0_iff stop_update_polling_def)

lemma conn_step_sync:
  assumes "l \<in> set (connection_listeners s)" "e \<noteq> RemoveListener l"
  shows "l \<in> set (connection_listeners (fst (conn_step s e)))
    \<and> last (connected s # notifications l (snd (conn_step s e))) = connected (fst (conn_step s e))"
  using assms handle_disconnection_sync[OF assms(1)]
  by (cases e) (auto simp: tg_defs Let_def last_replicate_Cons count_list_0_iff
      split: prod.split me_response.split js_value.split)

lemma last_Cons_append: "last (c # xs @ ys) = last (last (c # xs) # ys)"
  by (induction xs arbitrary: c) auto

lemma conn_run_sync:
  assumes "l \<in> set (connection_listeners s)" "RemoveListener l \<notin> set es"
  shows "l \<in> set (connection_listeners (fst (conn_run s es)))
    \<and> last (connected s # notifications l (snd (conn_run s es))) = connected (fst (conn_run s es))"
  using assms
proof (induction es arbitrary: s)
  case Nil
  then show ?case by simp
next
  case (Cons e es)
  obtain s1 e1 where st: "conn_step s e = (s1, e1)" by fastforce
  from conn_step_sync[of l s e] Cons.prems st
  have s1: "l \<in> set (connection_listeners s1)" "last (connected s # notifications l e1) = connected s1"
    by auto
  from Cons.IH[OF s1(1)] Cons.prems
  have IH: "l \<in> set (connection_listeners (fst (conn_run s1 es)))
    \<and> last (connected s1 # notifications l (snd (conn_run s1 es))) = connected (fst (conn_run s1 es))"
    by simp
  have "last (connected s # notifications l (e1 @ snd (conn_run s1 es)))
      = last (connected s1 # notifications l (snd (conn_run s1 es)))"
    using s1(2) by (simp only: notifications_append last_Cons_append)
  with IH st show ?case by (simp add: case_prod_beta)
qed

lemma conn_reachable_run: "conn_reachable s \<Longrightarrow> conn_reachable (fst (conn_run s es))"
proof (induction es arbitrary: s)
  case Nil
  then show ?case by simp
next
  case (Cons e es)
  from Cons.prems have "conn_reachable (fst (conn_step s e))" by (rule conn_reachable.step)
  with Cons.IH show ?case by (simp add: case_prod_beta)
qed

lemma conn_reachable_inv: "conn_reachable s \<Longrightarrow> conn_inv s"
proof (induction rule: conn_reachable.induct)
  case init
  show ?case by (simp add: conn_inv_def tg_init_def)
next
  case (step s e)
  from step.IH show ?case by (rule conn_step_inv)
qed

text \<open>
  C7. Bounds of the reconnection state. In every state the object reaches from its
  constructor, the reconnect counter is at most 10, a pending reconnect timeout has a
  delay between 1000 and 30000 ms and exists only while the counter is below 10, and the
  polling interval is armed exactly when \<open>isPolling\<close> is set.
\<close>

theorem reachable_reconnect_bounds:
  assumes "conn_reachable s"
  shows "reconnect_attempts s \<le> 10
    \<and> (\<forall>d. reconnect_timer s = Some d \<longrightarrow> reconnect_attempts s < 10 \<and> 1000 \<le> d \<and> d \<le> 30000)
    \<and> update_polling_interval s = is_polling s"
  using conn_reachable_inv[OF assms] by (simp add: conn_inv_def)

theorem reachable_reconnect_bounds_witness:
  "reconnect_attempts (fst (conn_run tg_init [Initialize ''t'' ''42'', InitLiveness MeFailed])) \<le> 10
    \<and> reconnect_timer (fst (conn_run tg_init [Initialize ''t'' ''42'', InitLiveness MeFailed])) = Some 1000
    \<and> update_polling_interval (fst (conn_run tg_init [Initialize ''t'' ''42'', InitLiveness MeFailed]))
      = is_polling (fst (conn_run tg_init [Initialize ''t'' ''42'', InitLiveness MeFailed]))"
proof -
  have r: "conn_reachable (fst (conn_run tg_init [Initialize ''t'' ''42'', InitLiveness MeFailed]))"
    by (rule conn_reachable_run[OF conn_reachable.init])
  have t: "reconnect_timer (fst (conn_run tg_init [Initialize ''t'' ''42'', InitLiveness MeFailed])) = Some 1000"
    by (simp add: tg_init_def tg_defs Let_def backoff_delay_def)
  from reachable_reconnect_bounds[OF r] t show ?thesis by simp
qed

text \<open>
  C8. Listeners stay in sync. A subscribed listener that is not removed is still
  subscribed after any sequence of operations, and the last status it was called with
  (or the status at the start, if it was not called) is the current connection status.
\<close>

theorem listener_view_sync:
  assumes "l \<in> set (connection_listeners s)" "RemoveListener l \<notin> set es"
  shows "last (connected s # notifications l (snd (conn_run s es))) = connected (fst (conn_run s es))"
  using conn_run_sync[OF assms] by simp

theorem listener_view_sync_witness: "last (connected tg_demo # notifications 1
      (snd (conn_run tg_demo [PollFailure, ReconnectTimer, ReconnectLiveness (MeOk True)])))
    = connected (fst (conn_run tg_demo [PollFailure, ReconnectTimer, ReconnectLiveness (MeOk True)]))"
  by (rule listener_view_sync) (simp_all add: tg_demo_def tg_init_def)

lemma give_up_step:
  assumes "max_reconnect_attempts s \<le> reconnect_attempts s" "reconnect_timer s = None"
    "e = ReconnectTimer \<or> e = PollFailure"
  shows "armed_delays (snd (conn_step s e)) = [] \<and> reconnect_timer (fst (conn_step s e)) = None
    \<and> reconnect_attempts (fst (conn_step s e)) = reconnect_attempts s
    \<and> max_reconnect_attempts (fst (conn_step s e)) = max_reconnect_attempts s"
  using assms by (auto simp: tg_defs Let_def)

text \<open>
  C9. Giving up. Once the counter has reached the maximum and no reconnect timeout is
  pending, the automatic triggers (reconnect timeouts and polling failures) never arm a
  reconnect timeout again.
\<close>

theorem no_reconnect_after_give_up:
  assumes "max_reconnect_attempts s \<le> reconnect_attempts s" "reconnect_timer s = None"
    "\<forall>e \<in> set es. e = ReconnectTimer \<or> e = PollFailure"
  shows "armed_delays (snd (conn_run s es)) = [] \<and> reconnect_timer (fst (conn_run s es)) = None"
  using assms
proof (induction es arbitrary: s)
  case Nil
  then show ?case by simp
next
  case (Cons e es)
  obtain s1 e1 where st: "conn_step s e = (s1, e1)" by fastforce
  from give_up_step[of s e] Cons.prems st
  have "armed_delays e1 = []" "reconnect_timer s1 = None"
    "max_reconnect_attempts s1 \<le> reconnect_attempts s1"
    by auto
  with Cons.IH[of s1] Cons.prems st show ?case by (simp add: case_prod_beta)
qed

theorem no_reconnect_after_give_up_witness: "armed_delays (snd (conn_run (tg_init\<lparr>reconnect_attempts := 10\<rparr>) [PollFailure, ReconnectTimer])) = []
    \<and> reconnect_timer (fst (conn_run (tg_init\<lparr>reconnect_attempts := 10\<rparr>) [PollFailure, ReconnectTimer])) = None"
  by (rule no_reconnect_after_give_up) (simp_all add: tg_init_def)

text \<open>
  \<open>initialize\<close> with a non-empty token and chat id reports the connection as
  established, starts polling and only then issues the \<open>getMe\<close> liveness check: the
  status is \<open>true\<close> before the check has answered.
\<close>

theorem initialize_connects_before_liveness:
  assumes "tok \<noteq> []" "chat \<noteq> []"
  shows "snd (initialize s tok chat)
    \<and> connected (fst (fst (initialize s tok chat)))
    \<and> is_polling (fst (fst (initialize s tok chat)))
    \<and> last (snd (fst (initialize s tok chat))) = GetMe"
  using assms by (simp add: tg_defs Let_def)

theorem initialize_connects_before_liveness_witness: "snd (initialize tg_init ''t'' ''42'')
    \<and> connected (fst (fst (initialize tg_init ''t'' ''42'')))
    \<and> is_polling (fst (fst (initialize tg_init ''t'' ''42'')))
    \<and> last (snd (fst (initialize tg_init ''t'' ''42''))) = GetMe"
  by (rule initialize_connects_before_liveness) simp_all

text \<open>
  C14. A liveness check whose response carries no bot id ends the reconnect chain: the
  state is unchanged, nothing is armed, and no later reconnect timeout can fire, so the
  object stays disconnected until it is initialized again.
\<close>

theorem reconnect_stalls_without_bot_id:
  assumes "api s" "\<not> connected s" "reconnect_timer s = None"
  shows "conn_run s (ReconnectLiveness (MeOk False) # replicate n ReconnectTimer) = (s, [])"
proof -
  have "conn_run s (replicate n ReconnectTimer) = (s, [])"
    using assms(3) by (induction n) simp_all
  then show ?thesis using assms by (simp add: tg_defs)
qed

theorem reconnect_stalls_without_bot_id_witness: "conn_run (tg_init\<lparr>api := True\<rparr>) (ReconnectLiveness (MeOk False) # replicate 3 ReconnectTimer)
    = (tg_init\<lparr>api := True\<rparr>, [])"
  by (rule reconnect_stalls_without_bot_id) (simp_all add: tg_init_def)

text \<open>
  Reconfiguration after giving up. \<open>initialize\<close> does not reset the reconnect
  counter: once it has reached the maximum, a re-initialization whose first liveness check
  fails disconnects without arming any reconnect timeout.
\<close>

theorem reinitialize_keeps_give_up:
  assumes "max_reconnect_attempts s \<le> reconnect_attempts s" "tok \<noteq> []" "chat \<noteq> []"
  shows "armed_delays (snd (conn_run s [Initialize tok chat, InitLiveness MeFailed])) = []
    \<and> \<not> connected (fst (conn_run s [Initialize tok chat, InitLiveness MeFailed]))
    \<and> reconnect_timer (fst (conn_run s [Initialize tok chat, InitLiveness MeFailed])) = None"
  using assms by (simp add: tg_defs Let_def)

theorem reinitialize_keeps_give_up_witness: "armed_delays (snd (conn_run (tg_init\<lparr>reconnect_attempts := 10\<rparr>) [Initialize ''t'' ''42'', InitLiveness MeFailed])) = []
    \<and> \<not> connected (fst (conn_run (tg_init\<lparr>reconnect_attempts := 10\<rparr>) [Initialize ''t'' ''42'', InitLiveness MeFailed]))
    \<and> reconnect_timer (fst (conn_run (tg_init\<lparr>reconnect_attempts := 10\<rparr>) [Initialize ''t'' ''42'', InitLiveness MeFailed])) = None"
  by (rule reinitialize_keeps_give_up) (simp_all add: tg_init_def)

text \<open>
  Subscribing replays the current status: a function passed to
  \<open>addConnectionListener\<close> is called at once with the current status and appended to the
  listeners; a non-function is ignored.
\<close>

theorem subscribe_replays_status:
  "add_connection_listener s (JsFunction l) =
     (s\<lparr>connection_listeners := connection_listeners s @ [l]\<rparr>, [Notify l (connected s)])
   \<and> add_connection_listener s JsOther = (s, [])"
  by (simp add: add_connection_listener_def)

end
