(* ===== verification/Dispatcher.thy ===== *)
theory Dispatcher
  imports Connection
begin

text \<open>
  The update dispatcher of \<open>TelegramAPI\<close> (\<open>src/src/api/telegramAPI.js\<close>):
  \<open>getUpdates\<close> (the cursor \<open>lastUpdateId\<close>), \<open>processUpdate\<close> (authorization
  filter, callback acknowledgement and routing, message command routing, the catch that
  reports an error to the chat), \<open>sendMessage\<close>'s connectivity guard, and the
  callback of the 3000 ms polling interval armed by \<open>startUpdatePolling\<close>.

  A block of JavaScript statements evaluates to its effects and a completion:
  normal, an early \<open>return\<close>, or a thrown error (\<open>completion\<close>); \<open>js_seq\<close> runs the
  second block only after a normal completion. The network and the handlers are the
  environment: \<open>dispatch_env\<close> says for each callback id whether
  \<open>answerCallbackQuery\<close> rejects, and for each handler call whether the handler throws.
\<close>

datatype completion = Normal | Return | Throw js_error

type_synonym block = "effect list \<times> completion"

definition js_seq :: "block \<Rightarrow> block \<Rightarrow> block" where
  "js_seq a b = (case snd a of Normal \<Rightarrow> (fst a @ fst b, snd b) | _ \<Rightarrow> a)"

record dispatch_env =
  ack_outcome :: "string \<Rightarrow> string option"
  handler_outcome :: "handler_id \<Rightarrow> call_args \<Rightarrow> string option"

subsection \<open>Sending\<close>

text \<open>\<open>sendMessage\<close> posts only when connected; a failed post is caught and returns false.\<close>

definition send_message :: "tg \<Rightarrow> string \<Rightarrow> effect list" where
  "send_message s text = (if connected s \<and> api s then [PostMessage text] else [])"

subsection \<open>getUpdates\<close>

datatype gu_response = GuOk "tg_update list option" | GuFailed string

definition get_updates :: "tg \<Rightarrow> (int \<Rightarrow> gu_response) \<Rightarrow> (tg \<times> effect list) \<times> tg_update list" where
  "get_updates s srv =
     (if \<not> connected s then ((s, []), [])
      else if \<not> api s then (handle_disconnection s, [])
      else (let off = last_update_id s + 1 in
            case srv off of
              GuOk r \<Rightarrow>
                (let ups = (case r of None \<Rightarrow> [] | Some us \<Rightarrow> us)
                 in ((if ups \<noteq> [] then s\<lparr>last_update_id := update_id (last ups)\<rparr> else s,
                      [GetUpdates off]), ups))
            | GuFailed m \<Rightarrow>
                (let (s1, e1) = handle_disconnection s in ((s1, GetUpdates off # e1), []))))"

subsection \<open>processUpdate\<close>

definition chat_matches :: "tg \<Rightarrow> int \<Rightarrow> js_error + bool" where
  "chat_matches s c =
     (case chat_id s of
        None \<Rightarrow> Inl (TypeError ''Cannot read properties of null (reading toString)'')
      | Some x \<Rightarrow> Inr (string_of_int c = x))"

definition auth_guard :: "tg \<Rightarrow> message \<Rightarrow> block" where
  "auth_guard s m =
     (case chat_matches s (msg_chat m) of
        Inl e \<Rightarrow> ([], Throw e)
      | Inr ok \<Rightarrow> ([], if ok then Normal else Return))"

definition invoke :: "dispatch_env \<Rightarrow> target \<Rightarrow> call_args \<Rightarrow> block" where
  "invoke env t a =
     (case t of
        Registered h \<Rightarrow>
          ([Invoke h a], case handler_outcome env h a of None \<Rightarrow> Normal | Some m \<Rightarrow> Throw (HandlerError m))
      | Inherited k \<Rightarrow>
          ([], if inherited_call_throws k then Throw (TypeError (k @ '' is not callable here'')) else Normal))"

definition dispatch_callback :: "tg \<Rightarrow> dispatch_env \<Rightarrow> callback_query \<Rightarrow> block" where
  "dispatch_callback s env cq =
     (if \<not> api s then ([], Throw (TypeError ''Cannot read properties of null (reading post)''))
      else case ack_outcome env (cq_id cq) of
        Some m \<Rightarrow> ([AnswerCallback (cq_id cq)], Throw (NetworkError m))
      | None \<Rightarrow>
          js_seq ([AnswerCallback (cq_id cq)], Normal)
            (case route_callback (command_handlers s) (cq_data cq) of
               RouteExact t \<Rightarrow> invoke env t (CallbackArgs cq)
             | RouteParam t p \<Rightarrow> invoke env t (CallbackParamArgs cq p)
             | NoParamHandler c \<Rightarrow> ([], Normal)
             | NotImplemented \<Rightarrow> (send_message s (''Command not implemented: '' @ cq_data cq), Normal)))"

definition unknown_command_text :: "string \<Rightarrow> string" where
  "unknown_command_text c = ''Unknown command: /'' @ c @ ''\<newline>Type /help for available commands.''"

definition dispatch_message :: "tg \<Rightarrow> dispatch_env \<Rightarrow> message \<Rightarrow> block" where
  "dispatch_message s env m =
     (case msg_text m of
        None \<Rightarrow> ([], Normal)
      | Some text \<Rightarrow>
          if text = [] then ([], Normal)
          else case route_message (command_handlers s) text of
            RouteCommand t ps \<Rightarrow> invoke env t (MessageArgs m ps)
          | UnknownCommand c \<Rightarrow> (send_message s (unknown_command_text c), Normal)
          | RouteDefault t \<Rightarrow> invoke env t (MessageOnly m)
          | Ignored \<Rightarrow> ([], Normal))"

definition callback_chat_guard :: "tg \<Rightarrow> callback_query \<Rightarrow> block" where
  "callback_chat_guard s cq =
     (case cq_message cq of
        None \<Rightarrow> ([], Throw (TypeError ''Cannot read properties of undefined (reading chat)''))
      | Some m \<Rightarrow> auth_guard s m)"

definition process_update_body :: "tg \<Rightarrow> dispatch_env \<Rightarrow> tg_update \<Rightarrow> block" where
  "process_update_body s env u =
     js_seq (case upd_message u of None \<Rightarrow> ([], Normal) | Some m \<Rightarrow> auth_guard s m)
      (js_seq (case upd_callback u of None \<Rightarrow> ([], Normal) | Some cq \<Rightarrow> callback_chat_guard s cq)
        (js_seq (case upd_callback u of None \<Rightarrow> ([], Normal) | Some cq \<Rightarrow> dispatch_callback s env cq)
          (case upd_message u of None \<Rightarrow> ([], Normal) | Some m \<Rightarrow> dispatch_message s env m)))"

definition error_report_text :: "js_error \<Rightarrow> string" where
  "error_report_text e = ''Error processing command: '' @ error_message e"

definition process_update :: "tg \<Rightarrow> dispatch_env \<Rightarrow> tg_update \<Rightarrow> effect list" where
  "process_update s env u =
     (case process_update_body s env u of
        (effs, Throw e) \<Rightarrow> effs @ send_message s (error_report_text e)
      | (effs, _) \<Rightarrow> effs)"

subsection \<open>The polling interval callback\<close>

text \<open>
  \<open>for (const update of updates) await this.processUpdate(update)\<close>: the updates are
  processed one after the other, each against the state \<open>getUpdates\<close> left.
\<close>

definition process_updates :: "tg \<Rightarrow> dispatch_env \<Rightarrow> tg_update list \<Rightarrow> effect list" where
  "process_updates s env ups = concat (map (process_update s env) ups)"

definition poll_tick :: "tg \<Rightarrow> (int \<Rightarrow> gu_response) \<Rightarrow> dispatch_env \<Rightarrow> tg \<times> effect list" where
  "poll_tick s srv env =
     (if \<not> connected s then (s, [])
      else (let ((s1, e1), ups) = get_updates s srv in (s1, e1 @ process_updates s1 env ups)))"

subsection \<open>Sample inputs\<close>

definition demo_msg :: message where "demo_msg = \<lparr>msg_chat = 42, msg_text = None\<rparr>"
definition cq_storage :: callback_query where
  "cq_storage = \<lparr>cq_id = ''q5'', cq_data = ''storage'', cq_message = Some demo_msg\<rparr>"
definition cq_back :: callback_query where
  "cq_back = \<lparr>cq_id = ''q6'', cq_data = ''back'', cq_message = Some demo_msg\<rparr>"
definition demo_batch :: "tg_update list" where
  "demo_batch = [\<lparr>update_id = 5, upd_message = None, upd_callback = Some cq_storage\<rparr>,
                 \<lparr>update_id = 6, upd_message = None, upd_callback = Some cq_back\<rparr>]"
definition env_throw :: dispatch_env where
  "env_throw = \<lparr>ack_outcome = (\<lambda>_. None),
     handler_outcome = (\<lambda>h _. if h = 1 then Some ''boom'' else None)\<rparr>"
definition env_ack_fail :: dispatch_env where
  "env_ack_fail = \<lparr>ack_outcome = (\<lambda>_. Some ''Network Error''), handler_outcome = (\<lambda>_ _. None)\<rparr>"
definition env_ok :: dispatch_env where
  "env_ok = \<lparr>ack_outcome = (\<lambda>_. None), handler_outcome = (\<lambda>_ _. None)\<rparr>"

declare js_seq_def [tg_defs] send_message_def [tg_defs] get_updates_def [tg_defs]
  chat_matches_def [tg_defs] auth_guard_def [tg_defs] invoke_def [tg_defs]
  dispatch_callback_def [tg_defs] dispatch_message_def [tg_defs]
  callback_chat_guard_def [tg_defs] process_update_body_def [tg_defs]
  process_update_def [tg_defs] process_updates_def [tg_defs] poll_tick_def [tg_defs]

subsection \<open>Properties\<close>

lemmas demo_defs = tg_demo_def tg_init_def demo_msg_def cq_storage_def cq_back_def demo_batch_def env_ok_def env_throw_def env_ack_fail_def
  string_of_int_def digits_of_nat.simps

lemma js_seq_simps [simp]:
  "js_seq (e, Normal) b = (e @ fst b, snd b)"
  "js_seq (e, Return) b = (e, Return)"
  "js_seq (e, Throw x) b = (e, Throw x)"
  by (simp_all add: js_seq_def)

lemma js_seq_Normal_Nil [simp]: "js_seq a ([], Normal) = a"
  by (cases a) (auto simp: js_seq_def split: completion.split)

lemma process_update_Return: "process_update_body s env u = (e, Return) \<Longrightarrow> process_update s env u = e"
  by (simp add: process_update_def)

lemma auth_guard_simps:
  "chat_id s = Some c \<Longrightarrow> auth_guard s m = ([], if string_of_int (msg_chat m) = c then Normal else Return)"
  by (simp add: auth_guard_def chat_matches_def)

text \<open>
  C1. The cursor. When connected, \<open>getUpdates\<close> requests offset \<open>lastUpdateId + 1\<close>;
  when the answer is a non-empty batch in ascending \<open>update_id\<close> order, it returns the
  batch and the cursor becomes the largest \<open>update_id\<close> of the batch.
\<close>

theorem get_updates_advances_cursor:
  assumes "connected s" "api s" "srv (last_update_id s + 1) = GuOk (Some ups)" "ups \<noteq> []"
    "sorted_wrt (<) (map update_id ups)"
  shows "get_updates s srv =
    ((s\<lparr>last_update_id := Max (update_id ` set ups)\<rparr>, [GetUpdates (last_update_id s + 1)]), ups)"
proof -
  have "last (map update_id ups) = Max (set (map update_id ups))"
    using assms(4,5) by (intro sorted_last_Max) simp_all
  with assms(4) have "update_id (last ups) = Max (update_id ` set ups)"
    by (simp add: last_map)
  with assms show ?thesis by (simp add: get_updates_def Let_def)
qed

theorem get_updates_advances_cursor_witness: "get_updates (tg_demo\<lparr>last_update_id := 4\<rparr>) (\<lambda>_. GuOk (Some demo_batch)) =
    ((tg_demo\<lparr>last_update_id := 6\<rparr>, [GetUpdates 5]), demo_batch)"
proof -
  have h: "connected (tg_demo\<lparr>last_update_id := 4\<rparr>)" "api (tg_demo\<lparr>last_update_id := 4\<rparr>)"
    "(\<lambda>_. GuOk (Some demo_batch)) (last_update_id (tg_demo\<lparr>last_update_id := 4\<rparr>) + 1) = GuOk (Some demo_batch)"
    "demo_batch \<noteq> []" "sorted_wrt (<) (map update_id demo_batch)"
    by (simp_all add: demo_defs)
  have "Max (update_id ` set demo_batch) = 6" by (simp add: demo_defs)
  with get_updates_advances_cursor[OF h] show ?thesis by simp
qed

text \<open>
  C3. Authorization. An update whose message, or whose callback's message, comes from a
  chat other than the configured one produces no effect at all: no handler is invoked,
  no callback is acknowledged and nothing is sent.
\<close>

theorem unauthorized_update_dropped:
  assumes "chat_id s = Some c"
    and "(\<exists>m. upd_message u = Some m \<and> string_of_int (msg_chat m) \<noteq> c)
       \<or> (\<exists>cq m. upd_callback u = Some cq \<and> cq_message cq = Some m \<and> string_of_int (msg_chat m) \<noteq> c)"
  shows "process_update s env u = []"
proof (rule process_update_Return)
  show "process_update_body s env u = ([], Return)"
    using assms
    by (auto simp: process_update_body_def auth_guard_simps callback_chat_guard_def
        split: option.split)
qed


theorem unauthorized_update_dropped_witness: "process_update tg_demo env_ok
    \<lparr>update_id = 9, upd_message = Some \<lparr>msg_chat = 7, msg_text = Some ''/sms_logs''\<rparr>, upd_callback = None\<rparr> = []"
  by (rule unauthorized_update_dropped[of _ "''42''"]) (simp_all add: demo_defs)

lemma get_updates_ok:
  assumes "connected s" "api s" "srv (last_update_id s + 1) = GuOk (Some ups)" "ups \<noteq> []"
  shows "get_updates s srv =
    ((s\<lparr>last_update_id := update_id (last ups)\<rparr>, [GetUpdates (last_update_id s + 1)]), ups)"
  using assms by (simp add: get_updates_def Let_def)

lemma dispatch_callback_registered:
  assumes "api s" "ack_outcome env (cq_id cq) = None" "command_handlers s (cq_data cq) = Some h"
  shows "dispatch_callback s env cq =
    ([AnswerCallback (cq_id cq), Invoke h (CallbackArgs cq)],
     case handler_outcome env h (CallbackArgs cq) of None \<Rightarrow> Normal | Some e \<Rightarrow> Throw (HandlerError e))"
  using assms by (simp add: dispatch_callback_def route_callback_def invoke_def split: option.split)

lemma process_update_body_callback:
  assumes "upd_message u = None" "upd_callback u = Some cq" "cq_message cq = Some m"
    "chat_id s = Some (string_of_int (msg_chat m))"
  shows "process_update_body s env u = dispatch_callback s env cq"
  using assms by (simp add: process_update_body_def callback_chat_guard_def auth_guard_simps)

lemma process_update_body_message:
  assumes "upd_message u = Some m" "upd_callback u = None"
    "chat_id s = Some (string_of_int (msg_chat m))"
  shows "process_update_body s env u = dispatch_message s env m"
  using assms by (simp add: process_update_body_def auth_guard_simps)

text \<open>
  C2. Scenario: with cursor 4, the transport returns callbacks \<open>storage\<close> (id 5) and
  \<open>back\<close> (id 6) from the configured chat; the polling callback acknowledges each
  callback before invoking its handler, runs the \<open>storage\<close> handler, then the
  \<open>back\<close> handler, and the cursor becomes 6.
\<close>

theorem callback_batch_scenario:
  assumes "connected s" "api s" "chat_id s = Some (string_of_int (msg_chat m))"
    "last_update_id s = 4"
    "command_handlers s ''storage'' = Some h1" "command_handlers s ''back'' = Some h2"
    "cq_data cq5 = ''storage''" "cq_data cq6 = ''back''"
    "cq_message cq5 = Some m" "cq_message cq6 = Some m"
    "srv 5 = GuOk (Some [\<lparr>update_id = 5, upd_message = None, upd_callback = Some cq5\<rparr>,
                        \<lparr>update_id = 6, upd_message = None, upd_callback = Some cq6\<rparr>])"
    "ack_outcome env (cq_id cq5) = None" "ack_outcome env (cq_id cq6) = None"
    "handler_outcome env h1 (CallbackArgs cq5) = None"
    "handler_outcome env h2 (CallbackArgs cq6) = None"
  shows "poll_tick s srv env =
    (s\<lparr>last_update_id := 6\<rparr>,
     [GetUpdates 5, AnswerCallback (cq_id cq5), Invoke h1 (CallbackArgs cq5),
      AnswerCallback (cq_id cq6), Invoke h2 (CallbackArgs cq6)])"
proof -
  let ?s1 = "s\<lparr>last_update_id := 6\<rparr>"
  have gu: "get_updates s srv = ((?s1, [GetUpdates 5]),
      [\<lparr>update_id = 5, upd_message = None, upd_callback = Some cq5\<rparr>,
       \<lparr>update_id = 6, upd_message = None, upd_callback = Some cq6\<rparr>])"
    using get_updates_ok[of s srv] assms by simp
  have p5: "process_update ?s1 env \<lparr>update_id = 5, upd_message = None, upd_callback = Some cq5\<rparr>
      = [AnswerCallback (cq_id cq5), Invoke h1 (CallbackArgs cq5)]"
    using assms process_update_body_callback[of _ cq5 m ?s1]
      dispatch_callback_registered[of ?s1 env cq5 h1]
    by (simp add: process_update_def)
  have p6: "process_update ?s1 env \<lparr>update_id = 6, upd_message = None, upd_callback = Some cq6\<rparr>
      = [AnswerCallback (cq_id cq6), Invoke h2 (CallbackArgs cq6)]"
    using assms process_update_body_callback[of _ cq6 m ?s1]
      dispatch_callback_registered[of ?s1 env cq6 h2]
    by (simp add: process_update_def)
  show ?thesis
    using assms(1) gu p5 p6 by (simp add: poll_tick_def process_updates_def)
qed

theorem callback_batch_scenario_witness: "poll_tick (tg_demo\<lparr>last_update_id := 4\<rparr>) (\<lambda>_. GuOk (Some demo_batch)) env_ok =
    (tg_demo\<lparr>last_update_id := 6\<rparr>,
     [GetUpdates 5, AnswerCallback ''q5'', Invoke 1 (CallbackArgs cq_storage),
      AnswerCallback ''q6'', Invoke 2 (CallbackArgs cq_back)])"
  using callback_batch_scenario[of "tg_demo\<lparr>last_update_id := 4\<rparr>" demo_msg 1 2 cq_storage cq_back
      "\<lambda>_. GuOk (Some demo_batch)" env_ok]
  by (simp add: demo_defs)

text \<open>
  Scenario: a message \<open>/sms_logs\<close> from the configured chat invokes the handler
  registered under the exact key \<open>sms_logs\<close> with the message and no parameters,
  and nothing else happens.
\<close>

theorem message_command_scenario:
  assumes "connected s" "api s" "chat_id s = Some (string_of_int (msg_chat m))"
    "upd_message u = Some m" "upd_callback u = None" "msg_text m = Some ''/sms_logs''"
    "command_handlers s ''sms_logs'' = Some h" "handler_outcome env h (MessageArgs m []) = None"
  shows "process_update s env u = [Invoke h (MessageArgs m [])]"
proof -
  have low: "js_lower ''sms_logs'' = ''sms_logs''" by (simp add: js_lower_def js_lower_char_def)
  have "route_message (command_handlers s) (CHR ''/'' # js_join (CHR '' '') [''sms_logs'']) =
      RouteCommand (Registered h) []"
    using assms(7) low by (intro route_message_command) simp_all
  then have "route_message (command_handlers s) ''/sms_logs'' = RouteCommand (Registered h) []"
    by simp
  with assms show ?thesis
    by (simp add: process_update_def process_update_body_message dispatch_message_def invoke_def)
qed

theorem message_command_scenario_witness: "process_update tg_demo env_ok
    \<lparr>update_id = 7, upd_message = Some (demo_msg\<lparr>msg_text := Some ''/sms_logs''\<rparr>), upd_callback = None\<rparr>
    = [Invoke 4 (MessageArgs (demo_msg\<lparr>msg_text := Some ''/sms_logs''\<rparr>) [])]"
  by (rule message_command_scenario) (simp_all add: demo_defs)

text \<open>
  C4. Failure isolation. When the handler of the first update of a batch throws, the
  error is reported to the chat and the second update is still acknowledged and
  dispatched, in order.
\<close>

theorem handler_failure_isolated:
  assumes "api s" "connected s" "chat_id s = Some (string_of_int (msg_chat m))"
    "u1 = \<lparr>update_id = i1, upd_message = None, upd_callback = Some cq1\<rparr>"
    "u2 = \<lparr>update_id = i2, upd_message = None, upd_callback = Some cq2\<rparr>"
    "cq_message cq1 = Some m" "cq_message cq2 = Some m"
    "command_handlers s (cq_data cq1) = Some h1" "command_handlers s (cq_data cq2) = Some h2"
    "ack_outcome env (cq_id cq1) = None" "ack_outcome env (cq_id cq2) = None"
    "handler_outcome env h1 (CallbackArgs cq1) = Some err"
    "handler_outcome env h2 (CallbackArgs cq2) = None"
  shows "process_updates s env [u1, u2] =
    [AnswerCallback (cq_id cq1), Invoke h1 (CallbackArgs cq1),
     PostMessage (''Error processing command: '' @ err),
     AnswerCallback (cq_id cq2), Invoke h2 (CallbackArgs cq2)]"
  using assms process_update_body_callback[of u1 cq1 m s env]
    process_update_body_callback[of u2 cq2 m s env]
    dispatch_callback_registered[of s env cq1 h1] dispatch_callback_registered[of s env cq2 h2]
  by (simp add: process_updates_def process_update_def send_message_def error_report_text_def)

theorem handler_failure_isolated_witness: "process_updates tg_demo env_throw demo_batch =
    [AnswerCallback ''q5'', Invoke 1 (CallbackArgs cq_storage),
     PostMessage ''Error processing command: boom'',
     AnswerCallback ''q6'', Invoke 2 (CallbackArgs cq_back)]"
  using handler_failure_isolated[of tg_demo demo_msg "hd demo_batch" 5 cq_storage
      "last demo_batch" 6 cq_back 1 2 env_throw "''boom''"]
  by (simp add: demo_defs)

text \<open>
  C11. A rejected \<open>answerCallbackQuery\<close> is an error of the whole update: the
  handler is not invoked and the error is reported to the chat instead.
\<close>

theorem ack_failure_skips_handler:
  assumes "api s" "connected s" "chat_id s = Some (string_of_int (msg_chat m))"
    "upd_message u = None" "upd_callback u = Some cq" "cq_message cq = Some m"
    "ack_outcome env (cq_id cq) = Some err"
  shows "process_update s env u =
    [AnswerCallback (cq_id cq), PostMessage (''Error processing command: '' @ err)]"
  using assms process_update_body_callback[of u cq m s env]
  by (simp add: process_update_def dispatch_callback_def send_message_def error_report_text_def)

theorem ack_failure_skips_handler_witness: "process_update tg_demo env_ack_fail (hd demo_batch) =
    [AnswerCallback ''q5'', PostMessage ''Error processing command: Network Error'']"
  using ack_failure_skips_handler[of tg_demo demo_msg "hd demo_batch" cq_storage env_ack_fail "''Network Error''"]
  by (simp add: demo_defs)

text \<open>
  C10. A rejected \<open>getUpdates\<close> returns no updates, keeps the cursor, disconnects,
  stops polling and arms a reconnect timeout with the backoff delay of the current
  counter, unless the counter has reached its maximum.
\<close>

theorem failed_fetch_disconnects:
  assumes "connected s" "api s" "srv (last_update_id s + 1) = GuFailed msg"
  shows "snd (get_updates s srv) = []
    \<and> last_update_id (fst (fst (get_updates s srv))) = last_update_id s
    \<and> \<not> connected (fst (fst (get_updates s srv)))
    \<and> \<not> is_polling (fst (fst (get_updates s srv)))
    \<and> reconnect_timer (fst (fst (get_updates s srv))) =
        (if reconnect_attempts s < max_reconnect_attempts s
         then Some (backoff_delay (reconnect_attempts s)) else None)"
  using assms by (simp add: tg_defs Let_def)

theorem failed_fetch_disconnects_witness: "snd (get_updates tg_demo (\<lambda>_. GuFailed ''timeout'')) = []
    \<and> last_update_id (fst (fst (get_updates tg_demo (\<lambda>_. GuFailed ''timeout'')))) = last_update_id tg_demo
    \<and> \<not> connected (fst (fst (get_updates tg_demo (\<lambda>_. GuFailed ''timeout''))))
    \<and> \<not> is_polling (fst (fst (get_updates tg_demo (\<lambda>_. GuFailed ''timeout''))))
    \<and> reconnect_timer (fst (fst (get_updates tg_demo (\<lambda>_. GuFailed ''timeout'')))) =
        (if reconnect_attempts tg_demo < max_reconnect_attempts tg_demo
         then Some (backoff_delay (reconnect_attempts tg_demo)) else None)"
  by (rule failed_fetch_disconnects) (simp_all add: demo_defs)

text \<open>
  A command that names a member of \<open>Object.prototype\<close>, such as
  \<open>/constructor\<close>, is found by the handler lookup: the inherited function is
  called, no \<open>Unknown command\<close> reply is sent, and the update has no effect.
\<close>

theorem proto_command_swallowed:
  assumes "chat_id s = Some (string_of_int (msg_chat m))"
    "upd_message u = Some m" "upd_callback u = None" "msg_text m = Some ''/constructor''"
    "command_handlers s ''constructor'' = None"
  shows "process_update s env u = []"
proof -
  have "route_message (command_handlers s) ''/constructor'' = RouteCommand (Inherited ''constructor'') []"
    using assms(5)
    by (simp add: route_message_def resolve_def object_proto_keys_def js_lower_def js_lower_char_def Let_def)
  with assms show ?thesis
    by (simp add: process_update_def process_update_body_message dispatch_message_def invoke_def
        inherited_call_throws_def)
qed

theorem proto_command_swallowed_witness: "process_update tg_demo env_ok
    \<lparr>update_id = 8, upd_message = Some (demo_msg\<lparr>msg_text := Some ''/constructor''\<rparr>), upd_callback = None\<rparr> = []"
  by (rule proto_command_swallowed[of _ "demo_msg\<lparr>msg_text := Some ''/constructor''\<rparr>"])
     (simp_all add: demo_defs)

end
