(* ===== verification/Transport.thy ===== *)
theory Transport
  imports Prelude
begin

text \<open>
  The HTTP transport of \<open>src/src/api/telegramAPI.js\<close>, \<open>createTelegramAPI\<close>: an axios
  instance whose request interceptor sets \<open>config.retry = 3\<close> on every request and
  whose response-error interceptor re-issues a failed request (network error, status
  5xx or 429) while \<open>config._retryCount < config.retry\<close>, after waiting
  \<open>2^_retryCount * 1000\<close> ms, the counter incremented first. The server's answer to
  the \<open>k\<close>-th attempt (\<open>k = _retryCount\<close> when it is sent) is an input. A re-issued
  request passes through the request interceptor again, so \<open>retry\<close> is reset to 3
  while \<open>_retryCount\<close> is carried over (axios merges the custom fields of the
  config into the new request).
\<close>

datatype http_result =
    HttpResponse string
  | HttpFailure "nat option" string

record axios_config =
  cfg_retry :: "nat option"
  cfg_retry_count :: nat

datatype transport_event = Attempt nat | Wait millis

definition request_interceptor :: "axios_config \<Rightarrow> axios_config" where
  "request_interceptor cfg = cfg\<lparr>cfg_retry := Some 3\<rparr>"

definition retryable_status :: "nat option \<Rightarrow> bool" where
  "retryable_status st = (case st of None \<Rightarrow> True | Some s \<Rightarrow> 500 \<le> s \<or> s = 429)"

datatype interceptor_decision = Reject | Retry millis axios_config

definition response_error_interceptor :: "axios_config \<Rightarrow> nat option \<Rightarrow> interceptor_decision" where
  "response_error_interceptor cfg st =
     (case cfg_retry cfg of
        None \<Rightarrow> Reject
      | Some r \<Rightarrow>
          if retryable_status st \<and> cfg_retry_count cfg < r then
            (let n = Suc (cfg_retry_count cfg) in Retry (2 ^ n * 1000) (cfg\<lparr>cfg_retry_count := n\<rparr>))
          else Reject)"

function api_request :: "(nat \<Rightarrow> http_result) \<Rightarrow> axios_config \<Rightarrow> transport_event list \<times> (js_error + string)" where
  "api_request srv cfg =
     (let c = request_interceptor cfg; k = cfg_retry_count c in
      case srv k of
        HttpResponse r \<Rightarrow> ([Attempt k], Inr r)
      | HttpFailure st m \<Rightarrow>
          (case response_error_interceptor c st of
             Reject \<Rightarrow> ([Attempt k], Inl (NetworkError m))
           | Retry d c' \<Rightarrow> apfst ((@) [Attempt k, Wait d]) (api_request srv c')))"
  by pat_completeness auto
termination
  by (relation "measure (\<lambda>(srv, cfg). 3 - cfg_retry_count cfg)")
     (auto simp: request_interceptor_def response_error_interceptor_def Let_def split: if_splits)

text \<open>
  The retry policy the transport is meant to implement, as an explicit wrapper of an
  operation and a bound: attempt \<open>k\<close>; on a transient failure with \<open>n\<close> retries left,
  wait \<open>2^(k+1) * 1000\<close> ms and attempt \<open>k + 1\<close>.
\<close>

fun retry_policy :: "nat \<Rightarrow> (nat \<Rightarrow> http_result) \<Rightarrow> nat \<Rightarrow> transport_event list \<times> (js_error + string)" where
  "retry_policy n op k =
     (case op k of
        HttpResponse r \<Rightarrow> ([Attempt k], Inr r)
      | HttpFailure st m \<Rightarrow>
          (case n of
             0 \<Rightarrow> ([Attempt k], Inl (NetworkError m))
           | Suc n' \<Rightarrow>
               if retryable_status st
               then apfst ((@) [Attempt k, Wait (2 ^ Suc k * 1000)]) (retry_policy n' op (Suc k))
               else ([Attempt k], Inl (NetworkError m))))"

definition fresh_config :: axios_config where
  "fresh_config = \<lparr>cfg_retry = None, cfg_retry_count = 0\<rparr>"

definition attempts :: "transport_event list \<Rightarrow> nat list" where
  "attempts evs = [k. Attempt k \<leftarrow> evs]"

definition waits :: "transport_event list \<Rightarrow> millis list" where
  "waits evs = [d. Wait d \<leftarrow> evs]"

declare api_request.simps [simp del] retry_policy.simps [simp del]

lemma api_request_unfold:
  "api_request srv cfg =
     (case srv (cfg_retry_count cfg) of
        HttpResponse r \<Rightarrow> ([Attempt (cfg_retry_count cfg)], Inr r)
      | HttpFailure st m \<Rightarrow>
          if retryable_status st \<and> cfg_retry_count cfg < 3 then
            apfst ((@) [Attempt (cfg_retry_count cfg), Wait (2 ^ Suc (cfg_retry_count cfg) * 1000)])
              (api_request srv (cfg\<lparr>cfg_retry := Some 3, cfg_retry_count := Suc (cfg_retry_count cfg)\<rparr>))
          else ([Attempt (cfg_retry_count cfg)], Inl (NetworkError m)))"
  by (subst api_request.simps)
     (auto simp: request_interceptor_def response_error_interceptor_def Let_def
       split: http_result.split)


lemma attempts_simps [simp]:
  "attempts [] = []" "attempts (Attempt k # evs) = k # attempts evs"
  "attempts (Wait d # evs) = attempts evs" "attempts (xs @ ys) = attempts xs @ attempts ys"
  by (simp_all add: attempts_def)

lemma waits_simps [simp]:
  "waits [] = []" "waits (Attempt k # evs) = waits evs"
  "waits (Wait d # evs) = d # waits evs" "waits (xs @ ys) = waits xs @ waits ys"
  by (simp_all add: waits_def)

lemma retry_policy_0 [simp]:
  "retry_policy 0 op k =
     (case op k of HttpResponse r \<Rightarrow> ([Attempt k], Inr r)
      | HttpFailure st m \<Rightarrow> ([Attempt k], Inl (NetworkError m)))"
  by (simp add: retry_policy.simps split: http_result.split)

lemma retry_policy_Suc [simp]:
  "retry_policy (Suc n) op k =
     (case op k of
        HttpResponse r \<Rightarrow> ([Attempt k], Inr r)
      | HttpFailure st m \<Rightarrow>
          if retryable_status st
          then apfst ((@) [Attempt k, Wait (2 ^ Suc k * 1000)]) (retry_policy n op (Suc k))
          else ([Attempt k], Inl (NetworkError m)))"
  by (subst retry_policy.simps) (simp split: http_result.split)

lemma sum_backoff_le:
  assumes "c + j \<le> 3 \<or> j = 0"
  shows "sum_list (map (\<lambda>i. 2 ^ Suc i * 1000) [c..<c + j]) \<le> (14000::nat)"
proof -
  have "sum_list (map (\<lambda>i. 2 ^ Suc i * 1000) [c..<c + j]) = (\<Sum>i\<in>{c..<c + j}. 2 ^ Suc i * 1000::nat)"
    by (simp add: sum_set_upt_conv_sum_list_nat[symmetric])
  also have "\<dots> \<le> (\<Sum>i\<in>{0..<3}. 2 ^ Suc i * 1000::nat)"
    using assms by (intro sum_mono2) auto
  also have "\<dots> = 14000" by (simp add: numeral_3_eq_3)
  finally show ?thesis .
qed

text \<open>The shape of every run of the policy: \<open>j \<le> n\<close> retries, attempts \<open>k .. k + j\<close>.\<close>

lemma retry_policy_shape:
  "\<exists>j \<le> n. attempts (fst (retry_policy n op k)) = [k..<Suc (k + j)]
           \<and> waits (fst (retry_policy n op k)) = map (\<lambda>i. 2 ^ Suc i * 1000) [k..<k + j]"
proof (induction n arbitrary: k)
  case 0
  then show ?case by (auto simp: retry_policy.simps split: http_result.split)
next
  case (Suc n)
  obtain j where j: "j \<le> n" "attempts (fst (retry_policy n op (Suc k))) = [Suc k..<Suc (Suc k + j)]"
      "waits (fst (retry_policy n op (Suc k))) = map (\<lambda>i. 2 ^ Suc i * 1000) [Suc k..<Suc k + j]"
    using Suc.IH by blast
  have "attempts (fst (retry_policy n op (Suc k))) = [Suc k..<Suc (k + Suc j)]
      \<and> waits (fst (retry_policy n op (Suc k))) = map (\<lambda>i. 2 ^ Suc i * 1000) [Suc k..<k + Suc j]"
    using j(2,3) by simp
  then have step: "k # attempts (fst (retry_policy n op (Suc k))) = [k..<Suc (k + Suc j)]
      \<and> 2 ^ Suc k * 1000 # waits (fst (retry_policy n op (Suc k))) = map (\<lambda>i. 2 ^ Suc i * 1000) [k..<k + Suc j]"
    by (simp add: upt_conv_Cons)
  show ?case
  proof (cases "op k")
    case (HttpResponse r)
    then show ?thesis by (intro exI[of _ 0]) (simp add: retry_policy.simps)
  next
    case (HttpFailure st m)
    show ?thesis
    proof (cases "retryable_status st")
      case True
      with HttpFailure step j(1) show ?thesis
        by (intro exI[of _ "Suc j"]) (simp add: retry_policy.simps)
    next
      case False
      with HttpFailure show ?thesis by (intro exI[of _ 0]) (simp add: retry_policy.simps)
    qed
  qed
qed

lemma retry_policy_recovers:
  assumes "j \<le> n" "\<forall>i<j. \<exists>st m. op (k + i) = HttpFailure st m \<and> retryable_status st"
    "op (k + j) = HttpResponse r"
  shows "retry_policy n op k =
    (concat (map (\<lambda>i. [Attempt i, Wait (2 ^ Suc i * 1000)]) [k..<k + j]) @ [Attempt (k + j)], Inr r)"
  using assms
proof (induction j arbitrary: n k)
  case 0
  then show ?case by (cases n) simp_all
next
  case (Suc j)
  then obtain n' where n: "n = Suc n'" "j \<le> n'" by (cases n) auto
  from Suc.prems(2) obtain st m where f: "op k = HttpFailure st m" "retryable_status st"
    by (metis add_0_right zero_less_Suc)
  have "\<forall>i<j. \<exists>st m. op (Suc k + i) = HttpFailure st m \<and> retryable_status st"
    using Suc.prems(2) by (metis Suc_less_eq add_Suc_shift add_Suc_right)
  with Suc.IH[OF n(2)] Suc.prems(3)
  have "retry_policy n' op (Suc k) =
    (concat (map (\<lambda>i. [Attempt i, Wait (2 ^ Suc i * 1000)]) [Suc k..<Suc k + j]) @ [Attempt (Suc k + j)], Inr r)"
    by simp
  with n(1) f show ?case by (simp add: upt_conv_Cons)
qed

text \<open>
  The interceptor pair implements the policy with bound 3, from any configuration: the
  retries left are \<open>3 - _retryCount\<close>.
\<close>

lemma api_request_eq_policy:
  "api_request srv cfg = retry_policy (3 - cfg_retry_count cfg) srv (cfg_retry_count cfg)"
proof (induction srv cfg rule: api_request.induct)
  case (1 srv cfg)
  show ?case
  proof (cases "srv (cfg_retry_count cfg)")
    case (HttpResponse r)
    then show ?thesis by (simp add: api_request_unfold retry_policy.simps)
  next
    case (HttpFailure st m)
    have k: "cfg_retry_count (request_interceptor cfg) = cfg_retry_count cfg"
      by (simp add: request_interceptor_def)
    note IH = 1[OF refl refl HttpFailure[folded k],
        of "2 ^ Suc (cfg_retry_count cfg) * 1000"
           "cfg\<lparr>cfg_retry := Some 3, cfg_retry_count := Suc (cfg_retry_count cfg)\<rparr>"]
    show ?thesis
    proof (cases "retryable_status st \<and> cfg_retry_count cfg < 3")
      case True
      then have "3 - cfg_retry_count cfg = Suc (2 - cfg_retry_count cfg)" by arith
      with True HttpFailure IH show ?thesis
        by (simp add: api_request_unfold retry_policy.simps request_interceptor_def
            response_error_interceptor_def Let_def)
    next
      case False
      with HttpFailure show ?thesis
        by (subst api_request_unfold, subst retry_policy.simps)
           (auto split: nat.split)
    qed
  qed
qed

text \<open>
  C19. Refinement of the retry policy. A fresh request of the transport behaves as the
  explicit retry policy with bound 3 applied to the server's answers: the same attempts,
  the same waits, the same result.
\<close>

theorem api_request_implements_retry_policy:
  "api_request srv fresh_config = retry_policy 3 srv 0"
  by (simp add: api_request_eq_policy fresh_config_def)

text \<open>
  C20. The retry loop terminates within a fixed budget. Whatever the server answers and
  whatever the request's configuration, one request of the transport makes at most four
  HTTP attempts and waits at most 2000 + 4000 + 8000 = 14000 ms in total between them.
\<close>

theorem api_request_bounded:
  "length (attempts (fst (api_request srv cfg))) \<le> 4
   \<and> sum_list (waits (fst (api_request srv cfg))) \<le> (14000::nat)"
proof -
  obtain j where j: "j \<le> 3 - cfg_retry_count cfg"
    "attempts (fst (api_request srv cfg)) = [cfg_retry_count cfg..<Suc (cfg_retry_count cfg + j)]"
    "waits (fst (api_request srv cfg)) =
       map (\<lambda>i. 2 ^ Suc i * 1000) [cfg_retry_count cfg..<cfg_retry_count cfg + j]"
    using retry_policy_shape[of "3 - cfg_retry_count cfg" srv "cfg_retry_count cfg"]
    by (auto simp: api_request_eq_policy)
  have "cfg_retry_count cfg + j \<le> 3 \<or> j = 0" using j(1) by arith
  then have "sum_list (map (\<lambda>i. 2 ^ Suc i * 1000) [cfg_retry_count cfg..<cfg_retry_count cfg + j]) \<le> (14000::nat)"
    by (rule sum_backoff_le)
  with j show ?thesis by simp
qed

text \<open>
  C21. Exhausted retries. When every attempt of a fresh request fails with a transient
  error (no response, 5xx or 429), the transport makes four attempts, waiting 2000,
  4000 and 8000 ms between them, and then rejects with the last error.
\<close>

theorem api_request_exhausts:
  assumes "\<And>k. srv k = HttpFailure st m" "retryable_status st"
  shows "api_request srv fresh_config =
    ([Attempt 0, Wait 2000, Attempt 1, Wait 4000, Attempt 2, Wait 8000, Attempt 3],
     Inl (NetworkError m))"
  using assms by (simp add: api_request_eq_policy fresh_config_def numeral_3_eq_3)

theorem api_request_exhausts_witness:
  "api_request (\<lambda>_. HttpFailure (Some 503) ''Service Unavailable'') fresh_config =
    ([Attempt 0, Wait 2000, Attempt 1, Wait 4000, Attempt 2, Wait 8000, Attempt 3],
     Inl (NetworkError ''Service Unavailable''))"
  using api_request_exhausts[of "\<lambda>_. HttpFailure (Some 503) ''Service Unavailable''" "Some 503"]
  by (simp add: retryable_status_def)

text \<open>
  Permanent errors fail fast. A fresh request whose first attempt is answered with a
  status below 500 other than 429 (for instance 401 for a revoked token) is rejected at
  once, with that error and without waiting.
\<close>

theorem api_request_fails_fast:
  assumes "srv 0 = HttpFailure (Some s) m" "s < 500" "s \<noteq> 429"
  shows "api_request srv fresh_config = ([Attempt 0], Inl (NetworkError m))"
  using assms by (simp add: api_request_eq_policy fresh_config_def numeral_3_eq_3 retryable_status_def)

theorem api_request_fails_fast_witness:
  "api_request (\<lambda>_. HttpFailure (Some 401) ''Unauthorized'') fresh_config =
    ([Attempt 0], Inl (NetworkError ''Unauthorized''))"
  by (rule api_request_fails_fast[of _ 401]) simp_all

text \<open>
  Recovery from transient errors. When the first \<open>j \<le> 3\<close> attempts of a fresh request
  fail with transient errors and attempt \<open>j\<close> succeeds, the request resolves with that
  response, after waits of 2000, 4000, ... ms before each retry.
\<close>

theorem api_request_recovers:
  assumes "j \<le> 3" "\<forall>k<j. \<exists>st m. srv k = HttpFailure st m \<and> retryable_status st"
    "srv j = HttpResponse r"
  shows "api_request srv fresh_config =
    (concat (map (\<lambda>i. [Attempt i, Wait (2 ^ Suc i * 1000)]) [0..<j]) @ [Attempt j], Inr r)"
  using retry_policy_recovers[of j 3 srv 0 r] assms
  by (simp add: api_request_eq_policy fresh_config_def)

theorem api_request_recovers_witness:
  "api_request (\<lambda>k. if k < 2 then HttpFailure (Some 502) ''Bad Gateway'' else HttpResponse ''ok'')
     fresh_config = ([Attempt 0, Wait 2000, Attempt 1, Wait 4000, Attempt 2], Inr ''ok'')"
  using api_request_recovers[of 2 "\<lambda>k. if k < 2 then HttpFailure (Some 502) ''Bad Gateway'' else HttpResponse ''ok''" "''ok''"]
  by (simp add: retryable_status_def numeral_2_eq_2 less_Suc_eq upt_rec)

end
