(* ===== verification/Logger.thy ===== *)
theory Logger
  imports Prelude
begin

text \<open>
  The application log of \<open>src/src/utils/logger.js\<close>: the singleton \<open>Logger\<close> keeps
  the newest entry first in \<open>this.logs\<close>, trimmed to \<open>MAX_LOGS = 200\<close> entries,
  and calls every subscriber with the whole array after each change. The level
  argument is looked up upper-cased in \<open>LOG_LEVELS\<close>, unknown levels falling back to
  \<open>INFO\<close>. The clock is an input: each \<open>log\<close> call receives the current time in ms.
  The console echo and the locale-formatted time string are display only and are not
  modelled; subscribers are identified by a number, as connection listeners are.
\<close>

datatype log_level = DEBUG | INFO | SUCCESS | WARNING | ERROR

definition level_label :: "log_level \<Rightarrow> string" where
  "level_label l = (case l of DEBUG \<Rightarrow> ''DEBUG'' | INFO \<Rightarrow> ''INFO'' | SUCCESS \<Rightarrow> ''SUCCESS''
                     | WARNING \<Rightarrow> ''WARNING'' | ERROR \<Rightarrow> ''ERROR'')"

definition level_color :: "log_level \<Rightarrow> string" where
  "level_color l = (case l of DEBUG \<Rightarrow> ''#aaa'' | INFO \<Rightarrow> ''#0f0'' | SUCCESS \<Rightarrow> ''#0ff''
                     | WARNING \<Rightarrow> ''#ff0'' | ERROR \<Rightarrow> ''#f00'')"

definition log_levels :: "string \<rightharpoonup> log_level" where
  "log_levels = [''DEBUG'' \<mapsto> DEBUG, ''INFO'' \<mapsto> INFO, ''SUCCESS'' \<mapsto> SUCCESS,
                 ''WARNING'' \<mapsto> WARNING, ''ERROR'' \<mapsto> ERROR]"

definition max_logs :: nat where
  "max_logs = 200"

record log_entry =
  log_id :: millis
  log_text :: string
  log_label :: string
  log_color :: string

record logger =
  logs :: "log_entry list"
  subscribers :: "listener_id list"

definition logger_init :: logger where
  "logger_init = \<lparr>logs = [], subscribers = []\<rparr>"

text \<open>The calls of the subscribers, in order, each with the array it receives.\<close>

type_synonym log_notification = "listener_id \<times> log_entry list"

definition notify_subscribers :: "logger \<Rightarrow> log_notification list" where
  "notify_subscribers lg = map (\<lambda>f. (f, logs lg)) (subscribers lg)"

definition resolve_level :: "string \<Rightarrow> log_level" where
  "resolve_level level = (case log_levels (js_upper level) of Some l \<Rightarrow> l | None \<Rightarrow> INFO)"

definition logger_log ::
  "logger \<Rightarrow> string \<Rightarrow> string \<Rightarrow> millis \<Rightarrow> (logger \<times> log_notification list) \<times> log_entry" where
  "logger_log lg message level now =
     (let l = resolve_level level;
          entry = \<lparr>log_id = now, log_text = message, log_label = level_label l, log_color = level_color l\<rparr>;
          ls = entry # logs lg;
          ls' = (if length ls > max_logs then take max_logs ls else ls);
          lg' = lg\<lparr>logs := ls'\<rparr>
      in ((lg', notify_subscribers lg'), entry))"

definition get_logs :: "logger \<Rightarrow> log_entry list" where
  "get_logs lg = logs lg"

definition logger_subscribe :: "logger \<Rightarrow> js_value \<Rightarrow> logger" where
  "logger_subscribe lg cb =
     (case cb of JsFunction f \<Rightarrow> lg\<lparr>subscribers := subscribers lg @ [f]\<rparr> | JsOther \<Rightarrow> lg)"

definition logger_unsubscribe :: "logger \<Rightarrow> listener_id \<Rightarrow> logger" where
  "logger_unsubscribe lg f = lg\<lparr>subscribers := filter (\<lambda>s. s \<noteq> f) (subscribers lg)\<rparr>"

definition logger_clear :: "logger \<Rightarrow> logger \<times> log_notification list" where
  "logger_clear lg = (let lg' = lg\<lparr>logs := []\<rparr> in (lg', notify_subscribers lg'))"

text \<open>The five level methods: \<open>debug\<close>, \<open>info\<close>, \<open>success\<close>, \<open>warning\<close>, \<open>error\<close>.\<close>

definition logger_debug :: "logger \<Rightarrow> string \<Rightarrow> millis \<Rightarrow> (logger \<times> log_notification list) \<times> log_entry" where
  "logger_debug lg m now = logger_log lg m ''DEBUG'' now"

definition logger_info :: "logger \<Rightarrow> string \<Rightarrow> millis \<Rightarrow> (logger \<times> log_notification list) \<times> log_entry" where
  "logger_info lg m now = logger_log lg m ''INFO'' now"

definition logger_success :: "logger \<Rightarrow> string \<Rightarrow> millis \<Rightarrow> (logger \<times> log_notification list) \<times> log_entry" where
  "logger_success lg m now = logger_log lg m ''SUCCESS'' now"

definition logger_warning :: "logger \<Rightarrow> string \<Rightarrow> millis \<Rightarrow> (logger \<times> log_notification list) \<times> log_entry" where
  "logger_warning lg m now = logger_log lg m ''WARNING'' now"

definition logger_error :: "logger \<Rightarrow> string \<Rightarrow> millis \<Rightarrow> (logger \<times> log_notification list) \<times> log_entry" where
  "logger_error lg m now = logger_log lg m ''ERROR'' now"

subsection \<open>The logger as a state machine\<close>

datatype logger_op =
    Log string string millis
  | Subscribe js_value
  | Unsubscribe listener_id
  | Clear

fun logger_step :: "logger \<Rightarrow> logger_op \<Rightarrow> logger \<times> log_notification list" where
  "logger_step lg (Log m l t) = fst (logger_log lg m l t)"
| "logger_step lg (Subscribe cb) = (logger_subscribe lg cb, [])"
| "logger_step lg (Unsubscribe f) = (logger_unsubscribe lg f, [])"
| "logger_step lg Clear = logger_clear lg"

fun logger_run :: "logger \<Rightarrow> logger_op list \<Rightarrow> logger \<times> log_notification list" where
  "logger_run lg [] = (lg, [])"
| "logger_run lg (op # ops) =
     (let (lg1, n1) = logger_step lg op; (lg2, n2) = logger_run lg1 ops in (lg2, n1 @ n2))"

text \<open>
  The clock of a run: the times of its \<open>Log\<close> operations, and whether they never
  decrease (each at least every earlier one).
\<close>

fun log_times :: "logger_op list \<Rightarrow> millis list" where
  "log_times [] = []"
| "log_times (Log m l t # ops) = t # log_times ops"
| "log_times (_ # ops) = log_times ops"

definition logger_inv :: "logger \<Rightarrow> bool" where
  "logger_inv lg \<longleftrightarrow> length (logs lg) \<le> max_logs"

text \<open>
  The history a run writes, newest first and untrimmed: a \<open>Log\<close> puts its entry in
  front, \<open>Clear\<close> empties it, subscriptions leave it alone.
\<close>

definition log_entry_of :: "string \<Rightarrow> string \<Rightarrow> millis \<Rightarrow> log_entry" where
  "log_entry_of m level t =
     \<lparr>log_id = t, log_text = m, log_label = level_label (resolve_level level),
      log_color = level_color (resolve_level level)\<rparr>"

fun log_history :: "logger_op list \<Rightarrow> log_entry list \<Rightarrow> log_entry list" where
  "log_history [] h = h"
| "log_history (Log m l t # ops) h = log_history ops (log_entry_of m l t # h)"
| "log_history (Clear # ops) h = log_history ops []"
| "log_history (_ # ops) h = log_history ops h"

lemma take_Cons_take: "take n (x # take n xs) = take n (x # xs)"
  by (cases n) (simp_all add: min_def)

lemma logger_log_eq:
  "logger_log lg m level t =
     ((lg\<lparr>logs := take max_logs (log_entry_of m level t # logs lg)\<rparr>,
       notify_subscribers (lg\<lparr>logs := take max_logs (log_entry_of m level t # logs lg)\<rparr>)),
      log_entry_of m level t)"
  by (simp add: logger_log_def log_entry_of_def Let_def)

lemma logs_subscribe [simp]: "logs (logger_subscribe lg cb) = logs lg"
  and logs_unsubscribe [simp]: "logs (logger_unsubscribe lg f) = logs lg"
  and subscribers_unsubscribe [simp]:
    "subscribers (logger_unsubscribe lg f) = filter (\<lambda>s. s \<noteq> f) (subscribers lg)"
  by (simp_all add: logger_subscribe_def logger_unsubscribe_def split: js_value.split)

lemma logger_step_logs:
  "logs (fst (logger_step lg op)) =
     (case op of Log m l t \<Rightarrow> take max_logs (log_entry_of m l t # logs lg)
      | Clear \<Rightarrow> [] | _ \<Rightarrow> logs lg)"
  by (cases op)
     (simp_all add: logger_log_eq logger_subscribe_def logger_unsubscribe_def logger_clear_def
       Let_def split: js_value.split)

lemma log_history_take:
  "take n (log_history ops (take n h)) = take n (log_history ops h)"
proof (induction ops arbitrary: h)
  case (Cons op ops)
  show ?case
  proof (cases op)
    case (Log m l t)
    have "take n (log_history ops (log_entry_of m l t # take n h))
        = take n (log_history ops (take n (log_entry_of m l t # take n h)))"
      by (rule Cons.IH[symmetric])
    also have "\<dots> = take n (log_history ops (log_entry_of m l t # h))"
      by (simp only: take_Cons_take Cons.IH)
    finally show ?thesis using Log by simp
  qed (simp_all add: Cons.IH)
qed simp

lemma logger_run_fst: "fst (logger_run lg (op # ops)) = fst (logger_run (fst (logger_step lg op)) ops)"
  by (simp add: case_prod_beta)

lemma logger_run_logs:
  "logs (fst (logger_run lg ops)) = take max_logs (log_history ops (logs lg))"
  if "length (logs lg) \<le> max_logs"
  using that
proof (induction ops arbitrary: lg)
  case Nil
  then show ?case by simp
next
  case (Cons op ops)
  have inv: "length (logs (fst (logger_step lg op))) \<le> max_logs"
    using Cons.prems by (simp add: logger_step_logs split: logger_op.split)
  show ?case
  proof (cases op)
    case (Log m l t)
    then show ?thesis
      using Cons.IH[OF inv] unfolding logger_run_fst
      by (simp add: logger_log_eq log_history_take)
  next
    case Clear
    then show ?thesis using Cons.IH[OF inv] unfolding logger_run_fst by (simp add: logger_clear_def Let_def)
  next
    case (Subscribe cb)
    then show ?thesis
      using Cons.IH[OF inv] Cons.prems unfolding logger_run_fst by (simp add: logger_step_logs)
  next
    case (Unsubscribe f)
    then show ?thesis
      using Cons.IH[OF inv] Cons.prems unfolding logger_run_fst by (simp add: logger_step_logs)
  qed
qed

lemma log_history_sorted:
  assumes "sorted (log_times ops)" "\<forall>t \<in> set (log_times ops). \<forall>e \<in> set h. log_id e \<le> t"
    "sorted_wrt (\<ge>) (map log_id h)"
  shows "sorted_wrt (\<ge>) (map log_id (log_history ops h))"
  using assms
proof (induction ops arbitrary: h)
  case (Cons op ops)
  show ?case
  proof (cases op)
    case (Log m l t)
    have "sorted_wrt (\<ge>) (map log_id (log_entry_of m l t # h))"
      using Cons.prems Log by (auto simp: log_entry_of_def)
    moreover have "\<forall>t' \<in> set (log_times ops). \<forall>e \<in> set (log_entry_of m l t # h). log_id e \<le> t'"
      using Cons.prems Log by (auto simp: log_entry_of_def)
    ultimately show ?thesis using Cons.IH Cons.prems(1) Log by simp
  qed (use Cons in simp_all)
qed simp

text \<open>
  C22. The log is bounded. Whatever sequence of calls the application makes
  (\<open>log\<close> at any level, \<open>subscribe\<close>, \<open>unsubscribe\<close>, \<open>clear\<close>), the logger
  never holds more than \<open>MAX_LOGS = 200\<close> entries.
\<close>

theorem logger_bounded: "logger_inv (fst (logger_run logger_init ops))"
proof -
  have "logger_inv (fst (logger_run lg ops))" if "logger_inv lg" for lg
    using that
  proof (induction ops arbitrary: lg)
    case (Cons op ops)
    have "logger_inv (fst (logger_step lg op))"
      using Cons.prems
      by (cases op)
         (auto simp: logger_inv_def logger_log_def logger_clear_def logger_subscribe_def
           logger_unsubscribe_def Let_def split: js_value.split)
    then show ?case using Cons.IH unfolding logger_run_fst by blast
  qed simp
  then show ?thesis by (simp add: logger_inv_def logger_init_def)
qed

text \<open>
  C23. The log is a window on the history. From the initial logger, after any sequence of
  calls the logs are the entries written since the last \<open>clear\<close>, newest first,
  trimmed to the 200 newest.
\<close>

theorem logger_keeps_newest:
  "logs (fst (logger_run logger_init ops)) = take max_logs (log_history ops [])"
  using logger_run_logs[of logger_init ops] by (simp add: logger_init_def max_logs_def)

text \<open>
  Newest first, but ids are not unique. When the clock never goes back, the ids of
  the entries (their timestamps in ms) are non-increasing from the front; two entries
  logged in the same millisecond get the same id.
\<close>

theorem logger_ids_newest_first:
  assumes "sorted (log_times ops)"
  shows "sorted_wrt (\<ge>) (map log_id (logs (fst (logger_run logger_init ops))))"
proof -
  have "sorted_wrt (\<ge>) (map log_id (log_history ops []))"
    using assms by (intro log_history_sorted) simp_all
  then show ?thesis
    using logger_run_logs[of logger_init ops]
    by (simp add: logger_init_def take_map[symmetric] sorted_wrt_take)
qed

theorem logger_ids_newest_first_witness:
  "sorted_wrt (\<ge>) (map log_id (logs (fst (logger_run logger_init [Log ''a'' ''info'' 5, Log ''b'' ''error'' 5]))))
   \<and> map log_id (logs (fst (logger_run logger_init [Log ''a'' ''info'' 5, Log ''b'' ''error'' 5]))) = [5, 5]"
proof -
  have "sorted (log_times [Log ''a'' ''info'' 5, Log ''b'' ''error'' 5])" by simp
  from logger_ids_newest_first[OF this] show ?thesis
    by (simp add: logger_log_eq logger_init_def log_entry_of_def max_logs_def)
qed

text \<open>
  Level names. The entry a \<open>log\<close> call creates carries the label of the level
  named by its argument in any letter case, and the \<open>INFO\<close> label when the name is
  not one of the five levels; the call is unaffected by lower-casing the level name.
\<close>

theorem logger_level_resolution:
  "log_label (snd (logger_log lg m level t)) =
     (case log_levels (js_upper level) of Some l \<Rightarrow> level_label l | None \<Rightarrow> ''INFO'')
   \<and> logger_log lg m (js_lower level) t = logger_log lg m level t"
  by (simp add: logger_log_eq log_entry_of_def resolve_level_def level_label_def
      split: option.split)

end
