(* ===== verification/FileSystem.thy ===== *)
theory FileSystem
  imports Prelude "HOL-Library.Char_ord" "HOL-Library.List_Lexorder" "HOL-Library.Product_Lexorder"
    "HOL-Library.Multiset"
begin

text \<open>
  Directory listing, navigation and file reading: the hook \<open>useFileSystem\<close>
  (\<open>src/src/hooks/useFileSystem.js\<close>: \<open>listFiles\<close>, \<open>navigateTo\<close>,
  \<open>navigateUp\<close>, \<open>navigateBack\<close>, \<open>readFile\<close>, \<open>createTempFile\<close>) and the file
  service (\<open>src/src/services/fileService.js\<close>: \<open>getDirectoryContents\<close>,
  \<open>readFileContent\<close>, \<open>createTempFile\<close>).

  The \<open>expo-file-system\<close> library is an input, \<open>expo_fs\<close>: the answer of
  \<open>getInfoAsync\<close>, \<open>readDirectoryAsync\<close>, \<open>readAsStringAsync\<close> and \<open>writeAsStringAsync\<close> for each path
  (\<open>Inl\<close> a rejection with its message), the two base directories, and the collation of
  the device's locale, which \<open>localeCompare\<close> uses: a key into a linear order. The
  hook's React state is a record; each operation is the state after its promise settles
  (the intermediate \<open>isLoading = true\<close> render is not modelled) and its result. The
  hook's callbacks read \<open>currentPath\<close> and \<open>pathHistory\<close> of the render they were
  created in, which is the current state when the operations are awaited one after the
  other, as the model sequences them.
\<close>

record file_info =
  fi_exists :: bool
  fi_is_dir :: bool
  fi_size :: nat
  fi_mtime :: "nat option"
  fi_uri :: string

record 'k expo_fs =
  get_info :: "string \<Rightarrow> string + file_info"
  read_dir :: "string \<Rightarrow> string + string list"
  read_string :: "string \<Rightarrow> string + string"
  write_string :: "string \<Rightarrow> string \<Rightarrow> string option"
  document_directory :: string
  cache_directory :: string
  collation :: "string \<Rightarrow> 'k"

text \<open>
  A listed file, with the fields either variant of the code sets; a field the code
  leaves undefined is \<open>None\<close>.
\<close>

record file_item =
  item_name :: string
  item_path :: string
  item_size :: "nat option"
  item_is_dir :: bool
  item_mtime :: "nat option"
  item_uri :: "string option"
  item_exists :: "bool option"
  item_error :: "string option"

definition ends_with_slash :: "string \<Rightarrow> bool" where
  "ends_with_slash s \<longleftrightarrow> s \<noteq> [] \<and> last s = CHR ''/''"

definition normalize_path :: "string \<Rightarrow> string" where
  "normalize_path p = (if ends_with_slash p then p else p @ ''/'')"

text \<open>
  The comparator of both listings: directories first, then by \<open>localeCompare\<close> of the
  names. JavaScript's \<open>Array.prototype.sort\<close> is stable, as \<open>sort_key\<close> is.
\<close>

definition sort_files :: "('k::linorder) expo_fs \<Rightarrow> file_item list \<Rightarrow> file_item list" where
  "sort_files fs items = sort_key (\<lambda>i. (\<not> item_is_dir i, collation fs (item_name i))) items"

subsection \<open>The hook useFileSystem\<close>

record fs_hook =
  current_path :: string
  file_list :: "file_item list"
  is_loading :: bool
  hook_error :: "string option"
  path_history :: "string list"

definition use_file_system :: "'k expo_fs \<Rightarrow> fs_hook" where
  "use_file_system fs =
     \<lparr>current_path = document_directory fs, file_list = [], is_loading = False,
      hook_error = None, path_history = []\<rparr>"

definition hook_file_detail :: "'k expo_fs \<Rightarrow> string \<Rightarrow> string \<Rightarrow> file_item" where
  "hook_file_detail fs np filename =
     (let fp = np @ filename in
      case get_info fs fp of
        Inr info \<Rightarrow>
          \<lparr>item_name = filename, item_path = fp, item_size = Some (fi_size info),
           item_is_dir = fi_is_dir info,
           item_mtime = (case fi_mtime info of Some 0 \<Rightarrow> None | m \<Rightarrow> m),
           item_uri = Some (fi_uri info), item_exists = None, item_error = None\<rparr>
      | Inl e \<Rightarrow>
          \<lparr>item_name = filename, item_path = fp, item_size = Some 0, item_is_dir = False,
           item_mtime = None, item_uri = None, item_exists = None, item_error = Some e\<rparr>)"

definition hook_listing :: "('k::linorder) expo_fs \<Rightarrow> string \<Rightarrow> string + string \<times> file_item list" where
  "hook_listing fs path =
     (let np = normalize_path path in
      case get_info fs np of
        Inl e \<Rightarrow> Inl e
      | Inr info \<Rightarrow>
          if \<not> fi_exists info then Inl (''Path does not exist: '' @ np)
          else if \<not> fi_is_dir info then Inl (''Path is not a directory: '' @ np)
          else (case read_dir fs np of
                  Inl e \<Rightarrow> Inl e
                | Inr files \<Rightarrow> Inr (np, sort_files fs (map (hook_file_detail fs np) files))))"

definition list_files :: "'a fs_hook_scheme \<Rightarrow> ('k::linorder) expo_fs \<Rightarrow> string \<Rightarrow> 'a fs_hook_scheme \<times> file_item list" where
  "list_files s fs path =
     (case hook_listing fs path of
        Inr (np, items) \<Rightarrow>
          (s\<lparr>current_path := np, file_list := items, is_loading := False, hook_error := None\<rparr>, items)
      | Inl e \<Rightarrow>
          (s\<lparr>is_loading := False, hook_error := Some (''Failed to list files: '' @ e)\<rparr>, []))"

definition navigate_to :: "'a fs_hook_scheme \<Rightarrow> ('k::linorder) expo_fs \<Rightarrow> string \<Rightarrow> 'a fs_hook_scheme" where
  "navigate_to s fs path =
     fst (list_files (s\<lparr>path_history := path_history s @ [current_path s]\<rparr>) fs path)"

text \<open>\<open>s.lastIndexOf('/')\<close>, \<open>-1\<close> when absent.\<close>

definition js_last_index_of :: "char \<Rightarrow> string \<Rightarrow> int" where
  "js_last_index_of c s =
     (if c \<in> set s then int (length s - 1 - length (takeWhile (\<lambda>x. x \<noteq> c) (rev s))) else -1)"

text \<open>\<open>s.substring(0, e)\<close>: a negative end counts as 0.\<close>

definition js_substring0 :: "string \<Rightarrow> int \<Rightarrow> string" where
  "js_substring0 s e = take (nat e) s"

definition parent_path :: "string \<Rightarrow> string" where
  "parent_path cur =
     (let p = (if ends_with_slash cur then butlast cur else cur)
      in js_substring0 p (js_last_index_of CHR ''/'' p) @ ''/'')"

definition navigate_up :: "'a fs_hook_scheme \<Rightarrow> ('k::linorder) expo_fs \<Rightarrow> 'a fs_hook_scheme" where
  "navigate_up s fs =
     (if current_path s = document_directory fs then s
      else fst (list_files s fs (parent_path (current_path s))))"

definition navigate_back :: "'a fs_hook_scheme \<Rightarrow> ('k::linorder) expo_fs \<Rightarrow> 'a fs_hook_scheme" where
  "navigate_back s fs =
     (if path_history s = [] then s
      else fst (list_files (s\<lparr>path_history := butlast (path_history s)\<rparr>) fs (last (path_history s))))"

definition hook_read_file :: "'k expo_fs \<Rightarrow> string \<Rightarrow> string + string" where
  "hook_read_file fs path = read_string fs path"

definition temp_file_path :: "'k expo_fs \<Rightarrow> string \<Rightarrow> string" where
  "temp_file_path fs filename = cache_directory fs @ filename"

text \<open>\<open>createTempFile\<close> of the file service: write, then resolve with the path.\<close>

definition create_temp_file :: "'k expo_fs \<Rightarrow> string \<Rightarrow> string \<Rightarrow> string + string" where
  "create_temp_file fs content filename =
     (let path = temp_file_path fs filename in
      case write_string fs path content of None \<Rightarrow> Inr path | Some e \<Rightarrow> Inl e)"

subsection \<open>The file service\<close>

definition service_file_detail :: "'k expo_fs \<Rightarrow> string \<Rightarrow> string \<Rightarrow> file_item" where
  "service_file_detail fs np fileName =
     (let fp = np @ fileName in
      case get_info fs fp of
        Inr info \<Rightarrow>
          \<lparr>item_name = fileName, item_path = fp, item_size = Some (fi_size info),
           item_is_dir = fi_is_dir info, item_mtime = fi_mtime info,
           item_uri = Some (fi_uri info), item_exists = Some (fi_exists info), item_error = None\<rparr>
      | Inl e \<Rightarrow>
          \<lparr>item_name = fileName, item_path = fp, item_size = None, item_is_dir = False,
           item_mtime = None, item_uri = None, item_exists = None, item_error = Some e\<rparr>)"

definition get_directory_contents :: "('k::linorder) expo_fs \<Rightarrow> string \<Rightarrow> string + file_item list" where
  "get_directory_contents fs path =
     (let np = normalize_path path in
      case get_info fs np of
        Inl e \<Rightarrow> Inl e
      | Inr info \<Rightarrow>
          if \<not> fi_exists info then Inl (''Path doesn't exist: '' @ np)
          else if \<not> fi_is_dir info then Inl (''Path is not a directory: '' @ np)
          else (case read_dir fs np of
                  Inl e \<Rightarrow> Inl e
                | Inr files \<Rightarrow> Inr (sort_files fs (map (service_file_detail fs np) files))))"

text \<open>
  \<open>(size / 1024 / 1024).toFixed(2)\<close>: the quotient is exact in binary, and
  \<open>toFixed\<close> picks the nearest multiple of 0.01, the larger one on a tie.
\<close>

definition two_digits :: "nat \<Rightarrow> string" where
  "two_digits n = (if n < 10 then CHR ''0'' # digits_of_nat n else digits_of_nat n)"

definition mb_fixed2 :: "nat \<Rightarrow> string" where
  "mb_fixed2 bytes =
     (let n = (200 * bytes + 1048576) div 2097152
      in digits_of_nat (n div 100) @ CHR ''.'' # two_digits (n mod 100))"

definition max_read_size :: nat where
  "max_read_size = 5 * 1024 * 1024"

definition read_file_content :: "'k expo_fs \<Rightarrow> string \<Rightarrow> string + string" where
  "read_file_content fs path =
     (case get_info fs path of
        Inl e \<Rightarrow> Inl e
      | Inr info \<Rightarrow>
          if \<not> fi_exists info then Inl (''File doesn't exist: '' @ path)
          else if fi_is_dir info then Inl (''Path is a directory, not a file: '' @ path)
          else if fi_size info > max_read_size
          then Inl (''File too large ('' @ mb_fixed2 (fi_size info) @ '' MB): '' @ path)
          else read_string fs path)"

subsection \<open>A sample device\<close>

definition demo_dir_info :: file_info where
  "demo_dir_info = \<lparr>fi_exists = True, fi_is_dir = True, fi_size = 0, fi_mtime = Some 7, fi_uri = ''file:///d/''\<rparr>"

definition demo_fs :: "string expo_fs" where
  "demo_fs =
     \<lparr>get_info = (\<lambda>p. if p \<in> {''/d/'', ''/d/sub/''} then Inr demo_dir_info
                      else if p = ''/d/a.txt'' then Inr (demo_dir_info\<lparr>fi_is_dir := False, fi_size := 6291456\<rparr>)
                      else Inr \<lparr>fi_exists = False, fi_is_dir = False, fi_size = 0, fi_mtime = None, fi_uri = p\<rparr>),
      read_dir = (\<lambda>p. if p = ''/d/'' then Inr [''a.txt'', ''sub''] else if p = ''/d/sub/'' then Inr [] else Inl ''ENOENT''),
      read_string = (\<lambda>p. Inl ''unreadable''), write_string = (\<lambda>p c. None),
      document_directory = ''/d/'', cache_directory = ''/c/'', collation = id\<rparr>"

lemmas fs_demo_defs = demo_fs_def demo_dir_info_def use_file_system_def normalize_path_def ends_with_slash_def

subsection \<open>Properties\<close>

lemma sorted_bool_key_split:
  "sorted (map (\<lambda>x. (P x, g x)) xs) \<Longrightarrow> filter (\<lambda>x. \<not> P x) xs @ filter P xs = xs"
proof (induction xs)
  case (Cons x xs)
  then have IH: "filter (\<lambda>x. \<not> P x) xs @ filter P xs = xs" by simp
  show ?case
  proof (cases "P x")
    case True
    have "\<forall>y \<in> set xs. (P x, g x) \<le> (P y, g y)" using Cons.prems by simp
    with True have "\<forall>y \<in> set xs. P y" by (auto simp: less_eq_prod_def)
    with True show ?thesis by simp
  next
    case False
    with IH show ?thesis by simp
  qed
qed simp

lemma sort_files_props:
  "mset (sort_files fs items) = mset items
   \<and> sorted (map (\<lambda>i. (\<not> item_is_dir i, collation fs (item_name i))) (sort_files fs items))
   \<and> filter item_is_dir (sort_files fs items) @ filter (\<lambda>i. \<not> item_is_dir i) (sort_files fs items)
       = sort_files fs items"
proof -
  have s: "sorted (map (\<lambda>i. (\<not> item_is_dir i, collation fs (item_name i))) (sort_files fs items))"
    by (simp add: sort_files_def)
  have "filter (\<lambda>i. \<not> \<not> item_is_dir i) (sort_files fs items)
      @ filter (\<lambda>i. \<not> item_is_dir i) (sort_files fs items) = sort_files fs items"
    by (rule sorted_bool_key_split[OF s])
  with s show ?thesis by (simp add: sort_files_def)
qed

lemma insort_key_map: "insort_key k (g x) (map g ys) = map g (insort_key (k \<circ> g) x ys)"
  by (induction ys) auto

lemma sort_key_map: "sort_key k (map g xs) = map g (sort_key (k \<circ> g) xs)"
  by (induction xs) (simp_all add: insort_key_map comp_def)

lemma hook_listing_ok:
  assumes "get_info fs (normalize_path p) = Inr info" "fi_exists info" "fi_is_dir info"
    "read_dir fs (normalize_path p) = Inr files"
  shows "hook_listing fs p =
    Inr (normalize_path p, sort_files fs (map (hook_file_detail fs (normalize_path p)) files))"
  using assms by (simp add: hook_listing_def Let_def)

lemma hook_listing_fails:
  assumes "get_info fs (normalize_path p) = Inr info" "\<not> fi_exists info"
  shows "hook_listing fs p = Inl (''Path does not exist: '' @ normalize_path p)"
  using assms by (simp add: hook_listing_def Let_def)

lemma list_files_ok:
  "hook_listing fs p = Inr (np, items) \<Longrightarrow>
   list_files s fs p = (s\<lparr>current_path := np, file_list := items, is_loading := False, hook_error := None\<rparr>, items)"
  by (simp add: list_files_def)

lemma list_files_error:
  "hook_listing fs p = Inl e \<Longrightarrow>
   list_files s fs p = (s\<lparr>is_loading := False, hook_error := Some (''Failed to list files: '' @ e)\<rparr>, [])"
  by (simp add: list_files_def)

lemma normalize_path_idem [simp]: "ends_with_slash (normalize_path p)"
  by (simp add: normalize_path_def ends_with_slash_def)

lemma normalize_path_slash: "ends_with_slash p \<Longrightarrow> normalize_path p = p"
  by (simp add: normalize_path_def)

text \<open>
  Listing a directory. When the normalized path is an existing directory whose
  entries can be read, \<open>listFiles\<close> makes it the current path, clears the error, and
  returns and stores the entries' details: the same details as the directory's entries,
  ordered by the comparator (directories first, then by the locale's collation of the
  names).
\<close>

theorem list_files_lists_directory:
  assumes "get_info fs (normalize_path p) = Inr info" "fi_exists info" "fi_is_dir info"
    "read_dir fs (normalize_path p) = Inr files"
  shows "current_path (fst (list_files s fs p)) = normalize_path p
    \<and> hook_error (fst (list_files s fs p)) = None
    \<and> file_list (fst (list_files s fs p)) = snd (list_files s fs p)
    \<and> mset (snd (list_files s fs p)) = mset (map (hook_file_detail fs (normalize_path p)) files)
    \<and> sorted (map (\<lambda>i. (\<not> item_is_dir i, collation fs (item_name i))) (snd (list_files s fs p)))
    \<and> filter item_is_dir (snd (list_files s fs p)) @ filter (\<lambda>i. \<not> item_is_dir i) (snd (list_files s fs p))
        = snd (list_files s fs p)"
  using list_files_ok[OF hook_listing_ok[OF assms], of s]
    sort_files_props[of fs "map (hook_file_detail fs (normalize_path p)) files"]
  by simp

theorem list_files_lists_directory_witness:
  "current_path (fst (list_files (use_file_system demo_fs) demo_fs ''/d'')) = ''/d/''
    \<and> hook_error (fst (list_files (use_file_system demo_fs) demo_fs ''/d'')) = None
    \<and> file_list (fst (list_files (use_file_system demo_fs) demo_fs ''/d''))
        = snd (list_files (use_file_system demo_fs) demo_fs ''/d'')
    \<and> mset (snd (list_files (use_file_system demo_fs) demo_fs ''/d''))
        = mset (map (hook_file_detail demo_fs ''/d/'') [''a.txt'', ''sub''])
    \<and> sorted (map (\<lambda>i. (\<not> item_is_dir i, collation demo_fs (item_name i)))
        (snd (list_files (use_file_system demo_fs) demo_fs ''/d'')))
    \<and> filter item_is_dir (snd (list_files (use_file_system demo_fs) demo_fs ''/d''))
        @ filter (\<lambda>i. \<not> item_is_dir i) (snd (list_files (use_file_system demo_fs) demo_fs ''/d''))
        = snd (list_files (use_file_system demo_fs) demo_fs ''/d'')"
  using list_files_lists_directory[of demo_fs "''/d''" demo_dir_info "[''a.txt'', ''sub'']"
      "use_file_system demo_fs"]
  by (simp add: fs_demo_defs)

text \<open>
  A missing directory. When the normalized path does not exist, \<open>listFiles\<close>
  returns no entries and sets the error \<open>Failed to list files: Path does not exist:\<close>
  followed by the path; the current path, the listed files and the history stay as they
  were.
\<close>

theorem list_files_missing:
  assumes "get_info fs (normalize_path p) = Inr info" "\<not> fi_exists info"
  shows "list_files s fs p =
    (s\<lparr>is_loading := False,
       hook_error := Some (''Failed to list files: Path does not exist: '' @ normalize_path p)\<rparr>, [])"
  using list_files_error[OF hook_listing_fails[OF assms]] by simp

theorem list_files_missing_witness:
  "list_files (use_file_system demo_fs) demo_fs ''/x'' =
    ((use_file_system demo_fs)\<lparr>is_loading := False,
       hook_error := Some (''Failed to list files: Path does not exist: /x/'')\<rparr>, [])"
  using list_files_missing[of demo_fs "''/x''" _ "use_file_system demo_fs"]
  by (simp add: fs_demo_defs)

text \<open>
  C25. Back undoes a navigation. When the current directory and the target can both be
  listed, \<open>navigateTo\<close> followed by \<open>navigateBack\<close> returns to the directory the
  user was in, with its listing, no error, and the history as it was before.
\<close>

theorem navigate_back_undoes_navigate_to:
  assumes "hook_listing fs p = Inr (np, items)"
    "hook_listing fs (current_path s) = Inr (current_path s, items0)"
  shows "current_path (navigate_back (navigate_to s fs p) fs) = current_path s
    \<and> path_history (navigate_back (navigate_to s fs p) fs) = path_history s
    \<and> file_list (navigate_back (navigate_to s fs p) fs) = items0
    \<and> hook_error (navigate_back (navigate_to s fs p) fs) = None"
  using assms by (simp add: navigate_to_def navigate_back_def list_files_ok)

theorem navigate_back_undoes_navigate_to_witness:
  "current_path (navigate_back (navigate_to (use_file_system demo_fs) demo_fs ''/d/sub'') demo_fs) = ''/d/''
    \<and> path_history (navigate_back (navigate_to (use_file_system demo_fs) demo_fs ''/d/sub'') demo_fs) = []
    \<and> file_list (navigate_back (navigate_to (use_file_system demo_fs) demo_fs ''/d/sub'') demo_fs)
        = sort_files demo_fs (map (hook_file_detail demo_fs ''/d/'') [''a.txt'', ''sub''])
    \<and> hook_error (navigate_back (navigate_to (use_file_system demo_fs) demo_fs ''/d/sub'') demo_fs) = None"
proof -
  have "hook_listing demo_fs ''/d/sub'' = Inr (''/d/sub/'', [])"
    by (simp add: hook_listing_def fs_demo_defs sort_files_def Let_def)
  moreover have "hook_listing demo_fs (current_path (use_file_system demo_fs)) =
      Inr (current_path (use_file_system demo_fs),
           sort_files demo_fs (map (hook_file_detail demo_fs ''/d/'') [''a.txt'', ''sub'']))"
    by (simp add: hook_listing_def fs_demo_defs Let_def)
  ultimately show ?thesis
    using navigate_back_undoes_navigate_to[of demo_fs "''/d/sub''" "''/d/sub/''" "[]"
        "use_file_system demo_fs"]
    by (simp add: use_file_system_def demo_fs_def)
qed

text \<open>
  A failed navigation is still recorded. When the target cannot be listed,
  \<open>navigateTo\<close> leaves the current directory and its listing as they were but has
  already appended the current directory to the history, so a following
  \<open>navigateBack\<close> lists the directory the user is already in.
\<close>

theorem navigate_to_failure_records_history:
  assumes "hook_listing fs p = Inl e"
  shows "navigate_to s fs p =
    s\<lparr>path_history := path_history s @ [current_path s], is_loading := False,
      hook_error := Some (''Failed to list files: '' @ e)\<rparr>"
  using assms by (simp add: navigate_to_def list_files_error)

theorem navigate_to_failure_records_history_witness:
  "navigate_to (use_file_system demo_fs) demo_fs ''/nowhere'' =
    (use_file_system demo_fs)\<lparr>path_history := [''/d/''], is_loading := False,
      hook_error := Some (''Failed to list files: Path does not exist: /nowhere/'')\<rparr>"
proof -
  have "hook_listing demo_fs ''/nowhere'' = Inl (''Path does not exist: /nowhere/'')"
    by (simp add: hook_listing_def fs_demo_defs Let_def)
  from navigate_to_failure_records_history[OF this, of "use_file_system demo_fs"] show ?thesis
    by (simp add: use_file_system_def demo_fs_def)
qed

lemma js_last_index_of_suffix:
  assumes "ends_with_slash d" "CHR ''/'' \<notin> set n"
  shows "js_last_index_of CHR ''/'' (d @ n) = int (length d - 1)"
proof -
  obtain d' where d: "d = d' @ ''/''"
    using assms(1) by (metis append_butlast_last_id ends_with_slash_def)
  have "takeWhile (\<lambda>x. x \<noteq> CHR ''/'') (rev (d @ n)) = rev n"
    using assms(2) by (simp add: d, subst takeWhile_append2) auto
  then show ?thesis by (simp add: js_last_index_of_def d)
qed

text \<open>
  Up undoes a step down. For a directory path \<open>d\<close> (ending in \<open>/\<close>) and an entry
  name \<open>n\<close> without \<open>/\<close>, the parent that \<open>navigateUp\<close> lists from the normalized
  path of \<open>d + n\<close> is \<open>d\<close>.
\<close>

theorem parent_path_normalize:
  assumes "ends_with_slash d" "CHR ''/'' \<notin> set n" "n \<noteq> []"
  shows "parent_path (normalize_path (d @ n)) = d"
proof -
  obtain d' where d: "d = d' @ ''/''"
    using assms(1) by (metis append_butlast_last_id ends_with_slash_def)
  have "\<not> ends_with_slash (d @ n)"
    using assms(2,3) by (simp add: ends_with_slash_def) (metis last_in_set)
  then have "normalize_path (d @ n) = d @ n @ ''/''" by (simp add: normalize_path_def)
  moreover have "butlast (d @ n @ ''/'') = d @ n" by (simp add: butlast_append)
  ultimately show ?thesis
    using js_last_index_of_suffix[OF assms(1,2)]
    by (simp add: parent_path_def ends_with_slash_def js_substring0_def d)
qed

theorem parent_path_normalize_witness: "parent_path (normalize_path (''/d/'' @ ''sub'')) = ''/d/''"
  by (rule parent_path_normalize) (simp_all add: ends_with_slash_def)

text \<open>
  What \<open>readFileContent\<close> reads. It resolves with a content exactly when the path
  exists, is not a directory, is at most 5 MiB, and the read succeeds with that
  content; otherwise it rejects.
\<close>

theorem read_file_content_ok:
  "read_file_content fs p = Inr c \<longleftrightarrow>
   (\<exists>info. get_info fs p = Inr info \<and> fi_exists info \<and> \<not> fi_is_dir info
      \<and> fi_size info \<le> 5242880 \<and> read_string fs p = Inr c)"
  by (auto simp: read_file_content_def max_read_size_def split: sum.split)

theorem read_file_content_ok_witness:
  "read_file_content demo_fs ''/d/a.txt'' \<noteq> Inr ''x''"
proof -
  have "get_info demo_fs ''/d/a.txt'' = Inr (demo_dir_info\<lparr>fi_is_dir := False, fi_size := 6291456\<rparr>)"
    by (simp add: demo_fs_def)
  then show ?thesis using read_file_content_ok[of demo_fs "''/d/a.txt''" "''x''"]
    by simp
qed

text \<open>
  Large files are refused. A file larger than 5 MiB is rejected with a message
  giving its size in MiB to two decimals, rounded to nearest as \<open>toFixed(2)\<close> does.
\<close>

theorem read_file_content_too_large:
  assumes "get_info fs p = Inr info" "fi_exists info" "\<not> fi_is_dir info" "fi_size info > 5242880"
  shows "read_file_content fs p = Inl (''File too large ('' @ mb_fixed2 (fi_size info) @ '' MB): '' @ p)"
  using assms by (simp add: read_file_content_def max_read_size_def)

theorem read_file_content_too_large_witness:
  "read_file_content demo_fs ''/d/a.txt'' = Inl ''File too large (6.00 MB): /d/a.txt''"
proof -
  have i: "get_info demo_fs ''/d/a.txt'' = Inr (demo_dir_info\<lparr>fi_is_dir := False, fi_size := 6291456\<rparr>)"
    by (simp add: demo_fs_def)
  have m: "mb_fixed2 6291456 = ''6.00''"
    by (simp add: mb_fixed2_def two_digits_def digits_of_nat.simps Let_def)
  show ?thesis
    using read_file_content_too_large[OF i] m by (simp add: demo_dir_info_def)
qed

text \<open>
  C26. The hook and the service list alike. For a directory both can read, the file
  service's \<open>getDirectoryContents\<close> and the hook's \<open>listFiles\<close> return the same names,
  paths and kinds in the same order; they differ only in the extra fields of their
  entries.
\<close>

theorem listings_agree:
  assumes "get_info fs (normalize_path p) = Inr info" "fi_exists info" "fi_is_dir info"
    "read_dir fs (normalize_path p) = Inr files"
  shows "map (\<lambda>i. (item_name i, item_path i, item_is_dir i)) (projr (get_directory_contents fs p))
       = map (\<lambda>i. (item_name i, item_path i, item_is_dir i)) (snd (list_files s fs p))"
proof -
  let ?np = "normalize_path p"
  let ?k = "\<lambda>i. (\<not> item_is_dir i, collation fs (item_name i))"
  let ?v = "\<lambda>i. (item_name i, item_path i, item_is_dir i)"
  have kd: "?k \<circ> service_file_detail fs ?np = ?k \<circ> hook_file_detail fs ?np"
    and vd: "?v \<circ> service_file_detail fs ?np = ?v \<circ> hook_file_detail fs ?np"
    by (auto simp: service_file_detail_def hook_file_detail_def Let_def split: sum.split)
  have "get_directory_contents fs p = Inr (sort_files fs (map (service_file_detail fs ?np) files))"
    using assms by (simp add: get_directory_contents_def Let_def)
  moreover have "snd (list_files s fs p) = sort_files fs (map (hook_file_detail fs ?np) files)"
    using list_files_ok[OF hook_listing_ok[OF assms], of s] by simp
  moreover have "map ?v (map (service_file_detail fs ?np) ys) = map ?v (map (hook_file_detail fs ?np) ys)"
    for ys by (simp only: map_map vd)
  ultimately show ?thesis
    by (simp only: sort_files_def sort_key_map kd sum.sel)
qed

theorem listings_agree_witness:
  "map (\<lambda>i. (item_name i, item_path i, item_is_dir i)) (projr (get_directory_contents demo_fs ''/d''))
     = map (\<lambda>i. (item_name i, item_path i, item_is_dir i)) (snd (list_files (use_file_system demo_fs) demo_fs ''/d''))"
  by (rule listings_agree[of demo_fs "''/d''" demo_dir_info "[''a.txt'', ''sub'']"])
     (simp_all add: fs_demo_defs)

end
