(* ===== verification/Csv.thy ===== *)
theory Csv
  imports FileSystem
begin

text \<open>
  \<open>generateCSV\<close> of \<open>src/src/services/fileService.js\<close>: a header row of quoted
  names, then one row per data object with each value as \<open>String(item[key] || '')\<close>,
  quotes doubled, in quotes; every row ends in a newline; the text is written to a
  temporary file. A data object is the list of its own fields in insertion order; its
  values are the JSON-like values the services put in them. Numbers are integers
  (\<open>String\<close> of a fractional number is not modelled).

  A reader of the file is modelled by \<open>csv_parse\<close>, a parser in the RFC 4180 style
  (a field is quoted, with a doubled quote inside standing for one quote, or unquoted,
  without quotes; every row ends in a newline), written from that format, not from the
  code.
\<close>

datatype js_val = JStr string | JNum int | JBool bool | JNull | JUndefined

type_synonym js_object = "(string \<times> js_val) list"

definition js_truthy :: "js_val \<Rightarrow> bool" where
  "js_truthy v = (case v of JStr s \<Rightarrow> s \<noteq> [] | JNum i \<Rightarrow> i \<noteq> 0 | JBool b \<Rightarrow> b | _ \<Rightarrow> False)"

definition js_String :: "js_val \<Rightarrow> string" where
  "js_String v =
     (case v of JStr s \<Rightarrow> s | JNum i \<Rightarrow> string_of_int i
      | JBool b \<Rightarrow> (if b then ''true'' else ''false'') | JNull \<Rightarrow> ''null'' | JUndefined \<Rightarrow> ''undefined'')"

text \<open>\<open>item[key] || ''\<close>, then \<open>String\<close>: a missing key reads \<open>undefined\<close>.\<close>

definition cell_text :: "js_object \<Rightarrow> string \<Rightarrow> string" where
  "cell_text item key =
     (let v = (case map_of item key of Some v \<Rightarrow> v | None \<Rightarrow> JUndefined)
      in if js_truthy v then js_String v else [])"

text \<open>\<open>s.replace(/"/g, '""')\<close>.\<close>

definition csv_escape :: "string \<Rightarrow> string" where
  "csv_escape s = concat (map (\<lambda>c. if c = CHR 0x22 then [CHR 0x22, CHR 0x22] else [c]) s)"

definition csv_quote :: "string \<Rightarrow> string" where
  "csv_quote s = CHR 0x22 # s @ [CHR 0x22]"

definition csv_header_row :: "string list \<Rightarrow> string" where
  "csv_header_row hs = js_join CHR '','' (map csv_quote hs) @ [CHR 0x0A]"

definition csv_data_row :: "string list \<Rightarrow> js_object \<Rightarrow> string" where
  "csv_data_row hs item = js_join CHR '','' (map (\<lambda>k. csv_quote (csv_escape (cell_text item k))) hs) @ [CHR 0x0A]"

definition csv_text :: "string list \<Rightarrow> js_object list \<Rightarrow> string" where
  "csv_text hs data = csv_header_row hs @ concat (map (csv_data_row hs) data)"

definition generate_csv ::
  "'k expo_fs \<Rightarrow> js_object list \<Rightarrow> string list option \<Rightarrow> string option \<Rightarrow> string + string \<times> string" where
  "generate_csv fs data headers filename =
     (if data = [] then Inl ''Invalid data for CSV generation''
      else
        (let hs = (case headers of Some hs \<Rightarrow> hs | None \<Rightarrow> map fst (hd data));
             csv = csv_text hs data;
             name = (case filename of Some n \<Rightarrow> if n = [] then ''data.csv'' else n | None \<Rightarrow> ''data.csv'')
         in case create_temp_file fs csv name of Inl e \<Rightarrow> Inl e | Inr path \<Rightarrow> Inr (path, csv)))"

subsection \<open>A reader of the file\<close>

datatype csv_state = RowStart | FieldStart | InField | QuoteSeen | Unquoted

fun csv_parse :: "csv_state \<Rightarrow> string \<Rightarrow> string list \<Rightarrow> string list list \<Rightarrow> string \<Rightarrow> string list list option" where
  "csv_parse RowStart cur fs rows [] = Some rows"
| "csv_parse RowStart cur fs rows (c # cs) =
     (if c = CHR 0x22 then csv_parse InField [] [] rows cs
      else if c = CHR '','' then csv_parse FieldStart [] [[]] rows cs
      else if c = CHR 0x0A then csv_parse RowStart [] [] (rows @ [[[]]]) cs
      else csv_parse Unquoted [c] [] rows cs)"
| "csv_parse FieldStart cur fs rows [] = None"
| "csv_parse FieldStart cur fs rows (c # cs) =
     (if c = CHR 0x22 then csv_parse InField [] fs rows cs
      else if c = CHR '','' then csv_parse FieldStart [] (fs @ [[]]) rows cs
      else if c = CHR 0x0A then csv_parse RowStart [] [] (rows @ [fs @ [[]]]) cs
      else csv_parse Unquoted [c] fs rows cs)"
| "csv_parse InField cur fs rows [] = None"
| "csv_parse InField cur fs rows (c # cs) =
     (if c = CHR 0x22 then csv_parse QuoteSeen cur fs rows cs else csv_parse InField (cur @ [c]) fs rows cs)"
| "csv_parse QuoteSeen cur fs rows [] = None"
| "csv_parse QuoteSeen cur fs rows (c # cs) =
     (if c = CHR 0x22 then csv_parse InField (cur @ [c]) fs rows cs
      else if c = CHR '','' then csv_parse FieldStart [] (fs @ [cur]) rows cs
      else if c = CHR 0x0A then csv_parse RowStart [] [] (rows @ [fs @ [cur]]) cs
      else None)"
| "csv_parse Unquoted cur fs rows [] = None"
| "csv_parse Unquoted cur fs rows (c # cs) =
     (if c = CHR 0x22 then None
      else if c = CHR '','' then csv_parse FieldStart [] (fs @ [cur]) rows cs
      else if c = CHR 0x0A then csv_parse RowStart [] [] (rows @ [fs @ [cur]]) cs
      else csv_parse Unquoted (cur @ [c]) fs rows cs)"

definition csv_read :: "string \<Rightarrow> string list list option" where
  "csv_read s = csv_parse RowStart [] [] [] s"

definition demo_rows :: "js_object list" where
  "demo_rows = [[(''id'', JNum 0), (''body'', JStr (''say '' @ [CHR 0x22] @ ''hi'' @ [CHR 0x22] @ '', then'' @ [CHR 0x0A] @ ''bye''))]]"

subsection \<open>The file reads back as the table\<close>

lemma csv_escape_simps [simp]:
  "csv_escape [] = []"
  "csv_escape (c # cs) = (if c = CHR 0x22 then [CHR 0x22, CHR 0x22] else [c]) @ csv_escape cs"
  by (simp_all add: csv_escape_def)

lemma csv_escape_no_quote: "CHR 0x22 \<notin> set s \<Longrightarrow> csv_escape s = s"
  by (induction s) auto

lemma csv_parse_field:
  "csv_parse InField cur fs rows (csv_escape v @ CHR 0x22 # rest) = csv_parse QuoteSeen (cur @ v) fs rows rest"
  by (induction v arbitrary: cur) auto

lemma csv_parse_fields:
  assumes "vs \<noteq> []"
  shows "csv_parse FieldStart cur fs rows
           (js_join CHR '','' (map (\<lambda>v. csv_quote (csv_escape v)) vs) @ CHR 0x0A # rest)
       = csv_parse RowStart [] [] (rows @ [fs @ vs]) rest"
  using assms
proof (induction vs arbitrary: cur fs)
  case (Cons v vs)
  show ?case
  proof (cases vs)
    case Nil
    then show ?thesis by (simp add: csv_quote_def csv_parse_field)
  next
    case (Cons w ws)
    then have "js_join CHR '','' (map (\<lambda>v. csv_quote (csv_escape v)) (v # vs)) =
        csv_quote (csv_escape v) @ CHR '','' # js_join CHR '','' (map (\<lambda>v. csv_quote (csv_escape v)) vs)"
      by simp
    with Cons.IH[of "[]" "fs @ [v]"] Cons show ?thesis
      by (simp add: csv_quote_def csv_parse_field)
  qed
qed simp

lemma csv_parse_row:
  assumes "vs \<noteq> []"
  shows "csv_parse RowStart cur fs rows
           (js_join CHR '','' (map (\<lambda>v. csv_quote (csv_escape v)) vs) @ CHR 0x0A # rest)
       = csv_parse RowStart [] [] (rows @ [vs]) rest"
proof -
  obtain v vs' where vs: "vs = v # vs'" using assms by (cases vs) auto
  have "csv_parse RowStart cur fs rows (js_join CHR '','' (map (\<lambda>v. csv_quote (csv_escape v)) vs) @ CHR 0x0A # rest)
      = csv_parse FieldStart [] [] rows (js_join CHR '','' (map (\<lambda>v. csv_quote (csv_escape v)) vs) @ CHR 0x0A # rest)"
    by (cases vs') (simp_all add: vs csv_quote_def)
  then show ?thesis using csv_parse_fields[OF assms] by simp
qed

lemma csv_parse_rows:
  assumes "hs \<noteq> []"
  shows "csv_parse RowStart [] [] rows (concat (map (csv_data_row hs) data))
       = Some (rows @ map (\<lambda>item. map (cell_text item) hs) data)"
proof (induction data arbitrary: rows)
  case (Cons item data)
  have "csv_data_row hs item @ concat (map (csv_data_row hs) data) =
      js_join CHR '','' (map (\<lambda>v. csv_quote (csv_escape v)) (map (cell_text item) hs))
        @ CHR 0x0A # concat (map (csv_data_row hs) data)"
    by (simp add: csv_data_row_def comp_def)
  then show ?case
    using csv_parse_row[of "map (cell_text item) hs" "[]" "[]" rows] assms Cons.IH
    by simp
qed simp

lemma csv_parse_unquoted:
  "set v \<inter> {CHR 0x22, CHR '','', CHR 0x0A} = {} \<Longrightarrow>
   csv_parse Unquoted cur fs rows (v @ rest) = csv_parse Unquoted (cur @ v) fs rows rest"
  by (induction v arbitrary: cur) auto

lemma csv_parse_RowStart_Cons:
  "csv_parse RowStart cur [] rows (c # cs) = csv_parse FieldStart [] [] rows (c # cs)"
  by simp

lemma csv_parse_plain_fields:
  assumes "vs \<noteq> []" "\<forall>v \<in> set vs. set v \<inter> {CHR 0x22, CHR '','', CHR 0x0A} = {}"
  shows "csv_parse FieldStart [] fs rows (js_join CHR '','' vs @ CHR 0x0A # rest)
       = csv_parse RowStart [] [] (rows @ [fs @ vs]) rest"
  using assms
proof (induction vs arbitrary: fs)
  case (Cons v vs)
  have v: "set v \<inter> {CHR 0x22, CHR '','', CHR 0x0A} = {}" using Cons.prems(2) by simp
  show ?case
  proof (cases vs)
    case Nil
    then show ?thesis using v by (cases v) (auto simp: csv_parse_unquoted)
  next
    case (Cons w ws)
    then have "js_join CHR '','' (v # vs) = v @ CHR '','' # js_join CHR '','' vs" by simp
    moreover have "csv_parse FieldStart [] (fs @ [v]) rows (js_join CHR '','' vs @ CHR 0x0A # rest)
        = csv_parse RowStart [] [] (rows @ [fs @ v # vs]) rest"
      using Cons.IH[of "fs @ [v]"] Cons.prems Cons by simp
    ultimately show ?thesis using v by (cases v) (auto simp: csv_parse_unquoted)
  qed
qed simp

lemma csv_parse_quoted_rows:
  assumes "\<forall>r \<in> set rs. r \<noteq> []"
  shows "csv_parse RowStart [] [] rows
           (concat (map (\<lambda>r. js_join CHR '','' (map (\<lambda>v. csv_quote (csv_escape v)) r) @ [CHR 0x0A]) rs))
       = Some (rows @ rs)"
  using assms
proof (induction rs arbitrary: rows)
  case (Cons r rs)
  then show ?case using csv_parse_row[of r "[]" "[]" rows] by simp
qed simp

text \<open>
  C27. The exported CSV reads back as the table. For non-empty data and non-empty
  headers without quote characters, \<open>generateCSV\<close> writes the file under the cache
  directory and resolves with its path; a reader of quoted CSV gets back the header row
  and, for each object, the cell texts \<open>String(item[key] || '')\<close>, whatever commas,
  quotes or newlines the values contain. (A falsy value such as \<open>0\<close> or \<open>false\<close>
  is exported as the empty string.)
\<close>

theorem generate_csv_reads_back:
  assumes "data \<noteq> []" "hs \<noteq> []" "\<forall>h \<in> set hs. CHR 0x22 \<notin> set h" "name \<noteq> []"
    "write_string fs (cache_directory fs @ name) (csv_text hs data) = None"
  shows "generate_csv fs data (Some hs) (Some name) = Inr (cache_directory fs @ name, csv_text hs data)
    \<and> csv_read (csv_text hs data) = Some (hs # map (\<lambda>item. map (cell_text item) hs) data)"
proof
  show "generate_csv fs data (Some hs) (Some name) = Inr (cache_directory fs @ name, csv_text hs data)"
    using assms by (simp add: generate_csv_def create_temp_file_def temp_file_path_def Let_def)
next
  have q: "map csv_quote hs = map (\<lambda>v. csv_quote (csv_escape v)) hs"
    using assms(3) by (simp add: csv_escape_no_quote)
  have "csv_text hs data =
      js_join CHR '','' (map (\<lambda>v. csv_quote (csv_escape v)) hs) @ CHR 0x0A # concat (map (csv_data_row hs) data)"
    unfolding csv_text_def csv_header_row_def q by simp
  then show "csv_read (csv_text hs data) = Some (hs # map (\<lambda>item. map (cell_text item) hs) data)"
    using csv_parse_row[OF assms(2), of "[]" "[]" "[]"] csv_parse_rows[OF assms(2), of "[hs]" data]
    by (simp add: csv_read_def)
qed

theorem generate_csv_reads_back_witness:
  "generate_csv demo_fs demo_rows (Some [''id'', ''body'']) (Some ''sms.csv'')
     = Inr (''/c/sms.csv'', csv_text [''id'', ''body''] demo_rows)
   \<and> csv_read (csv_text [''id'', ''body''] demo_rows)
     = Some [[''id'', ''body''], [[], ''say '' @ [CHR 0x22] @ ''hi'' @ [CHR 0x22] @ '', then'' @ [CHR 0x0A] @ ''bye'']]"
  using generate_csv_reads_back[of demo_rows "[''id'', ''body'']" "''sms.csv''" demo_fs]
  by (simp add: demo_rows_def demo_fs_def cell_text_def js_truthy_def js_String_def)

end
