(* ===== verification/Interleave.thy ===== *)
theory Interleave
  imports Dispatcher
begin

text \<open>
  Overlapping poll cycles. Two timers poll the same \<open>TelegramAPI\<close> object every 3000 ms:
  the interval of \<open>startUpdatePolling\<close> (\<open>src/src/api/telegramAPI.js\<close>) and the
  interval of the app's \<open>startMonitoring\<close>, which calls \<open>checkTelegramUpdates\<close>
  (\<open>src/unnamed/part_002\<close>). A cycle awaits \<open>getUpdates\<close>, so it is split into the
  tick that sends \<open>GET /getUpdates?offset=lastUpdateId+1\<close> and the later arrival of
  its response, which moves the cursor and processes the batch; other ticks can come in
  between.

  The Telegram server is modelled from the Bot API's documented contract, not from code of
  the repository: it keeps the pending updates in ascending id order; a request with
  offset \<open>o\<close> confirms (forgets) every update with a smaller id and answers the rest.

  \<open>checkTelegramUpdates\<close> is a \<open>useCallback\<close> closure: the interval registered by
  \<open>startMonitoring\<close> keeps calling the closure of that render, whose \<open>processing\<close>
  and \<open>isConnected\<close> are the values of that render, while \<open>setProcessing\<close> changes
  the component's state, which later renders see. The record keeps both.

  A response's batch is processed as one step (the awaits inside \<open>processUpdate\<close> are
  not interleaved further); every response is successful (the failure path is
  \<open>get_updates\<close>'s, proved in \<open>Dispatcher\<close>).
\<close>

datatype poller = ApiInterval | AppInterval

record ist =
  tgs :: tg
  server :: "tg_update list"
  pending :: "(poller \<times> int \<times> tg_update list) list"
  app_processing :: bool
  app_closure_processing :: bool
  app_closure_connected :: bool

datatype ievent = Tick poller | Respond nat | Arrive tg_update

text \<open>The server's answer to \<open>getUpdates\<close> with offset \<open>off\<close>.\<close>

definition server_confirm :: "int \<Rightarrow> tg_update list \<Rightarrow> tg_update list" where
  "server_confirm off q = filter (\<lambda>u. off \<le> update_id u) q"

text \<open>The first half of \<open>getUpdates\<close>: the request with the current cursor.\<close>

definition issue_get_updates :: "poller \<Rightarrow> ist \<Rightarrow> ist \<times> effect list" where
  "issue_get_updates p st =
     (let off = last_update_id (tgs st) + 1; q = server_confirm off (server st)
      in (st\<lparr>server := q, pending := pending st @ [(p, off, q)]\<rparr>, [GetUpdates off]))"

text \<open>
  A call of \<open>getUpdates\<close> by either poller: nothing when not connected; a
  disconnection when the axios instance is missing; otherwise the request.
\<close>

definition call_get_updates :: "poller \<Rightarrow> ist \<Rightarrow> ist \<times> effect list \<times> bool" where
  "call_get_updates p st =
     (if \<not> connected (tgs st) then (st, [], False)
      else if \<not> api (tgs st) then
        (let (s1, e1) = handle_disconnection (tgs st) in (st\<lparr>tgs := s1\<rparr>, e1, False))
      else (let (st1, e1) = issue_get_updates p st in (st1, e1, True)))"

text \<open>
  The second half: the cursor moves to the last update of the batch, then
  \<open>processUpdate\<close> runs on each update in order; the app's cycle ends with
  \<open>setProcessing(false)\<close>.
\<close>

definition advance_cursor :: "tg \<Rightarrow> tg_update list \<Rightarrow> tg" where
  "advance_cursor s ups = (if ups \<noteq> [] then s\<lparr>last_update_id := update_id (last ups)\<rparr> else s)"

definition complete_get_updates :: "dispatch_env \<Rightarrow> ist \<Rightarrow> nat \<Rightarrow> ist \<times> effect list" where
  "complete_get_updates env st i =
     (if i < length (pending st) then
        (let (p, off, ups) = pending st ! i;
             s1 = advance_cursor (tgs st) ups;
             st1 = st\<lparr>tgs := s1, pending := take i (pending st) @ drop (Suc i) (pending st)\<rparr>
         in (if p = AppInterval then st1\<lparr>app_processing := False\<rparr> else st1,
             process_updates s1 env ups))
      else (st, []))"

text \<open>
  The tick of each interval. \<open>startUpdatePolling\<close>'s callback reads
  \<open>this.connected\<close>; \<open>checkTelegramUpdates\<close> reads its closure's \<open>processing\<close>
  and \<open>isConnected\<close>, then sets \<open>processing\<close>, and resets it at once when
  \<open>getUpdates\<close> returns without a request.
\<close>

fun ist_step :: "dispatch_env \<Rightarrow> ist \<Rightarrow> ievent \<Rightarrow> ist \<times> effect list" where
  "ist_step env st (Tick ApiInterval) =
     (if update_polling_interval (tgs st) \<and> connected (tgs st)
      then (let (st1, e1, _) = call_get_updates ApiInterval st in (st1, e1))
      else (st, []))"
| "ist_step env st (Tick AppInterval) =
     (if app_closure_processing st \<or> \<not> app_closure_connected st then (st, [])
      else (let (st1, e1, sent) = call_get_updates AppInterval (st\<lparr>app_processing := True\<rparr>)
            in (if sent then st1 else st1\<lparr>app_processing := False\<rparr>, e1)))"
| "ist_step env st (Respond i) = complete_get_updates env st i"
| "ist_step env st (Arrive u) = (st\<lparr>server := server st @ [u]\<rparr>, [])"

fun ist_run :: "dispatch_env \<Rightarrow> ist \<Rightarrow> ievent list \<Rightarrow> ist \<times> effect list" where
  "ist_run env st [] = (st, [])"
| "ist_run env st (e # es) =
     (let (st1, e1) = ist_step env st e; (st2, e2) = ist_run env st1 es in (st2, e1 @ e2))"

text \<open>
  \<open>startMonitoring\<close> when \<open>isConnected\<close> is true in its render: the interval captures
  that render's \<open>checkTelegramUpdates\<close>.
\<close>

definition start_monitoring :: "ist \<Rightarrow> ist" where
  "start_monitoring st =
     st\<lparr>app_closure_processing := app_processing st, app_closure_connected := True\<rparr>"

definition demo_ist :: ist where
  "demo_ist = \<lparr>tgs = tg_demo, server = [hd demo_batch], pending = [], app_processing = False,
                app_closure_processing = True, app_closure_connected = False\<rparr>"

subsection \<open>Properties\<close>

lemma ist_run_Cons:
  "ist_run env st (e # es) =
     (fst (ist_run env (fst (ist_step env st e)) es),
      snd (ist_step env st e) @ snd (ist_run env (fst (ist_step env st e)) es))"
  by (simp add: case_prod_beta)

declare ist_run.simps(2) [simp del]

lemma complete_first:
  assumes "pending st = (p, off, ups) # rest"
  shows "snd (complete_get_updates env st 0) = process_updates (advance_cursor (tgs st) ups) env ups"
    "tgs (fst (complete_get_updates env st 0)) = advance_cursor (tgs st) ups"
    "pending (fst (complete_get_updates env st 0)) = rest"
    "server (fst (complete_get_updates env st 0)) = server st"
    "app_processing (fst (complete_get_updates env st 0)) = (app_processing st \<and> p \<noteq> AppInterval)"
    "p = ApiInterval \<Longrightarrow>
     fst (complete_get_updates env st 0) = st\<lparr>tgs := advance_cursor (tgs st) ups, pending := rest\<rparr>"
  using assms by (simp_all add: complete_get_updates_def Let_def)

lemma call_get_updates_sent:
  "connected (tgs st) \<Longrightarrow> api (tgs st) \<Longrightarrow>
   call_get_updates p st = (fst (issue_get_updates p st), snd (issue_get_updates p st), True)"
  by (simp add: call_get_updates_def case_prod_beta)

lemma issue_get_updates_simps:
  "tgs (fst (issue_get_updates p st)) = tgs st"
  "pending (fst (issue_get_updates p st)) =
     pending st @ [(p, last_update_id (tgs st) + 1, server_confirm (last_update_id (tgs st) + 1) (server st))]"
  "server (fst (issue_get_updates p st)) = server_confirm (last_update_id (tgs st) + 1) (server st)"
  "app_processing (fst (issue_get_updates p st)) = app_processing st"
  "app_closure_processing (fst (issue_get_updates p st)) = app_closure_processing st"
  "app_closure_connected (fst (issue_get_updates p st)) = app_closure_connected st"
  "snd (issue_get_updates p st) = [GetUpdates (last_update_id (tgs st) + 1)]"
  by (simp_all add: issue_get_updates_def Let_def)

lemma server_confirm_idem [simp]: "server_confirm off (server_confirm off q) = server_confirm off q"
  by (simp add: server_confirm_def)

text \<open>The closure of the app's interval never changes after \<open>startMonitoring\<close>.\<close>

lemma ist_step_closure:
  "app_closure_processing (fst (ist_step env st e)) = app_closure_processing st
   \<and> app_closure_connected (fst (ist_step env st e)) = app_closure_connected st"
proof (cases e)
  case (Tick p)
  then show ?thesis
    by (cases p)
       (auto simp: call_get_updates_def issue_get_updates_def Let_def case_prod_beta)
qed (auto simp: complete_get_updates_def Let_def case_prod_beta)

lemma ist_run_closure:
  "app_closure_processing (fst (ist_run env st es)) = app_closure_processing st
   \<and> app_closure_connected (fst (ist_run env st es)) = app_closure_connected st"
  by (induction es arbitrary: st) (simp_all add: ist_run_Cons ist_step_closure)

text \<open>
  C32. Overlapping cycles deliver an update twice. When the interval of
  \<open>startUpdatePolling\<close> fires again before the response of its previous
  \<open>getUpdates\<close> has arrived, both requests carry the same offset, the server answers
  both with the same pending update, and \<open>processUpdate\<close> runs on it twice: the
  handler's effects happen twice. The spec requires at most one cycle in flight.
\<close>

theorem overlapping_ticks_duplicate:
  assumes "update_polling_interval (tgs st)" "connected (tgs st)" "api (tgs st)"
    "pending st = []" "server st = [u]" "last_update_id (tgs st) < update_id u"
  shows "snd (ist_run env st [Tick ApiInterval, Tick ApiInterval, Respond 0, Respond 0]) =
    [GetUpdates (last_update_id (tgs st) + 1), GetUpdates (last_update_id (tgs st) + 1)]
    @ process_update ((tgs st)\<lparr>last_update_id := update_id u\<rparr>) env u
    @ process_update ((tgs st)\<lparr>last_update_id := update_id u\<rparr>) env u"
proof -
  have q: "server_confirm (last_update_id (tgs st) + 1) [u] = [u]"
    using assms(6) by (simp add: server_confirm_def)
  show ?thesis
    using assms q
    by (simp add: ist_run_Cons call_get_updates_sent issue_get_updates_simps
        complete_first advance_cursor_def process_updates_def)
qed

lemma demo_process_storage:
  "process_update (tg_demo\<lparr>last_update_id := 5\<rparr>) env_ok (hd demo_batch)
     = [AnswerCallback ''q5'', Invoke 1 (CallbackArgs cq_storage)]"
proof -
  let ?s = "tg_demo\<lparr>last_update_id := 5\<rparr>"
  have "process_update_body ?s env_ok (hd demo_batch) = dispatch_callback ?s env_ok cq_storage"
    by (rule process_update_body_callback[where m = demo_msg]) (simp_all add: demo_defs)
  moreover have "dispatch_callback ?s env_ok cq_storage =
      ([AnswerCallback (cq_id cq_storage), Invoke 1 (CallbackArgs cq_storage)], Normal)"
    using dispatch_callback_registered[of ?s env_ok cq_storage 1] by (simp add: demo_defs)
  ultimately show ?thesis by (simp add: process_update_def cq_storage_def)
qed

theorem overlapping_ticks_duplicate_witness:
  "snd (ist_run env_ok demo_ist [Tick ApiInterval, Tick ApiInterval, Respond 0, Respond 0]) =
    [GetUpdates 1, GetUpdates 1, AnswerCallback ''q5'', Invoke 1 (CallbackArgs cq_storage),
     AnswerCallback ''q5'', Invoke 1 (CallbackArgs cq_storage)]"
proof -
  have "snd (ist_run env_ok demo_ist [Tick ApiInterval, Tick ApiInterval, Respond 0, Respond 0]) =
    [GetUpdates (last_update_id (tgs demo_ist) + 1), GetUpdates (last_update_id (tgs demo_ist) + 1)]
    @ process_update ((tgs demo_ist)\<lparr>last_update_id := update_id (hd demo_batch)\<rparr>) env_ok (hd demo_batch)
    @ process_update ((tgs demo_ist)\<lparr>last_update_id := update_id (hd demo_batch)\<rparr>) env_ok (hd demo_batch)"
    by (rule overlapping_ticks_duplicate) (simp_all add: demo_ist_def demo_defs)
  moreover have "last_update_id tg_demo = 0" "update_id (hd demo_batch) = 5"
    by (simp_all add: tg_demo_def tg_init_def demo_batch_def)
  ultimately show ?thesis by (simp add: demo_process_storage demo_ist_def)
qed

text \<open>
  C33. The app's guard never blocks. The interval of \<open>startMonitoring\<close> calls the
  \<open>checkTelegramUpdates\<close> of the render in which it was started, where
  \<open>processing\<close> was false. After any sequence of ticks, responses and arrivals, a
  tick of that interval in a connected state sends a new \<open>getUpdates\<close>, even while the
  component's \<open>processing\<close> state is true because an earlier cycle is in flight.
\<close>

theorem app_guard_stale:
  assumes "\<not> app_processing st"
    "connected (tgs (fst (ist_run env (start_monitoring st) es)))"
    "api (tgs (fst (ist_run env (start_monitoring st) es)))"
  shows "snd (ist_step env (fst (ist_run env (start_monitoring st) es)) (Tick AppInterval)) =
    [GetUpdates (last_update_id (tgs (fst (ist_run env (start_monitoring st) es))) + 1)]"
proof -
  let ?st = "fst (ist_run env (start_monitoring st) es)"
  have "\<not> app_closure_processing ?st \<and> app_closure_connected ?st"
    using ist_run_closure[of env "start_monitoring st" es] assms(1)
    by (simp add: start_monitoring_def)
  with assms(2,3) show ?thesis
    by (simp add: call_get_updates_sent issue_get_updates_simps case_prod_beta)
qed

theorem app_guard_stale_witness:
  "app_processing (fst (ist_run env_ok (start_monitoring demo_ist) [Tick AppInterval]))
   \<and> snd (ist_step env_ok (fst (ist_run env_ok (start_monitoring demo_ist) [Tick AppInterval])) (Tick AppInterval))
     = [GetUpdates 1]"
proof -
  let ?st = "fst (ist_run env_ok (start_monitoring demo_ist) [Tick AppInterval])"
  have st: "tgs ?st = tg_demo" "app_processing ?st"
    by (simp_all add: ist_run_Cons start_monitoring_def demo_ist_def demo_defs call_get_updates_sent
        issue_get_updates_simps case_prod_beta)
  have c: "connected (tgs ?st)" "api (tgs ?st)" "\<not> app_processing demo_ist"
    using st by (simp_all add: tg_demo_def tg_init_def demo_ist_def)
  have "snd (ist_step env_ok ?st (Tick AppInterval)) = [GetUpdates (last_update_id (tgs ?st) + 1)]"
    using app_guard_stale[of demo_ist env_ok "[Tick AppInterval]"] c by simp
  with st show ?thesis by (simp add: tg_demo_def tg_init_def)
qed

end
