(* ===== verification/Encryption.thy ===== *)
theory Encryption
  imports Prelude
begin

text \<open>
  The encryption utilities (\<open>src/unnamed/part_007\<close>, the module imported as
  \<open>utils/encryption\<close>): \<open>xorEncrypt\<close>/\<open>xorDecrypt\<close> combine each UTF-16 code unit of
  the text with the key's code unit at the same index modulo the key's length;
  \<open>toBase64\<close> is \<open>btoa(unescape(encodeURIComponent(text)))\<close>, \<open>fromBase64\<close> is
  \<open>decodeURIComponent(escape(atob(base64)))\<close>, each returning \<open>''\<close> when a built-in
  throws; \<open>encrypt\<close> and \<open>decrypt\<close> compose them; \<open>maskSensitive\<close> hides the middle
  of a text.

  JavaScript strings are sequences of 16-bit code units, \<open>16 word list\<close>. The built-ins
  are modelled from ECMAScript and the HTML \<open>atob\<close> algorithm, not from code of the
  repository: \<open>encodeURIComponent\<close> followed by \<open>unescape\<close> is the UTF-8 encoding of
  the text's code points as one character per byte (it throws on a lone surrogate);
  \<open>btoa\<close> is Base64 with padding; \<open>atob\<close> is the forgiving Base64 decoder;
  \<open>escape\<close> followed by \<open>decodeURIComponent\<close> is strict UTF-8 decoding of the bytes
  (it throws on an invalid sequence).
\<close>

unbundle bit_operations_syntax

type_synonym code_unit = "16 word"
type_synonym js_str = "code_unit list"

text \<open>A string literal of the source whose characters are all below U+0100.\<close>

definition js_str_of :: "string \<Rightarrow> js_str" where
  "js_str_of s = map (\<lambda>c. of_nat (of_char c)) s"

definition default_key :: js_str where
  "default_key = js_str_of ''TelegramMonitorEncryptionKey''"

subsection \<open>XOR\<close>

text \<open>
  \<open>key.charCodeAt(i % key.length)\<close>: for an empty key the index is \<open>NaN\<close>, read as 0,
  past the end: the code is \<open>NaN\<close>, which \<open>^\<close> takes as 0.
\<close>

definition key_unit :: "js_str \<Rightarrow> nat \<Rightarrow> code_unit" where
  "key_unit key i = (if key = [] then 0 else key ! (i mod length key))"

definition xor_encrypt :: "js_str \<Rightarrow> js_str \<Rightarrow> js_str" where
  "xor_encrypt text key = map (\<lambda>(i, c). c XOR key_unit key i) (zip [0..<length text] text)"

definition xor_decrypt :: "js_str \<Rightarrow> js_str \<Rightarrow> js_str" where
  "xor_decrypt text key = xor_encrypt text key"

subsection \<open>UTF-16 and UTF-8\<close>

definition is_high_surrogate :: "code_unit \<Rightarrow> bool" where
  "is_high_surrogate u \<longleftrightarrow> 0xD800 \<le> unat u \<and> unat u < 0xDC00"

definition is_low_surrogate :: "code_unit \<Rightarrow> bool" where
  "is_low_surrogate u \<longleftrightarrow> 0xDC00 \<le> unat u \<and> unat u < 0xE000"

text \<open>The code points of a string; \<open>None\<close> at a lone surrogate.\<close>

fun code_points :: "js_str \<Rightarrow> nat list option" where
  "code_points [] = Some []"
| "code_points [u] =
     (if is_high_surrogate u \<or> is_low_surrogate u then None else Some [unat u])"
| "code_points (u # v # rest) =
     (if is_high_surrogate u then
        (if is_low_surrogate v
         then map_option (Cons (0x10000 + (unat u - 0xD800) * 0x400 + (unat v - 0xDC00))) (code_points rest)
         else None)
      else if is_low_surrogate u then None
      else map_option (Cons (unat u)) (code_points (v # rest)))"

definition utf16_of_code_point :: "nat \<Rightarrow> js_str" where
  "utf16_of_code_point cp =
     (if cp < 0x10000 then [of_nat cp]
      else [of_nat (0xD800 + (cp - 0x10000) div 0x400), of_nat (0xDC00 + (cp - 0x10000) mod 0x400)])"

definition utf8_of_code_point :: "nat \<Rightarrow> nat list" where
  "utf8_of_code_point cp =
     (if cp < 0x80 then [cp]
      else if cp < 0x800 then [0xC0 + cp div 0x40, 0x80 + cp mod 0x40]
      else if cp < 0x10000 then [0xE0 + cp div 0x1000, 0x80 + (cp div 0x40) mod 0x40, 0x80 + cp mod 0x40]
      else [0xF0 + cp div 0x40000, 0x80 + (cp div 0x1000) mod 0x40, 0x80 + (cp div 0x40) mod 0x40,
            0x80 + cp mod 0x40])"

definition is_cont :: "nat \<Rightarrow> bool" where
  "is_cont b \<longleftrightarrow> 0x80 \<le> b \<and> b < 0xC0"

text \<open>Strict UTF-8 decoding: no overlong forms, no surrogates, nothing above U+10FFFF.\<close>

fun utf8_decode :: "nat list \<Rightarrow> nat list option" where
  "utf8_decode [] = Some []"
| "utf8_decode (b # bs) =
     (if b < 0x80 then map_option (Cons b) (utf8_decode bs)
      else if 0xC2 \<le> b \<and> b < 0xE0 then
        (case bs of
           c # rest \<Rightarrow> if is_cont c then map_option (Cons ((b - 0xC0) * 0x40 + (c - 0x80))) (utf8_decode rest) else None
         | _ \<Rightarrow> None)
      else if 0xE0 \<le> b \<and> b < 0xF0 then
        (case bs of
           c # d # rest \<Rightarrow>
             (let cp = (b - 0xE0) * 0x1000 + (c - 0x80) * 0x40 + (d - 0x80) in
              if is_cont c \<and> is_cont d \<and> 0x800 \<le> cp \<and> \<not> (0xD800 \<le> cp \<and> cp < 0xE000)
              then map_option (Cons cp) (utf8_decode rest) else None)
         | _ \<Rightarrow> None)
      else if 0xF0 \<le> b \<and> b < 0xF5 then
        (case bs of
           c # d # e # rest \<Rightarrow>
             (let cp = (b - 0xF0) * 0x40000 + (c - 0x80) * 0x1000 + (d - 0x80) * 0x40 + (e - 0x80) in
              if is_cont c \<and> is_cont d \<and> is_cont e \<and> 0x10000 \<le> cp \<and> cp < 0x110000
              then map_option (Cons cp) (utf8_decode rest) else None)
         | _ \<Rightarrow> None)
      else None)"

subsection \<open>Base64\<close>

text \<open>The standard alphabet \<open>A-Z a-z 0-9 + /\<close>, by position.\<close>

definition b64_char :: "nat \<Rightarrow> char" where
  "b64_char n =
     char_of (if n < 26 then 65 + n else if n < 52 then 71 + n else if n < 62 then n - 4
              else if n = 62 then 43 else 47 :: nat)"

definition b64_unit :: "nat \<Rightarrow> code_unit" where
  "b64_unit n = of_nat (of_char (b64_char n))"

text \<open>The 6-bit groups of a byte string, the last one filled with zero bits.\<close>

fun b64_sextets :: "nat list \<Rightarrow> nat list" where
  "b64_sextets (a # b # c # rest) =
     [a div 4, (a mod 4) * 16 + b div 16, (b mod 16) * 4 + c div 64, c mod 64] @ b64_sextets rest"
| "b64_sextets [a, b] = [a div 4, (a mod 4) * 16 + b div 16, (b mod 16) * 4]"
| "b64_sextets [a] = [a div 4, (a mod 4) * 16]"
| "b64_sextets [] = []"

definition base64_encode :: "nat list \<Rightarrow> string" where
  "base64_encode bytes =
     map b64_char (b64_sextets bytes) @ replicate ((3 - length bytes mod 3) mod 3) CHR ''=''"

text \<open>The value of a Base64 character, \<open>None\<close> outside the alphabet.\<close>

definition b64_value :: "code_unit \<Rightarrow> nat option" where
  "b64_value u =
     (let n = unat u in
      if 65 \<le> n \<and> n \<le> 90 then Some (n - 65)
      else if 97 \<le> n \<and> n \<le> 122 then Some (n - 71)
      else if 48 \<le> n \<and> n \<le> 57 then Some (n + 4)
      else if n = 43 then Some 62
      else if n = 47 then Some 63 else None)"

fun b64_bytes :: "nat list \<Rightarrow> nat list" where
  "b64_bytes (a # b # c # d # rest) =
     [a * 4 + b div 16, (b mod 16) * 16 + c div 4, (c mod 4) * 64 + d] @ b64_bytes rest"
| "b64_bytes [a, b, c] = [a * 4 + b div 16, (b mod 16) * 16 + c div 4]"
| "b64_bytes [a, b] = [a * 4 + b div 16]"
| "b64_bytes _ = []"

definition is_ascii_whitespace :: "code_unit \<Rightarrow> bool" where
  "is_ascii_whitespace u \<longleftrightarrow> u \<in> {0x09, 0x0A, 0x0C, 0x0D, 0x20}"

text \<open>\<open>atob\<close>: the forgiving Base64 decoder of the HTML standard; \<open>None\<close> when it throws.\<close>

definition atob :: "js_str \<Rightarrow> nat list option" where
  "atob s =
     (let d0 = filter (\<lambda>u. \<not> is_ascii_whitespace u) s;
          d = (if length d0 mod 4 = 0 then
                 (if drop (length d0 - 2) d0 = [0x3D, 0x3D] then take (length d0 - 2) d0
                  else if drop (length d0 - 1) d0 = [0x3D] then take (length d0 - 1) d0 else d0)
               else d0)
      in if length d mod 4 = 1 then None
         else if list_all (\<lambda>u. b64_value u \<noteq> None) d
         then Some (b64_bytes (map (\<lambda>u. the (b64_value u)) d))
         else None)"

subsection \<open>The utilities\<close>

definition to_base64 :: "js_str \<Rightarrow> js_str" where
  "to_base64 text =
     (case code_points text of
        None \<Rightarrow> []
      | Some cps \<Rightarrow> js_str_of (base64_encode (concat (map utf8_of_code_point cps))))"

definition from_base64 :: "js_str \<Rightarrow> js_str" where
  "from_base64 b =
     (case atob b of
        None \<Rightarrow> []
      | Some bytes \<Rightarrow>
          (case utf8_decode bytes of None \<Rightarrow> [] | Some cps \<Rightarrow> concat (map utf16_of_code_point cps)))"

definition encrypt :: "js_str \<Rightarrow> js_str \<Rightarrow> js_str" where
  "encrypt text key = to_base64 (xor_encrypt text key)"

definition decrypt :: "js_str \<Rightarrow> js_str \<Rightarrow> js_str" where
  "decrypt encrypted key = xor_decrypt (from_base64 encrypted) key"

text \<open>
  The bullet literal of \<open>maskSensitive\<close> is stored in the source as the three
  characters U+00E2 U+20AC U+00A2 (the UTF-8 bytes of U+2022 read as Windows-1252).
\<close>

definition mask_bullet :: js_str where
  "mask_bullet = [0xE2, 0x20AC, 0xA2]"

definition mask_sensitive :: "js_str \<Rightarrow> nat \<Rightarrow> js_str" where
  "mask_sensitive text visible =
     (if text = [] \<or> length text \<le> visible * 2 then text
      else take visible text
           @ concat (replicate (min 10 (length text - visible * 2)) mask_bullet)
           @ drop (length text - visible) text)"

subsection \<open>Key and surrogate classes\<close>

definition ascii_key :: "js_str \<Rightarrow> bool" where
  "ascii_key k \<longleftrightarrow> list_all (\<lambda>u. unat u < 0x80) k"

text \<open>A Unicode scalar value: below U+110000 and not a surrogate.\<close>

definition valid_cp :: "nat \<Rightarrow> bool" where
  "valid_cp cp \<longleftrightarrow> cp < 0x110000 \<and> \<not> (0xD800 \<le> cp \<and> cp < 0xE000)"

text \<open>The surrogate class of a code unit is its block of 1024, its top six bits.\<close>

definition unit_class :: "code_unit \<Rightarrow> nat" where
  "unit_class u = unat u div 1024"

subsection \<open>XOR is an involution and keeps the surrogate structure\<close>

lemma length_xor_encrypt [simp]: "length (xor_encrypt t k) = length t"
  by (simp add: xor_encrypt_def)

lemma nth_xor_encrypt: "i < length t \<Longrightarrow> xor_encrypt t k ! i = t ! i XOR key_unit k i"
  by (simp add: xor_encrypt_def)

lemma xor_encrypt_involution: "xor_encrypt (xor_encrypt t k) k = t"
  by (rule nth_equalityI) (simp_all add: nth_xor_encrypt xor.assoc)

lemma block_range:
  "(a * 1024 \<le> (n::nat) \<and> n < Suc a * 1024) \<longleftrightarrow> n div 1024 = a"
proof -
  have "n div 1024 = a \<longleftrightarrow> a \<le> n div 1024 \<and> n div 1024 < Suc a" by linarith
  also have "\<dots> \<longleftrightarrow> a * 1024 \<le> n \<and> n < Suc a * 1024"
    by (simp only: less_eq_div_iff_mult_less_eq div_less_iff_less_mult zero_less_numeral)
  finally show ?thesis by simp
qed

lemma surrogate_by_class:
  "is_high_surrogate u \<longleftrightarrow> unit_class u = 54"
  "is_low_surrogate u \<longleftrightarrow> unit_class u = 55"
  using block_range[of 54 "unat u"] block_range[of 55 "unat u"]
  by (simp_all add: is_high_surrogate_def is_low_surrogate_def unit_class_def)

lemma xor_ascii_class: "unat k < 128 \<Longrightarrow> unit_class (u XOR k) = unit_class u"
proof -
  assume k: "unat k < 128"
  have "unat (drop_bit 10 k) = 0" using k by (simp only: unat_drop_bit_eq) (simp add: drop_bit_eq_div)
  then have "drop_bit 10 k = 0" by (simp add: unat_eq_zero)
  then have "drop_bit 10 (u XOR k) = drop_bit 10 u" by (simp add: drop_bit_xor)
  then have "unat (drop_bit 10 (u XOR k)) = unat (drop_bit 10 u)" by simp
  then show ?thesis unfolding unit_class_def by (simp only: unat_drop_bit_eq) (simp add: drop_bit_eq_div)
qed

lemma key_unit_ascii: "ascii_key k \<Longrightarrow> unat (key_unit k i) < 128"
  by (cases "k = []") (simp_all add: ascii_key_def key_unit_def list_all_length)

lemma xor_encrypt_classes:
  "ascii_key k \<Longrightarrow> map unit_class (xor_encrypt t k) = map unit_class t"
  by (rule nth_equalityI) (simp_all add: nth_xor_encrypt xor_ascii_class key_unit_ascii)

text \<open>Whether a string has a lone surrogate depends only on the classes of its units.\<close>

lemma code_points_None_classes:
  "map unit_class t' = map unit_class t \<Longrightarrow> (code_points t' = None) = (code_points t = None)"
proof (induction t arbitrary: t' rule: code_points.induct)
  case 1
  then show ?case by simp
next
  case (2 u)
  then obtain u' where "t' = [u']" "unit_class u' = unit_class u" by auto
  then show ?case by (simp add: surrogate_by_class)
next
  case (3 u v rest)
  then obtain u' v' rest' where t': "t' = u' # v' # rest'" "unit_class u' = unit_class u"
      "unit_class v' = unit_class v" "map unit_class rest' = map unit_class rest"
    by (auto simp: map_eq_Cons_conv)
  show ?case
    using "3.IH"[of rest'] "3.IH"(2)[of "v' # rest'"] t'
    by (auto simp: surrogate_by_class)
qed

subsection \<open>Base64 decodes what it encodes\<close>

lemma b64_bytes_sextets:
  "list_all (\<lambda>b. b < 256) bytes \<Longrightarrow> b64_bytes (b64_sextets bytes) = bytes"
proof (induction bytes rule: b64_sextets.induct)
  case (1 a b c rest)
  have "b div 16 < 16" "c div 64 < 4" using "1.prems" by (simp_all add: div_less_iff_less_mult)
  then show ?case using 1 by simp
next
  case (2 a b)
  have "b div 16 < 16" using "2.prems" by (simp add: div_less_iff_less_mult)
  then show ?case using 2 by simp
qed simp_all

lemma b64_sextets_bound: "list_all (\<lambda>b. b < 256) bytes \<Longrightarrow> x \<in> set (b64_sextets bytes) \<Longrightarrow> x < 64"
  by (induction bytes rule: b64_sextets.induct) auto

lemma length_b64_sextets:
  "length (b64_sextets bytes) = 4 * (length bytes div 3) + (if length bytes mod 3 = 0 then 0 else length bytes mod 3 + 1)"
proof (induction bytes rule: b64_sextets.induct)
  case (1 a b c rest)
  have "(3 + length rest) div 3 = Suc (length rest div 3)" by simp
  with 1 show ?case by simp
qed simp_all

lemma unat_b64_unit:
  "n < 64 \<Longrightarrow> unat (of_nat (of_char (b64_char n)) :: code_unit) =
     (if n < 26 then 65 + n else if n < 52 then 71 + n else if n < 62 then n - 4 else if n = 62 then 43 else 47)"
  by (simp add: b64_char_def of_char_of unat_of_nat)

lemma b64_value_unit: "n < 64 \<Longrightarrow> b64_value (b64_unit n) = Some n"
  by (simp add: b64_value_def b64_unit_def unat_b64_unit Let_def) arith

lemma b64_unit_not_special:
  "n < 64 \<Longrightarrow> \<not> is_ascii_whitespace (b64_unit n) \<and> b64_unit n \<noteq> 0x3D"
proof -
  assume n: "n < 64"
  have "unat (b64_unit n) \<notin> {9, 10, 12, 13, 32, 61}"
    using n by (simp add: b64_unit_def unat_b64_unit) arith
  then show ?thesis
    by (auto simp: is_ascii_whitespace_def)
qed

lemma js_str_of_base64:
  "js_str_of (base64_encode bytes) =
     map b64_unit (b64_sextets bytes) @ replicate ((3 - length bytes mod 3) mod 3) 0x3D"
  by (simp add: js_str_of_def base64_encode_def b64_unit_def comp_def)

lemma drop_no_pad:
  "0x3D \<notin> set xs \<Longrightarrow> drop k (xs :: js_str) \<noteq> [0x3D] \<and> drop k xs \<noteq> [0x3D, 0x3D]"
  by (metis in_set_dropD list.set_intros(1))

lemma atob_padded:
  assumes "0x3D \<notin> set xs" "\<forall>u \<in> set xs. \<not> is_ascii_whitespace u \<and> b64_value u \<noteq> None"
    "p \<le> 2" "(length xs + p) mod 4 = 0" "length xs mod 4 \<noteq> 1" "xs \<noteq> [] \<or> p = 0"
  shows "atob (xs @ replicate p 0x3D) = Some (b64_bytes (map (\<lambda>u. the (b64_value u)) xs))"
proof -
  have ws: "\<not> is_ascii_whitespace (0x3D :: code_unit)" by (simp add: is_ascii_whitespace_def)
  have f: "filter (\<lambda>u. \<not> is_ascii_whitespace u) (xs @ replicate p 0x3D) = xs @ replicate p 0x3D"
    using assms(2) ws by (simp add: filter_id_conv)
  consider "p = 0" | "p = 1" | "p = 2" using assms(3) by linarith
  then have trim:
    "(if drop (length (xs @ replicate p 0x3D) - 2) (xs @ replicate p 0x3D) = [0x3D, 0x3D]
      then take (length (xs @ replicate p 0x3D) - 2) (xs @ replicate p 0x3D)
      else if drop (length (xs @ replicate p 0x3D) - 1) (xs @ replicate p 0x3D) = [0x3D]
      then take (length (xs @ replicate p 0x3D) - 1) (xs @ replicate p 0x3D)
      else xs @ replicate p 0x3D) = xs"
  proof cases
    case 1
    then show ?thesis using drop_no_pad[OF assms(1)] by simp
  next
    case 2
    then have "xs \<noteq> []" using assms(6) by simp
    then obtain ys y where xs: "xs = ys @ [y]" by (metis rev_exhaust)
    then have "y \<noteq> 0x3D" using assms(1) by auto
    then show ?thesis using 2 by (simp add: xs)
  next
    case 3
    then show ?thesis by (simp add: numeral_2_eq_2)
  qed
  show ?thesis
    using assms(2,4,5) unfolding atob_def Let_def f
    by (simp only: trim if_True) (simp add: list_all_iff)
qed

lemma b64_sextets_length_mod:
  "(length (b64_sextets bytes) + (3 - length bytes mod 3) mod 3) mod 4 = 0 \<and>
   length (b64_sextets bytes) mod 4 \<noteq> 1"
proof -
  consider "length bytes mod 3 = 0" | "length bytes mod 3 = 1" | "length bytes mod 3 = 2" by linarith
  then show ?thesis
    by cases (simp_all add: length_b64_sextets mod_Suc)
qed

lemma atob_base64:
  assumes "list_all (\<lambda>b. b < 256) bytes"
  shows "atob (js_str_of (base64_encode bytes)) = Some bytes"
proof -
  let ?xs = "map b64_unit (b64_sextets bytes)"
  have bound: "\<And>x. x \<in> set (b64_sextets bytes) \<Longrightarrow> x < 64" using b64_sextets_bound[OF assms] .
  have pad: "0x3D \<notin> set ?xs" using bound b64_unit_not_special by fastforce
  have vals: "\<forall>u \<in> set ?xs. \<not> is_ascii_whitespace u \<and> b64_value u \<noteq> None"
    using bound b64_unit_not_special b64_value_unit by fastforce
  have ne: "?xs \<noteq> [] \<or> (3 - length bytes mod 3) mod 3 = 0"
    by (cases bytes rule: b64_sextets.cases) simp_all
  have sextets: "map (\<lambda>u. the (b64_value u)) ?xs = b64_sextets bytes"
    unfolding map_map by (rule map_idI) (simp add: bound b64_value_unit)
  have lens: "(length ?xs + (3 - length bytes mod 3) mod 3) mod 4 = 0" "length ?xs mod 4 \<noteq> 1"
    using b64_sextets_length_mod[of bytes] by simp_all
  have "atob (?xs @ replicate ((3 - length bytes mod 3) mod 3) 0x3D)
        = Some (b64_bytes (map (\<lambda>u. the (b64_value u)) ?xs))"
    by (rule atob_padded[OF pad vals _ lens ne]) simp
  then show ?thesis
    by (simp only: js_str_of_base64 sextets b64_bytes_sextets[OF assms])
qed

subsection \<open>UTF-8 decodes what it encodes\<close>

lemma cont_byte: "r < 64 \<Longrightarrow> is_cont (0x80 + r) \<and> 0x80 + r - 0x80 = r"
  by (simp add: is_cont_def)

lemma utf8_decode_2:
  "2 \<le> q \<Longrightarrow> q < 32 \<Longrightarrow> r < 64 \<Longrightarrow>
   utf8_decode ((0xC0 + q) # (0x80 + r) # rest) = map_option (Cons (q * 64 + r)) (utf8_decode rest)"
  by (simp add: cont_byte)

lemma utf8_decode_3:
  "q < 16 \<Longrightarrow> r < 64 \<Longrightarrow> s < 64 \<Longrightarrow>
   utf8_decode ((0xE0 + q) # (0x80 + r) # (0x80 + s) # rest) =
     (if 0x800 \<le> q * 4096 + r * 64 + s \<and> \<not> (0xD800 \<le> q * 4096 + r * 64 + s \<and> q * 4096 + r * 64 + s < 0xE000)
      then map_option (Cons (q * 4096 + r * 64 + s)) (utf8_decode rest) else None)"
  by (simp add: cont_byte Let_def)

lemma utf8_decode_4:
  "q < 5 \<Longrightarrow> r < 64 \<Longrightarrow> s < 64 \<Longrightarrow> t < 64 \<Longrightarrow>
   utf8_decode ((0xF0 + q) # (0x80 + r) # (0x80 + s) # (0x80 + t) # rest) =
     (if 0x10000 \<le> q * 0x40000 + r * 4096 + s * 64 + t \<and> q * 0x40000 + r * 4096 + s * 64 + t < 0x110000
      then map_option (Cons (q * 0x40000 + r * 4096 + s * 64 + t)) (utf8_decode rest) else None)"
  by (simp add: cont_byte Let_def)

lemma recombine_64:
  "(n::nat) div 4096 * 4096 + n div 64 mod 64 * 64 + n mod 64 = n"
  "n div 0x40000 * 0x40000 + n div 4096 mod 64 * 4096 + n div 64 mod 64 * 64 + n mod 64 = n"
proof -
  have a: "n div 4096 = n div 64 div 64" "n div 0x40000 = n div 4096 div 64"
    using div_mult2_eq[of n 64 64] div_mult2_eq[of n 4096 64] by simp_all
  have b: "n div 64 = n div 64 div 64 * 64 + n div 64 mod 64" "n = n div 64 * 64 + n mod 64"
    "n div 4096 = n div 4096 div 64 * 64 + n div 4096 mod 64" by simp_all
  show "n div 4096 * 4096 + n div 64 mod 64 * 64 + n mod 64 = n"
    using a b by linarith
  show "n div 0x40000 * 0x40000 + n div 4096 mod 64 * 4096 + n div 64 mod 64 * 64 + n mod 64 = n"
    using a b by linarith
qed

lemma utf8_decode_unit:
  assumes "valid_cp cp"
  shows "utf8_decode (utf8_of_code_point cp @ rest) = map_option (Cons cp) (utf8_decode rest)"
proof -
  have m: "cp mod 64 < 64" "cp div 64 mod 64 < 64" "cp div 4096 mod 64 < 64" by simp_all
  consider "cp < 0x80" | "0x80 \<le> cp" "cp < 0x800" | "0x800 \<le> cp" "cp < 0x10000" | "0x10000 \<le> cp" "cp < 0x110000"
    using assms unfolding valid_cp_def by linarith
  then show ?thesis
  proof cases
    case 1
    then show ?thesis by (simp add: utf8_of_code_point_def)
  next
    case 2
    have q: "2 \<le> cp div 64" "cp div 64 < 32"
      using 2 by (simp_all add: less_eq_div_iff_mult_less_eq div_less_iff_less_mult)
    have u: "utf8_of_code_point cp = [0xC0 + cp div 64, 0x80 + cp mod 64]"
      using 2 by (simp add: utf8_of_code_point_def)
    have "cp div 64 * 64 + cp mod 64 = cp" by simp
    then show ?thesis
      by (simp only: u append_Cons append_Nil utf8_decode_2[OF q m(1)])
  next
    case 3
    have q: "cp div 4096 < 16" using 3 by (simp add: div_less_iff_less_mult)
    have u: "utf8_of_code_point cp = [0xE0 + cp div 4096, 0x80 + cp div 64 mod 64, 0x80 + cp mod 64]"
      using 3 by (simp add: utf8_of_code_point_def)
    note recombine_64(1)[of cp]
    then show ?thesis using 3 assms
      by (simp only: u append_Cons append_Nil utf8_decode_3[OF q m(2,1)]) (simp add: valid_cp_def)
  next
    case 4
    have q: "cp div 0x40000 < 5" using 4 by (simp add: div_less_iff_less_mult)
    have u: "utf8_of_code_point cp =
        [0xF0 + cp div 0x40000, 0x80 + cp div 4096 mod 64, 0x80 + cp div 64 mod 64, 0x80 + cp mod 64]"
      using 4 by (simp add: utf8_of_code_point_def)
    note recombine_64(2)[of cp]
    then show ?thesis using 4
      by (simp only: u append_Cons append_Nil utf8_decode_4[OF q m(3,2,1)]) simp
  qed
qed

lemma utf8_decode_encode:
  "list_all valid_cp cps \<Longrightarrow> utf8_decode (concat (map utf8_of_code_point cps)) = Some cps"
  by (induction cps) (simp_all add: utf8_decode_unit)

lemma utf8_bytes:
  assumes "valid_cp cp"
  shows "list_all (\<lambda>b. b < 256) (utf8_of_code_point cp)"
proof -
  have "cp div 64 < 64" if "cp < 0x800" using that by (simp add: div_less_iff_less_mult)
  moreover have "cp div 4096 < 32" if "cp < 0x10000" using that by (simp add: div_less_iff_less_mult)
  moreover have "cp div 0x40000 < 16" using assms by (simp add: valid_cp_def div_less_iff_less_mult)
  moreover have "cp mod 64 < 128" "cp div 64 mod 64 < 128" "cp div 4096 mod 64 < 128"
    by (simp_all add: order.strict_trans[OF pos_mod_bound])
  ultimately show ?thesis by (simp add: utf8_of_code_point_def)
qed

lemma unat_code_unit: "unat (u :: code_unit) < 0x10000"
  using unsigned_less[of u] by simp

lemma utf16_bmp:
  "\<not> is_high_surrogate u \<Longrightarrow> \<not> is_low_surrogate u \<Longrightarrow> valid_cp (unat u) \<and> utf16_of_code_point (unat u) = [u]"
  using unat_code_unit[of u]
  by (auto simp: valid_cp_def utf16_of_code_point_def is_high_surrogate_def is_low_surrogate_def)

lemma utf16_pair:
  assumes "is_high_surrogate u" "is_low_surrogate v"
  shows "valid_cp (0x10000 + (unat u - 0xD800) * 0x400 + (unat v - 0xDC00)) \<and>
    utf16_of_code_point (0x10000 + (unat u - 0xD800) * 0x400 + (unat v - 0xDC00)) = [u, v]"
proof -
  have hi: "0xD800 \<le> unat u" "unat u < 0xDC00" and lo: "0xDC00 \<le> unat v" "unat v < 0xE000"
    using assms by (simp_all add: is_high_surrogate_def is_low_surrogate_def)
  let ?a = "unat u - 0xD800" and ?b = "unat v - 0xDC00"
  have ab: "?a < 0x400" "?b < 0x400" using hi lo by simp_all
  have "(?a * 0x400 + ?b) div 0x400 = ?a" "(?a * 0x400 + ?b) mod 0x400 = ?b" using ab by simp_all
  then show ?thesis using hi lo ab by (simp add: valid_cp_def utf16_of_code_point_def)
qed

lemma code_points_sound:
  "code_points t = Some cps \<Longrightarrow> list_all valid_cp cps \<and> concat (map utf16_of_code_point cps) = t"
proof (induction t arbitrary: cps rule: code_points.induct)
  case 1
  then show ?case by simp
next
  case (2 u)
  then show ?case by (auto simp: utf16_bmp split: if_splits)
next
  case (3 u v rest)
  then show ?case by (auto simp: utf16_bmp utf16_pair split: if_splits)
qed

lemma from_to_base64:
  assumes "code_points t \<noteq> None"
  shows "from_base64 (to_base64 t) = t"
proof -
  obtain cps where cps: "code_points t = Some cps" using assms by blast
  have valid: "list_all valid_cp cps" and t: "concat (map utf16_of_code_point cps) = t"
    using code_points_sound[OF cps] by simp_all
  have bytes: "list_all (\<lambda>b. b < 256) (concat (map utf8_of_code_point cps))"
    using valid utf8_bytes by (auto simp: list_all_iff)
  show ?thesis
    by (simp add: to_base64_def from_base64_def cps atob_base64[OF bytes] utf8_decode_encode[OF valid] t)
qed

text \<open>
  C15. Encryption round trip: for every text without a lone surrogate and every key of
  ASCII characters (the default key among them), \<open>decrypt(encrypt(text, key), key)\<close>
  gives back the text: the XOR step keeps every code unit's surrogate class, so the
  UTF-8 and Base64 steps of \<open>toBase64\<close> do not throw, and \<open>fromBase64\<close> undoes them.
\<close>

theorem decrypt_encrypt:
  assumes "ascii_key k" "code_points t \<noteq> None"
  shows "decrypt (encrypt t k) k = t"
proof -
  have "code_points (xor_encrypt t k) \<noteq> None"
    using assms(2) code_points_None_classes[OF xor_encrypt_classes[OF assms(1)]] by simp
  then show ?thesis
    by (simp add: encrypt_def decrypt_def from_to_base64 xor_decrypt_def xor_encrypt_involution)
qed

theorem decrypt_encrypt_witness:
  "decrypt (encrypt (js_str_of ''Pixel 7'') default_key) default_key = js_str_of ''Pixel 7''"
  by (rule decrypt_encrypt) (simp_all add: ascii_key_def default_key_def js_str_of_def
      is_high_surrogate_def is_low_surrogate_def)

subsection \<open>Masking\<close>

lemma mask_sensitive_shape:
  assumes "visible * 2 < length text"
  shows "take visible (mask_sensitive text visible) = take visible text \<and>
    drop (length (mask_sensitive text visible) - visible) (mask_sensitive text visible) =
      drop (length text - visible) text \<and>
    length (mask_sensitive text visible) = 2 * visible + 3 * min 10 (length text - 2 * visible)"
  using assms by (auto simp: mask_sensitive_def mask_bullet_def length_concat sum_list_replicate mult.commute)

end
