(* ===== verification/Sms.thy ===== *)
theory Sms
  imports Complex_Main Csv
begin

text \<open>
  SMS access, in three layers: the native module
  (\<open>src/src/native-modules/NativeSmsAccess.js\<close>), which on Android generates sample
  messages and threads in place of the device's; the \<open>useMessageService\<close> hook
  (\<open>src/unnamed/part_006\<close>, lines 285-504), which guards every call by the
  availability and permission it found at start-up and exports messages as CSV; and
  the older message service (\<open>src/unnamed/part_005\<close>).

  \<open>Platform.OS\<close> is a parameter. \<open>Math.random()\<close> is a stream of rationals in
  \<open>[0, 1)\<close>, the \<open>k\<close>-th call reading the \<open>k\<close>-th element, and \<open>Date.now()\<close> a
  number of milliseconds; \<open>Date.prototype.toISOString\<close> is modelled from ECMAScript
  (the civil calendar of days since 1970-01-01) for time values it accepts.
  \<open>Array.prototype.sort\<close> is stable, as ECMAScript requires, so a sort by a numeric
  comparator is \<open>sort_key\<close>.
\<close>

datatype platform = Android | Ios | Web

record sms =
  sms_id :: string
  sms_address :: "string option"
  sms_timestamp :: int
  sms_date :: "string option"
  sms_body :: "string option"
  sms_read :: bool
  sms_type :: "string option"

record sms_thread =
  th_id :: string
  th_message_count :: nat
  th_snippet :: string
  th_timestamp :: int
  th_date :: string
  th_addresses :: "string list"

subsection \<open>Dates\<close>

text \<open>The civil date (year, month, day) of a day number, days counted from 1970-01-01.\<close>

definition civil_from_days :: "int \<Rightarrow> int \<times> int \<times> int" where
  "civil_from_days z0 =
     (let z = z0 + 719468; era = z div 146097; doe = z - era * 146097;
          yoe = (doe - doe div 1460 + doe div 36524 - doe div 146096) div 365;
          doy = doe - (365 * yoe + yoe div 4 - yoe div 100);
          mp = (5 * doy + 2) div 153;
          d = doy - (153 * mp + 2) div 5 + 1;
          m = (if mp < 10 then mp + 3 else mp - 9);
          y = yoe + era * 400
      in (if m \<le> 2 then y + 1 else y, m, d))"

definition pad_int :: "nat \<Rightarrow> int \<Rightarrow> string" where
  "pad_int n i = pad_start n CHR ''0'' (digits_of_nat (nat i))"

text \<open>\<open>new Date(t).toISOString()\<close>: years outside 0-9999 get a sign and six digits.\<close>

definition iso_string :: "int \<Rightarrow> string" where
  "iso_string t =
     (let days = t div 86400000; ms = t mod 86400000; (y, m, d) = civil_from_days days;
          year = (if 0 \<le> y \<and> y \<le> 9999 then pad_int 4 y
                  else (if y < 0 then CHR ''-'' else CHR ''+'') # pad_int 6 \<bar>y\<bar>)
      in year @ ''-'' @ pad_int 2 m @ ''-'' @ pad_int 2 d @ ''T'' @ pad_int 2 (ms div 3600000)
         @ '':'' @ pad_int 2 (ms div 60000 mod 60) @ '':'' @ pad_int 2 (ms div 1000 mod 60)
         @ ''.'' @ pad_int 3 (ms mod 1000) @ ''Z'')"

text \<open>\<open>s.replace('T', ' ')\<close> replaces the first \<open>T\<close> only.\<close>

fun replace_first :: "char \<Rightarrow> char \<Rightarrow> string \<Rightarrow> string" where
  "replace_first a b [] = []"
| "replace_first a b (c # cs) = (if c = a then b # cs else c # replace_first a b cs)"

text \<open>\<open>date.toISOString().replace('T', ' ').substr(0, 19)\<close>.\<close>

definition sms_date_text :: "int \<Rightarrow> string" where
  "sms_date_text t = take 19 (replace_first CHR ''T'' CHR '' '' (iso_string t))"

subsection \<open>The native module\<close>

definition initialize_native_sms_access :: "platform \<Rightarrow> string + bool \<Rightarrow> bool" where
  "initialize_native_sms_access p available =
     (if p \<noteq> Android then False else (case available of Inl _ \<Rightarrow> False | Inr a \<Rightarrow> a))"

definition request_sms_permission :: "platform \<Rightarrow> bool" where
  "request_sms_permission p = (p = Android)"

definition sample_numbers :: "string list" where
  "sample_numbers = [''+1234567890'', ''+1987654321'', ''+12223334444'']"

text \<open>\<open>(a, b) => b.timestamp - a.timestamp\<close>: newest first, equal times in their order.\<close>

definition newest_first :: "('a \<Rightarrow> int) \<Rightarrow> 'a list \<Rightarrow> 'a list" where
  "newest_first ts xs = sort_key (\<lambda>x. - ts x) xs"

text \<open>The \<open>i\<close>-th sample message reads four random numbers: direction, age, sender, read.\<close>

definition sample_sms :: "int \<Rightarrow> (nat \<Rightarrow> rat) \<Rightarrow> nat \<Rightarrow> sms" where
  "sample_sms now rnd i =
     (let inbox = rnd (4 * i) > 1 / 2;
          t = now - \<lfloor>rnd (4 * i + 1) * 604800000\<rfloor>;
          n = digits_of_nat (i + 1)
      in \<lparr>sms_id = n,
          sms_address = Some (sample_numbers ! nat \<lfloor>rnd (4 * i + 2) * 3\<rfloor>),
          sms_timestamp = t,
          sms_date = Some (sms_date_text t),
          sms_body = Some (''This is a sample '' @ (if inbox then ''received'' else ''sent'') @ '' message #''
                           @ n @ ''. It simulates what would be returned by the native module in a real implementation.''),
          sms_read = rnd (4 * i + 3) > 3 / 10,
          sms_type = Some (if inbox then ''inbox'' else ''sent'')\<rparr>)"

definition generate_sample_sms_data :: "int \<Rightarrow> (nat \<Rightarrow> rat) \<Rightarrow> nat \<Rightarrow> sms list" where
  "generate_sample_sms_data now rnd n = newest_first sms_timestamp (map (sample_sms now rnd) [0..<n])"

text \<open>The options object; \<open>None\<close> is an absent property, which takes the default.\<close>

record sms_options =
  opt_max_count :: "nat option"
  opt_include_inbox :: "bool option"
  opt_include_sent :: "bool option"
  opt_after_date :: "int option"
  opt_phone_filter :: "string option"

definition sms_filters :: "sms_options \<Rightarrow> sms list \<Rightarrow> sms list" where
  "sms_filters opts m0 =
     (let m1 = (if opt_include_inbox opts = Some False then filter (\<lambda>m. sms_type m \<noteq> Some ''inbox'') m0 else m0);
          m2 = (if opt_include_sent opts = Some False then filter (\<lambda>m. sms_type m \<noteq> Some ''sent'') m1 else m1);
          m3 = (case opt_after_date opts of
                  Some a \<Rightarrow> if a \<noteq> 0 then filter (\<lambda>m. sms_timestamp m > a) m2 else m2
                | None \<Rightarrow> m2)
      in case opt_phone_filter opts of
           Some ph \<Rightarrow> if ph \<noteq> [] then filter (\<lambda>m. sms_address m = Some ph) m3 else m3
         | None \<Rightarrow> m3)"

text \<open>The four filters as one test on a message.\<close>

definition sms_matches :: "sms_options \<Rightarrow> sms \<Rightarrow> bool" where
  "sms_matches opts m =
     ((if opt_include_inbox opts = Some False then sms_type m \<noteq> Some ''inbox'' else True)
      \<and> (if opt_include_sent opts = Some False then sms_type m \<noteq> Some ''sent'' else True)
      \<and> (case opt_after_date opts of Some a \<Rightarrow> if a \<noteq> 0 then sms_timestamp m > a else True | None \<Rightarrow> True)
      \<and> (case opt_phone_filter opts of Some ph \<Rightarrow> if ph \<noteq> [] then sms_address m = Some ph else True | None \<Rightarrow> True))"

definition native_get_sms_messages :: "platform \<Rightarrow> int \<Rightarrow> (nat \<Rightarrow> rat) \<Rightarrow> sms_options \<Rightarrow> sms list" where
  "native_get_sms_messages p now rnd opts =
     (if p \<noteq> Android then []
      else sms_filters opts (generate_sample_sms_data now rnd (case opt_max_count opts of None \<Rightarrow> 100 | Some n \<Rightarrow> n)))"

text \<open>Thread \<open>i\<close> reads two random numbers: age, then message count.\<close>

definition sample_thread :: "int \<Rightarrow> (nat \<Rightarrow> rat) \<Rightarrow> nat \<Rightarrow> string \<Rightarrow> sms_thread" where
  "sample_thread now rnd i phone =
     (let t = now - \<lfloor>rnd (2 * i) * 604800000\<rfloor>
      in \<lparr>th_id = digits_of_nat (i + 1),
          th_message_count = nat \<lfloor>rnd (2 * i + 1) * 50\<rfloor> + 5,
          th_snippet = ''Latest message in this conversation #'' @ digits_of_nat (i + 1),
          th_timestamp = t, th_date = sms_date_text t, th_addresses = [phone]\<rparr>)"

definition native_get_sms_threads :: "platform \<Rightarrow> int \<Rightarrow> (nat \<Rightarrow> rat) \<Rightarrow> sms_thread list" where
  "native_get_sms_threads p now rnd =
     (if p \<noteq> Android then []
      else newest_first th_timestamp (map (\<lambda>(i, ph). sample_thread now rnd i ph) (enumerate 0 sample_numbers)))"

definition thread_sms :: "int \<Rightarrow> string \<Rightarrow> nat \<Rightarrow> nat \<Rightarrow> sms" where
  "thread_sms now thread_id max_count i =
     (let inbox = even i; t = now - int (max_count - i) * 21600000
      in \<lparr>sms_id = thread_id @ ''_'' @ digits_of_nat (i + 1),
          sms_address = Some (''+1'' @ pad_start 10 CHR ''0'' thread_id),
          sms_timestamp = t,
          sms_date = Some (sms_date_text t),
          sms_body = Some ((if inbox then ''Received'' else ''Sent'') @ '' message #'' @ digits_of_nat (i + 1)
                           @ '' in thread '' @ thread_id @ ''.''),
          sms_read = t < now - 86400000,
          sms_type = Some (if inbox then ''inbox'' else ''sent'')\<rparr>)"

definition native_get_thread_messages :: "platform \<Rightarrow> int \<Rightarrow> string \<Rightarrow> nat \<Rightarrow> sms list" where
  "native_get_thread_messages p now thread_id max_count =
     (if p \<noteq> Android then []
      else newest_first sms_timestamp (map (thread_sms now thread_id max_count) [0..<max_count]))"

subsection \<open>The \<open>useMessageService\<close> hook\<close>

record sms_hook =
  h_available :: bool
  h_loading :: bool
  h_permission :: bool
  h_error :: "string option"

definition sms_hook_init :: sms_hook where
  "sms_hook_init = \<lparr>h_available = False, h_loading = False, h_permission = False, h_error = None\<rparr>"

text \<open>The start-up effect: \<open>SMS.isAvailableAsync()\<close> resolves with \<open>Inr\<close> or rejects.\<close>

definition sms_hook_start :: "platform \<Rightarrow> string + bool \<Rightarrow> sms_hook \<Rightarrow> sms_hook" where
  "sms_hook_start p available st =
     (case available of
        Inl _ \<Rightarrow> st
      | Inr a \<Rightarrow>
          if a \<and> p = Android then st\<lparr>h_available := a, h_permission := request_sms_permission p\<rparr>
          else st\<lparr>h_available := a\<rparr>)"

text \<open>The shape shared by \<open>getSmsMessages\<close>, \<open>getSmsThreads\<close> and \<open>getThreadMessages\<close>:
  clear the error, check availability and permission, call the native module; a
  failure is recorded in \<open>error\<close> with the caller's prefix and resolves \<open>[]\<close>.\<close>

definition hook_call :: "string \<Rightarrow> sms_hook \<Rightarrow> 'a list \<Rightarrow> sms_hook \<times> 'a list" where
  "hook_call what st result =
     (let fail = (\<lambda>m. (st\<lparr>h_loading := False, h_error := Some (''Failed to get '' @ what @ '': '' @ m)\<rparr>, []))
      in if \<not> h_available st then fail ''SMS functionality is not available on this device''
         else if \<not> h_permission st then fail ''SMS permission not granted''
         else (st\<lparr>h_loading := False, h_error := None\<rparr>, result))"

definition hook_get_sms_messages ::
  "platform \<Rightarrow> int \<Rightarrow> (nat \<Rightarrow> rat) \<Rightarrow> sms_hook \<Rightarrow> sms_options \<Rightarrow> sms_hook \<times> sms list" where
  "hook_get_sms_messages p now rnd st opts = hook_call ''SMS messages'' st (native_get_sms_messages p now rnd opts)"

definition hook_get_sms_threads :: "platform \<Rightarrow> int \<Rightarrow> (nat \<Rightarrow> rat) \<Rightarrow> sms_hook \<Rightarrow> sms_hook \<times> sms_thread list" where
  "hook_get_sms_threads p now rnd st = hook_call ''SMS threads'' st (native_get_sms_threads p now rnd)"

definition hook_get_thread_messages ::
  "platform \<Rightarrow> int \<Rightarrow> sms_hook \<Rightarrow> string \<Rightarrow> nat \<Rightarrow> sms_hook \<times> sms list" where
  "hook_get_thread_messages p now st thread_id max_count =
     hook_call ''thread messages'' st (native_get_thread_messages p now thread_id max_count)"

text \<open>The CSV cells of a message; \<open>undefined.replace\<close> throws when a field is absent.\<close>

definition sms_cells :: "sms \<Rightarrow> string list option" where
  "sms_cells m =
     (case (sms_address m, sms_type m, sms_date m, sms_body m) of
        (Some a, Some t, Some d, Some b) \<Rightarrow> Some [a, t, d, b]
      | _ \<Rightarrow> None)"

definition sms_csv_header :: string where
  "sms_csv_header = ''Address,Type,Date,Body\<newline>''"

definition sms_csv_content :: "sms list \<Rightarrow> string option" where
  "sms_csv_content msgs =
     (if list_all (\<lambda>m. sms_cells m \<noteq> None) msgs
      then Some (sms_csv_header @ concat (map (\<lambda>m. js_join CHR '','' (map (\<lambda>v. csv_quote (csv_escape v))
                                                   (the (sms_cells m))) @ ''\<newline>'') msgs))
      else None)"

text \<open>\<open>formatSmsAsCSV\<close> of the hook: the path of the written file, or \<open>null\<close>.\<close>

definition hook_format_sms_as_csv :: "'k expo_fs \<Rightarrow> int \<Rightarrow> sms list \<Rightarrow> string option" where
  "hook_format_sms_as_csv fs now msgs =
     (if msgs = [] then None
      else case sms_csv_content msgs of
             None \<Rightarrow> None
           | Some csv \<Rightarrow>
               (case create_temp_file fs csv (''sms_export_'' @ digits_of_nat (nat now) @ ''.csv'') of
                  Inl _ \<Rightarrow> None
                | Inr path \<Rightarrow> Some path))"

text \<open>\<open>v || ''\<close> for a string property.\<close>

definition js_or_empty :: "string option \<Rightarrow> string" where
  "js_or_empty v = (case v of Some s \<Rightarrow> s | None \<Rightarrow> [])"

text \<open>A template literal prints an absent field as \<open>undefined\<close>.\<close>

definition js_template :: "string option \<Rightarrow> string" where
  "js_template v = (case v of Some s \<Rightarrow> s | None \<Rightarrow> ''undefined'')"

definition hook_format_sms_as_text :: "sms list \<Rightarrow> nat \<Rightarrow> string" where
  "hook_format_sms_as_text msgs limit =
     (if msgs = [] then ''No messages available''
      else js_join_str ''\<newline>''
             (map (\<lambda>m. (if sms_type m = Some ''inbox'' then ''From'' else ''To'') @ '': '' @ js_template (sms_address m)
                       @ ''\<newline>Date: '' @ js_template (sms_date m) @ ''\<newline>'' @ js_template (sms_body m)
                       @ ''\<newline>'' @ replicate 40 CHR ''-'')
                  (take limit msgs)))"

subsection \<open>The message service\<close>

text \<open>The older service reads messages of another shape: numeric \<open>type\<close> (1 is inbox)
  and \<open>date_sent\<close> or \<open>date\<close> as time values.\<close>

record mock_sms =
  ms_id :: string
  ms_address :: "string option"
  ms_body :: "string option"
  ms_date_sent :: "int option"
  ms_date :: "int option"
  ms_type :: "int option"

definition is_sms_available :: "string + bool \<Rightarrow> bool" where
  "is_sms_available available = (case available of Inl _ \<Rightarrow> False | Inr a \<Rightarrow> a)"

text \<open>\<open>getSmsMessages\<close> of the service: a placeholder that resolves \<open>[]\<close> when SMS is
  available and rejects otherwise.\<close>

definition service_get_sms_messages :: "string + bool \<Rightarrow> string + mock_sms list" where
  "service_get_sms_messages available =
     (if \<not> is_sms_available available then Inl ''SMS functionality not available on this device'' else Inr [])"

text \<open>\<open>x ? new Date(x).toLocaleString() : ...\<close>, the locale's format a parameter.\<close>

definition ms_date_text :: "(int \<Rightarrow> string) \<Rightarrow> mock_sms \<Rightarrow> string" where
  "ms_date_text locale m =
     (case ms_date_sent m of
        Some t \<Rightarrow> if t \<noteq> 0 then locale t else (case ms_date m of Some d \<Rightarrow> if d \<noteq> 0 then locale d else [] | None \<Rightarrow> [])
      | None \<Rightarrow> (case ms_date m of Some d \<Rightarrow> if d \<noteq> 0 then locale d else [] | None \<Rightarrow> []))"

definition ms_type_text :: "mock_sms \<Rightarrow> string" where
  "ms_type_text m = (if ms_type m = Some 1 then ''Inbox'' else ''Sent'')"

text \<open>One row: the address is put between quotes as it is, the body with its quotes doubled.\<close>

definition service_sms_row :: "(int \<Rightarrow> string) \<Rightarrow> mock_sms \<Rightarrow> string" where
  "service_sms_row locale m =
     js_join CHR '','' (map csv_quote [js_or_empty (ms_address m), csv_escape (js_or_empty (ms_body m)),
                                      ms_date_text locale m, ms_type_text m]) @ ''\<newline>''"

definition service_export_name :: "int \<Rightarrow> string" where
  "service_export_name now =
     ''sms_export_'' @ map (\<lambda>c. if c = CHR '':'' \<or> c = CHR ''.'' then CHR ''-'' else c) (iso_string now) @ ''.csv''"

definition service_format_sms_as_csv ::
  "'k expo_fs \<Rightarrow> (int \<Rightarrow> string) \<Rightarrow> int \<Rightarrow> mock_sms list option \<Rightarrow> string + string option" where
  "service_format_sms_as_csv fs locale now messages =
     (case messages of
        None \<Rightarrow> Inr None
      | Some msgs \<Rightarrow>
          (let csv = js_join CHR '','' (map csv_quote [''From/To'', ''Message'', ''Date'', ''Type'']) @ ''\<newline>''
                     @ concat (map (service_sms_row locale) msgs);
               path = cache_directory fs @ service_export_name now
           in case write_string fs path csv of None \<Rightarrow> Inr (Some path) | Some e \<Rightarrow> Inl e))"

definition mock_senders :: "string list" where
  "mock_senders = [''+1234567890'', ''+9876543210'', ''+1122334455'']"

definition generate_mock_sms_data :: "nat \<Rightarrow> int \<Rightarrow> mock_sms list" where
  "generate_mock_sms_data n now =
     map (\<lambda>i. \<lparr>ms_id = digits_of_nat i, ms_address = Some (mock_senders ! (i mod 3)),
               ms_body = Some (''This is a sample message #'' @ digits_of_nat (i + 1) @ '' for testing purposes.''),
               ms_date_sent = Some (now - int i * 3600000), ms_date = None,
               ms_type = Some ([1, 2] ! (i mod 2))\<rparr>) [0..<n]"

text \<open>A message for the witnesses below.\<close>

definition demo_sms :: sms where
  "demo_sms =
     \<lparr>sms_id = ''1'', sms_address = Some ''+1234567890'', sms_timestamp = 0,
      sms_date = Some ''1970-01-01 00:00:00'', sms_body = Some (''say '' @ [CHR 0x22] @ ''hi'' @ [CHR 0x22] @ '', ok''),
      sms_read = False, sms_type = Some ''inbox''\<rparr>"

subsection \<open>Lemmas\<close>

lemma newest_first_rev:
  assumes "sorted_wrt (<) (map ts xs)"
  shows "newest_first ts xs = rev xs"
proof -
  have "distinct (map ts xs)" using assms by (simp add: strict_sorted_iff)
  then have inj: "inj_on (\<lambda>x. - ts x) (set (rev xs))" by (auto simp: inj_on_def distinct_map)
  have "sorted_wrt (\<lambda>x y. ts x < ts y) xs" using assms by (simp add: sorted_wrt_map)
  then have "sorted_wrt (\<lambda>x y. - ts y \<le> - ts x) xs" by (rule sorted_wrt_mono_rel[rotated]) simp
  then have sorted: "sorted (map (\<lambda>x. - ts x) (rev xs))" by (simp add: sorted_wrt_map sorted_wrt_rev)
  have "newest_first ts xs = fold (insort_key (\<lambda>x. - ts x)) (rev xs) []"
    by (simp add: newest_first_def sort_key_def foldr_conv_fold)
  also have "\<dots> = sort_key (\<lambda>x. - ts x) (rev xs)" using sort_key_conv_fold[OF inj] by simp
  also have "\<dots> = rev xs" using sorted by (rule sort_key_id_if_sorted)
  finally show ?thesis .
qed

lemma thread_sms_increasing:
  "sorted_wrt (<) (map sms_timestamp (map (thread_sms now tid k) [0..<k]))"
  by (simp add: sorted_wrt_iff_nth_less thread_sms_def Let_def)

lemma sms_filters_eq: "sms_filters opts xs = filter (sms_matches opts) xs"
  by (auto simp: sms_filters_def sms_matches_def Let_def split: option.split intro!: filter_cong)

lemma sorted_newest_first: "sorted_wrt (\<ge>) (map ts (newest_first ts xs))"
proof -
  have "sorted (map (\<lambda>x. - ts x) (newest_first ts xs))" by (simp add: newest_first_def)
  then show ?thesis by (simp add: sorted_wrt_map sorted_wrt_mono_rel)
qed

lemma sorted_wrt_filter_map:
  "sorted_wrt R (map f xs) \<Longrightarrow> sorted_wrt R (map f (filter P xs))"
  by (simp add: sorted_wrt_map sorted_wrt_filter)

lemma sms_csv_content_Some:
  "\<forall>m \<in> set msgs. sms_cells m \<noteq> None \<Longrightarrow>
   sms_csv_content msgs = Some (sms_csv_header @ concat (map (\<lambda>m. js_join CHR '','' (map (\<lambda>v. csv_quote (csv_escape v))
                                                   (the (sms_cells m))) @ ''\<newline>'') msgs))"
  by (simp add: sms_csv_content_def list_all_iff)

lemma sms_cells_ne: "sms_cells m = Some cs \<Longrightarrow> cs \<noteq> []"
  by (auto simp: sms_cells_def split: option.splits)

text \<open>
  The native module's messages are the sample filtered by the options: the
  four successive filters of \<open>getSmsMessages\<close> keep exactly the messages that pass
  all four tests, in the generator's order, which is newest first.
\<close>

theorem native_sms_messages_filtered:
  "native_get_sms_messages Android now rnd opts =
     filter (sms_matches opts) (generate_sample_sms_data now rnd (case opt_max_count opts of None \<Rightarrow> 100 | Some n \<Rightarrow> n))
   \<and> sorted_wrt (\<ge>) (map sms_timestamp (native_get_sms_messages Android now rnd opts))"
  using sorted_wrt_filter_map[OF sorted_newest_first[of sms_timestamp]]
  by (simp add: native_get_sms_messages_def sms_filters_eq generate_sample_sms_data_def)

text \<open>
  The messages of a thread are the \<open>maxCount\<close> messages built for it, newest
  first: the sort by descending time stamp reverses the order in which they are built.
\<close>

theorem native_thread_messages_newest_first:
  "native_get_thread_messages Android now tid k = rev (map (thread_sms now tid k) [0..<k])"
  by (simp add: native_get_thread_messages_def newest_first_rev[OF thread_sms_increasing])

text \<open>
  The hook reads messages only on Android with SMS available: after its start-up
  effect, \<open>getSmsMessages\<close> returns the native module's messages when the platform
  is Android and \<open>SMS.isAvailableAsync\<close> resolved \<open>true\<close>, and \<open>[]\<close> (with an error
  recorded) on every other platform or answer.
\<close>

theorem sms_hook_android_only:
  "snd (hook_get_sms_messages p now rnd (sms_hook_start p avail sms_hook_init) opts) =
     (if p = Android \<and> avail = Inr True then native_get_sms_messages Android now rnd opts else [])"
  by (auto simp: hook_get_sms_messages_def hook_call_def sms_hook_start_def sms_hook_init_def
      request_sms_permission_def Let_def split: sum.split)

text \<open>
  The hook's SMS export reads back as the table. For a non-empty list of messages
  that all have an address, a type, a date and a body, \<open>formatSmsAsCSV\<close> writes the
  export under the cache directory and resolves with its path, and a reader of the
  file gets the four column names and each message's four fields.
\<close>

theorem hook_sms_csv_reads_back:
  assumes "msgs \<noteq> []" "\<forall>m \<in> set msgs. sms_cells m \<noteq> None"
    "write_string fs (cache_directory fs @ ''sms_export_'' @ digits_of_nat (nat now) @ ''.csv'') (the (sms_csv_content msgs)) = None"
  shows "hook_format_sms_as_csv fs now msgs = Some (cache_directory fs @ ''sms_export_'' @ digits_of_nat (nat now) @ ''.csv'')
    \<and> csv_read (the (sms_csv_content msgs)) = Some ([''Address'', ''Type'', ''Date'', ''Body''] # map (\<lambda>m. the (sms_cells m)) msgs)"
proof
  show "hook_format_sms_as_csv fs now msgs = Some (cache_directory fs @ ''sms_export_'' @ digits_of_nat (nat now) @ ''.csv'')"
    using assms sms_csv_content_Some[OF assms(2)]
    by (simp add: hook_format_sms_as_csv_def create_temp_file_def temp_file_path_def)
next
  have ne: "\<forall>r \<in> set (map (\<lambda>m. the (sms_cells m)) msgs). r \<noteq> []"
    using assms(2) sms_cells_ne by fastforce
  have cols: "\<forall>v \<in> set [''Address'', ''Type'', ''Date'', ''Body'']. set v \<inter> {CHR 0x22, CHR '','', CHR 0x0A} = {}"
    by simp
  have hdr: "sms_csv_header = js_join CHR '','' [''Address'', ''Type'', ''Date'', ''Body''] @ [CHR 0x0A]"
    by (simp add: sms_csv_header_def)
  show "csv_read (the (sms_csv_content msgs)) = Some ([''Address'', ''Type'', ''Date'', ''Body''] # map (\<lambda>m. the (sms_cells m)) msgs)"
    unfolding sms_csv_content_Some[OF assms(2)] option.sel hdr csv_read_def
    using csv_parse_plain_fields[OF _ cols, of "[]" "[]"]
      csv_parse_quoted_rows[OF ne, of "[[''Address'', ''Type'', ''Date'', ''Body'']]"]
    by (simp add: csv_read_def comp_def)
qed

theorem hook_sms_csv_reads_back_witness:
  "hook_format_sms_as_csv demo_fs 42 [demo_sms] = Some ''/c/sms_export_42.csv''
   \<and> csv_read (the (sms_csv_content [demo_sms])) =
       Some [[''Address'', ''Type'', ''Date'', ''Body''],
             [''+1234567890'', ''inbox'', ''1970-01-01 00:00:00'', ''say '' @ [CHR 0x22] @ ''hi'' @ [CHR 0x22] @ '', ok'']]"
  using hook_sms_csv_reads_back[of "[demo_sms]" demo_fs 42]
  by (simp add: demo_sms_def sms_cells_def demo_fs_def digits_of_nat.simps)

end
