(* ===== verification/Device.thy ===== *)
theory Device
  imports Sms
begin

text \<open>
  Device information and screenshots: \<open>getDeviceInfo\<close>, \<open>formatDeviceInfo\<close> and
  \<open>takeScreenshot\<close> of \<open>src/src/services/deviceService.js\<close> (the file holds two
  versions of the service, the first using the native screen-capture module, the
  second an Expo placeholder), the \<open>useDeviceInfo\<close> hook (\<open>src/unnamed/part_006\<close>,
  lines 180-283) and the screen-capture module (\<open>src/src/native-modules/NativeFileSystem.js\<close>,
  lines 208-353).

  A device-information object is a record of the properties the code reads; a
  property is a JavaScript value (\<open>JUndefined\<close> when the object lacks it), printed by
  a template literal as \<open>String\<close> prints it. The two producers build objects of
  different shapes, which is what the consumers see. Numbers that may be fractional
  (uptime, battery level, coordinates) are rationals, the exact values of the doubles.
  Texts are the UTF-8 bytes of the JavaScript strings, as they go into a request
  body: the bullet is \<open>E2 80 A2\<close>, the phone emoji \<open>F0 9F 93 B1\<close>.

  The Expo modules the producers read are a record of their answers; an
  asynchronous call that may reject is a sum, \<open>Inl\<close> the rejection's message.
\<close>

record expo_env =
  e_device_name :: "string option"
  e_brand :: "string option"
  e_manufacturer :: "string option"
  e_model_name :: "string option"
  e_model_id :: "string option"
  e_year_class :: "nat option"
  e_total_memory :: "nat option"
  e_os_name :: "string option"
  e_os_version :: "string option"
  e_os_build_id :: "string option"
  e_os_internal_build_id :: "string option"
  e_app_name :: "string option"
  e_app_version :: "string option"
  e_app_build :: "string option"
  e_android_id :: "string option"
  e_install_time :: "string + int"
  e_uptime :: rat
  e_ip :: "string + string"
  e_network :: "string + (string \<times> bool \<times> bool)"
  e_battery :: "string + rat"
  e_carrier :: "string + string option"
  e_location_permission :: "string + string"
  e_position :: "string + rat option \<times> rat option"
  e_now :: int

record device_info =
  di_device_name :: js_val
  di_brand :: js_val
  di_manufacturer :: js_val
  di_model_name :: js_val
  di_model :: js_val
  di_year_class :: js_val
  di_total_memory :: js_val
  di_os_name :: js_val
  di_os_version :: js_val
  di_os_build :: js_val
  di_os_build_id :: js_val
  di_os_internal_build_id :: js_val
  di_app_name :: js_val
  di_app_version :: js_val
  di_app_build_version :: js_val
  di_app_build :: js_val
  di_install_time :: js_val
  di_ip :: js_val
  di_network_type :: js_val
  di_is_connected :: js_val
  di_internet :: js_val
  di_battery :: js_val
  di_uptime :: js_val
  di_timestamp :: js_val
  di_carrier :: js_val
  di_location :: "(rat option \<times> rat option) option"
  di_device_id :: js_val

text \<open>The empty object \<open>{}\<close>, the hook's state before the first collection.\<close>

definition empty_info :: device_info where
  "empty_info =
     \<lparr>di_device_name = JUndefined, di_brand = JUndefined, di_manufacturer = JUndefined,
      di_model_name = JUndefined, di_model = JUndefined, di_year_class = JUndefined,
      di_total_memory = JUndefined, di_os_name = JUndefined, di_os_version = JUndefined,
      di_os_build = JUndefined, di_os_build_id = JUndefined, di_os_internal_build_id = JUndefined,
      di_app_name = JUndefined, di_app_version = JUndefined, di_app_build_version = JUndefined,
      di_app_build = JUndefined, di_install_time = JUndefined, di_ip = JUndefined,
      di_network_type = JUndefined, di_is_connected = JUndefined, di_internet = JUndefined,
      di_battery = JUndefined, di_uptime = JUndefined, di_timestamp = JUndefined,
      di_carrier = JUndefined, di_location = None, di_device_id = JUndefined\<rparr>"

subsection \<open>Numbers\<close>

text \<open>\<open>Math.round\<close>: the nearest integer, halves upwards.\<close>

definition js_round :: "rat \<Rightarrow> int" where
  "js_round x = \<lfloor>x + 1 / 2\<rfloor>"

text \<open>\<open>x % y\<close> on numbers: the remainder of the division truncated towards zero.\<close>

definition js_rem :: "rat \<Rightarrow> rat \<Rightarrow> rat" where
  "js_rem x y = x - y * of_int (if 0 \<le> x / y then \<lfloor>x / y\<rfloor> else \<lceil>x / y\<rceil>)"

text \<open>\<open>x.toFixed(4)\<close>: the integer nearest to \<open>x * 10^4\<close> (halves away from zero), printed with
  four decimals.\<close>

definition to_fixed4 :: "rat \<Rightarrow> string" where
  "to_fixed4 x =
     (let n = nat (js_round (\<bar>x\<bar> * 10000))
      in (if x < 0 then ''-'' else []) @ digits_of_nat (n div 10000) @ ''.''
         @ pad_start 4 CHR ''0'' (digits_of_nat (n mod 10000)))"

text \<open>The uptime text of \<open>getDeviceInfo\<close>, from seconds.\<close>

definition service_uptime :: "rat \<Rightarrow> string" where
  "service_uptime s =
     (if s < 60 then string_of_int (js_round s) @ ''s''
      else if s < 3600 then string_of_int \<lfloor>s / 60\<rfloor> @ ''m '' @ string_of_int (js_round (js_rem s 60)) @ ''s''
      else string_of_int \<lfloor>s / 3600\<rfloor> @ ''h '' @ string_of_int \<lfloor>js_rem s 3600 / 60\<rfloor> @ ''m'')"

text \<open>The uptime text of \<open>useDeviceInfo\<close>, from the same reading.\<close>

definition hook_uptime :: "rat \<Rightarrow> string" where
  "hook_uptime s =
     (let m = \<lfloor>s / 60\<rfloor>
      in if m > 60 then string_of_int (m div 60) @ ''h '' @ string_of_int (m mod 60) @ ''m''
         else string_of_int m @ ''m'')"

subsection \<open>Producers\<close>

text \<open>\<open>a || b || c\<close>: the first truthy string, if any.\<close>

fun first_truthy :: "string option list \<Rightarrow> string option" where
  "first_truthy [] = None"
| "first_truthy (v # vs) = (case v of Some s \<Rightarrow> if s = [] then first_truthy vs else Some s | None \<Rightarrow> first_truthy vs)"

text \<open>\<open>v || d\<close> for an optional string property.\<close>

definition or_str :: "string option \<Rightarrow> string \<Rightarrow> js_val" where
  "or_str v d = JStr (case v of Some s \<Rightarrow> if s = [] then d else s | None \<Rightarrow> d)"

text \<open>\<open>getDeviceInfo\<close> (the first version; the second is the same text). The
  battery and cellular readings have their own \<open>try\<close>; a rejected network or
  installation-time reading rejects the whole call (\<open>installationTimeAsync\<close> is a
  function of the module, so the test before it always holds). The cellular fields
  are read on Android only.\<close>

definition get_device_info :: "expo_env \<Rightarrow> (int \<Rightarrow> string) \<Rightarrow> string + device_info" where
  "get_device_info env locale =
     (case (e_network env, e_ip env, e_install_time env) of
        (Inl e, _, _) \<Rightarrow> Inl e
      | (_, Inl e, _) \<Rightarrow> Inl e
      | (_, _, Inl e) \<Rightarrow> Inl e
      | (Inr (ntype, conn, reach), Inr ip, Inr installed) \<Rightarrow>
          (let battery = (case e_battery env of Inl _ \<Rightarrow> ''unknown'' | Inr b \<Rightarrow> string_of_int (js_round (b * 100)) @ ''%'');
               carrier = (if e_os_name env = Some ''Android''
                          then (case e_carrier env of Inl _ \<Rightarrow> JUndefined | Inr c \<Rightarrow> (case c of Some n \<Rightarrow> JStr n | None \<Rightarrow> JNull))
                          else JUndefined)
           in Inr \<lparr>di_device_name = or_str (e_device_name env) ''Unknown device'',
                   di_brand = or_str (e_brand env) ''Unknown'',
                   di_manufacturer = or_str (e_manufacturer env) ''Unknown'',
                   di_model_name = or_str (e_model_name env) ''Unknown'',
                   di_model = JUndefined,
                   di_year_class = (case e_year_class env of Some y \<Rightarrow> if y = 0 then JStr ''Unknown'' else JNum (int y) | None \<Rightarrow> JStr ''Unknown''),
                   di_total_memory = (case e_total_memory env of
                                        Some m \<Rightarrow> if m = 0 then JStr ''Unknown''
                                                  else JStr (string_of_int (js_round (of_nat m / 1048576)) @ '' MB'')
                                      | None \<Rightarrow> JStr ''Unknown''),
                   di_os_name = or_str (e_os_name env) ''Android'',
                   di_os_version = or_str (e_os_version env) ''Unknown'',
                   di_os_build = JUndefined,
                   di_os_build_id = or_str (e_os_build_id env) ''Unknown'',
                   di_os_internal_build_id = or_str (e_os_internal_build_id env) ''Unknown'',
                   di_app_name = or_str (e_app_name env) ''Telegram Monitor'',
                   di_app_version = or_str (e_app_version env) ''1.0.0'',
                   di_app_build_version = or_str (e_app_build env) ''1'',
                   di_app_build = JUndefined,
                   di_install_time = JStr (locale installed),
                   di_ip = JStr ip, di_network_type = JStr ntype, di_is_connected = JBool conn,
                   di_internet = JBool reach, di_battery = JStr battery,
                   di_uptime = JStr (service_uptime (e_uptime env)),
                   di_timestamp = JStr (iso_string (e_now env)),
                   di_carrier = carrier, di_location = None, di_device_id = JUndefined\<rparr>))"

text \<open>The phone emoji and the bullet, as UTF-8 bytes.\<close>

definition phone_emoji :: string where
  "phone_emoji = [CHR 0xF0, CHR 0x9F, CHR 0x93, CHR 0xB1]"

definition bullet :: string where
  "bullet = [CHR 0xE2, CHR 0x80, CHR 0xA2]"

text \<open>\<open>formatDeviceInfo\<close>; \<open>new Date(v).toLocaleString()\<close> is a parameter.\<close>

definition format_device_info :: "(js_val \<Rightarrow> string) \<Rightarrow> device_info option \<Rightarrow> string" where
  "format_device_info date_locale d =
     (case d of
        None \<Rightarrow> ''No device info available''
      | Some i \<Rightarrow>
          js_join_str ''\<newline>''
            [phone_emoji @ '' Device Information'', [],
             bullet @ '' Hardware '',
             ''  - Name: '' @ js_String (di_device_name i),
             ''  - Model: '' @ js_String (di_model_name i),
             ''  - Brand: '' @ js_String (di_brand i),
             ''  - Manufacturer: '' @ js_String (di_manufacturer i),
             ''  - Year Class: '' @ js_String (di_year_class i),
             ''  - Memory: '' @ js_String (di_total_memory i), [],
             bullet @ '' Operating System'',
             ''  - OS: '' @ js_String (di_os_name i) @ '' '' @ js_String (di_os_version i),
             ''  - Build ID: '' @ js_String (di_os_build_id i),
             ''  - Internal Build: '' @ js_String (di_os_internal_build_id i), [],
             bullet @ '' Application'',
             ''  - Name: '' @ js_String (di_app_name i),
             ''  - Version: '' @ js_String (di_app_version i) @ '' ('' @ js_String (di_app_build_version i) @ '')'',
             ''  - Installed: '' @ js_String (di_install_time i), [],
             bullet @ '' Network'',
             ''  - IP: '' @ js_String (di_ip i),
             ''  - Type: '' @ js_String (di_network_type i),
             ''  - Connected: '' @ (if js_truthy (di_is_connected i) then ''Yes'' else ''No''),
             ''  - Internet: '' @ (if js_truthy (di_internet i) then ''Reachable'' else ''Unreachable''), [],
             bullet @ '' Status'',
             ''  - Battery: '' @ js_String (di_battery i),
             ''  - Uptime: '' @ js_String (di_uptime i),
             ''  - Timestamp: '' @ date_locale (di_timestamp i), [],
             bullet @ '' Cellular'',
             ''  - Carrier: '' @ (if js_truthy (di_carrier i) then js_String (di_carrier i) else ''Unknown'')])"

record info_hook =
  ih_info :: device_info
  ih_loading :: bool
  ih_error :: "string option"

definition info_hook_init :: info_hook where
  "info_hook_init = \<lparr>ih_info = empty_info, ih_loading = True, ih_error = None\<rparr>"

text \<open>\<open>collectDeviceInfo\<close> of \<open>useDeviceInfo\<close>: the location has its own \<open>try\<close>; a
  rejected network reading leaves the state's object as it was, records the error and
  resolves \<open>{}\<close>.\<close>

definition collect_device_info :: "expo_env \<Rightarrow> info_hook \<Rightarrow> info_hook \<times> device_info" where
  "collect_device_info env st =
     (let location = (case e_location_permission env of
                        Inr status \<Rightarrow> if status = ''granted'' then (case e_position env of Inr c \<Rightarrow> c | Inl _ \<Rightarrow> (None, None))
                                      else (None, None)
                      | Inl _ \<Rightarrow> (None, None))
      in case (e_ip env, e_network env) of
           (Inl e, _) \<Rightarrow> (st\<lparr>ih_loading := False, ih_error := Some (''Failed to collect device info: '' @ e)\<rparr>, empty_info)
         | (_, Inl e) \<Rightarrow> (st\<lparr>ih_loading := False, ih_error := Some (''Failed to collect device info: '' @ e)\<rparr>, empty_info)
         | (Inr ip, Inr (ntype, conn, reach)) \<Rightarrow>
             (let info =
                \<lparr>di_device_name = or_str (e_device_name env) ''Unknown device'',
                 di_brand = or_str (e_brand env) ''Unknown brand'',
                 di_manufacturer = JUndefined, di_model_name = JUndefined,
                 di_model = or_str (case e_model_name env of Some m \<Rightarrow> if m = [] then e_model_id env else Some m
                                    | None \<Rightarrow> e_model_id env) ''Unknown model'',
                 di_year_class = JUndefined, di_total_memory = JUndefined,
                 di_os_name = or_str (e_os_name env) ''Android'',
                 di_os_version = or_str (e_os_version env) ''Unknown'',
                 di_os_build = or_str (e_os_build_id env) ''Unknown'',
                 di_os_build_id = JUndefined, di_os_internal_build_id = JUndefined,
                 di_app_name = JUndefined,
                 di_app_version = or_str (e_app_version env) ''1.0.0'',
                 di_app_build_version = JUndefined,
                 di_app_build = or_str (e_app_build env) ''1'',
                 di_install_time = JUndefined,
                 di_ip = or_str (Some ip) ''Unknown'',
                 di_network_type = JStr ntype, di_is_connected = JBool conn, di_internet = JBool reach,
                 di_battery = JStr ''Unknown'',
                 di_uptime = JStr (hook_uptime (e_uptime env)),
                 di_timestamp = JStr (iso_string (e_now env)),
                 di_carrier = JUndefined,
                 di_location = Some location,
                 di_device_id = or_str (first_truthy [e_os_internal_build_id env, e_os_build_id env, e_android_id env]) ''unknown''\<rparr>
              in (st\<lparr>ih_info := info, ih_loading := False, ih_error := None\<rparr>, info)))"

subsection \<open>Screenshots\<close>

definition is_screenshot_allowed :: "platform \<Rightarrow> bool" where
  "is_screenshot_allowed p = (p = Android)"

definition initialize_screen_capture :: "platform \<Rightarrow> bool" where
  "initialize_screen_capture p = (p = Android)"

text \<open>\<open>takeScreenshot\<close> of the screen-capture module: in a production build it writes
  an empty file and resolves with its path; otherwise it rejects with \<open>'placeholder'\<close>.\<close>

definition native_take_screenshot :: "platform \<Rightarrow> bool \<Rightarrow> 'k expo_fs \<Rightarrow> int \<Rightarrow> string + string" where
  "native_take_screenshot p production fs now =
     (if p \<noteq> Android then Inl ''Screenshot functionality is only available on Android''
      else (let path = cache_directory fs @ ''screenshots/screenshot_'' @ string_of_int now @ ''.jpg''
            in if production then (case write_string fs path [] of None \<Rightarrow> Inr path | Some e \<Rightarrow> Inl e)
               else Inl ''placeholder''))"

text \<open>\<open>takeScreenshot\<close> of the first service: \<open>null\<close> when screenshots are not allowed.\<close>

definition take_screenshot :: "platform \<Rightarrow> bool \<Rightarrow> 'k expo_fs \<Rightarrow> int \<Rightarrow> string + string option" where
  "take_screenshot p production fs now =
     (if \<not> is_screenshot_allowed p then Inr None
      else case native_take_screenshot p production fs now of
             Inl e \<Rightarrow> Inl e
           | Inr path \<Rightarrow> if path = [] then Inl ''Failed to take screenshot'' else Inr (Some path))"

text \<open>\<open>takeScreenshot\<close> of the second service: a placeholder that always resolves \<open>null\<close>.\<close>

definition take_screenshot_expo :: "string + string option" where
  "take_screenshot_expo = Inr None"

text \<open>The second service repeats \<open>getDeviceInfo\<close> and \<open>formatDeviceInfo\<close> of the first
  character for character (only a comment before \<open>takeScreenshot\<close> differs), so its
  versions are the same functions.\<close>

definition get_device_info_expo :: "expo_env \<Rightarrow> (int \<Rightarrow> string) \<Rightarrow> string + device_info" where
  "get_device_info_expo env locale = get_device_info env locale"

definition format_device_info_expo :: "(js_val \<Rightarrow> string) \<Rightarrow> device_info option \<Rightarrow> string" where
  "format_device_info_expo date_locale d = format_device_info date_locale d"

end
