(* ===== verification/Outbound.thy ===== *)
theory Outbound
  imports Device Encryption Dispatcher
begin

text \<open>
  The outbound messages of \<open>TelegramAPI\<close> (\<open>src/src/api/telegramAPI.js\<close>) that the
  app's command handlers use besides \<open>sendMessage\<close> (modelled in the dispatcher
  theory as \<open>send_message\<close>): \<open>sendMessage\<close> with an inline keyboard,
  \<open>sendFile\<close>, which uploads a local file with \<open>sendDocument\<close>, and
  \<open>sendDeviceInfo\<close>, which reports the device and shows the command menu. Like
  \<open>sendMessage\<close> they never throw: they post only while the instance is connected
  and has its HTTP client, and a failed post is logged and resolves \<open>false\<close>.
  \<open>sendDeviceInfo\<close> resolves \<open>false\<close> without posting anything when building its
  text throws.
\<close>

text \<open>\<open>filePath.split('/').pop()\<close>: the text after the last slash.\<close>

definition file_name_of :: "string \<Rightarrow> string" where
  "file_name_of path = last (js_split CHR ''/'' path)"

definition send_file :: "tg \<Rightarrow> string \<Rightarrow> string \<Rightarrow> effect list" where
  "send_file s path caption =
     (if connected s \<and> api s then [PostDocument path (file_name_of path) caption] else [])"

definition send_keyboard :: "tg \<Rightarrow> string \<Rightarrow> (string \<times> string) list list \<Rightarrow> effect list" where
  "send_keyboard s text rows = (if connected s \<and> api s then [PostKeyboard text rows] else [])"

text \<open>The command menu; the emoji are UTF-8 bytes.\<close>

definition command_menu :: "(string \<times> string) list list" where
  "command_menu =
     [[([CHR 0xF0, CHR 0x9F, CHR 0x93, CHR 0x9E] @ '' Call Logs'', ''call_logs''),
       ([CHR 0xF0, CHR 0x9F, CHR 0x92, CHR 0xAC] @ '' SMS Logs'', ''sms_logs'')],
      [([CHR 0xF0, CHR 0x9F, CHR 0x91, CHR 0xA5] @ '' Contacts'', ''contacts''),
       ([CHR 0xF0, CHR 0x9F, CHR 0x93, CHR 0x81] @ '' Storage'', ''storage'')],
      [([CHR 0xF0, CHR 0x9F, CHR 0x93, CHR 0x8A] @ '' Device Info'', ''device_info''),
       ([CHR 0xF0, CHR 0x9F, CHR 0x93, CHR 0xB7] @ '' Take Screenshot'', ''screenshot'')]]"

text \<open>
  \<open>encrypt(v).substring(0, 16)\<close>: for a string, the first 16 characters of the
  Base64 text (device identifiers are ASCII, so \<open>js_str_of\<close> gives their code units);
  for any other value \<open>xorEncrypt\<close> builds \<open>''\<close> (\<open>!text\<close>, or a \<open>length\<close> that is
  \<open>undefined\<close>), whose Base64 text is \<open>''\<close>.
\<close>

definition device_id_text :: "js_val \<Rightarrow> string" where
  "device_id_text v =
     (case v of
        JStr s \<Rightarrow> map (\<lambda>u. char_of (unat u)) (take 16 (encrypt (js_str_of s) default_key))
      | _ \<Rightarrow> [])"

text \<open>
  The location line: \<open>location.latitude\<close> throws when \<open>location\<close> is \<open>undefined\<close>; a
  latitude that is \<open>null\<close> or \<open>0\<close> is falsy and prints \<open>N/A\<close>; otherwise
  \<open>longitude.toFixed(4)\<close> throws when the longitude is \<open>null\<close>.
\<close>

definition location_text :: "(rat option \<times> rat option) option \<Rightarrow> string + string" where
  "location_text loc =
     (case loc of
        None \<Rightarrow> Inl ''Cannot read properties of undefined (reading 'latitude')''
      | Some (lat, lon) \<Rightarrow>
          (case lat of
             Some x \<Rightarrow>
               if x = 0 then Inr ''N/A''
               else (case lon of
                       Some y \<Rightarrow> Inr (to_fixed4 x @ '', '' @ to_fixed4 y)
                     | None \<Rightarrow> Inl ''Cannot read properties of null (reading 'toFixed')'')
           | None \<Rightarrow> Inr ''N/A''))"

definition device_connected_text :: "device_info \<Rightarrow> string \<Rightarrow> string" where
  "device_connected_text i loc =
     phone_emoji @ '' *Device Connected!*\<newline>\<newline>''
     @ bullet @ '' Device: '' @ js_String (di_device_name i) @ ''\<newline>''
     @ bullet @ '' Model: '' @ js_String (di_model i) @ ''\<newline>''
     @ bullet @ '' OS: Android '' @ js_String (di_os_version i) @ ''\<newline>''
     @ bullet @ '' Build: '' @ js_String (di_os_build i) @ ''\<newline>''
     @ bullet @ '' IP: '' @ js_String (di_ip i) @ ''\<newline>''
     @ bullet @ '' Location: '' @ loc @ ''\<newline>''
     @ bullet @ '' Uptime: '' @ js_String (di_uptime i) @ ''\<newline>''
     @ bullet @ '' App Version: '' @ js_String (di_app_version i) @ ''\<newline>''
     @ bullet @ '' Device ID: '' @ device_id_text (di_device_id i)"

definition send_device_info :: "tg \<Rightarrow> device_info option \<Rightarrow> effect list \<times> bool" where
  "send_device_info s d =
     (case d of
        None \<Rightarrow> ([], False)
      | Some i \<Rightarrow>
          if \<not> connected s then ([], False)
          else (case location_text (di_location i) of
                  Inl _ \<Rightarrow> ([], False)
                | Inr loc \<Rightarrow>
                    (send_message s (device_connected_text i loc)
                     @ send_keyboard s ''Choose an option:'' command_menu, True)))"

text \<open>An Expo environment for the witnesses.\<close>

definition demo_env :: expo_env where
  "demo_env =
     \<lparr>e_device_name = Some ''Pixel 7'', e_brand = Some ''google'', e_manufacturer = Some ''Google'',
      e_model_name = Some ''Pixel 7'', e_model_id = None, e_year_class = Some 2022, e_total_memory = Some 8589934592,
      e_os_name = Some ''Android'', e_os_version = Some ''14'', e_os_build_id = Some ''UQ1A'',
      e_os_internal_build_id = Some ''UQ1A.240105'', e_app_name = None, e_app_version = Some ''1.0.0'',
      e_app_build = Some ''1'', e_android_id = None, e_install_time = Inr 0, e_uptime = 7200,
      e_ip = Inr ''10.0.0.2'', e_network = Inr (''WIFI'', True, True), e_battery = Inr (4 / 5),
      e_carrier = Inr (Some ''Vodafone''), e_location_permission = Inr ''granted'',
      e_position = Inr (Some (51 + 1 / 2), Some (- 1 / 10)), e_now = 1700000000000\<rparr>"

lemma send_file_disconnected [simp]: "\<not> connected s \<Longrightarrow> send_file s path caption = []"
  by (simp add: send_file_def)


lemma get_device_info_location:
  "get_device_info env locale = Inr i \<Longrightarrow> di_location i = None"
  by (auto simp: get_device_info_def Let_def split: prod.splits sum.splits)

text \<open>
  C39. The service's device report can never be sent: \<open>getDeviceInfo\<close> builds an
  object without \<open>location\<close>, so \<open>sendDeviceInfo\<close> throws on
  \<open>deviceInfo.location.latitude\<close> while building its text, posts nothing (neither the
  report nor the command menu) and resolves \<open>false\<close>; the same holds for the empty
  object the app's device-information hook starts with.
\<close>

theorem service_info_never_sent:
  assumes "get_device_info env locale = Inr i"
  shows "send_device_info s (Some i) = ([], False) \<and> send_device_info s (Some empty_info) = ([], False)"
  using get_device_info_location[OF assms]
  by (simp add: send_device_info_def location_text_def empty_info_def)

theorem service_info_never_sent_witness:
  "send_device_info tg_init (Some (projr (get_device_info demo_env (\<lambda>_. ''today'')))) = ([], False)
   \<and> send_device_info tg_init (Some empty_info) = ([], False)"
  using service_info_never_sent[of demo_env "\<lambda>_. ''today''" "projr (get_device_info demo_env (\<lambda>_. ''today''))" tg_init]
  by (simp add: get_device_info_def demo_env_def Let_def)

end
