(* ===== verification/Contacts.thy ===== *)
theory Contacts
  imports Csv Outbound "HOL-Library.Sublist"
begin

text \<open>
  The contacts service (\<open>src/unnamed/part_006\<close>, lines 1-178, imported by the app as
  \<open>services/contactsService\<close>) and the app's \<open>contacts\<close> command
  (\<open>handleContacts\<close>, \<open>src/unnamed/part_002\<close>).

  A contact is the object \<open>expo-contacts\<close> returns, with the fields the service
  reads; a field the object may lack is an \<open>option\<close> (\<open>None\<close> is \<open>undefined\<close>), and
  the empty string is falsy as in JavaScript. The device's contact store is a record
  of the permission status, the answer the user gives to the permission dialog, and
  the contacts \<open>getContactsAsync\<close> returns (already sorted by first name, as the
  service asks). A \<open>TypeError\<close> the service catches is its message as V8 prints it.
\<close>

record address =
  street :: "string option"
  city :: "string option"
  country :: "string option"

record contact =
  c_name :: "string option"
  c_first_name :: "string option"
  c_last_name :: "string option"
  c_phone_numbers :: "string option list option"
  c_emails :: "string option list option"
  c_addresses :: "address list option"
  c_company :: "string option"
  c_job_title :: "string option"

record contacts_store =
  cs_status :: string
  cs_user_grants :: bool
  cs_data :: "contact list"

subsection \<open>JavaScript string helpers\<close>

text \<open>\<open>v || d\<close> for a string property \<open>v\<close>.\<close>

definition js_or :: "string option \<Rightarrow> string \<Rightarrow> string" where
  "js_or v d = (case v of Some s \<Rightarrow> if s = [] then d else s | None \<Rightarrow> d)"

text \<open>\<open>String.prototype.trim\<close> on 8-bit characters: tab, line feed, vertical tab, form
  feed, carriage return, space and no-break space.\<close>

definition js_space :: "char \<Rightarrow> bool" where
  "js_space c \<longleftrightarrow> of_char c \<in> {9, 10, 11, 12, 13, 32, 160 :: nat}"

definition js_trim :: "string \<Rightarrow> string" where
  "js_trim s = rev (dropWhile js_space (rev (dropWhile js_space s)))"

text \<open>\<open>s.includes(q)\<close>.\<close>

definition js_includes :: "string \<Rightarrow> string \<Rightarrow> bool" where
  "js_includes s q = list_ex (\<lambda>i. take (length q) (drop i s) = q) [0..<Suc (length s)]"

text \<open>\<open>s.replace(/^, |, $/, '')\<close>: the regular expression is not global, so only the
  first match is removed: a leading \<open>', '\<close> if there is one, else a trailing one.\<close>

definition strip_comma_edge :: "string \<Rightarrow> string" where
  "strip_comma_edge s =
     (if take 2 s = '', '' then drop 2 s
      else if 2 \<le> length s \<and> drop (length s - 2) s = '', '' then take (length s - 2) s
      else s)"

text \<open>The message of the \<open>TypeError\<close> raised by reading a property of \<open>undefined\<close>.\<close>

definition undefined_read :: "string \<Rightarrow> string" where
  "undefined_read prop = ''Cannot read properties of undefined (reading '' @ [CHR 0x27] @ prop @ [CHR 0x27] @ '')''"

subsection \<open>The service\<close>

text \<open>\<open>getAllContacts\<close>: ask for permission when it is not granted, then fetch.\<close>

definition get_all_contacts :: "contacts_store \<Rightarrow> contacts_store \<times> (string + contact list)" where
  "get_all_contacts st =
     (if cs_status st \<noteq> ''granted'' then
        (let new_status = (if cs_user_grants st then ''granted'' else ''denied'');
             st' = st\<lparr>cs_status := new_status\<rparr>
         in if new_status \<noteq> ''granted'' then (st', Inl ''Contacts permission denied'')
            else (st', Inr (cs_data st')))
      else (st, Inr (cs_data st)))"

text \<open>The display name shared by \<open>contactsToCSV\<close> and \<open>formatContact\<close>.\<close>

definition display_name :: "contact \<Rightarrow> string" where
  "display_name c =
     (let full = js_trim (js_or (c_first_name c) [] @ '' '' @ js_or (c_last_name c) [])
      in js_or (c_name c) (if full = [] then ''Unknown'' else full))"

text \<open>\<open>xs && xs.length > 0 ? xs[0].field : ''\<close>; \<open>None\<close> is an absent field.\<close>

definition first_field :: "string option list option \<Rightarrow> string option" where
  "first_field xs = (case xs of Some (x # _) \<Rightarrow> x | _ \<Rightarrow> Some [])"

definition address_text :: "contact \<Rightarrow> string" where
  "address_text c =
     (case c_addresses c of
        Some (a # _) \<Rightarrow>
          strip_comma_edge (js_or (street a) [] @ '', '' @ js_or (city a) [] @ '', '' @ js_or (country a) [])
      | _ \<Rightarrow> [])"

definition contacts_header :: string where
  "contacts_header = ''Name,PhoneNumber,Email,Company,JobTitle,Address\<newline>''"

text \<open>The column names of that header, for the reader of the file.\<close>

definition contacts_columns :: "string list" where
  "contacts_columns = [''Name'', ''PhoneNumber'', ''Email'', ''Company'', ''JobTitle'', ''Address'']"

text \<open>The cells of a contact's row; \<open>undefined.replace\<close> throws when the first phone
  number or e-mail entry lacks its field.\<close>

definition contact_cells :: "contact \<Rightarrow> string + string list" where
  "contact_cells c =
     (case (first_field (c_phone_numbers c), first_field (c_emails c)) of
        (Some phone, Some email) \<Rightarrow>
          Inr [display_name c, phone, email, js_or (c_company c) [], js_or (c_job_title c) [], address_text c]
      | _ \<Rightarrow> Inl (undefined_read ''replace''))"

definition contact_row :: "contact \<Rightarrow> string + string" where
  "contact_row c =
     (case contact_cells c of
        Inl e \<Rightarrow> Inl e
      | Inr cells \<Rightarrow> Inr (js_join CHR '','' (map (\<lambda>v. csv_quote (csv_escape v)) cells) @ ''\<newline>''))"

fun contact_rows :: "contact list \<Rightarrow> string + string" where
  "contact_rows [] = Inr []"
| "contact_rows (c # cs) =
     (case contact_row c of
        Inl e \<Rightarrow> Inl e
      | Inr r \<Rightarrow> (case contact_rows cs of Inl e \<Rightarrow> Inl e | Inr rs \<Rightarrow> Inr (r @ rs)))"

definition contacts_to_csv :: "contact list option \<Rightarrow> string" where
  "contacts_to_csv cs =
     (case cs of
        None \<Rightarrow> ''No contacts found''
      | Some [] \<Rightarrow> ''No contacts found''
      | Some xs \<Rightarrow>
          (case contact_rows xs of Inl e \<Rightarrow> ''Error: '' @ e | Inr rows \<Rightarrow> contacts_header @ rows))"

text \<open>\<open>xs ? xs.map(x => x.field).join(', ') : 'None'\<close>; \<open>join\<close> prints \<open>undefined\<close> as empty.\<close>

definition joined_field :: "string option list option \<Rightarrow> string" where
  "joined_field xs =
     (case xs of
        None \<Rightarrow> ''None''
      | Some ys \<Rightarrow> js_join_str '', '' (map (\<lambda>y. case y of None \<Rightarrow> [] | Some v \<Rightarrow> v) ys))"

definition format_contact :: "contact option \<Rightarrow> string" where
  "format_contact co =
     (case co of
        None \<Rightarrow> ''Invalid contact''
      | Some c \<Rightarrow>
          (let company = (case c_company c of
                            Some co \<Rightarrow> if co = [] then []
                                      else (case c_job_title c of
                                              Some j \<Rightarrow> if j = [] then [] else j @ '' at ''
                                            | None \<Rightarrow> []) @ co
                          | None \<Rightarrow> [])
           in ''Name: '' @ display_name c @ ''\<newline>Phone: '' @ joined_field (c_phone_numbers c)
              @ ''\<newline>Email: '' @ joined_field (c_emails c)
              @ (if company = [] then [] else ''\<newline>'' @ company)))"

text \<open>\<open>searchContacts\<close>: the name fields, e-mails and company are matched without
  case, phone numbers as written; a falsy field never matches.\<close>

definition field_matches :: "string \<Rightarrow> string option \<Rightarrow> bool" where
  "field_matches lq v = (case v of Some s \<Rightarrow> s \<noteq> [] \<and> js_includes (js_lower s) lq | None \<Rightarrow> False)"

definition contact_matches :: "string \<Rightarrow> contact \<Rightarrow> bool" where
  "contact_matches query c =
     (let lq = js_lower query in
      field_matches lq (c_name c) \<or> field_matches lq (c_first_name c) \<or> field_matches lq (c_last_name c)
      \<or> (case c_phone_numbers c of
           Some ps \<Rightarrow> list_ex (\<lambda>p. case p of Some n \<Rightarrow> n \<noteq> [] \<and> js_includes n query | None \<Rightarrow> False) ps
         | None \<Rightarrow> False)
      \<or> (case c_emails c of Some es \<Rightarrow> list_ex (field_matches lq) es | None \<Rightarrow> False)
      \<or> field_matches lq (c_company c))"

definition search_contacts ::
  "string \<Rightarrow> contact list option \<Rightarrow> contacts_store \<Rightarrow> contacts_store \<times> (string + contact list)" where
  "search_contacts query contacts st =
     (if query = [] then (st, Inr [])
      else (let (st', r) = (case contacts of Some cl \<Rightarrow> (st, Inr cl) | None \<Rightarrow> get_all_contacts st)
            in case r of
                 Inl e \<Rightarrow> (st', Inl e)
               | Inr cl \<Rightarrow> (st', Inr (filter (contact_matches query) cl))))"

subsection \<open>The app's contacts command\<close>

text \<open>
  \<open>const { status } = await contactsService.getAllContacts()\<close>: the service resolves
  with the array of contacts, and an array has no \<open>status\<close> property, so the
  destructured value is \<open>undefined\<close> whatever the array holds.
\<close>

definition array_status :: "contact list \<Rightarrow> string option" where
  "array_status xs = None"

definition not_granted_text :: string where
  "not_granted_text = ''Contacts permission not granted. Cannot access contacts.''"

definition contacts_summary :: "contact list \<Rightarrow> string" where
  "contacts_summary cs =
     js_join_str ''\<newline>\<newline>-----------------\<newline>\<newline>'' (map (\<lambda>c. format_contact (Some c)) (take 5 cs))"

definition handle_contacts :: "tg \<Rightarrow> contacts_store \<Rightarrow> 'k expo_fs \<Rightarrow> contacts_store \<times> effect list" where
  "handle_contacts s st fs =
     (let fail = (\<lambda>e. send_message s (''Error accessing contacts: '' @ e));
          (st1, r1) = get_all_contacts st
      in case r1 of
           Inl e \<Rightarrow> (st1, fail e)
         | Inr arr \<Rightarrow>
             if array_status arr \<noteq> Some ''granted'' then (st1, send_message s not_granted_text)
             else
               (let (st2, r2) = get_all_contacts st1
                in case r2 of
                     Inl e \<Rightarrow> (st2, fail e)
                   | Inr contacts \<Rightarrow>
                       if contacts = [] then (st2, send_message s ''No contacts found on this device.'')
                       else
                         (case create_temp_file fs (contacts_to_csv (Some contacts)) ''contacts.csv'' of
                            Inl e \<Rightarrow> (st2, fail e)
                          | Inr path \<Rightarrow>
                              (st2, send_file s path (''Contacts: '' @ digits_of_nat (length contacts) @ '' entries'')
                                    @ send_message s (''Found '' @ digits_of_nat (length contacts)
                                        @ '' contacts.\<newline>\<newline>Sample contacts:\<newline>\<newline>'' @ contacts_summary contacts)))))"

text \<open>A contact for the witnesses below.\<close>

definition demo_contact :: contact where
  "demo_contact =
     \<lparr>c_name = None, c_first_name = Some ''Ann'', c_last_name = Some (''O'' @ [CHR 0x22] @ ''Hara''),
      c_phone_numbers = Some [Some ''+1 555, ext 2''], c_emails = None,
      c_addresses = Some [\<lparr>street = None, city = Some ''Cork'', country = Some ''IE''\<rparr>],
      c_company = Some ''ACME'', c_job_title = None\<rparr>"

subsection \<open>Lemmas\<close>

lemma js_includes_sublist: "js_includes s q \<longleftrightarrow> sublist q s"
proof
  assume "js_includes s q"
  then obtain i where "take (length q) (drop i s) = q"
    by (auto simp: js_includes_def list_ex_iff)
  then have "s = take i s @ q @ drop (length q) (drop i s)"
    by (metis append_take_drop_id)
  then show "sublist q s" by (metis sublist_def)
next
  assume "sublist q s"
  then obtain ps ss where "s = ps @ q @ ss" by (auto simp: sublist_def)
  then show "js_includes s q"
    by (auto simp: js_includes_def list_ex_iff intro!: bexI[of _ "length ps"])
qed

lemma contact_rows_Inr:
  assumes "\<forall>c \<in> set xs. \<exists>cells. contact_cells c = Inr cells"
  shows "contact_rows xs = Inr (concat (map (\<lambda>c. js_join CHR '','' (map (\<lambda>v. csv_quote (csv_escape v)) (projr (contact_cells c))) @ ''\<newline>'') xs))"
  using assms by (induction xs) (auto simp: contact_row_def)

lemma contact_rows_Inl:
  assumes "c \<in> set xs" "contact_cells c = Inl e"
  shows "\<exists>e'. contact_rows xs = Inl e'"
  using assms by (induction xs) (auto simp: contact_row_def split: sum.split)

lemma contact_cells_error: "contact_cells c = Inl e \<Longrightarrow> e = undefined_read ''replace''"
  by (auto simp: contact_cells_def split: prod.splits option.splits)

lemma contact_rows_error: "contact_rows xs = Inl e \<Longrightarrow> e = undefined_read ''replace''"
  by (induction xs) (auto simp: contact_row_def contact_cells_error split: sum.splits)

lemma contact_cells_length: "contact_cells c = Inr cells \<Longrightarrow> cells \<noteq> []"
  by (auto simp: contact_cells_def split: prod.splits option.splits)

lemma contacts_header_fields:
  "contacts_header = js_join CHR '','' contacts_columns @ [CHR 0x0A]"
  by (simp add: contacts_header_def contacts_columns_def)

lemma contacts_to_csv_nonempty:
  "xs \<noteq> [] \<Longrightarrow> contacts_to_csv (Some xs) =
     (case contact_rows xs of Inl e \<Rightarrow> ''Error: '' @ e | Inr rows \<Rightarrow> contacts_header @ rows)"
  by (cases xs) (simp_all only: contacts_to_csv_def list.simps option.simps)

lemma contact_cells_Inr:
  "first_field (c_phone_numbers c) \<noteq> None \<Longrightarrow> first_field (c_emails c) \<noteq> None \<Longrightarrow>
   \<exists>cells. contact_cells c = Inr cells"
  by (auto simp: contact_cells_def)

text \<open>
  The contacts export reads back as the table. For a non-empty list of contacts
  whose first phone entry and first e-mail entry (when there are any) carry their
  field, \<open>contactsToCSV\<close> writes the header and one quoted row per contact, and a
  reader of the CSV gets back the six column names and, for each contact, its name,
  first phone number, first e-mail, company, job title and address, whatever quotes,
  commas or newlines they hold.
\<close>

theorem contacts_csv_reads_back:
  assumes "xs \<noteq> []"
    "\<forall>c \<in> set xs. first_field (c_phone_numbers c) \<noteq> None \<and> first_field (c_emails c) \<noteq> None"
  shows "csv_read (contacts_to_csv (Some xs)) = Some (contacts_columns # map (\<lambda>c. projr (contact_cells c)) xs)"
proof -
  have cells: "\<forall>c \<in> set xs. \<exists>cells. contact_cells c = Inr cells"
    using assms(2) contact_cells_Inr by blast
  have cells_ne: "\<forall>r \<in> set (map (\<lambda>c. projr (contact_cells c)) xs). r \<noteq> []"
    using cells contact_cells_length by fastforce
  have cols: "\<forall>v \<in> set contacts_columns. set v \<inter> {CHR 0x22, CHR '','', CHR 0x0A} = {}"
    by (simp add: contacts_columns_def comp_def)
  have "csv_read (contacts_header @ concat (map (\<lambda>c. js_join CHR '','' (map (\<lambda>v. csv_quote (csv_escape v)) (projr (contact_cells c))) @ ''\<newline>'') xs))
      = Some (contacts_columns # map (\<lambda>c. projr (contact_cells c)) xs)"
    unfolding contacts_header_fields csv_read_def
    using csv_parse_plain_fields[OF _ cols, of "[]" "[]"]
      csv_parse_quoted_rows[of "map (\<lambda>c. projr (contact_cells c)) xs" "[contacts_columns]"] cells_ne
    by (simp add: contacts_columns_def comp_def)
  then show ?thesis
    using contacts_to_csv_nonempty[OF assms(1)] contact_rows_Inr[OF cells] by simp
qed

theorem contacts_csv_reads_back_witness:
  "csv_read (contacts_to_csv (Some [demo_contact])) =
     Some [contacts_columns,
           [''Ann O'' @ [CHR 0x22] @ ''Hara'', ''+1 555, ext 2'', [], ''ACME'', [], ''Cork, IE'']]"
  using contacts_csv_reads_back[of "[demo_contact]"]
  by (simp add: demo_contact_def contact_cells_def first_field_def display_name_def js_or_def
      js_trim_def js_space_def address_text_def strip_comma_edge_def)

text \<open>
  A contact whose first phone entry has no \<open>number\<close> makes the whole export an
  error text: \<open>phone\<close> is \<open>undefined\<close>, \<open>phone.replace\<close> throws a \<open>TypeError\<close>, and
  \<open>contactsToCSV\<close> catches it and returns \<open>'Error: '\<close> and its message instead of the
  CSV, for every list that holds such a contact.
\<close>

theorem contacts_csv_missing_number:
  assumes "c \<in> set xs" "c_phone_numbers c = Some (None # ps)"
  shows "contacts_to_csv (Some xs) = ''Error: '' @ undefined_read ''replace''"
proof -
  have "contact_cells c = Inl (undefined_read ''replace'')"
    using assms(2) by (simp add: contact_cells_def first_field_def)
  then obtain e where "contact_rows xs = Inl e" using contact_rows_Inl[OF assms(1)] by blast
  then have "contact_rows xs = Inl (undefined_read ''replace'')" using contact_rows_error by simp
  moreover have "xs \<noteq> []" using assms(1) by auto
  ultimately show ?thesis using contacts_to_csv_nonempty by simp
qed

theorem contacts_csv_missing_number_witness:
  "contacts_to_csv (Some [demo_contact, demo_contact\<lparr>c_phone_numbers := Some [None]\<rparr>])
     = ''Error: Cannot read properties of undefined (reading '' @ [CHR 0x27] @ ''replace'' @ [CHR 0x27] @ '')''"
  using contacts_csv_missing_number[of "demo_contact\<lparr>c_phone_numbers := Some [None]\<rparr>"
      "[demo_contact, demo_contact\<lparr>c_phone_numbers := Some [None]\<rparr>]" "[]"]
  by (simp add: undefined_read_def)

text \<open>
  The contacts command never exports the contacts. \<open>handleContacts\<close> reads
  \<open>status\<close> from the array that \<open>getAllContacts\<close> resolves with, which is always
  \<open>undefined\<close>; so when the permission is (or becomes) granted it replies that the
  permission is not granted, and otherwise it reports the service's denial. No file is
  sent and no contact is listed, whatever the store holds.
\<close>

theorem handle_contacts_never_exports:
  "snd (handle_contacts s st fs) =
     send_message s (if cs_status st = ''granted'' \<or> cs_user_grants st then not_granted_text
                     else ''Error accessing contacts: Contacts permission denied'')"
  by (simp add: handle_contacts_def get_all_contacts_def array_status_def Let_def)

end
