(* ===== verification/App.thy ===== *)
theory App
  imports Contacts
begin

text \<open>
  The command handlers of the app component (\<open>App\<close>, \<open>src/unnamed/part_002\<close>) and
  the registry they are put in. Each handler is a function of the state it reads: the
  \<open>TelegramAPI\<close> instance (for \<open>sendMessage\<close>/\<open>sendFile\<close>), and the state of
  the hooks as it was in the render that created the handler's closure (the
  file-system hook's \<open>currentPath\<close>, the device-information hook's object, the
  message hook's flags). A handler returns the hook state it leaves and the posts it
  makes, in order; logging is not modelled.

  React state read in a closure is the value of the render the closure comes from, so
  a handler that first updates a hook and then calls another handler of the same
  render sees the old value: \<open>handleNavigateBack\<close> lists the directory it started
  from, and \<open>handleDeviceInfo\<close> prints the object of before the refresh.

  \<open>App.js\<close> does not import \<open>expo-file-system\<close>: the identifier \<open>FileSystem\<close>
  that \<open>handleFile\<close> reads is unbound in the module, and reading it throws a
  \<open>ReferenceError\<close>; \<open>app_scope_file_system\<close> is that lookup.
\<close>

subsection \<open>The handlers\<close>

definition handle_call_logs :: "tg \<Rightarrow> effect list" where
  "handle_call_logs s =
     send_message s ''Call log access requires native Android modules. Not available in this version.''"

definition sms_logs_options :: sms_options where
  "sms_logs_options =
     \<lparr>opt_max_count = Some 100, opt_include_inbox = Some True, opt_include_sent = Some True,
      opt_after_date = None, opt_phone_filter = None\<rparr>"

definition handle_sms_logs ::
  "tg \<Rightarrow> sms_hook \<Rightarrow> platform \<Rightarrow> int \<Rightarrow> (nat \<Rightarrow> rat) \<Rightarrow> 'k expo_fs \<Rightarrow> sms_hook \<times> effect list" where
  "handle_sms_logs s h p now rnd fs =
     (if \<not> h_available h then (h, send_message s ''SMS functionality is not available on this device.'')
      else if \<not> h_permission h
      then (h, send_message s ''SMS permission not granted. Please grant permission in the app settings.'')
      else
        (let (h', messages) = hook_get_sms_messages p now rnd h sms_logs_options;
             n = digits_of_nat (length messages)
         in if messages = [] then (h', send_message s ''No SMS messages found on this device.'')
            else (case hook_format_sms_as_csv fs now messages of
                    Some path \<Rightarrow>
                      (h', send_file s path (''SMS Messages Export ('' @ n @ '' messages)'')
                           @ send_message s (''Found '' @ n @ '' SMS messages.\<newline>\<newline>Recent messages sample:\<newline>\<newline>''
                                             @ hook_format_sms_as_text (take 5 messages) 20))
                  | None \<Rightarrow> (h', send_message s ''Failed to generate SMS logs.''))))"

text \<open>The labels of the storage message, as the bytes the source holds: the emoji were
  saved twice through UTF-8, so the texts carry the characters of their mojibake.\<close>

definition storage_header_icon :: string where
  "storage_header_icon = [CHR 0xC3, CHR 0xB0, CHR 0xC5, CHR 0xB8, CHR 0xE2, CHR 0x80, CHR 0x9C, CHR 0xE2, CHR 0x80, CHR 0x9A]"

definition storage_nav_row :: "(string \<times> string) list" where
  "storage_nav_row =
     [([CHR 0xC3, CHR 0xB0, CHR 0xC5, CHR 0xB8, CHR 0xE2, CHR 0x80, CHR 0x9D, CHR 0xE2, CHR 0x84, CHR 0xA2] @ '' Back'', ''back''),
      ([CHR 0xC3, CHR 0xB0, CHR 0xC5, CHR 0xB8, CHR 0xE2, CHR 0x80, CHR 0x9D, CHR 0xE2, CHR 0x80, CHR 0x9E] @ '' Refresh'', ''storage'')]"

definition file_button :: "nat \<Rightarrow> file_item \<Rightarrow> string \<times> string" where
  "file_button i f =
     (digits_of_nat (i + 1) @ ''. '' @ item_name f @ (if item_is_dir f then ''/'' else []), ''file_'' @ item_path f)"

definition storage_keyboard :: "file_item list \<Rightarrow> (string \<times> string) list list" where
  "storage_keyboard files = map (\<lambda>(i, f). [file_button i f]) (enumerate 0 (take 10 files)) @ [storage_nav_row]"

definition storage_text :: "string \<Rightarrow> nat \<Rightarrow> string" where
  "storage_text cur n =
     storage_header_icon @ '' *Current Directory*: `'' @ cur @ ''`\<newline>\<newline>Found '' @ digits_of_nat n
     @ '' items.\<newline>'' @ (if n > 10 then ''Showing first 10 items.'' else [])"

text \<open>\<open>handleStorage\<close> of the render whose \<open>currentPath\<close> is \<open>cur\<close>; \<open>listFiles\<close>
  catches its own errors and resolves \<open>[]\<close>.\<close>

definition handle_storage :: "tg \<Rightarrow> string \<Rightarrow> fs_hook \<Rightarrow> ('k::linorder) expo_fs \<Rightarrow> fs_hook \<times> effect list" where
  "handle_storage s cur h fs =
     (let (h', files) = list_files h fs cur
      in (h', send_keyboard s (storage_text cur (length files)) (storage_keyboard files)))"

definition app_scope_file_system :: "'k expo_fs \<Rightarrow> string + 'k expo_fs" where
  "app_scope_file_system fs = Inl ''FileSystem is not defined''"

text \<open>\<open>(size / 1024).toFixed(2)\<close> for a size in bytes.\<close>

definition kb_fixed2 :: "nat \<Rightarrow> string" where
  "kb_fixed2 bytes =
     (let n = (200 * bytes + 1024) div 2048 in digits_of_nat (n div 100) @ CHR ''.'' # two_digits (n mod 100))"

definition max_send_size :: nat where
  "max_send_size = 50 * 1024 * 1024"

text \<open>\<open>handleFile\<close> of the render whose file-system hook state is \<open>h\<close>: a directory is
  entered with \<open>navigateTo\<close>, then that render's \<open>handleStorage\<close> lists its own
  \<open>currentPath\<close>.\<close>

definition handle_file :: "tg \<Rightarrow> fs_hook \<Rightarrow> ('k::linorder) expo_fs \<Rightarrow> string \<Rightarrow> fs_hook \<times> effect list" where
  "handle_file s h fs path =
     (let fail = (\<lambda>e. (h, send_message s (''Error accessing file: '' @ e)))
      in case app_scope_file_system fs of
           Inl e \<Rightarrow> fail e
         | Inr efs \<Rightarrow>
             (case get_info efs path of
                Inl e \<Rightarrow> fail e
              | Inr info \<Rightarrow>
                  if \<not> fi_exists info then (h, send_message s (''File not found: '' @ path))
                  else if fi_is_dir info then handle_storage s (current_path h) (navigate_to h fs path) fs
                  else if fi_size info > max_send_size
                  then (h, send_message s (''File too large to send: '' @ mb_fixed2 (fi_size info)
                                            @ '' MB.\<newline>Maximum size is 50 MB.''))
                  else (h, send_file s path (''File: '' @ file_name_of path @ ''\<newline>Size: '' @ kb_fixed2 (fi_size info) @ '' KB''))))"

definition handle_navigate_back :: "tg \<Rightarrow> fs_hook \<Rightarrow> ('k::linorder) expo_fs \<Rightarrow> fs_hook \<times> effect list" where
  "handle_navigate_back s h fs = handle_storage s (current_path h) (navigate_back h fs) fs"

text \<open>\<open>handleDeviceInfo\<close>: refresh the hook, then format the object of the handler's
  render; \<open>new Date(v).toLocaleString()\<close> is a parameter.\<close>

definition handle_device_info ::
  "tg \<Rightarrow> info_hook \<Rightarrow> expo_env \<Rightarrow> (js_val \<Rightarrow> string) \<Rightarrow> info_hook \<times> effect list" where
  "handle_device_info s h env date_locale =
     (fst (collect_device_info env h), send_message s (format_device_info date_locale (Some (ih_info h))))"

definition handle_screenshot :: "tg \<Rightarrow> platform \<Rightarrow> bool \<Rightarrow> 'k expo_fs \<Rightarrow> int \<Rightarrow> string \<Rightarrow> effect list" where
  "handle_screenshot s p production fs now date_text =
     (case take_screenshot p production fs now of
        Inr (Some path) \<Rightarrow> send_file s path (''Screenshot taken at '' @ date_text)
      | Inr None \<Rightarrow> send_message s ''Could not take a screenshot. This might be due to permission restrictions or device limitations.''
      | Inl e \<Rightarrow>
          if js_includes e ''placeholder''
          then send_message s ''Screenshot functionality is available in the native Android app only.\<newline>Not available in web preview.''
          else send_message s (''Screenshot error: '' @ e))"

text \<open>The app's \<open>sendDeviceInfo\<close>: refresh, then report the object of its render.\<close>

definition app_send_device_info :: "tg \<Rightarrow> info_hook \<Rightarrow> expo_env \<Rightarrow> info_hook \<times> effect list" where
  "app_send_device_info s h env = (fst (collect_device_info env h), fst (send_device_info s (Some (ih_info h))))"

subsection \<open>The registry\<close>

text \<open>The handlers' identities, in the order the effect registers them.\<close>

definition app_commands :: "string list" where
  "app_commands = [''call_logs'', ''sms_logs'', ''contacts'', ''storage'', ''device_info'', ''screenshot'', ''file'', ''back'']"

definition app_registry :: "registry \<Rightarrow> registry" where
  "app_registry r = fold (\<lambda>(i, c) r. register_command_handler r c (JsFunction i)) (enumerate 0 app_commands) r"

subsection \<open>Properties\<close>

lemma app_registry_empty:
  "app_registry Map.empty =
     [''call_logs'' \<mapsto> 0, ''sms_logs'' \<mapsto> 1, ''contacts'' \<mapsto> 2, ''storage'' \<mapsto> 3,
      ''device_info'' \<mapsto> 4, ''screenshot'' \<mapsto> 5, ''file'' \<mapsto> 6, ''back'' \<mapsto> 7]"
  by (simp add: app_registry_def app_commands_def register_command_handler_def eval_nat_numeral)

lemma resolve_file_data: "resolve (app_registry Map.empty) (''file_'' @ p) = None"
  by (simp add: app_registry_empty resolve_def object_proto_keys_def)

text \<open>
  C40. Every file button fails. The data of the storage keyboard's button for a file
  is \<open>file_\<close> and the file's path; the dispatcher routes it to the handler registered
  under \<open>file\<close> with the whole path as parameter, and that handler, \<open>handleFile\<close>,
  throws a \<open>ReferenceError\<close> on the unbound \<open>FileSystem\<close> before anything else: it
  replies \<open>Error accessing file: FileSystem is not defined\<close> and changes no state,
  whatever the file.
\<close>

theorem file_button_fails:
  "route_callback (app_registry Map.empty) (snd (file_button i f)) = RouteParam (Registered 6) (item_path f)
   \<and> handle_file s h fs (item_path f) = (h, send_message s ''Error accessing file: FileSystem is not defined'')"
proof
  show "route_callback (app_registry Map.empty) (snd (file_button i f)) = RouteParam (Registered 6) (item_path f)"
    using route_callback_split[of "app_registry Map.empty" "''file''" "item_path f"] resolve_file_data
    by (simp add: file_button_def app_registry_empty resolve_def)
  show "handle_file s h fs (item_path f) = (h, send_message s ''Error accessing file: FileSystem is not defined'')"
    by (simp add: handle_file_def app_scope_file_system_def)
qed

lemma list_files_listing:
  "hook_listing fs p = Inr (np, items) \<Longrightarrow>
   list_files h fs p = (h\<lparr>current_path := np, file_list := items, is_loading := False, hook_error := None\<rparr>, items)"
  by (simp add: list_files_def)

text \<open>
  Back does not go back. \<open>handleNavigateBack\<close> calls \<open>navigateBack\<close> and then
  the \<open>handleStorage\<close> of its own render, which lists that render's
  \<open>currentPath\<close>: when that directory can be listed, the current directory after
  the command is the one it started from (the history loses its last entry all the
  same), and the message lists that directory.
\<close>

theorem navigate_back_stays:
  assumes "hook_listing fs (current_path h) = Inr (np, items)"
  shows "current_path (fst (handle_navigate_back s h fs)) = np
    \<and> snd (handle_navigate_back s h fs) = send_keyboard s (storage_text (current_path h) (length items)) (storage_keyboard items)"
  using list_files_listing[OF assms, of "navigate_back h fs"]
  by (simp add: handle_navigate_back_def handle_storage_def)

theorem navigate_back_stays_witness:
  "current_path (fst (handle_navigate_back tg_init
      \<lparr>current_path = ''/d/sub/'', file_list = [], is_loading = False, hook_error = None, path_history = [''/d/'']\<rparr>
      demo_fs)) = ''/d/sub/''"
  using navigate_back_stays[of demo_fs
      "\<lparr>current_path = ''/d/sub/'', file_list = [], is_loading = False, hook_error = None, path_history = [''/d/'']\<rparr>"
      "''/d/sub/''" "[]" tg_init]
  by (simp add: hook_listing_def fs_demo_defs Let_def sort_files_def)

lemma sublist_js_join_str: "x \<in> set ws \<Longrightarrow> sublist x (js_join_str sep ws)"
proof (induction sep ws rule: js_join_str.induct)
  case (3 sep w v ws)
  have "sublist (js_join_str sep (v # ws)) (w @ sep @ js_join_str sep (v # ws))"
    using sublist_append_leftI[of _ "w @ sep"] by simp
  then show ?case using 3 by (auto intro: sublist_order.order.trans)
qed simp_all

lemma collect_keeps_model_name:
  "di_model_name (ih_info h) = JUndefined \<Longrightarrow>
   di_model_name (ih_info (fst (collect_device_info env h))) = JUndefined"
  by (auto simp: collect_device_info_def Let_def split: sum.split prod.split)

lemma fold_collect_model_name:
  "di_model_name (ih_info h) = JUndefined \<Longrightarrow>
   di_model_name (ih_info (fold (\<lambda>env h. fst (collect_device_info env h)) envs h)) = JUndefined"
  by (induction envs arbitrary: h) (simp_all add: collect_keeps_model_name)

text \<open>
  The device report prints an undefined model. \<open>handleDeviceInfo\<close> formats
  the object of the app's device-information hook with \<open>formatDeviceInfo\<close>, which
  reads \<open>modelName\<close>; the hook's object never has that property (it has
  \<open>model\<close>), from the initial \<open>{}\<close> through any number of collections, so the
  message the command posts always holds the line \<open>  - Model: undefined\<close>.
\<close>

theorem device_info_model_undefined:
  "\<exists>t. snd (handle_device_info s (fold (\<lambda>env h. fst (collect_device_info env h)) envs info_hook_init) env date_locale)
        = send_message s t
     \<and> sublist ''  - Model: undefined'' t"
proof -
  let ?h = "fold (\<lambda>env h. fst (collect_device_info env h)) envs info_hook_init"
  have "di_model_name (ih_info ?h) = JUndefined"
    by (rule fold_collect_model_name) (simp add: info_hook_init_def empty_info_def)
  then have "sublist ''  - Model: undefined'' (format_device_info date_locale (Some (ih_info ?h)))"
    unfolding format_device_info_def option.case
    by (intro sublist_js_join_str) (simp add: js_String_def)
  then show ?thesis by (auto simp: handle_device_info_def)
qed

lemma sms_logs_options_all: "sms_matches sms_logs_options m"
  by (simp add: sms_matches_def sms_logs_options_def)

lemma sms_logs_messages:
  "native_get_sms_messages Android now rnd sms_logs_options = generate_sample_sms_data now rnd 100"
proof -
  have "filter (sms_matches sms_logs_options) (generate_sample_sms_data now rnd 100) = generate_sample_sms_data now rnd 100"
    by (simp add: sms_logs_options_all)
  then show ?thesis
    by (simp add: native_get_sms_messages_def sms_filters_eq sms_logs_options_def)
qed

lemma sample_sms_cells: "m \<in> set (generate_sample_sms_data now rnd n) \<Longrightarrow> sms_cells m \<noteq> None"
  by (auto simp: generate_sample_sms_data_def newest_first_def sample_sms_def sms_cells_def Let_def)

lemma length_sample_sms: "length (generate_sample_sms_data now rnd n) = n"
  by (simp add: generate_sample_sms_data_def newest_first_def)

text \<open>
  The SMS command on Android. After the message hook's start-up on Android with
  SMS available, and with a writable cache directory, \<open>handleSmsLogs\<close> sends the CSV
  export of the native module's 100 messages, then the count and a sample of the five
  newest; on another platform with SMS available the hook never asked for the
  permission, and the command answers that it is not granted.
\<close>

theorem sms_logs_export:
  assumes "\<forall>path csv. write_string fs path csv = None"
  shows "snd (handle_sms_logs s (sms_hook_start Android (Inr True) sms_hook_init) Android now rnd fs) =
      send_file s (cache_directory fs @ ''sms_export_'' @ digits_of_nat (nat now) @ ''.csv'') ''SMS Messages Export (100 messages)''
      @ send_message s (''Found 100 SMS messages.\<newline>\<newline>Recent messages sample:\<newline>\<newline>''
                        @ hook_format_sms_as_text (take 5 (generate_sample_sms_data now rnd 100)) 20)
    \<and> snd (handle_sms_logs s (sms_hook_start p (Inr True) sms_hook_init) p now rnd fs) =
        (if p = Android then snd (handle_sms_logs s (sms_hook_start Android (Inr True) sms_hook_init) Android now rnd fs)
         else send_message s ''SMS permission not granted. Please grant permission in the app settings.'')"
proof -
  let ?ms = "generate_sample_sms_data now rnd 100"
  have ne: "?ms \<noteq> []" using length_sample_sms[of now rnd 100] by auto
  have csv: "hook_format_sms_as_csv fs now ?ms = Some (cache_directory fs @ ''sms_export_'' @ digits_of_nat (nat now) @ ''.csv'')"
    using ne sample_sms_cells assms
    by (simp add: hook_format_sms_as_csv_def sms_csv_content_def list_all_iff create_temp_file_def temp_file_path_def)
  have "digits_of_nat 100 = ''100''" by (simp add: digits_of_nat.simps)
  then show ?thesis
    using ne csv length_sample_sms[of now rnd 100]
    by (simp add: handle_sms_logs_def sms_hook_start_def sms_hook_init_def request_sms_permission_def
        hook_get_sms_messages_def hook_call_def sms_logs_messages Let_def)
qed

theorem sms_logs_export_witness:
  "snd (handle_sms_logs tg_init (sms_hook_start Ios (Inr True) sms_hook_init) Ios 0 (\<lambda>_. 0) demo_fs) = []"
  using sms_logs_export[of demo_fs tg_init 0 "\<lambda>_. 0" Ios]
  by (simp add: demo_fs_def send_message_def tg_init_def)

end
