(* ===== verification/Json.thy ===== *)
theory Json
  imports Complex_Main "HOL-Library.AList" Prelude
begin

text \<open>
  \<open>JSON.parse\<close>, the built-in the storage utility applies to every text it reads back
  (\<open>getFromStorage\<close>), written from ECMA-404 and ECMAScript, not from code of the
  repository. It is a lexer, a left-to-right machine over the characters that yields
  the tokens, and a parser, a stack machine over the tokens; both are structural
  recursions, so \<open>json_parse\<close> is total and every text is either a value or a
  \<open>SyntaxError\<close> (\<open>None\<close>).

  Values are the JavaScript values \<open>JSON.parse\<close> can return. A number is kept as the
  exact rational its decimal text denotes (the rounding to a double is not modelled: it
  only matters beyond 2^53 or for fractions); an object is the list of its members in
  the order of their first occurrence, a repeated key keeping its last value, as
  \<open>JSON.parse\<close> builds it (the numeric-key ordering of JavaScript objects is not
  modelled). Texts are the development's strings; a \<open>\u\<close> escape names a code unit,
  and one at or above U+0100, which a string of the model cannot hold, is read as a
  syntax error.
\<close>

datatype json =
    JNull
  | JBool bool
  | JNum rat
  | JStr string
  | JArr "json list"
  | JObj "(string \<times> json) list"

datatype jtok = TObjOpen | TObjClose | TArrOpen | TArrClose | TColon | TComma | TLit json

subsection \<open>Numbers\<close>

text \<open>\<open>-? (0 | [1-9][0-9]* ) (. [0-9]+)? ([eE] [+-]? [0-9]+)?\<close>, on the maximal run of
  number characters the lexer collected.\<close>

definition json_int_ok :: "string \<Rightarrow> bool" where
  "json_int_ok ds \<longleftrightarrow> ds \<noteq> [] \<and> list_all is_digit ds \<and> (hd ds = CHR ''0'' \<longrightarrow> ds = ''0'')"

definition json_frac :: "string \<Rightarrow> (string \<times> string) option" where
  "json_frac r =
     (case r of
        c # t \<Rightarrow>
          if c = CHR ''.'' then
            (let fd = takeWhile is_digit t in if fd = [] then None else Some (fd, dropWhile is_digit t))
          else Some ([], r)
      | [] \<Rightarrow> Some ([], []))"

definition json_exp :: "string \<Rightarrow> (int \<times> string) option" where
  "json_exp r =
     (case r of
        c # t \<Rightarrow>
          if c = CHR ''e'' \<or> c = CHR ''E'' then
            (let (neg, t') = (case t of d # u \<Rightarrow> if d = CHR ''-'' then (True, u) else if d = CHR ''+'' then (False, u) else (False, t)
                                      | [] \<Rightarrow> (False, []));
                 ed = takeWhile is_digit t'
             in if ed = [] then None
                else Some ((if neg then - 1 else 1) * int (nat_of_digits ed), dropWhile is_digit t'))
          else Some (0, r)
      | [] \<Rightarrow> Some (0, []))"

definition json_number :: "string \<Rightarrow> rat option" where
  "json_number s =
     (let (neg, r) = (case s of c # t \<Rightarrow> if c = CHR ''-'' then (True, t) else (False, s) | [] \<Rightarrow> (False, []));
          ip = takeWhile is_digit r
      in if \<not> json_int_ok ip then None
         else case json_frac (dropWhile is_digit r) of
                None \<Rightarrow> None
              | Some (fd, r2) \<Rightarrow>
                  (case json_exp r2 of
                     None \<Rightarrow> None
                   | Some (e, r3) \<Rightarrow>
                       if r3 \<noteq> [] then None
                       else Some ((if neg then - 1 else 1) * of_nat (nat_of_digits (ip @ fd)) / 10 ^ length fd
                                  * (if 0 \<le> e then 10 ^ nat e else 1 / 10 ^ nat (- e)))))"

subsection \<open>The lexer\<close>

definition json_ws :: "char \<Rightarrow> bool" where
  "json_ws c \<longleftrightarrow> c = CHR '' '' \<or> c = CHR 0x09 \<or> c = CHR 0x0A \<or> c = CHR 0x0D"

definition num_char :: "char \<Rightarrow> bool" where
  "num_char c \<longleftrightarrow> is_digit c \<or> c \<in> set ''-+.eE''"

definition word_char :: "char \<Rightarrow> bool" where
  "word_char c \<longleftrightarrow> 97 \<le> (of_char c :: nat) \<and> (of_char c :: nat) \<le> 122"

definition hex_val :: "char \<Rightarrow> nat option" where
  "hex_val c =
     (if is_digit c then Some (of_char c - 48)
      else if 97 \<le> (of_char c :: nat) \<and> (of_char c :: nat) \<le> 102 then Some (of_char c - 87)
      else if 65 \<le> (of_char c :: nat) \<and> (of_char c :: nat) \<le> 70 then Some (of_char c - 55)
      else None)"

text \<open>The character of four hex digits, when the code unit is one of the model.\<close>

definition hex_unit :: "string \<Rightarrow> char option" where
  "hex_unit ds =
     (let v = foldl (\<lambda>n d. 16 * n + the (hex_val d)) 0 ds in if v < 256 then Some (char_of v) else None)"

definition simple_escape :: "char \<Rightarrow> char option" where
  "simple_escape c =
     (if c = CHR 0x22 then Some (CHR 0x22) else if c = CHR 0x5C then Some (CHR 0x5C)
      else if c = CHR ''/'' then Some (CHR ''/'') else if c = CHR ''b'' then Some (CHR 0x08)
      else if c = CHR ''f'' then Some (CHR 0x0C) else if c = CHR ''n'' then Some (CHR 0x0A)
      else if c = CHR ''r'' then Some (CHR 0x0D) else if c = CHR ''t'' then Some (CHR 0x09)
      else None)"

datatype lex_state =
    LTop
  | LStr string
  | LEsc string
  | LHex string string
  | LNum string
  | LWord string

text \<open>A character met between tokens.\<close>

definition top_char :: "char \<Rightarrow> jtok list \<Rightarrow> (lex_state \<times> jtok list) option" where
  "top_char c ts =
     (if is_digit c \<or> c = CHR ''-'' then Some (LNum [c], ts)
      else if json_ws c then Some (LTop, ts)
      else if c = CHR ''{'' then Some (LTop, TObjOpen # ts)
      else if c = CHR ''}'' then Some (LTop, TObjClose # ts)
      else if c = CHR ''['' then Some (LTop, TArrOpen # ts)
      else if c = CHR '']'' then Some (LTop, TArrClose # ts)
      else if c = CHR '':'' then Some (LTop, TColon # ts)
      else if c = CHR '','' then Some (LTop, TComma # ts)
      else if c = CHR 0x22 then Some (LStr [], ts)
      else if word_char c then Some (LWord [c], ts)
      else None)"

definition json_word :: "string \<Rightarrow> json option" where
  "json_word w =
     (if w = ''true'' then Some (JBool True) else if w = ''false'' then Some (JBool False)
      else if w = ''null'' then Some JNull else None)"

text \<open>The end of a number or a literal, or of the text; the runs are kept reversed.\<close>

definition finish :: "lex_state \<Rightarrow> jtok list \<Rightarrow> jtok list option" where
  "finish st ts =
     (case st of
        LTop \<Rightarrow> Some ts
      | LNum ns \<Rightarrow> map_option (\<lambda>v. TLit (JNum v) # ts) (json_number (rev ns))
      | LWord ws \<Rightarrow> map_option (\<lambda>v. TLit v # ts) (json_word (rev ws))
      | _ \<Rightarrow> None)"

definition after_token :: "lex_state \<Rightarrow> jtok list \<Rightarrow> char \<Rightarrow> (lex_state \<times> jtok list) option" where
  "after_token st ts c = (case finish st ts of None \<Rightarrow> None | Some ts' \<Rightarrow> top_char c ts')"

fun json_lex :: "lex_state \<Rightarrow> jtok list \<Rightarrow> string \<Rightarrow> jtok list option" where
  "json_lex st ts [] = map_option rev (finish st ts)"
| "json_lex LTop ts (c # cs) =
     (case top_char c ts of None \<Rightarrow> None | Some (st', ts') \<Rightarrow> json_lex st' ts' cs)"
| "json_lex (LStr acc) ts (c # cs) =
     (if c = CHR 0x22 then json_lex LTop (TLit (JStr (rev acc)) # ts) cs
      else if c = CHR 0x5C then json_lex (LEsc acc) ts cs
      else if of_char c < (32::nat) then None
      else json_lex (LStr (c # acc)) ts cs)"
| "json_lex (LEsc acc) ts (c # cs) =
     (if c = CHR ''u'' then json_lex (LHex acc []) ts cs
      else case simple_escape c of None \<Rightarrow> None | Some d \<Rightarrow> json_lex (LStr (d # acc)) ts cs)"
| "json_lex (LHex acc ds) ts (c # cs) =
     (if hex_val c = None then None
      else if length ds < 3 then json_lex (LHex acc (ds @ [c])) ts cs
      else case hex_unit (ds @ [c]) of None \<Rightarrow> None | Some d \<Rightarrow> json_lex (LStr (d # acc)) ts cs)"
| "json_lex (LNum ns) ts (c # cs) =
     (if num_char c then json_lex (LNum (c # ns)) ts cs
      else case after_token (LNum ns) ts c of None \<Rightarrow> None | Some (st', ts') \<Rightarrow> json_lex st' ts' cs)"
| "json_lex (LWord ws) ts (c # cs) =
     (if word_char c then json_lex (LWord (c # ws)) ts cs
      else case after_token (LWord ws) ts c of None \<Rightarrow> None | Some (st', ts') \<Rightarrow> json_lex st' ts' cs)"

subsection \<open>The parser\<close>

text \<open>Open arrays and objects, innermost first; an object frame holds the key of the
  member whose value is being read.\<close>

datatype frame = FArr "json list" | FObj "(string \<times> json) list" string

datatype pmode = MValue | MArrOpen | MObjOpen | MKey | MColon string | MAfter | MDone json

fun close_value :: "json \<Rightarrow> frame list \<Rightarrow> frame list \<times> pmode" where
  "close_value v [] = ([], MDone v)"
| "close_value v (FArr xs # st) = (FArr (xs @ [v]) # st, MAfter)"
| "close_value v (FObj ms k # st) = (FObj (AList.update k v ms) k # st, MAfter)"

definition value_start :: "jtok \<Rightarrow> frame list \<Rightarrow> (frame list \<times> pmode) option" where
  "value_start t st =
     (case t of
        TLit v \<Rightarrow> Some (close_value v st)
      | TArrOpen \<Rightarrow> Some (FArr [] # st, MArrOpen)
      | TObjOpen \<Rightarrow> Some (FObj [] [] # st, MObjOpen)
      | _ \<Rightarrow> None)"

definition key_tok :: "jtok \<Rightarrow> string option" where
  "key_tok t = (case t of TLit (JStr k) \<Rightarrow> Some k | _ \<Rightarrow> None)"

fun close_frame :: "jtok \<Rightarrow> frame list \<Rightarrow> (frame list \<times> pmode) option" where
  "close_frame TArrClose (FArr xs # st) = Some (close_value (JArr xs) st)"
| "close_frame TObjClose (FObj ms k # st) = Some (close_value (JObj ms) st)"
| "close_frame t st = None"

fun parse_step :: "frame list \<times> pmode \<Rightarrow> jtok \<Rightarrow> (frame list \<times> pmode) option" where
  "parse_step (st, MValue) t = value_start t st"
| "parse_step (st, MArrOpen) t = (if t = TArrClose then close_frame t st else value_start t st)"
| "parse_step (st, MObjOpen) t =
     (if t = TObjClose then close_frame t st else map_option (\<lambda>k. (st, MColon k)) (key_tok t))"
| "parse_step (st, MKey) t = map_option (\<lambda>k. (st, MColon k)) (key_tok t)"
| "parse_step (FObj ms _ # st, MColon k) t = (if t = TColon then Some (FObj ms k # st, MValue) else None)"
| "parse_step (st, MAfter) t =
     (if t = TComma then (case st of FArr _ # _ \<Rightarrow> Some (st, MValue) | FObj _ _ # _ \<Rightarrow> Some (st, MKey) | [] \<Rightarrow> None)
      else close_frame t st)"
| "parse_step (st, _) t = None"

fun parse_tokens :: "frame list \<times> pmode \<Rightarrow> jtok list \<Rightarrow> (frame list \<times> pmode) option" where
  "parse_tokens c [] = Some c"
| "parse_tokens c (t # ts) = (case parse_step c t of None \<Rightarrow> None | Some c' \<Rightarrow> parse_tokens c' ts)"

definition json_parse :: "string \<Rightarrow> json option" where
  "json_parse s =
     (case json_lex LTop [] s of
        None \<Rightarrow> None
      | Some ts \<Rightarrow> (case parse_tokens ([], MValue) ts of Some ([], MDone v) \<Rightarrow> Some v | _ \<Rightarrow> None))"

subsection \<open>Printing values\<close>

text \<open>
  \<open>Number.prototype.toString\<close> on the numbers of the model: the sign, the integer
  part and the decimal digits of the fraction (at most 20; a number read from JSON
  text has a finite expansion). The exponent notation JavaScript uses from 10^21 on and
  below 10^-6, and the rounding to 17 significant digits, are not modelled.
\<close>

fun frac_text :: "nat \<Rightarrow> rat \<Rightarrow> string" where
  "frac_text 0 x = []"
| "frac_text (Suc n) x =
     (if x = 0 then []
      else (let y = 10 * x in char_of (48 + nat \<lfloor>y\<rfloor>) # frac_text n (y - of_int \<lfloor>y\<rfloor>)))"

definition num_text :: "rat \<Rightarrow> string" where
  "num_text q =
     (let a = \<bar>q\<bar>; f = a - of_int \<lfloor>a\<rfloor>
      in (if q < 0 then ''-'' else []) @ digits_of_nat (nat \<lfloor>a\<rfloor>)
         @ (if f = 0 then [] else CHR ''.'' # frac_text 20 f))"

definition hex_digit :: "nat \<Rightarrow> char" where
  "hex_digit d = (if d < 10 then char_of (48 + d) else char_of (87 + d))"

text \<open>\<open>JSON.stringify\<close> on a string: the quotes, the two-character escapes, and
  \<open>\u00xx\<close> for the other control characters.\<close>

definition json_escape_char :: "char \<Rightarrow> string" where
  "json_escape_char c =
     (if c = CHR 0x22 then [CHR 0x5C, CHR 0x22] else if c = CHR 0x5C then [CHR 0x5C, CHR 0x5C]
      else if c = CHR 0x08 then [CHR 0x5C, CHR ''b''] else if c = CHR 0x0C then [CHR 0x5C, CHR ''f'']
      else if c = CHR 0x0A then [CHR 0x5C, CHR ''n''] else if c = CHR 0x0D then [CHR 0x5C, CHR ''r'']
      else if c = CHR 0x09 then [CHR 0x5C, CHR ''t'']
      else if of_char c < (32::nat) then [CHR 0x5C, CHR ''u'', CHR ''0'', CHR ''0'', hex_digit (of_char c div 16), hex_digit (of_char c mod 16)]
      else [c])"

definition json_quote :: "string \<Rightarrow> string" where
  "json_quote s = CHR 0x22 # concat (map json_escape_char s) @ [CHR 0x22]"

fun json_stringify :: "json \<Rightarrow> string" where
  "json_stringify JNull = ''null''"
| "json_stringify (JBool b) = (if b then ''true'' else ''false'')"
| "json_stringify (JNum q) = num_text q"
| "json_stringify (JStr s) = json_quote s"
| "json_stringify (JArr xs) = CHR ''['' # js_join CHR '','' (map json_stringify xs) @ '']''"
| "json_stringify (JObj ms) =
     CHR ''{'' # js_join CHR '','' (map (\<lambda>(k, v). json_quote k @ CHR '':'' # json_stringify v) ms) @ ''}''"

text \<open>ECMAScript \<open>ToString\<close>, as template literals and \<open>.toString()\<close> apply it; an
  array joins its elements with commas, \<open>null\<close> elements giving the empty text.\<close>

fun js_to_string :: "json \<Rightarrow> string" where
  "js_to_string JNull = ''null''"
| "js_to_string (JBool b) = (if b then ''true'' else ''false'')"
| "js_to_string (JNum q) = num_text q"
| "js_to_string (JStr s) = s"
| "js_to_string (JArr xs) = js_join CHR '','' (map (\<lambda>x. if x = JNull then [] else js_to_string x) xs)"
| "js_to_string (JObj ms) = ''[object Object]''"

text \<open>Truthiness (\<open>NaN\<close> is not a value of the model).\<close>

fun js_truthy :: "json \<Rightarrow> bool" where
  "js_truthy JNull = False"
| "js_truthy (JBool b) = b"
| "js_truthy (JNum q) = (q \<noteq> 0)"
| "js_truthy (JStr s) = (s \<noteq> [])"
| "js_truthy (JArr xs) = True"
| "js_truthy (JObj ms) = True"

definition json_or :: "json \<Rightarrow> json \<Rightarrow> json" where
  "json_or a b = (if js_truthy a then a else b)"

subsection \<open>What the storage reads back\<close>

lemma json_lex_num_run:
  "list_all num_char cs \<Longrightarrow> json_lex (LNum ns) ts (cs @ r) = json_lex (LNum (rev cs @ ns)) ts r"
  by (induction cs arbitrary: ns) auto

lemma json_lex_word_run:
  "list_all word_char cs \<Longrightarrow> json_lex (LWord ns) ts (cs @ r) = json_lex (LWord (rev cs @ ns)) ts r"
  by (induction cs arbitrary: ns) auto

lemma num_char_digit [simp]: "is_digit c \<Longrightarrow> num_char c"
  by (simp add: num_char_def)

lemma top_char_digit: "is_digit c \<Longrightarrow> top_char c ts = Some (LNum [c], ts)"
  by (simp add: top_char_def)

lemma top_char_colon: "top_char (CHR '':'') ts = Some (LTop, TColon # ts)"
  by (simp add: top_char_def json_ws_def is_digit_def)

lemma json_number_int:
  assumes "json_int_ok ds"
  shows "json_number ds = Some (of_nat (nat_of_digits ds))"
    and "json_number (CHR ''-'' # ds) = Some (- of_nat (nat_of_digits ds))"
proof -
  have d: "list_all is_digit ds" "ds \<noteq> []" using assms by (auto simp: json_int_ok_def)
  then have tw: "takeWhile is_digit ds = ds" "dropWhile is_digit ds = []"
    by (simp_all add: list_all_iff)
  have sign: "(case ds of c # t \<Rightarrow> if c = CHR ''-'' then (True, t) else (False, ds) | [] \<Rightarrow> (False, [])) = (False, ds)"
    using d by (cases ds) (auto simp: is_digit_def)
  show "json_number ds = Some (of_nat (nat_of_digits ds))"
    unfolding json_number_def sign using assms by (simp add: tw Let_def json_frac_def json_exp_def)
  show "json_number (CHR ''-'' # ds) = Some (- of_nat (nat_of_digits ds))"
    unfolding json_number_def using assms by (simp add: tw Let_def json_frac_def json_exp_def)
qed

lemma json_parse_of_lex:
  "json_lex LTop [] s = Some [TLit v] \<Longrightarrow> json_parse s = Some v"
  by (simp add: json_parse_def value_start_def)

lemma top_char_minus: "top_char (CHR ''-'') ts = Some (LNum [CHR ''-''], ts)"
  by (simp add: top_char_def)

text \<open>An integer's text, with or without a minus sign, reads back as that number.\<close>

lemma json_parse_int:
  assumes "json_int_ok ds"
  shows "json_parse ds = Some (JNum (of_nat (nat_of_digits ds)))"
    and "json_parse (CHR ''-'' # ds) = Some (JNum (- of_nat (nat_of_digits ds)))"
proof -
  obtain d ds' where ds: "ds = d # ds'" "is_digit d" "list_all is_digit ds'"
    using assms by (cases ds) (auto simp: json_int_ok_def)
  have run: "list_all num_char ds'" "list_all num_char ds" using ds by (auto simp: list_all_iff)
  have "json_lex LTop [] ds = Some [TLit (JNum (of_nat (nat_of_digits ds)))]"
    using json_lex_num_run[OF run(1), of "[d]" "[]" "[]"] json_number_int(1)[OF assms] ds
    by (simp add: top_char_digit finish_def)
  then show "json_parse ds = Some (JNum (of_nat (nat_of_digits ds)))"
    by (rule json_parse_of_lex)
  have "json_lex LTop [] (CHR ''-'' # ds) = Some [TLit (JNum (- of_nat (nat_of_digits ds)))]"
    using json_lex_num_run[OF run(2), of "[CHR ''-'']" "[]" "[]"] json_number_int(2)[OF assms]
    by (simp add: top_char_minus finish_def)
  then show "json_parse (CHR ''-'' # ds) = Some (JNum (- of_nat (nat_of_digits ds)))"
    by (rule json_parse_of_lex)
qed

text \<open>The lexer only prepends to the tokens it was given.\<close>

lemma top_char_extends: "top_char c ts = Some (st, ts') \<Longrightarrow> \<exists>u. ts' = u @ ts"
  by (auto simp: top_char_def split: if_splits)

lemma finish_extends: "finish st ts = Some ts' \<Longrightarrow> \<exists>u. ts' = u @ ts"
  by (auto simp: finish_def split: lex_state.splits)

lemma after_token_extends: "after_token st ts c = Some (st', ts') \<Longrightarrow> \<exists>u. ts' = u @ ts"
  by (fastforce simp: after_token_def split: option.splits dest: finish_extends top_char_extends)

lemma json_lex_extends: "json_lex st ts cs = Some out \<Longrightarrow> \<exists>u. out = rev ts @ u"
proof (induction st ts cs arbitrary: out rule: json_lex.induct)
  case (1 st ts)
  then show ?case by (auto dest: finish_extends)
next
  case (2 ts c cs)
  then show ?case by (fastforce split: option.splits dest: top_char_extends)
next
  case (6 ns ts c cs)
  then show ?case by (fastforce split: option.splits if_splits dest: after_token_extends)
next
  case (7 ws ts c cs)
  then show ?case by (fastforce split: option.splits if_splits dest: after_token_extends)
qed (fastforce split: option.splits if_splits)+

text \<open>A number followed by a colon is not JSON, whatever comes next: a bot token
  (\<open>123456:ABC...\<close>) is not parsed.\<close>

lemma json_parse_int_colon:
  assumes "json_int_ok ds"
  shows "json_parse (ds @ CHR '':'' # r) = None"
proof -
  obtain d ds' where ds: "ds = d # ds'" "is_digit d" "list_all is_digit ds'"
    using assms by (cases ds) (auto simp: json_int_ok_def)
  have run: "list_all num_char ds'" using ds by (auto simp: list_all_iff)
  have colon: "\<not> num_char (CHR '':'')" by (simp add: num_char_def is_digit_def)
  have lex: "json_lex LTop [] (ds @ CHR '':'' # r) = json_lex LTop [TColon, TLit (JNum (of_nat (nat_of_digits ds)))] r"
    using json_lex_num_run[OF run, of "[d]" "[]" "CHR '':'' # r"] json_number_int(1)[OF assms] ds colon
    by (simp add: top_char_digit after_token_def finish_def top_char_colon)
  show ?thesis
  proof (cases "json_lex LTop [] (ds @ CHR '':'' # r)")
    case (Some out)
    then obtain u where "out = [TLit (JNum (of_nat (nat_of_digits ds))), TColon] @ u"
      using json_lex_extends[of LTop "[TColon, TLit (JNum (of_nat (nat_of_digits ds)))]" r out] lex by auto
    then show ?thesis using Some by (simp add: json_parse_def value_start_def)
  qed (simp add: json_parse_def)
qed

end
