(* ===== verification/Storage.thy ===== *)
theory Storage
  imports Json
begin

text \<open>
  The storage utility (\<open>src/unnamed/part_007\<close>, the module imported as \<open>utils/storage\<close>):
  \<open>saveSecure\<close>/\<open>getSecure\<close> keep a text in \<open>expo-secure-store\<close> and fall back to
  \<open>AsyncStorage\<close> when \<open>SecureStore.setItemAsync\<close> is not a function or rejects (on the
  web it is a function that rejects: the native module is missing);
  \<open>saveToStorage\<close>/\<open>getFromStorage\<close> keep texts in \<open>AsyncStorage\<close>, and
  \<open>getFromStorage\<close> runs \<open>JSON.parse\<close> on what it reads, keeping the raw text when the
  parse throws. The credentials accessors fix the keys.

  The two stores are maps from keys to texts; whether each backend works is part of
  the state. The values saved are JavaScript values (\<open>json\<close>): \<open>SecureStore.setItemAsync\<close>
  rejects a value that is not a string (and so falls back), and \<open>saveToStorage\<close>
  stores a string as it is and any other value as its \<open>JSON.stringify\<close> text.
  Logging is not modelled.
\<close>

datatype secure_backend =
    SecureNative
  | SecureRejects string
  | SecureMissing

record storage =
  secure_backend :: secure_backend
  secure_items :: "string \<rightharpoonup> string"
  async_items :: "string \<rightharpoonup> string"
  async_ok :: bool

definition bot_token_key :: string where
  "bot_token_key = ''telegramBotToken''"

definition chat_id_key :: string where
  "chat_id_key = ''telegramChatId''"

definition app_settings_key :: string where
  "app_settings_key = ''appSettings''"

definition stored_text :: "json \<Rightarrow> string" where
  "stored_text v = (case v of JStr s \<Rightarrow> s | _ \<Rightarrow> json_stringify v)"

definition save_to_storage :: "storage \<Rightarrow> string \<Rightarrow> json \<Rightarrow> storage \<times> bool" where
  "save_to_storage st k v =
     (if async_ok st then (st\<lparr>async_items := (async_items st)(k \<mapsto> stored_text v)\<rparr>, True) else (st, False))"

text \<open>\<open>getFromStorage(key, parse)\<close>: \<open>null\<close> when the key is absent or the read rejects.\<close>

definition get_from_storage :: "storage \<Rightarrow> string \<Rightarrow> bool \<Rightarrow> json" where
  "get_from_storage st k parse =
     (if \<not> async_ok st then JNull
      else case async_items st k of
             None \<Rightarrow> JNull
           | Some v \<Rightarrow> if parse then (case json_parse v of Some j \<Rightarrow> j | None \<Rightarrow> JStr v) else JStr v)"

definition save_secure :: "storage \<Rightarrow> string \<Rightarrow> json \<Rightarrow> storage \<times> bool" where
  "save_secure st k v =
     (case secure_backend st of
        SecureNative \<Rightarrow>
          (case v of JStr s \<Rightarrow> (st\<lparr>secure_items := (secure_items st)(k \<mapsto> s)\<rparr>, True)
                   | _ \<Rightarrow> save_to_storage st k v)
      | SecureRejects e \<Rightarrow> save_to_storage st k v
      | SecureMissing \<Rightarrow> save_to_storage st k v)"

definition get_secure :: "storage \<Rightarrow> string \<Rightarrow> json" where
  "get_secure st k =
     (case secure_backend st of
        SecureNative \<Rightarrow> (case secure_items st k of None \<Rightarrow> JNull | Some v \<Rightarrow> JStr v)
      | SecureRejects e \<Rightarrow> get_from_storage st k True
      | SecureMissing \<Rightarrow> get_from_storage st k True)"

definition save_bot_token :: "storage \<Rightarrow> json \<Rightarrow> storage \<times> bool" where
  "save_bot_token st tok = save_secure st bot_token_key tok"

definition get_bot_token :: "storage \<Rightarrow> json" where
  "get_bot_token st = get_secure st bot_token_key"

definition save_chat_id :: "storage \<Rightarrow> json \<Rightarrow> storage \<times> bool" where
  "save_chat_id st chat = save_secure st chat_id_key chat"

definition get_chat_id :: "storage \<Rightarrow> json" where
  "get_chat_id st = get_secure st chat_id_key"

definition save_app_settings :: "storage \<Rightarrow> json \<Rightarrow> storage \<times> bool" where
  "save_app_settings st settings = save_to_storage st app_settings_key settings"

definition get_app_settings :: "storage \<Rightarrow> json" where
  "get_app_settings st = get_from_storage st app_settings_key True"

definition storage_native :: storage where
  "storage_native = \<lparr>secure_backend = SecureNative, secure_items = Map.empty, async_items = Map.empty, async_ok = True\<rparr>"

definition storage_web :: storage where
  "storage_web = \<lparr>secure_backend = SecureRejects ''The method or property SecureStore.setItemAsync is not available on web'',
                  secure_items = Map.empty, async_items = Map.empty, async_ok = True\<rparr>"

subsection \<open>Reading back what was saved\<close>

lemma storage_keys_distinct [simp]:
  "bot_token_key \<noteq> chat_id_key" "chat_id_key \<noteq> bot_token_key"
  by (simp_all add: bot_token_key_def chat_id_key_def)

text \<open>What \<open>getSecure\<close> returns for a key just saved with a string by
  \<open>saveSecure\<close>: the string when the secure store works, the string read through
  \<open>JSON.parse\<close> on the fallback.\<close>

lemma get_save_secure:
  "get_secure (fst (save_secure st k (JStr v))) k' =
     (if k' = k \<and> (secure_backend st = SecureNative \<or> async_ok st)
      then (if secure_backend st = SecureNative then JStr v else case json_parse v of Some j \<Rightarrow> j | None \<Rightarrow> JStr v)
      else get_secure st k')"
  by (auto simp: save_secure_def get_secure_def save_to_storage_def get_from_storage_def stored_text_def
      split: secure_backend.splits)

lemma save_secure_backend [simp]: "secure_backend (fst (save_secure st k v)) = secure_backend st"
  by (simp add: save_secure_def save_to_storage_def split: secure_backend.split json.split)

lemma save_secure_async_ok [simp]: "async_ok (fst (save_secure st k v)) = async_ok st"
  by (simp add: save_secure_def save_to_storage_def split: secure_backend.split json.split)

text \<open>With the secure store working, a credential read back is a string or \<open>null\<close>.\<close>

lemma get_secure_native:
  "secure_backend st = SecureNative \<Longrightarrow> get_secure st k = JNull \<or> (\<exists>s. get_secure st k = JStr s)"
  by (simp add: get_secure_def split: option.split)

end
