(* ===== verification/Settings.thy ===== *)
theory Settings
  imports Storage Encryption Connection
begin

text \<open>
  The settings form (\<open>SettingsForm\<close>, \<open>src/unnamed/part_004\<close>) and the credential
  restore of the app's start-up effect (\<open>App\<close>, \<open>src/unnamed/part_002\<close>), the two
  clients of the storage utility.

  The form's state is its seven \<open>useState\<close> hooks. Its fields hold JavaScript values,
  not only strings: the mount effect \<open>loadSavedCredentials\<close> copies what
  \<open>getBotToken\<close>/\<open>getChatId\<close> return, and on the storage fallback that is the text
  read through \<open>JSON.parse\<close>. The render shows each field through
  \<open>maskSensitive\<close> unless it is made visible; \<open>handleConnect\<close> saves both fields,
  calls \<open>telegramAPI.initialize\<close> and reports through \<open>onConnect\<close> or an alert.
  The Telegram object keeps the \<open>ToString\<close> texts of the token and the chat id (it
  only uses them through template literals and \<open>.toString()\<close>).

  Events run in the order React delivers them; the mount effect reads the fields of
  the first render (its closure), and every other handler the current state.
\<close>

datatype alert = Alert string string

text \<open>What a text input shows: a string, or a value of another type passed through.\<close>

datatype input_value = TextValue js_str | RawValue json

record settings_form =
  sf_bot_token :: json
  sf_chat_id :: json
  sf_loading :: bool
  sf_token_visible :: bool
  sf_chat_visible :: bool
  sf_saved_token :: json
  sf_saved_chat :: json

definition settings_mount :: "string \<Rightarrow> string \<Rightarrow> settings_form" where
  "settings_mount initial_token initial_chat =
     \<lparr>sf_bot_token = JStr initial_token, sf_chat_id = JStr initial_chat, sf_loading = False,
      sf_token_visible = False, sf_chat_visible = False, sf_saved_token = JStr [], sf_saved_chat = JStr []\<rparr>"

text \<open>The mount effect; \<open>f0\<close> is the first render, whose \<open>botToken\<close> and \<open>chatId\<close> the
  closure tests.\<close>

definition load_saved_credentials :: "settings_form \<Rightarrow> storage \<Rightarrow> settings_form \<Rightarrow> settings_form" where
  "load_saved_credentials f0 st f =
     (let token = json_or (get_bot_token st) (JStr []);
          chat = json_or (get_chat_id st) (JStr []);
          f1 = f\<lparr>sf_saved_token := token, sf_saved_chat := chat\<rparr>;
          f2 = (if \<not> js_truthy (sf_bot_token f0) \<and> js_truthy token then f1\<lparr>sf_bot_token := token\<rparr> else f1)
      in if \<not> js_truthy (sf_chat_id f0) \<and> js_truthy chat then f2\<lparr>sf_chat_id := chat\<rparr> else f2)"

definition handle_connect ::
  "settings_form \<Rightarrow> storage \<Rightarrow> tg \<Rightarrow> settings_form \<times> storage \<times> (tg \<times> effect list) \<times> alert list \<times> bool" where
  "handle_connect f st s =
     (if \<not> js_truthy (sf_bot_token f) \<or> \<not> js_truthy (sf_chat_id f)
      then (f, st, (s, []), [Alert ''Missing Information'' ''Please enter both Bot Token and Chat ID''], False)
      else
        (let st1 = fst (save_bot_token st (sf_bot_token f));
             st2 = fst (save_chat_id st1 (sf_chat_id f));
             ((s', es), ok) = initialize s (js_to_string (sf_bot_token f)) (js_to_string (sf_chat_id f))
         in if ok
            then (f\<lparr>sf_saved_token := sf_bot_token f, sf_saved_chat := sf_chat_id f\<rparr>, st2, (s', es), [], True)
            else (f, st2, (s', es),
                  [Alert ''Connection Failed'' ''Could not connect to Telegram with the provided credentials.''], False)))"

definition handle_reset :: "settings_form \<Rightarrow> settings_form" where
  "handle_reset f = f\<lparr>sf_bot_token := sf_saved_token f, sf_chat_id := sf_saved_chat f\<rparr>"

definition has_changes :: "settings_form \<Rightarrow> bool" where
  "has_changes f \<longleftrightarrow> sf_bot_token f \<noteq> sf_saved_token f \<or> sf_chat_id f \<noteq> sf_saved_chat f"

text \<open>\<open>maskSensitive(v)\<close> with four visible characters on a value of any type: a
  falsy value is returned, a value whose \<open>length\<close> is at most 8 is returned, and
  otherwise \<open>text.substring\<close> is called, which only strings have; a number, \<open>true\<close> or
  an object has no \<open>length\<close>, and \<open>undefined <= 8\<close> is false.\<close>

definition js_mask :: "json \<Rightarrow> js_error + input_value" where
  "js_mask v =
     (case v of
        JStr s \<Rightarrow> Inr (TextValue (mask_sensitive (js_str_of s) 4))
      | JArr xs \<Rightarrow> if length xs \<le> 8 then Inr (RawValue v) else Inl (TypeError ''text.substring is not a function'')
      | _ \<Rightarrow> if js_truthy v then Inl (TypeError ''text.substring is not a function'') else Inr (RawValue v))"

definition input_shown :: "bool \<Rightarrow> json \<Rightarrow> js_error + input_value" where
  "input_shown visible v =
     (if visible then Inr (case v of JStr s \<Rightarrow> TextValue (js_str_of s) | _ \<Rightarrow> RawValue v) else js_mask v)"

record settings_view =
  sv_token :: input_value
  sv_chat :: input_value
  sv_reset_shown :: bool
  sv_connect_disabled :: bool
  sv_connect_label :: string

text \<open>The render, in the order of the JSX: the token input, the chat input, the buttons.\<close>

definition settings_render :: "settings_form \<Rightarrow> tg \<Rightarrow> js_error + settings_view" where
  "settings_render f s =
     (case input_shown (sf_token_visible f) (sf_bot_token f) of
        Inl e \<Rightarrow> Inl e
      | Inr tv \<Rightarrow>
          (case input_shown (sf_chat_visible f) (sf_chat_id f) of
             Inl e \<Rightarrow> Inl e
           | Inr cv \<Rightarrow>
               Inr \<lparr>sv_token = tv, sv_chat = cv, sv_reset_shown = has_changes f,
                    sv_connect_disabled = (sf_loading f \<or> \<not> js_truthy (sf_bot_token f) \<or> \<not> js_truthy (sf_chat_id f)),
                    sv_connect_label = (if connected s then ''Reconnect'' else ''Connect'')\<rparr>))"

subsection \<open>A session of the form\<close>

datatype form_event =
    EditToken string
  | EditChat string
  | ToggleToken
  | ToggleChat
  | PressConnect
  | PressReset
  | LoadSaved

definition form_step :: "settings_form \<Rightarrow> settings_form \<times> storage \<times> tg \<Rightarrow> form_event \<Rightarrow> settings_form \<times> storage \<times> tg" where
  "form_step f0 c ev =
     (let (f, st, s) = c
      in case ev of
           EditToken t \<Rightarrow> (f\<lparr>sf_bot_token := JStr t\<rparr>, st, s)
         | EditChat t \<Rightarrow> (f\<lparr>sf_chat_id := JStr t\<rparr>, st, s)
         | ToggleToken \<Rightarrow> (f\<lparr>sf_token_visible := \<not> sf_token_visible f\<rparr>, st, s)
         | ToggleChat \<Rightarrow> (f\<lparr>sf_chat_visible := \<not> sf_chat_visible f\<rparr>, st, s)
         | PressConnect \<Rightarrow> (let (f', st', (s', _), _) = handle_connect f st s in (f', st', s'))
         | PressReset \<Rightarrow> (handle_reset f, st, s)
         | LoadSaved \<Rightarrow> (load_saved_credentials f0 st f, st, s))"

definition form_run :: "settings_form \<Rightarrow> settings_form \<times> storage \<times> tg \<Rightarrow> form_event list \<Rightarrow> settings_form \<times> storage \<times> tg" where
  "form_run f0 c evs = fold (\<lambda>ev c. form_step f0 c ev) evs c"

subsection \<open>The app's start-up restore\<close>

text \<open>Lines 103--118 of the start-up effect: read both credentials and initialize the
  Telegram object when both are truthy; the result decides \<open>isConnected\<close> and whether
  the settings stay shown.\<close>

definition app_restore_credentials :: "storage \<Rightarrow> tg \<Rightarrow> (tg \<times> effect list) \<times> bool" where
  "app_restore_credentials st s =
     (let tok = get_bot_token st; chat = get_chat_id st
      in if js_truthy tok \<and> js_truthy chat then initialize s (js_to_string tok) (js_to_string chat)
         else ((s, []), False))"

subsection \<open>Properties\<close>

definition is_text :: "json \<Rightarrow> bool" where
  "is_text v = (case v of JStr _ \<Rightarrow> True | _ \<Rightarrow> False)"

definition form_texts :: "settings_form \<Rightarrow> bool" where
  "form_texts f \<longleftrightarrow> is_text (sf_bot_token f) \<and> is_text (sf_chat_id f)
                    \<and> is_text (sf_saved_token f) \<and> is_text (sf_saved_chat f)"

lemma is_text_JStr [simp]: "is_text (JStr s)"
  by (simp add: is_text_def)

lemma json_or_text: "is_text b \<Longrightarrow> a = JNull \<or> is_text a \<Longrightarrow> is_text (json_or a b)"
  by (auto simp: json_or_def is_text_def)

lemma get_secure_native_text:
  "secure_backend st = SecureNative \<Longrightarrow> get_secure st k = JNull \<or> is_text (get_secure st k)"
  using get_secure_native[of st k] by auto

lemma load_saved_texts:
  assumes "secure_backend st = SecureNative" "form_texts f"
  shows "form_texts (load_saved_credentials f0 st f)"
proof -
  have "is_text (json_or (get_bot_token st) (JStr []))" "is_text (json_or (get_chat_id st) (JStr []))"
    using get_secure_native_text[OF assms(1)] by (simp_all add: json_or_text get_bot_token_def get_chat_id_def)
  with assms(2) show ?thesis
    by (simp add: load_saved_credentials_def form_texts_def Let_def)
qed

lemma handle_connect_texts:
  assumes "secure_backend st = SecureNative" "form_texts f" "handle_connect f st s = (f', st', r)"
  shows "form_texts f' \<and> secure_backend st' = SecureNative"
  using assms
  by (auto simp: handle_connect_def form_texts_def save_bot_token_def save_chat_id_def Let_def
      split: prod.splits if_splits)

lemma form_step_texts:
  assumes "secure_backend st = SecureNative" "form_texts f" "form_step f0 (f, st, s) ev = (f', st', s')"
  shows "form_texts f' \<and> secure_backend st' = SecureNative"
proof (cases ev)
  case PressConnect
  then obtain r where "handle_connect f st s = (f', st', r)"
    using assms(3) by (auto simp: form_step_def split: prod.splits)
  then show ?thesis using handle_connect_texts assms(1,2) by blast
next
  case LoadSaved
  then show ?thesis using assms load_saved_texts by (auto simp: form_step_def)
qed (use assms in \<open>auto simp: form_step_def form_texts_def handle_reset_def\<close>)

lemma form_run_texts:
  "secure_backend st = SecureNative \<Longrightarrow> form_texts f \<Longrightarrow> form_run f0 (f, st, s) evs = (f', st', s')
   \<Longrightarrow> form_texts f' \<and> secure_backend st' = SecureNative"
proof (induction evs arbitrary: f st s)
  case (Cons ev evs)
  obtain f1 st1 s1 where step: "form_step f0 (f, st, s) ev = (f1, st1, s1)" by (cases "form_step f0 (f, st, s) ev")
  with form_step_texts[OF Cons.prems(1,2) step] Cons.IH[of st1 f1 s1] Cons.prems(3) show ?case
    by (simp add: form_run_def)
qed (simp add: form_run_def)

lemma input_shown_text: "is_text v \<Longrightarrow> \<exists>u. input_shown b v = Inr (TextValue u)"
  by (auto simp: is_text_def input_shown_def js_mask_def split: json.splits)

lemma js_mask_error: "js_mask v = Inl e \<Longrightarrow> e = TypeError ''text.substring is not a function''"
  by (auto simp: js_mask_def split: json.splits if_splits)

lemma input_shown_error: "input_shown b v = Inl e \<Longrightarrow> e = TypeError ''text.substring is not a function''"
  by (auto simp: input_shown_def dest: js_mask_error split: if_splits)

text \<open>
  C16. With the secure store working the form only ever holds strings. From the mount,
  after any sequence of edits, visibility toggles, connects, resets and credential
  loads, the four credential fields of \<open>SettingsForm\<close> are strings and the render
  shows both inputs as texts (it never throws).
\<close>

theorem settings_fields_are_texts:
  assumes "secure_backend st = SecureNative"
    and "form_run (settings_mount tok chat) (settings_mount tok chat, st, s) evs = (f, st', s')"
  shows "form_texts f \<and> (\<exists>v. settings_render f t = Inr v \<and> (\<exists>a. sv_token v = TextValue a) \<and> (\<exists>b. sv_chat v = TextValue b))"
proof -
  have "form_texts (settings_mount tok chat)" by (simp add: settings_mount_def form_texts_def)
  then have ft: "form_texts f" using form_run_texts[OF assms(1) _ assms(2)] by blast
  then obtain a b where "input_shown (sf_token_visible f) (sf_bot_token f) = Inr (TextValue a)"
    "input_shown (sf_chat_visible f) (sf_chat_id f) = Inr (TextValue b)"
    using input_shown_text by (meson form_texts_def)
  with ft show ?thesis by (simp add: settings_render_def)
qed

theorem settings_fields_are_texts_witness:
  "form_texts (fst (form_run (settings_mount [] []) (settings_mount [] [], storage_native, tg_init)
      [EditToken ''123:ABC'', EditChat ''4567'', PressConnect, LoadSaved, PressReset]))
   \<and> (\<exists>v. settings_render (fst (form_run (settings_mount [] []) (settings_mount [] [], storage_native, tg_init)
      [EditToken ''123:ABC'', EditChat ''4567'', PressConnect, LoadSaved, PressReset])) tg_init = Inr v
      \<and> (\<exists>a. sv_token v = TextValue a) \<and> (\<exists>b. sv_chat v = TextValue b))"
  using settings_fields_are_texts[of storage_native "[]" "[]" tg_init
      "[EditToken ''123:ABC'', EditChat ''4567'', PressConnect, LoadSaved, PressReset]"
      "fst (form_run (settings_mount [] []) (settings_mount [] [], storage_native, tg_init)
      [EditToken ''123:ABC'', EditChat ''4567'', PressConnect, LoadSaved, PressReset])"]
  by (simp add: storage_native_def prod_eq_iff)

text \<open>\<open>initialize\<close> with a non-empty token and chat id connects and keeps both.\<close>

lemma initialize_texts_ok:
  assumes "tok \<noteq> []" "chat \<noteq> []"
  obtains s' es where "initialize s tok chat = ((s', es), True)" "connected s'"
    "token s' = Some tok" "chat_id s' = Some chat"
proof -
  have "snd (initialize s tok chat) \<and> connected (fst (fst (initialize s tok chat)))
        \<and> token (fst (fst (initialize s tok chat))) = Some tok \<and> chat_id (fst (fst (initialize s tok chat))) = Some chat"
    using assms by (simp add: tg_defs Let_def)
  then show ?thesis using that by (cases "initialize s tok chat") auto
qed

text \<open>\<open>handleConnect\<close> with two non-empty strings: both are saved, the Telegram object
  is initialized with them and connects, and the parent is notified.\<close>

lemma handle_connect_texts_ok:
  assumes "tok \<noteq> []" "chat \<noteq> []"
  shows "handle_connect (f\<lparr>sf_bot_token := JStr tok, sf_chat_id := JStr chat\<rparr>) st s =
           (f\<lparr>sf_bot_token := JStr tok, sf_chat_id := JStr chat, sf_saved_token := JStr tok, sf_saved_chat := JStr chat\<rparr>,
            fst (save_chat_id (fst (save_bot_token st (JStr tok))) (JStr chat)),
            fst (initialize s tok chat), [], True)"
proof -
  obtain s' es where "initialize s tok chat = ((s', es), True)"
    using initialize_texts_ok[OF assms] by blast
  then show ?thesis
    using assms by (simp add: handle_connect_def Let_def)
qed

text \<open>
  C17. On the storage fallback a numeric chat id comes back as a number and breaks the
  form. When \<open>SecureStore\<close> is unavailable (as on the web) and \<open>AsyncStorage\<close> works,
  connecting with a non-empty token and a chat id written as a non-zero JSON integer
  succeeds; but the next mount of \<open>SettingsForm\<close> loads the chat id through
  \<open>JSON.parse\<close> as the number itself, and rendering the form then throws
  \<open>TypeError: text.substring is not a function\<close> in \<open>maskSensitive\<close>.
\<close>

theorem fallback_chat_id_breaks_form:
  assumes "secure_backend st \<noteq> SecureNative" "async_ok st"
    and "json_int_ok ds" "nat_of_digits ds \<noteq> 0" "tok \<noteq> []"
    and "handle_connect (f\<lparr>sf_bot_token := JStr tok, sf_chat_id := JStr ds\<rparr>) st s = (f', st', (s', es), al, notified)"
  shows "notified \<and> connected s'
    \<and> sf_chat_id (load_saved_credentials (settings_mount [] []) st' (settings_mount [] []))
        = JNum (of_nat (nat_of_digits ds))
    \<and> settings_render (load_saved_credentials (settings_mount [] []) st' (settings_mount [] [])) t
        = Inl (TypeError ''text.substring is not a function'')"
proof -
  have ds: "ds \<noteq> []" using assms(3) by (simp add: json_int_ok_def)
  obtain s1 es1 where i: "initialize s tok ds = ((s1, es1), True)" "connected s1"
    using initialize_texts_ok[OF assms(5) ds] by blast
  have conn: "notified" "connected s'" "st' = fst (save_chat_id (fst (save_bot_token st (JStr tok))) (JStr ds))"
    using handle_connect_texts_ok[OF assms(5) ds, of f st s] assms(6) i by auto
  have chat: "get_chat_id st' = JNum (of_nat (nat_of_digits ds))"
    using conn(3) assms(1,2) json_parse_int(1)[OF assms(3)]
    by (simp add: get_chat_id_def save_chat_id_def save_bot_token_def get_save_secure)
  let ?g = "load_saved_credentials (settings_mount [] []) st' (settings_mount [] [])"
  have g: "sf_chat_id ?g = JNum (of_nat (nat_of_digits ds))" "\<not> sf_chat_visible ?g"
    using chat assms(4) by (simp_all add: load_saved_credentials_def settings_mount_def json_or_def Let_def)
  then have "input_shown (sf_chat_visible ?g) (sf_chat_id ?g) = Inl (TypeError ''text.substring is not a function'')"
    using assms(4) by (simp add: input_shown_def js_mask_def)
  then have "settings_render ?g t = Inl (TypeError ''text.substring is not a function'')"
    by (auto simp: settings_render_def dest: input_shown_error split: sum.split)
  with conn g show ?thesis by simp
qed

theorem fallback_chat_id_breaks_form_witness:
  "snd (snd (snd (snd (handle_connect ((settings_mount [] [])\<lparr>sf_bot_token := JStr ''123:ABC'', sf_chat_id := JStr ''4567''\<rparr>) storage_web tg_init))))
   \<and> connected (fst (fst (snd (snd (handle_connect ((settings_mount [] [])\<lparr>sf_bot_token := JStr ''123:ABC'', sf_chat_id := JStr ''4567''\<rparr>) storage_web tg_init)))))
   \<and> sf_chat_id (load_saved_credentials (settings_mount [] []) (fst (snd (handle_connect ((settings_mount [] [])\<lparr>sf_bot_token := JStr ''123:ABC'', sf_chat_id := JStr ''4567''\<rparr>) storage_web tg_init))) (settings_mount [] []))
       = JNum (of_nat (nat_of_digits ''4567''))
   \<and> settings_render (load_saved_credentials (settings_mount [] []) (fst (snd (handle_connect ((settings_mount [] [])\<lparr>sf_bot_token := JStr ''123:ABC'', sf_chat_id := JStr ''4567''\<rparr>) storage_web tg_init))) (settings_mount [] [])) tg_init
       = Inl (TypeError ''text.substring is not a function'')"
  by (rule fallback_chat_id_breaks_form[where f = "settings_mount [] []" and st = storage_web and s = tg_init
        and es = "snd (fst (snd (snd (handle_connect ((settings_mount [] [])\<lparr>sf_bot_token := JStr ''123:ABC'', sf_chat_id := JStr ''4567''\<rparr>) storage_web tg_init))))"
        and al = "fst (snd (snd (snd (handle_connect ((settings_mount [] [])\<lparr>sf_bot_token := JStr ''123:ABC'', sf_chat_id := JStr ''4567''\<rparr>) storage_web tg_init))))"])
     (simp_all add: storage_web_def json_int_ok_def is_digit_def nat_of_digits_def prod_eq_iff)

text \<open>
  C18. Saved credentials restore the connection. With the secure store working, after
  \<open>handleConnect\<close> with a non-empty token and chat id (which never shows the
  "Connection Failed" alert), the app's next start-up reads both back and initializes
  the Telegram object with exactly that token and chat id, connected.
\<close>

theorem saved_credentials_restore:
  assumes "secure_backend st = SecureNative" "tok \<noteq> []" "chat \<noteq> []"
    and "handle_connect (f\<lparr>sf_bot_token := JStr tok, sf_chat_id := JStr chat\<rparr>) st s = (f', st', (s', es), al, notified)"
  shows "notified \<and> al = []
    \<and> snd (app_restore_credentials st' s2)
    \<and> token (fst (fst (app_restore_credentials st' s2))) = Some tok
    \<and> chat_id (fst (fst (app_restore_credentials st' s2))) = Some chat
    \<and> connected (fst (fst (app_restore_credentials st' s2)))"
proof -
  have c: "notified" "al = []" "st' = fst (save_chat_id (fst (save_bot_token st (JStr tok))) (JStr chat))"
    using handle_connect_texts_ok[OF assms(2,3), of f st s] assms(4) by auto
  have "get_bot_token st' = JStr tok" "get_chat_id st' = JStr chat"
    using c(3) assms(1)
    by (simp_all add: get_bot_token_def get_chat_id_def save_chat_id_def save_bot_token_def get_save_secure)
  then have "app_restore_credentials st' s2 = initialize s2 tok chat"
    using assms(2,3) by (simp add: app_restore_credentials_def)
  moreover obtain s3 es3 where "initialize s2 tok chat = ((s3, es3), True)" "connected s3"
    "token s3 = Some tok" "chat_id s3 = Some chat"
    using initialize_texts_ok[OF assms(2,3)] by blast
  ultimately show ?thesis using c by simp
qed

theorem saved_credentials_restore_witness:
  "snd (snd (snd (snd (handle_connect ((settings_mount [] [])\<lparr>sf_bot_token := JStr ''123:ABC'', sf_chat_id := JStr ''4567''\<rparr>) storage_native tg_init))))
   \<and> fst (snd (snd (snd (handle_connect ((settings_mount [] [])\<lparr>sf_bot_token := JStr ''123:ABC'', sf_chat_id := JStr ''4567''\<rparr>) storage_native tg_init)))) = []
   \<and> snd (app_restore_credentials (fst (snd (handle_connect ((settings_mount [] [])\<lparr>sf_bot_token := JStr ''123:ABC'', sf_chat_id := JStr ''4567''\<rparr>) storage_native tg_init))) tg_init)
   \<and> token (fst (fst (app_restore_credentials (fst (snd (handle_connect ((settings_mount [] [])\<lparr>sf_bot_token := JStr ''123:ABC'', sf_chat_id := JStr ''4567''\<rparr>) storage_native tg_init))) tg_init))) = Some ''123:ABC''
   \<and> chat_id (fst (fst (app_restore_credentials (fst (snd (handle_connect ((settings_mount [] [])\<lparr>sf_bot_token := JStr ''123:ABC'', sf_chat_id := JStr ''4567''\<rparr>) storage_native tg_init))) tg_init))) = Some ''4567''
   \<and> connected (fst (fst (app_restore_credentials (fst (snd (handle_connect ((settings_mount [] [])\<lparr>sf_bot_token := JStr ''123:ABC'', sf_chat_id := JStr ''4567''\<rparr>) storage_native tg_init))) tg_init)))"
  by (rule saved_credentials_restore[where f = "settings_mount [] []" and st = storage_native and s = tg_init
        and es = "snd (fst (snd (snd (handle_connect ((settings_mount [] [])\<lparr>sf_bot_token := JStr ''123:ABC'', sf_chat_id := JStr ''4567''\<rparr>) storage_native tg_init))))"
        and f' = "fst (handle_connect ((settings_mount [] [])\<lparr>sf_bot_token := JStr ''123:ABC'', sf_chat_id := JStr ''4567''\<rparr>) storage_native tg_init)"])
     (simp_all add: storage_native_def prod_eq_iff)

end
