(* ===== verification/NativeFs.thy ===== *)
theory NativeFs
  imports Sms
begin

text \<open>
  Storage access beyond the app's sandbox: the storage functions of the native module
  (\<open>src/src/native-modules/NativeFileSystem.js\<close>, lines 1-207:
  \<open>initializeNativeFileSystem\<close>, \<open>getStorageDirectories\<close>,
  \<open>listSystemDirectoryFiles\<close>, \<open>isExternalStorageAvailable\<close>,
  \<open>requestStoragePermission\<close>, \<open>getMediaFiles\<close>) and the enhanced variant of the
  file-system hook that uses them (\<open>src/unnamed/part_007\<close>, lines 11-460).

  The module simulates native access with \<open>expo-file-system\<close> and
  \<open>expo-media-library\<close>. The media library is an input like the file system: the
  answer of \<open>requestPermissionsAsync\<close> (a status, or a rejection with its message)
  and of \<open>getAssetsAsync\<close> for each media type and count. The directories object
  is an association list in the order of its keys, \<open>null\<close> values as \<open>None\<close>.

  The enhanced hook's state extends the basic hook's record with
  \<open>systemDirectories\<close> and \<open>hasNativeAccess\<close>; its \<open>listFiles\<close>, \<open>navigateTo\<close>,
  \<open>navigateUp\<close> and \<open>navigateBack\<close> (lines 51-180) are the code of the basic hook
  line for line, and are the basic hook's definitions applied to the extended
  state. Its writing operations (lines 185-296) are modelled on a store of the
  device in the FileStore theory. A \<open>dirType\<close> inherited from
  \<open>Object.prototype\<close> (\<open>constructor\<close>, ...) would store a function in
  \<open>currentPath\<close>; the model looks up own keys only.
\<close>

record media_asset =
  asset_filename :: string
  asset_uri :: string
  asset_file_size :: "nat option"
  asset_width :: nat
  asset_height :: nat
  asset_duration :: rat
  asset_creation_time :: nat

record media_library =
  ml_permission :: "string + string"
  ml_assets :: "string \<Rightarrow> nat \<Rightarrow> string + media_asset list"

record media_file =
  mf_name :: string
  mf_uri :: string
  mf_path :: string
  mf_size :: "nat option"
  mf_type :: string
  mf_width :: nat
  mf_height :: nat
  mf_duration :: rat
  mf_creation_time :: nat

type_synonym storage_dirs = "(string \<times> string option) list"

subsection \<open>The native module\<close>

definition initialize_native_file_system :: "platform \<Rightarrow> media_library \<Rightarrow> bool" where
  "initialize_native_file_system p ml =
     (if p \<noteq> Android then False
      else case ml_permission ml of Inr status \<Rightarrow> status = ''granted'' | Inl e \<Rightarrow> False)"

definition get_storage_directories :: "platform \<Rightarrow> 'k expo_fs \<Rightarrow> storage_dirs" where
  "get_storage_directories p fs =
     (let doc = document_directory fs in
      if p \<noteq> Android
      then [(''internal'', Some doc), (''sdcard'', None), (''dcim'', None), (''pictures'', None), (''downloads'', None)]
      else [(''internal'', Some doc), (''sdcard'', None), (''dcim'', Some (doc @ ''dcim/'')),
            (''pictures'', Some (doc @ ''pictures/'')), (''downloads'', Some (doc @ ''downloads/''))])"

text \<open>\<open>readDirectoryAsync(path).catch(() => [])\<close>, the details as the hook builds
  them, the hook's comparator.\<close>

definition list_system_directory_files :: "('k::linorder) expo_fs \<Rightarrow> string \<Rightarrow> file_item list" where
  "list_system_directory_files fs path =
     sort_files fs (map (hook_file_detail fs path) (case read_dir fs path of Inl e \<Rightarrow> [] | Inr files \<Rightarrow> files))"

text \<open>Both branches of \<open>isExternalStorageAvailable\<close> resolve \<open>false\<close>.\<close>

definition is_external_storage_available :: "platform \<Rightarrow> bool" where
  "is_external_storage_available p = (if p \<noteq> Android then False else False)"

definition request_storage_permission :: "media_library \<Rightarrow> bool" where
  "request_storage_permission ml = (case ml_permission ml of Inr status \<Rightarrow> status = ''granted'' | Inl e \<Rightarrow> False)"

definition media_type_arg :: "string \<Rightarrow> string" where
  "media_type_arg t = (if t = ''images'' then ''photo'' else if t = ''videos'' then ''video'' else ''unknown'')"

definition media_file_of :: "string \<Rightarrow> media_asset \<Rightarrow> media_file" where
  "media_file_of t a =
     \<lparr>mf_name = asset_filename a, mf_uri = asset_uri a, mf_path = asset_uri a, mf_size = asset_file_size a,
      mf_type = t, mf_width = asset_width a, mf_height = asset_height a, mf_duration = asset_duration a,
      mf_creation_time = asset_creation_time a\<rparr>"

text \<open>\<open>getAssetsAsync({mediaType, first: limit, sortBy: creationTime})\<close> and the
  mapping of its assets, shared by the module and both branches of the hook.\<close>

definition fetch_media :: "media_library \<Rightarrow> string \<Rightarrow> nat \<Rightarrow> string + media_file list" where
  "fetch_media ml t limit = map_sum id (map (media_file_of t)) (ml_assets ml (media_type_arg t) limit)"

definition native_get_media_files :: "media_library \<Rightarrow> string \<Rightarrow> nat \<Rightarrow> media_file list" where
  "native_get_media_files ml t limit =
     (case ml_permission ml of
        Inl e \<Rightarrow> []
      | Inr status \<Rightarrow>
          if status \<noteq> ''granted'' then []
          else case fetch_media ml t limit of Inl e \<Rightarrow> [] | Inr files \<Rightarrow> files)"

subsection \<open>The enhanced hook\<close>

record nfs_hook = fs_hook +
  system_directories :: "storage_dirs option"
  has_native_access :: bool

definition use_native_file_system :: "'k expo_fs \<Rightarrow> nfs_hook" where
  "use_native_file_system fs =
     \<lparr>current_path = document_directory fs, file_list = [], is_loading = False, hook_error = None,
      path_history = [], system_directories = None, has_native_access = False\<rparr>"

text \<open>The mount effect \<open>initializeNative\<close>; neither native call rejects.\<close>

definition initialize_native :: "platform \<Rightarrow> media_library \<Rightarrow> 'k expo_fs \<Rightarrow> nfs_hook \<Rightarrow> nfs_hook" where
  "initialize_native p ml fs h =
     (if p \<noteq> Android then h
      else (let granted = request_storage_permission ml;
                h1 = h\<lparr>has_native_access := granted\<rparr>
            in if granted then h1\<lparr>system_directories := Some (get_storage_directories p fs)\<rparr> else h1))"

definition list_system_files :: "nfs_hook \<Rightarrow> ('k::linorder) expo_fs \<Rightarrow> string \<Rightarrow> nfs_hook \<times> file_item list" where
  "list_system_files h fs dir_type =
     (let fail = (\<lambda>e. (h\<lparr>is_loading := False, hook_error := Some (''Failed to list system files: '' @ e)\<rparr>, []))
      in case (if has_native_access h then system_directories h else None) of
           None \<Rightarrow> fail ''Native file system access not available''
         | Some dirs \<Rightarrow>
             (case map_of dirs dir_type of
                Some (Some dir_path) \<Rightarrow>
                  (let files = list_system_directory_files fs dir_path
                   in (h\<lparr>current_path := dir_path, file_list := files, is_loading := False, hook_error := None\<rparr>, files))
              | _ \<Rightarrow> fail (''System directory not found: '' @ dir_type)))"

definition get_system_directories :: "nfs_hook \<Rightarrow> storage_dirs" where
  "get_system_directories h = (case system_directories h of None \<Rightarrow> [] | Some dirs \<Rightarrow> dirs)"

definition check_external_storage :: "nfs_hook \<Rightarrow> platform \<Rightarrow> bool" where
  "check_external_storage h p = (if \<not> has_native_access h then False else is_external_storage_available p)"

text \<open>\<open>getMediaFiles\<close> of the hook: its two branches are the same code; a refused
  permission throws, and the error is recorded.\<close>

definition hook_get_media_files :: "nfs_hook \<Rightarrow> media_library \<Rightarrow> string \<Rightarrow> nat \<Rightarrow> nfs_hook \<times> media_file list" where
  "hook_get_media_files h ml t limit =
     (let fail = (\<lambda>e. (h\<lparr>is_loading := False, hook_error := Some (''Failed to get media files: '' @ e)\<rparr>, []));
          fetch = (case ml_permission ml of
                     Inl e \<Rightarrow> Inl e
                   | Inr status \<Rightarrow> if status \<noteq> ''granted'' then Inl ''Media library permission not granted''
                                  else fetch_media ml t limit);
          done = (\<lambda>r. case r of Inl e \<Rightarrow> fail e | Inr files \<Rightarrow> (h\<lparr>is_loading := False, hook_error := None\<rparr>, files))
      in if \<not> has_native_access h then done fetch else done fetch)"

text \<open>The enhanced hook's copies of the basic hook's operations, at its state.\<close>

abbreviation nfs_list_files :: "nfs_hook \<Rightarrow> ('k::linorder) expo_fs \<Rightarrow> string \<Rightarrow> nfs_hook \<times> file_item list" where
  "nfs_list_files \<equiv> list_files"

abbreviation nfs_navigate_to :: "nfs_hook \<Rightarrow> ('k::linorder) expo_fs \<Rightarrow> string \<Rightarrow> nfs_hook" where
  "nfs_navigate_to \<equiv> navigate_to"

abbreviation nfs_navigate_up :: "nfs_hook \<Rightarrow> ('k::linorder) expo_fs \<Rightarrow> nfs_hook" where
  "nfs_navigate_up \<equiv> navigate_up"

abbreviation nfs_navigate_back :: "nfs_hook \<Rightarrow> ('k::linorder) expo_fs \<Rightarrow> nfs_hook" where
  "nfs_navigate_back \<equiv> navigate_back"

definition demo_media :: media_library where
  "demo_media = \<lparr>ml_permission = Inr ''granted'', ml_assets = (\<lambda>t n. Inr [])\<rparr>"

subsection \<open>Properties\<close>

lemma initialize_native_android:
  "request_storage_permission ml \<Longrightarrow>
   initialize_native Android ml fs h =
     h\<lparr>has_native_access := True, system_directories := Some (get_storage_directories Android fs)\<rparr>"
  by (simp add: initialize_native_def)

lemma storage_dirs_android_dcim:
  "map_of (get_storage_directories Android fs) ''dcim'' = Some (Some (document_directory fs @ ''dcim/''))"
  by (simp add: get_storage_directories_def Let_def)

text \<open>
  Two listings, one result. On a readable directory whose path ends with a
  slash, the native module's \<open>listSystemDirectoryFiles\<close> returns exactly the list
  the hook's \<open>listFiles\<close> returns: the same entries with the same details, in the
  same order.
\<close>

theorem system_listing_agrees:
  assumes "ends_with_slash d" "get_info fs d = Inr info" "fi_exists info" "fi_is_dir info"
    "read_dir fs d = Inr files"
  shows "list_system_directory_files fs d = snd (list_files h fs d)"
proof -
  have n: "normalize_path d = d" using assms(1) by (rule normalize_path_slash)
  have "hook_listing fs d = Inr (d, sort_files fs (map (hook_file_detail fs d) files))"
    using hook_listing_ok[of fs d info files] assms(2-5) n by simp
  then show ?thesis
    using list_files_ok[of fs d, of _ _ h] assms(5) by (simp add: list_system_directory_files_def)
qed

theorem system_listing_agrees_witness:
  "list_system_directory_files demo_fs ''/d/'' = snd (list_files (use_file_system demo_fs) demo_fs ''/d/'')"
  by (rule system_listing_agrees[where info = demo_dir_info and files = "[''a.txt'', ''sub'']"])
     (simp_all add: demo_fs_def demo_dir_info_def ends_with_slash_def)

text \<open>
  A missing system directory is entered silently. With storage permission
  granted on Android, \<open>listSystemFiles('dcim')\<close> when the simulated
  \<open>dcim/\<close> directory does not exist makes it the current path with an empty list and
  no error, because \<open>listSystemDirectoryFiles\<close> swallows the failed read; the hook's
  \<open>listFiles\<close> of the same path reports "Path does not exist" and stays where it was.
\<close>

theorem missing_system_dir_entered:
  assumes "request_storage_permission ml"
    and "get_info fs (document_directory fs @ ''dcim/'') = Inr info" "\<not> fi_exists info"
    and "read_dir fs (document_directory fs @ ''dcim/'') = Inl e"
  shows "list_system_files (initialize_native Android ml fs h) fs ''dcim'' =
           ((initialize_native Android ml fs h)\<lparr>current_path := document_directory fs @ ''dcim/'', file_list := [],
              is_loading := False, hook_error := None\<rparr>, [])
    \<and> list_files h fs (document_directory fs @ ''dcim/'') =
        (h\<lparr>is_loading := False,
           hook_error := Some (''Failed to list files: Path does not exist: '' @ document_directory fs @ ''dcim/'')\<rparr>, [])"
proof -
  have sl: "ends_with_slash (document_directory fs @ ''dcim/'')" by (simp add: ends_with_slash_def)
  have "hook_listing fs (document_directory fs @ ''dcim/'') = Inl (''Path does not exist: '' @ document_directory fs @ ''dcim/'')"
    using hook_listing_fails[of fs "document_directory fs @ ''dcim/''" info] assms(2,3) normalize_path_slash[OF sl]
    by simp
  then show ?thesis
    using assms(1,4) list_files_error
    by (simp add: initialize_native_android storage_dirs_android_dcim list_system_files_def
        list_system_directory_files_def sort_files_def)
qed

theorem missing_system_dir_entered_witness:
  "list_system_files (initialize_native Android demo_media demo_fs (use_native_file_system demo_fs)) demo_fs ''dcim'' =
     ((initialize_native Android demo_media demo_fs (use_native_file_system demo_fs))\<lparr>current_path := document_directory demo_fs @ ''dcim/'',
        file_list := [], is_loading := False, hook_error := None\<rparr>, [])
   \<and> list_files (use_native_file_system demo_fs) demo_fs (document_directory demo_fs @ ''dcim/'') =
       ((use_native_file_system demo_fs)\<lparr>is_loading := False,
          hook_error := Some (''Failed to list files: Path does not exist: '' @ document_directory demo_fs @ ''dcim/'')\<rparr>, [])"
  by (rule missing_system_dir_entered[where info = "\<lparr>fi_exists = False, fi_is_dir = False, fi_size = 0, fi_mtime = None, fi_uri = ''/d/dcim/''\<rparr>"
        and e = "''ENOENT''"])
     (simp_all add: demo_media_def request_storage_permission_def demo_fs_def)

end
