(* ===== verification/Permissions.thy ===== *)
theory Permissions
  imports Sms "HOL-Library.AList"
begin

text \<open>
  The permissions hook \<open>usePermissions\<close> (\<open>src/unnamed/part_006\<close>, lines 518-743):
  \<open>checkSmsAvailable\<close>, \<open>requestPermission\<close>, \<open>requestAllPermissions\<close>,
  \<open>isPermissionGranted\<close>, \<open>areAllPermissionsGranted\<close> and the mount effect
  \<open>loadInitialStatus\<close>.

  The Expo permission APIs are an input, \<open>perm_env\<close>: the answer of each
  \<open>request...PermissionsAsync\<close> and \<open>get...PermissionsAsync\<close> (a status, or a
  rejection with its message), whether the storage probe (writing and deleting
  \<open>permission_test.txt\<close> in the cache directory) succeeds, and the answer of
  \<open>SMS.isAvailableAsync\<close>. The state \<open>permissionStatus\<close> is a JavaScript object: an
  association list in the order of its keys, where setting a key keeps its place
  (\<open>{...prev, [p]: s}\<close> and \<open>statuses[p] = s\<close> are \<open>AList.update\<close>).

  The app calls \<open>requestAllPermissions\<close> from its start-up effect while the hook's
  mount effect \<open>loadInitialStatus\<close> is still running; both are chains of
  \<open>await\<close>s on the same state, and each ends by replacing the whole state. They are
  modelled as lists of steps between \<open>await\<close>s, run in the order a schedule picks.
\<close>

datatype perm_api = LocationPerm | CameraPerm | MediaPerm | ContactsPerm

record perm_env =
  pe_request :: "perm_api \<Rightarrow> string + string"
  pe_get :: "perm_api \<Rightarrow> string + string"
  pe_storage_writable :: bool
  pe_sms :: "string + bool"

type_synonym perm_status = "(string \<times> string) list"

definition required_permissions :: "string list" where
  "required_permissions = [''location'', ''camera'', ''mediaLibrary'', ''contacts'', ''storage'']"

definition check_sms_available :: "perm_env \<Rightarrow> bool" where
  "check_sms_available env = (case pe_sms env of Inr b \<Rightarrow> b | Inl e \<Rightarrow> False)"

definition sms_status :: "perm_env \<Rightarrow> string" where
  "sms_status env = (if check_sms_available env then ''available'' else ''unavailable'')"

text \<open>The \<open>switch\<close> on the permission name, for the four that call an Expo API.\<close>

definition perm_api_of :: "string \<Rightarrow> perm_api option" where
  "perm_api_of p =
     (if p = ''location'' then Some LocationPerm else if p = ''camera'' then Some CameraPerm
      else if p = ''mediaLibrary'' then Some MediaPerm else if p = ''contacts'' then Some ContactsPerm
      else None)"

definition storage_probe :: "perm_env \<Rightarrow> string" where
  "storage_probe env = (if pe_storage_writable env then ''granted'' else ''denied'')"

definition request_status :: "platform \<Rightarrow> perm_env \<Rightarrow> string \<Rightarrow> string" where
  "request_status plat env p =
     (case perm_api_of p of
        Some api \<Rightarrow> (case pe_request env api of Inr status \<Rightarrow> status | Inl e \<Rightarrow> ''error'')
      | None \<Rightarrow> if p = ''storage'' then (if plat = Android then storage_probe env else ''granted'') else ''unknown'')"

definition request_permission :: "platform \<Rightarrow> perm_env \<Rightarrow> perm_status \<Rightarrow> string \<Rightarrow> perm_status \<times> string" where
  "request_permission plat env ps p = (let status = request_status plat env p in (AList.update p status ps, status))"

text \<open>\<open>requestAllPermissions\<close>: the statuses object it builds and returns, which also
  replaces the state at the end.\<close>

definition request_all_statuses :: "platform \<Rightarrow> perm_env \<Rightarrow> perm_status" where
  "request_all_statuses plat env =
     AList.update ''sms'' (sms_status env)
       (fold (\<lambda>p sts. AList.update p (request_status plat env p) sts) required_permissions [])"



definition is_permission_granted :: "perm_status \<Rightarrow> string \<Rightarrow> bool" where
  "is_permission_granted ps p \<longleftrightarrow> map_of ps p = Some ''granted''"

definition are_all_permissions_granted :: "perm_status \<Rightarrow> bool" where
  "are_all_permissions_granted ps \<longleftrightarrow> list_all (\<lambda>p. map_of ps p = Some ''granted'') required_permissions"

text \<open>The mount effect's check of one permission; its storage probe runs on every
  platform.\<close>

definition check_status :: "perm_env \<Rightarrow> string \<Rightarrow> string" where
  "check_status env p =
     (case perm_api_of p of
        Some api \<Rightarrow> (case pe_get env api of Inr status \<Rightarrow> status | Inl e \<Rightarrow> ''error'')
      | None \<Rightarrow> if p = ''storage'' then storage_probe env else ''unknown'')"

definition load_initial_status :: "perm_env \<Rightarrow> perm_status" where
  "load_initial_status env =
     AList.update ''sms'' (sms_status env)
       (fold (\<lambda>p sts. AList.update p (check_status env p) sts) required_permissions [])"

subsection \<open>The two start-up tasks\<close>

text \<open>The steps of each task between its \<open>await\<close>s, as changes of the state:
  \<open>requestAllPermissions\<close> updates the state after each request, awaits the SMS
  check, then replaces the state; \<open>loadInitialStatus\<close> only writes at its end.\<close>

definition request_all_steps :: "platform \<Rightarrow> perm_env \<Rightarrow> (perm_status \<Rightarrow> perm_status) list" where
  "request_all_steps plat env =
     map (\<lambda>p ps. fst (request_permission plat env ps p)) required_permissions
     @ [id, (\<lambda>_. request_all_statuses plat env)]"

definition load_steps :: "perm_env \<Rightarrow> (perm_status \<Rightarrow> perm_status) list" where
  "load_steps env = replicate 6 id @ [(\<lambda>_. load_initial_status env)]"

text \<open>Two tasks run in the order of a schedule (\<open>True\<close> moves the first); when the
  schedule or a task runs out, the remaining steps run in order.\<close>

fun interleave :: "bool list \<Rightarrow> ('s \<Rightarrow> 's) list \<Rightarrow> ('s \<Rightarrow> 's) list \<Rightarrow> 's \<Rightarrow> 's" where
  "interleave (b # bs) (x # xs) (y # ys) s =
     (if b then interleave bs xs (y # ys) (x s) else interleave bs (x # xs) ys (y s))"
| "interleave bs xs ys s = fold (\<lambda>f s. f s) (xs @ ys) s"

text \<open>\<open>requestAllPermissions\<close> run alone: the state after its steps, and the object it
  returns.\<close>

definition request_all_permissions :: "platform \<Rightarrow> perm_env \<Rightarrow> perm_status \<Rightarrow> perm_status \<times> perm_status" where
  "request_all_permissions plat env ps =
     (fold (\<lambda>f s. f s) (request_all_steps plat env) ps, request_all_statuses plat env)"

definition startup_permissions :: "platform \<Rightarrow> perm_env \<Rightarrow> bool list \<Rightarrow> perm_status" where
  "startup_permissions plat env sched = interleave sched (request_all_steps plat env) (load_steps env) []"

definition demo_perm_env :: perm_env where
  "demo_perm_env = \<lparr>pe_request = (\<lambda>_. Inr ''granted''), pe_get = (\<lambda>_. Inr ''undetermined''),
                     pe_storage_writable = True, pe_sms = Inr True\<rparr>"

subsection \<open>Properties\<close>

lemma fold_apply_last_const:
  "fold (\<lambda>f s. f s) (zs @ [\<lambda>_. c]) s = c"
  by simp

lemma fold_apply_const_last:
  "zs \<noteq> [] \<Longrightarrow> last zs = (\<lambda>_. c) \<Longrightarrow> fold (\<lambda>f s. f s) zs s = c"
  by (metis append_butlast_last_id fold_apply_last_const)

lemma fold_apply_two_last:
  "(xs \<noteq> [] \<longrightarrow> last xs = (\<lambda>_. a)) \<Longrightarrow> (ys \<noteq> [] \<longrightarrow> last ys = (\<lambda>_. b)) \<Longrightarrow> xs \<noteq> [] \<or> ys \<noteq> []
   \<Longrightarrow> fold (\<lambda>f s. f s) (xs @ ys) s \<in> {a, b}"
  by (cases "ys = []") (auto intro: fold_apply_const_last)

text \<open>Whatever the schedule, the state two tasks leave is the last write of one of
  them, when each ends by writing a constant.\<close>

lemma interleave_last_write:
  "(xs \<noteq> [] \<longrightarrow> last xs = (\<lambda>_. a)) \<Longrightarrow> (ys \<noteq> [] \<longrightarrow> last ys = (\<lambda>_. b)) \<Longrightarrow> xs \<noteq> [] \<or> ys \<noteq> []
   \<Longrightarrow> interleave bs xs ys s \<in> {a, b}"
proof (induction bs arbitrary: xs ys s)
  case Nil
  have "interleave [] xs ys s = fold (\<lambda>f s. f s) (xs @ ys) s" by (cases xs; cases ys) simp_all
  then show ?case by (subst \<open>interleave [] xs ys s = _\<close>) (rule fold_apply_two_last[OF Nil.prems])
next
  case (Cons c bs)
  show ?case
  proof (cases "xs = [] \<or> ys = []")
    case True
    then have "interleave (c # bs) xs ys s = fold (\<lambda>f s. f s) (xs @ ys) s" by (cases xs; cases ys) auto
    then show ?thesis by (subst \<open>interleave (c # bs) xs ys s = _\<close>) (rule fold_apply_two_last[OF Cons.prems])
  next
    case False
    then obtain x xs' y ys' where xy: "xs = x # xs'" "ys = y # ys'" by (cases xs; cases ys) auto
    show ?thesis
    proof (cases c)
      case True
      have "interleave bs xs' (y # ys') (x s) \<in> {a, b}"
        by (rule Cons.IH) (use Cons.prems xy in auto)
      with True xy show ?thesis by simp
    next
      case False
      have "interleave bs (x # xs') ys' (y s) \<in> {a, b}"
        by (rule Cons.IH) (use Cons.prems xy in auto)
      with False xy show ?thesis by simp
    qed
  qed
qed

lemma interleave_first_done:
  "length bs = length xs \<Longrightarrow> list_all id bs \<Longrightarrow> interleave bs xs ys s = fold (\<lambda>f s. f s) ys (fold (\<lambda>f s. f s) xs s)"
proof (induction bs xs ys s rule: interleave.induct)
  case (1 b bs x xs y ys s)
  then show ?case by (cases xs) (auto simp: list_all_iff)
qed auto

lemma interleave_second_done:
  "length bs = length ys \<Longrightarrow> list_all Not bs \<Longrightarrow> interleave bs xs ys s = fold (\<lambda>f s. f s) xs (fold (\<lambda>f s. f s) ys s)"
proof (induction bs xs ys s rule: interleave.induct)
  case (1 b bs x xs y ys s)
  then show ?case by (cases ys) (auto simp: list_all_iff)
qed auto

lemma request_all_steps_last: "last (request_all_steps plat env) = (\<lambda>_. request_all_statuses plat env)"
  by (simp add: request_all_steps_def)

lemma load_steps_last: "last (load_steps env) = (\<lambda>_. load_initial_status env)"
  by (simp add: load_steps_def)

lemma length_request_all_steps: "length (request_all_steps plat env) = 7"
  by (simp add: request_all_steps_def required_permissions_def)

lemma list_all_replicate_sched: "list_all id (replicate n True)" "list_all Not (replicate n False)"
  by (simp_all add: list_all_iff)

lemma startup_permissions_cases:
  "startup_permissions plat env sched \<in> {request_all_statuses plat env, load_initial_status env}"
  unfolding startup_permissions_def
  by (rule interleave_last_write) (simp_all add: request_all_steps_last load_steps_last, simp add: request_all_steps_def)

text \<open>
  C36. Granted permissions can be overwritten at start-up. The app's
  \<open>requestAllPermissions\<close> and the hook's mount effect \<open>loadInitialStatus\<close> run
  concurrently and each ends by replacing the whole \<open>permissionStatus\<close>. Whatever the
  order of their steps, the state is the final object of one of them. When every
  request is granted but the location check at mount reported another status, the
  order in which the requests finish last leaves all permissions granted, and the
  order in which the mount check finishes last leaves \<open>areAllPermissionsGranted\<close>
  false although every request was granted.
\<close>

theorem permission_grants_overwritten:
  assumes "\<forall>api. pe_request env api = Inr ''granted''" "pe_get env LocationPerm = Inr st" "st \<noteq> ''granted''"
    and "plat = Android \<longrightarrow> pe_storage_writable env"
  shows "(\<forall>sched. startup_permissions plat env sched \<in> {request_all_statuses plat env, load_initial_status env})
    \<and> are_all_permissions_granted (startup_permissions plat env (replicate 7 False))
    \<and> \<not> are_all_permissions_granted (startup_permissions plat env (replicate 7 True))"
proof -
  have req: "startup_permissions plat env (replicate 7 False) = request_all_statuses plat env"
    unfolding startup_permissions_def
    using interleave_second_done[of "replicate 7 False" "load_steps env" "request_all_steps plat env" "[]"]
      list_all_replicate_sched(2)
    by (simp add: load_steps_def fold_apply_const_last[OF _ request_all_steps_last] request_all_steps_def)
  have load: "startup_permissions plat env (replicate 7 True) = load_initial_status env"
    unfolding startup_permissions_def
    using interleave_first_done[of "replicate 7 True" "request_all_steps plat env" "load_steps env" "[]"]
      list_all_replicate_sched(1)
    by (simp add: length_request_all_steps fold_apply_const_last[OF _ load_steps_last] load_steps_def)
  have "are_all_permissions_granted (request_all_statuses plat env)"
    using assms(1,4)
    by (simp add: are_all_permissions_granted_def request_all_statuses_def required_permissions_def
        request_status_def perm_api_of_def storage_probe_def)
  moreover have "\<not> are_all_permissions_granted (load_initial_status env)"
    using assms(2,3)
    by (simp add: are_all_permissions_granted_def load_initial_status_def required_permissions_def
        check_status_def perm_api_of_def)
  ultimately show ?thesis using req load startup_permissions_cases by simp
qed

theorem permission_grants_overwritten_witness:
  "(\<forall>sched. startup_permissions Android demo_perm_env sched
        \<in> {request_all_statuses Android demo_perm_env, load_initial_status demo_perm_env})
   \<and> are_all_permissions_granted (startup_permissions Android demo_perm_env (replicate 7 False))
   \<and> \<not> are_all_permissions_granted (startup_permissions Android demo_perm_env (replicate 7 True))"
  by (rule permission_grants_overwritten[where st = "''undetermined''"]) (simp_all add: demo_perm_env_def)

end
