(* ===== verification/ScreenCapture.thy ===== *)
theory ScreenCapture
  imports Device
begin

text \<open>
  Screenshot prevention: \<open>preventScreenshots\<close>/\<open>allowScreenshots\<close> of the screen-capture
  module (\<open>src/src/native-modules/NativeFileSystem.js\<close>, lines 319-352), and
  \<open>areScreenshotsDisabled\<close>/\<open>preventScreenshots\<close>/\<open>allowScreenshots\<close> of both variants
  of the device service (\<open>src/src/services/deviceService.js\<close>, lines 191-245 with
  the native module, lines 440-476 with Expo only).

  \<open>expo-screen-capture\<close> is a state: whether capture is prevented, whether its calls
  resolve, and whether the module has a function \<open>isScreenCaptureEnabledAsync\<close>
  (the published module has none, and calling it throws a \<open>TypeError\<close>; a module
  that had it would answer whether capture is enabled). The services catch every
  error: a failed prevention leaves the state, a failed check answers \<open>false\<close>.
\<close>

record screen_capture =
  sc_prevented :: bool
  sc_calls_ok :: bool
  sc_has_enabled_query :: bool

definition expo_prevent_capture :: "screen_capture \<Rightarrow> screen_capture" where
  "expo_prevent_capture sc = (if sc_calls_ok sc then sc\<lparr>sc_prevented := True\<rparr> else sc)"

definition expo_allow_capture :: "screen_capture \<Rightarrow> screen_capture" where
  "expo_allow_capture sc = (if sc_calls_ok sc then sc\<lparr>sc_prevented := False\<rparr> else sc)"

definition expo_is_capture_enabled :: "screen_capture \<Rightarrow> string + bool" where
  "expo_is_capture_enabled sc =
     (if sc_has_enabled_query sc then Inr (\<not> sc_prevented sc)
      else Inl ''ScreenCapture.isScreenCaptureEnabledAsync is not a function'')"

subsection \<open>The screen-capture module\<close>

definition native_prevent_screenshots :: "platform \<Rightarrow> screen_capture \<Rightarrow> screen_capture" where
  "native_prevent_screenshots p sc = (if p \<noteq> Android then sc else expo_prevent_capture sc)"

definition native_allow_screenshots :: "platform \<Rightarrow> screen_capture \<Rightarrow> screen_capture" where
  "native_allow_screenshots p sc = (if p \<noteq> Android then sc else expo_allow_capture sc)"

subsection \<open>The device service with the native module\<close>

definition are_screenshots_disabled :: "platform \<Rightarrow> screen_capture \<Rightarrow> bool" where
  "are_screenshots_disabled p sc =
     (if p = Android then \<not> is_screenshot_allowed p
      else case expo_is_capture_enabled sc of Inr b \<Rightarrow> b | Inl e \<Rightarrow> False)"

definition prevent_screenshots :: "platform \<Rightarrow> screen_capture \<Rightarrow> screen_capture" where
  "prevent_screenshots p sc = (if p = Android then native_prevent_screenshots p sc else expo_prevent_capture sc)"

definition allow_screenshots :: "platform \<Rightarrow> screen_capture \<Rightarrow> screen_capture" where
  "allow_screenshots p sc = (if p = Android then native_allow_screenshots p sc else expo_allow_capture sc)"

subsection \<open>The Expo-only device service\<close>

definition are_screenshots_disabled_expo :: "screen_capture \<Rightarrow> bool" where
  "are_screenshots_disabled_expo sc = (case expo_is_capture_enabled sc of Inr b \<Rightarrow> b | Inl e \<Rightarrow> False)"

definition prevent_screenshots_expo :: "screen_capture \<Rightarrow> screen_capture" where
  "prevent_screenshots_expo sc = expo_prevent_capture sc"

definition allow_screenshots_expo :: "screen_capture \<Rightarrow> screen_capture" where
  "allow_screenshots_expo sc = expo_allow_capture sc"

definition demo_capture :: screen_capture where
  "demo_capture = \<lparr>sc_prevented = False, sc_calls_ok = True, sc_has_enabled_query = True\<rparr>"

subsection \<open>Properties\<close>

lemma are_screenshots_disabled_iff:
  "are_screenshots_disabled p sc \<longleftrightarrow> p \<noteq> Android \<and> sc_has_enabled_query sc \<and> \<not> sc_prevented sc"
  by (simp add: are_screenshots_disabled_def is_screenshot_allowed_def expo_is_capture_enabled_def)

lemma are_screenshots_disabled_expo_iff:
  "are_screenshots_disabled_expo sc \<longleftrightarrow> sc_has_enabled_query sc \<and> \<not> sc_prevented sc"
  by (simp add: are_screenshots_disabled_expo_def expo_is_capture_enabled_def)

lemma prevent_screenshots_prevented:
  "sc_calls_ok sc \<Longrightarrow> sc_prevented (prevent_screenshots p sc) \<and> sc_prevented (prevent_screenshots_expo sc)"
  by (simp add: prevent_screenshots_def native_prevent_screenshots_def prevent_screenshots_expo_def
      expo_prevent_capture_def)

text \<open>
  \<open>areScreenshotsDisabled\<close> answers the opposite question. In both variants of
  the device service it is true exactly when the platform check falls through to
  \<open>isScreenCaptureEnabledAsync\<close>, that function exists, and capture is not
  prevented; so after a successful \<open>preventScreenshots\<close> it answers \<open>false\<close> on
  every platform, and on Android it is \<open>false\<close> in every state.
\<close>

theorem screenshots_disabled_inverted:
  assumes "sc_calls_ok sc"
  shows "(are_screenshots_disabled p sc \<longleftrightarrow> p \<noteq> Android \<and> sc_has_enabled_query sc \<and> \<not> sc_prevented sc)
    \<and> (are_screenshots_disabled_expo sc \<longleftrightarrow> sc_has_enabled_query sc \<and> \<not> sc_prevented sc)
    \<and> sc_prevented (prevent_screenshots p sc) \<and> \<not> are_screenshots_disabled p (prevent_screenshots p sc)
    \<and> sc_prevented (prevent_screenshots_expo sc) \<and> \<not> are_screenshots_disabled_expo (prevent_screenshots_expo sc)"
  using prevent_screenshots_prevented[OF assms, of p]
  by (simp add: are_screenshots_disabled_iff are_screenshots_disabled_expo_iff)

theorem screenshots_disabled_inverted_witness:
  "(are_screenshots_disabled Ios demo_capture \<longleftrightarrow> Ios \<noteq> Android \<and> sc_has_enabled_query demo_capture \<and> \<not> sc_prevented demo_capture)
    \<and> (are_screenshots_disabled_expo demo_capture \<longleftrightarrow> sc_has_enabled_query demo_capture \<and> \<not> sc_prevented demo_capture)
    \<and> sc_prevented (prevent_screenshots Ios demo_capture) \<and> \<not> are_screenshots_disabled Ios (prevent_screenshots Ios demo_capture)
    \<and> sc_prevented (prevent_screenshots_expo demo_capture) \<and> \<not> are_screenshots_disabled_expo (prevent_screenshots_expo demo_capture)"
  by (rule screenshots_disabled_inverted) (simp add: demo_capture_def)

end
