(* ===== verification/SingleFileApp.thy ===== *)
theory SingleFileApp
  imports Contacts
begin

text \<open>
  The earlier single-file app (\<open>src/unnamed/part_000\<close>): one component \<open>App\<close> that
  talks to the Bot API with \<open>axios\<close> directly. Its state hooks are a record
  (\<open>app0_hooks\<close>); the INITIALIZE button sets \<open>isConnected\<close>, asks for the Android
  permissions and sends the device report with the command menu (\<open>sendPing\<close>); the
  effect with dependencies \<open>[isConnected]\<close> then arms a 3000 ms interval calling
  \<open>checkTelegramUpdates\<close>, which fetches the updates after \<open>lastUpdateId\<close> and hands each
  callback query to \<open>handleUpdate\<close> (call logs, SMS logs, contacts, the file browser).

  Every handler is a closure over the hooks of the render it was created in. An
  operation is the list of what it does, in order (\<open>a0_effect\<close>): requests to the Bot
  API (the \<open>effect\<close> of the API model), file writes, log lines (\<open>addLog\<close>, with its type)
  and the state setters it calls; the setters take their values from the closure,
  except \<open>setLogs(prev => ...)\<close>, which appends. \<open>a0_apply_all\<close> commits them to the
  current hooks. The interval keeps the closure of the render in which
  \<open>isConnected\<close> became true (\<open>a0_interval\<close>): the effect is not re-run while
  \<open>isConnected\<close> stays true, so every tick runs that render's \<open>checkTelegramUpdates\<close>.

  The environment is an input (\<open>a0_env\<close>): the file system, the server's answer to
  \<open>getUpdates\<close> for each offset, whether posts reject (with the error message), the
  SMS and contacts modules, the Expo device modules and the answer of
  \<open>PermissionsAndroid.requestMultiple\<close>. \<open>requestPermissions\<close> and \<open>sendPing\<close> are
  started together without \<open>await\<close>; the model runs them one after the other, which
  only fixes the order of their log lines. Ticks run one at a time. The bot token and
  chat id a request carries, the log timestamps and the render output are not modelled.
\<close>

record a0_info =
  i0_device_name :: string
  i0_brand :: string
  i0_model :: string
  i0_os_version :: string
  i0_os_build :: string
  i0_app_version :: string
  i0_ip :: string
  i0_location :: "(rat option \<times> rat option) option"
  i0_device_id :: string
  i0_uptime :: string

record app0_hooks =
  a0_current_path :: string
  a0_file_list :: "string list"
  a0_history :: "string list"
  a0_bot_token :: string
  a0_chat_id :: string
  a0_is_connected :: bool
  a0_logs :: "(string \<times> string) list"
  a0_processing :: bool
  a0_last_update_id :: int
  a0_device_info :: "a0_info option"

datatype a0_effect =
    Http effect
  | WriteFile string string
  | AddLog string string
  | SetProcessing bool
  | SetLastUpdateId int
  | SetFileList "string list"
  | SetCurrentPath string
  | SetHistory "string list"
  | SetDeviceInfo a0_info

record 'k a0_env =
  a0_fs :: "'k expo_fs"
  a0_server :: "int \<Rightarrow> gu_response"
  a0_post_error :: "string option"
  a0_sms_available :: bool
  a0_sms_get :: "(string option \<times> string option \<times> string option) list option"
  a0_contacts :: contacts_store
  a0_device :: expo_env
  a0_permissions :: "string + string"

subsection \<open>Committing the setters\<close>

fun a0_apply :: "app0_hooks \<Rightarrow> a0_effect \<Rightarrow> app0_hooks" where
  "a0_apply h (AddLog t m) = h\<lparr>a0_logs := a0_logs h @ [(t, m)]\<rparr>"
| "a0_apply h (SetProcessing b) = h\<lparr>a0_processing := b\<rparr>"
| "a0_apply h (SetLastUpdateId i) = h\<lparr>a0_last_update_id := i\<rparr>"
| "a0_apply h (SetFileList fs) = h\<lparr>a0_file_list := fs\<rparr>"
| "a0_apply h (SetCurrentPath p) = h\<lparr>a0_current_path := p\<rparr>"
| "a0_apply h (SetHistory hs) = h\<lparr>a0_history := hs\<rparr>"
| "a0_apply h (SetDeviceInfo i) = h\<lparr>a0_device_info := Some i\<rparr>"
| "a0_apply h (Http r) = h"
| "a0_apply h (WriteFile p c) = h"

definition a0_apply_all :: "app0_hooks \<Rightarrow> a0_effect list \<Rightarrow> app0_hooks" where
  "a0_apply_all h effs = foldl a0_apply h effs"

subsection \<open>Requests and files\<close>

text \<open>An \<open>axios.post\<close> inside a \<open>try\<close>: the request, then what follows it, or the
  log line of the \<open>catch\<close> with the rejection's message.\<close>

definition a0_post :: "'k a0_env \<Rightarrow> effect \<Rightarrow> a0_effect list \<Rightarrow> string \<Rightarrow> a0_effect list" where
  "a0_post env req after err_prefix =
     Http req # (case a0_post_error env of None \<Rightarrow> after | Some m \<Rightarrow> [AddLog ''error'' (err_prefix @ m)])"

definition a0_send_file :: "'k a0_env \<Rightarrow> string \<Rightarrow> string \<Rightarrow> a0_effect list" where
  "a0_send_file env content filename =
     (let path = cache_directory (a0_fs env) @ filename in
      case write_string (a0_fs env) path content of
        Some e \<Rightarrow> [AddLog ''error'' (''File send error: '' @ e)]
      | None \<Rightarrow> WriteFile path content
                 # a0_post env (PostDocument path filename [])
                     [AddLog ''success'' (''File '' @ filename @ '' sent successfully'')] ''File send error: '')"

definition a0_quoted :: "string \<Rightarrow> string" where
  "a0_quoted s = CHR 0x22 # s @ [CHR 0x22]"

subsection \<open>Device report\<close>

definition a0_location :: "expo_env \<Rightarrow> a0_effect list \<times> (rat option \<times> rat option) option" where
  "a0_location d =
     (case e_location_permission d of
        Inl e \<Rightarrow> ([AddLog ''warning'' (''Location error: '' @ e)], None)
      | Inr st \<Rightarrow>
          if st = ''granted'' then
            (case e_position d of
               Inl e \<Rightarrow> ([AddLog ''warning'' (''Location error: '' @ e)], None)
             | Inr c \<Rightarrow> ([], Some c))
          else ([], None))"

definition collect_device_info0 :: "expo_env \<Rightarrow> a0_effect list \<times> a0_info option" where
  "collect_device_info0 d =
     (let (le, loc) = a0_location d in
      case e_ip d of
        Inl e \<Rightarrow> (le @ [AddLog ''error'' (''Device info error: '' @ e)], None)
      | Inr ip \<Rightarrow>
          (let info =
             \<lparr>i0_device_name = js_or (e_device_name d) ''Unknown'',
              i0_brand = js_or (e_brand d) ''Unknown'',
              i0_model = (case first_truthy [e_model_name d, e_model_id d] of Some m \<Rightarrow> m | None \<Rightarrow> ''Unknown''),
              i0_os_version = js_or (e_os_version d) ''Unknown'',
              i0_os_build = js_or (e_os_build_id d) ''Unknown'',
              i0_app_version = js_or (e_app_version d) ''Unknown'',
              i0_ip = js_or (Some ip) ''Unknown'',
              i0_location = loc,
              i0_device_id = js_or (e_os_internal_build_id d) ''Unknown'',
              i0_uptime = string_of_int \<lfloor>e_uptime d / 60\<rfloor> @ '' minutes''\<rparr>
           in (le @ [SetDeviceInfo info], Some info)))"

text \<open>The report: \<open>location\<close> is the coordinates or the text \<open>'Not available'\<close>, whose
  \<open>latitude\<close> is \<open>undefined\<close>; the object \<open>{}\<close> of a failed collection has no
  \<open>location\<close>, and reading its \<open>latitude\<close> throws.\<close>

definition ping_text :: "a0_info option \<Rightarrow> string + string" where
  "ping_text di =
     (case di of
        None \<Rightarrow> Inl (undefined_read ''latitude'')
      | Some i \<Rightarrow>
          (case location_text (Some (case i0_location i of None \<Rightarrow> (None, None) | Some c \<Rightarrow> c)) of
             Inl e \<Rightarrow> Inl e
           | Inr loc \<Rightarrow>
               Inr (phone_emoji @ '' *Device Connected!*\<newline>\<newline>''
                    @ bullet @ '' Device: '' @ i0_device_name i @ ''\<newline>''
                    @ bullet @ '' Model: '' @ i0_model i @ ''\<newline>''
                    @ bullet @ '' OS: Android '' @ i0_os_version i @ ''\<newline>''
                    @ bullet @ '' Build: '' @ i0_os_build i @ ''\<newline>''
                    @ bullet @ '' IP: '' @ i0_ip i @ ''\<newline>''
                    @ bullet @ '' Location: '' @ loc @ ''\<newline>''
                    @ bullet @ '' Uptime: '' @ i0_uptime i @ ''\<newline>''
                    @ bullet @ '' App Version: '' @ i0_app_version i @ ''\<newline>''
                    @ bullet @ '' Device ID: '' @ i0_device_id i)))"

definition a0_menu :: "(string \<times> string) list list" where
  "a0_menu =
     [[([CHR 0xF0, CHR 0x9F, CHR 0x93, CHR 0x9E] @ '' Call Logs'', ''call_logs'')],
      [([CHR 0xF0, CHR 0x9F, CHR 0x92, CHR 0xAC] @ '' SMS Logs'', ''sms_logs'')],
      [([CHR 0xF0, CHR 0x9F, CHR 0x91, CHR 0xA5] @ '' Contacts'', ''contacts'')],
      [([CHR 0xF0, CHR 0x9F, CHR 0x93, CHR 0x81] @ '' Storage'', ''storage'')]]"

definition send_ping :: "app0_hooks \<Rightarrow> 'k a0_env \<Rightarrow> a0_effect list" where
  "send_ping h env =
     (if a0_bot_token h = [] \<or> a0_chat_id h = [] then []
      else (let (de, di) = collect_device_info0 (a0_device env) in
            de @ (case ping_text di of
                    Inl e \<Rightarrow> [AddLog ''error'' (''Initial message failed: '' @ e)]
                  | Inr text \<Rightarrow>
                      a0_post env (PostMessage text)
                        (a0_post env (PostKeyboard ''Choose an option:'' a0_menu)
                           [AddLog ''success'' ''Initial messages sent successfully''] ''Initial message failed: '')
                        ''Initial message failed: '')))"

definition request_permissions0 :: "'k a0_env \<Rightarrow> a0_effect list" where
  "request_permissions0 env =
     (case a0_permissions env of
        Inr granted \<Rightarrow> [AddLog ''info'' (''Permissions granted: '' @ granted)]
      | Inl err \<Rightarrow> [AddLog ''error'' (''Permission error: '' @ err)])"

subsection \<open>Command handlers\<close>

definition get_call_logs0 :: "'k a0_env \<Rightarrow> a0_effect list" where
  "get_call_logs0 env =
     AddLog ''warning'' ''Call log access not available in Expo''
     # a0_post env (PostMessage ''Call log access requires native Android development'') [] ''Call logs error: ''"

definition sms_row0 :: "string option \<times> string option \<times> string option \<Rightarrow> string" where
  "sms_row0 m =
     (case m of (a, b, d) \<Rightarrow>
        a0_quoted (js_or a []) @ '','' @ a0_quoted (js_or (map_option csv_escape b) []) @ '',''
        @ a0_quoted (js_or d []) @ ''\<newline>'')"

text \<open>\<open>expo-sms\<close> has no \<open>getSmsAsync\<close> (\<open>a0_sms_get = None\<close>): the call throws a
  \<open>TypeError\<close>, which the handler logs.\<close>

definition get_sms_logs0 :: "'k a0_env \<Rightarrow> a0_effect list" where
  "get_sms_logs0 env =
     (if \<not> a0_sms_available env then [AddLog ''warning'' ''SMS not available on this device'']
      else case a0_sms_get env of
        None \<Rightarrow> [AddLog ''error'' ''SMS logs error: SMS.getSmsAsync is not a function'']
      | Some ms \<Rightarrow> a0_send_file env (concat (map sms_row0 ms)) ''sms_logs.csv''
                   @ [AddLog ''success'' ''SMS logs sent successfully''])"

definition contact_row0 :: "contact \<Rightarrow> string" where
  "contact_row0 c =
     a0_quoted (js_or (c_name c) []) @ '',''
     @ a0_quoted (case c_phone_numbers c of Some (Some n # _) \<Rightarrow> n | _ \<Rightarrow> []) @ ''\<newline>''"

definition get_contacts0 :: "'k a0_env \<Rightarrow> a0_effect list" where
  "get_contacts0 env =
     (let st = a0_contacts env in
      if cs_status st = ''granted'' \<or> cs_user_grants st then
        a0_send_file env (concat (map contact_row0 (cs_data st))) ''contacts.csv''
        @ [AddLog ''success'' ''Contacts sent successfully'']
      else [AddLog ''warning'' ''Contacts permission denied''])"

definition file_rows0 :: "string list \<Rightarrow> (string \<times> string) list list" where
  "file_rows0 files =
     map (\<lambda>(i, f). [(digits_of_nat (Suc i) @ ''. '' @ f, ''file_'' @ digits_of_nat i)]) (enumerate 0 files)
     @ [[([CHR 0xF0, CHR 0x9F, CHR 0x94, CHR 0x99] @ '' Back'', ''back'')]]"

definition list_files0 :: "'k a0_env \<Rightarrow> string \<Rightarrow> a0_effect list" where
  "list_files0 env path =
     (case read_dir (a0_fs env) path of
        Inl e \<Rightarrow> [AddLog ''error'' (''File list error: '' @ e)]
      | Inr files \<Rightarrow>
          SetFileList files
          # a0_post env (PostKeyboard ([CHR 0xF0, CHR 0x9F, CHR 0x93, CHR 0x82] @ '' Current path: '' @ path
                                      @ ''\<newline>Select a file:'') (file_rows0 files))
              [AddLog ''info'' (''File list sent for path: '' @ path)] ''File list error: '')"

text \<open>\<open>parseInt\<close> of a text: leading white space, an optional sign and the longest run of
  digits; \<open>None\<close> is \<open>NaN\<close>.\<close>

definition js_parse_int :: "string \<Rightarrow> int option" where
  "js_parse_int s =
     (let t = dropWhile js_space s;
          (neg, r) = (if take 1 t = ''-'' then (True, drop 1 t)
                      else if take 1 t = ''+'' then (False, drop 1 t) else (False, t));
          ds = takeWhile is_digit r
      in if ds = [] then None else Some ((if neg then -1 else 1) * int (nat_of_digits ds)))"

text \<open>\<open>fileList[parseInt(data.split('_')[1])]\<close>, printed by the template literal:
  an index outside the list (or \<open>NaN\<close>) reads \<open>undefined\<close>.\<close>

definition selected_file0 :: "string list \<Rightarrow> string \<Rightarrow> string" where
  "selected_file0 files d =
     (case (case drop 1 (js_split CHR ''_'' d) of p # _ \<Rightarrow> js_parse_int p | [] \<Rightarrow> None) of
        Some i \<Rightarrow> if 0 \<le> i \<and> nat i < length files then files ! nat i else ''undefined''
      | None \<Rightarrow> ''undefined'')"

definition open_file0 :: "app0_hooks \<Rightarrow> 'k a0_env \<Rightarrow> string \<Rightarrow> a0_effect list" where
  "open_file0 c env name =
     (let p = a0_current_path c @ name in
      case get_info (a0_fs env) p of
        Inl e \<Rightarrow> [AddLog ''error'' (''File error: '' @ e)]
      | Inr i \<Rightarrow>
          if fi_is_dir i then
            [SetHistory (a0_history c @ [a0_current_path c]), SetCurrentPath (p @ ''/'')]
            @ list_files0 env (p @ ''/'')
          else (case read_string (a0_fs env) p of
                  Inl e \<Rightarrow> [AddLog ''error'' (''File error: '' @ e)]
                | Inr content \<Rightarrow> a0_send_file env content name @ [AddLog ''success'' (''File sent: '' @ name)]))"

definition handle_file_selection0 :: "app0_hooks \<Rightarrow> 'k a0_env \<Rightarrow> string \<Rightarrow> a0_effect list" where
  "handle_file_selection0 c env d = open_file0 c env (selected_file0 (a0_file_list c) d)"

definition navigate_back0 :: "app0_hooks \<Rightarrow> 'k a0_env \<Rightarrow> a0_effect list" where
  "navigate_back0 c env =
     (if a0_history c \<noteq> [] then
        (let p = last (a0_history c) in
         [SetCurrentPath p, SetHistory (butlast (a0_history c))] @ list_files0 env p)
      else [])"

definition handle_update0 :: "app0_hooks \<Rightarrow> 'k a0_env \<Rightarrow> tg_update \<Rightarrow> a0_effect list" where
  "handle_update0 c env u =
     (case upd_callback u of
        None \<Rightarrow> []
      | Some cq \<Rightarrow>
          (let d = cq_data cq in
           a0_post env (AnswerCallback (cq_id cq))
             (AddLog ''info'' (''Received command: '' @ d)
              # (if d = ''call_logs'' then get_call_logs0 env
                 else if d = ''sms_logs'' then get_sms_logs0 env
                 else if d = ''contacts'' then get_contacts0 env
                 else if d = ''storage'' then list_files0 env (a0_current_path c)
                 else (if take 5 d = ''file_'' then handle_file_selection0 c env d else [])
                      @ (if d = ''back'' then navigate_back0 c env else [])))
             ''Update handling error: ''))"

definition check_telegram_updates :: "app0_hooks \<Rightarrow> 'k a0_env \<Rightarrow> a0_effect list" where
  "check_telegram_updates c env =
     (if a0_processing c \<or> \<not> a0_is_connected c then []
      else (let off = a0_last_update_id c + 1 in
            SetProcessing True # Http (GetUpdates off)
            # (case a0_server env off of
                 GuFailed m \<Rightarrow> [AddLog ''error'' (''Update error: '' @ m)]
               | GuOk None \<Rightarrow> [AddLog ''error'' (''Update error: '' @ undefined_read ''length'')]
               | GuOk (Some ups) \<Rightarrow>
                   if ups = [] then []
                   else SetLastUpdateId (update_id (last ups)) # concat (map (handle_update0 c env) ups))
            @ [SetProcessing False]))"

subsection \<open>The component\<close>

record app0 =
  a0_hooks :: app0_hooks
  a0_interval :: "app0_hooks option"

definition app0_init :: "'k expo_fs \<Rightarrow> app0" where
  "app0_init fs =
     \<lparr>a0_hooks = \<lparr>a0_current_path = document_directory fs, a0_file_list = [], a0_history = [],
                  a0_bot_token = [], a0_chat_id = [], a0_is_connected = False, a0_logs = [],
                  a0_processing = False, a0_last_update_id = 0, a0_device_info = None\<rparr>,
      a0_interval = None\<rparr>"

datatype a0_event = EditBotToken string | EditChatId string | PressInitialize | IntervalTick

text \<open>The INITIALIZE button is disabled while the token or the chat id is empty. Its
  handler sets \<open>isConnected\<close> before its first \<open>await\<close>; the render that follows arms
  the interval with its own closure, unless \<open>isConnected\<close> was already true.\<close>

fun app0_step :: "'k a0_env \<Rightarrow> app0 \<Rightarrow> a0_event \<Rightarrow> app0 \<times> a0_effect list" where
  "app0_step env s (EditBotToken t) = (s\<lparr>a0_hooks := (a0_hooks s)\<lparr>a0_bot_token := t\<rparr>\<rparr>, [])"
| "app0_step env s (EditChatId t) = (s\<lparr>a0_hooks := (a0_hooks s)\<lparr>a0_chat_id := t\<rparr>\<rparr>, [])"
| "app0_step env s PressInitialize =
     (let h = a0_hooks s in
      if a0_bot_token h = [] \<or> a0_chat_id h = [] then (s, [])
      else (let h1 = h\<lparr>a0_is_connected := True\<rparr>;
                effs = request_permissions0 env @ send_ping h env
            in (\<lparr>a0_hooks = a0_apply_all h1 effs,
                 a0_interval = (if a0_is_connected h then a0_interval s else Some h1)\<rparr>, effs)))"
| "app0_step env s IntervalTick =
     (case a0_interval s of
        None \<Rightarrow> (s, [])
      | Some c \<Rightarrow> (let effs = check_telegram_updates c env in (s\<lparr>a0_hooks := a0_apply_all (a0_hooks s) effs\<rparr>, effs)))"

fun app0_run :: "'k a0_env \<Rightarrow> app0 \<Rightarrow> a0_event list \<Rightarrow> app0 \<times> a0_effect list" where
  "app0_run env s [] = (s, [])"
| "app0_run env s (e # es) =
     (let (s1, e1) = app0_step env s e; (s2, e2) = app0_run env s1 es in (s2, e1 @ e2))"

subsection \<open>A sample session\<close>

definition demo_server0 :: "int \<Rightarrow> gu_response" where
  "demo_server0 off =
     GuOk (Some (if off \<le> 7
                 then [\<lparr>update_id = 7, upd_message = None,
                        upd_callback = Some \<lparr>cq_id = ''q7'', cq_data = ''storage'', cq_message = None\<rparr>\<rparr>]
                 else []))"

definition demo_env0 :: "string a0_env" where
  "demo_env0 =
     \<lparr>a0_fs = demo_fs, a0_server = demo_server0, a0_post_error = None, a0_sms_available = False,
      a0_sms_get = None, a0_contacts = \<lparr>cs_status = ''denied'', cs_user_grants = False, cs_data = []\<rparr>,
      a0_device = demo_env\<lparr>e_ip := Inl ''offline''\<rparr>, a0_permissions = Inr ''{}''\<rparr>"

definition demo_events0 :: "a0_event list" where
  "demo_events0 = [EditBotToken ''123:abc'', EditChatId ''42'', PressInitialize, IntervalTick]"

definition demo_closure0 :: app0_hooks where
  "demo_closure0 =
     \<lparr>a0_current_path = ''/d/'', a0_file_list = [], a0_history = [], a0_bot_token = ''123:abc'',
      a0_chat_id = ''42'', a0_is_connected = True, a0_logs = [], a0_processing = False,
      a0_last_update_id = 0, a0_device_info = None\<rparr>"

subsection \<open>The interval's closure\<close>

text \<open>The effects that leave the file browser and the poll cursor alone.\<close>

fun a0_keeps_view :: "a0_effect \<Rightarrow> bool" where
  "a0_keeps_view (Http r) = True"
| "a0_keeps_view (WriteFile p c) = True"
| "a0_keeps_view (AddLog t m) = True"
| "a0_keeps_view (SetDeviceInfo i) = True"
| "a0_keeps_view e = False"

text \<open>The hooks as the app starts: the document directory, no listing, no history, the
  cursor at 0, not processing.\<close>

definition a0_fresh :: "'k expo_fs \<Rightarrow> app0_hooks \<Rightarrow> bool" where
  "a0_fresh fs h \<longleftrightarrow>
     a0_file_list h = [] \<and> a0_history h = [] \<and> a0_last_update_id h = 0 \<and> \<not> a0_processing h
     \<and> a0_current_path h = document_directory fs"

definition app0_inv :: "'k expo_fs \<Rightarrow> app0 \<Rightarrow> bool" where
  "app0_inv fs s \<longleftrightarrow>
     (case a0_interval s of
        None \<Rightarrow> \<not> a0_is_connected (a0_hooks s) \<and> a0_fresh fs (a0_hooks s)
      | Some c \<Rightarrow> a0_is_connected (a0_hooks s) \<and> a0_is_connected c \<and> a0_fresh fs c)"

lemma a0_apply_all_Nil [simp]: "a0_apply_all h [] = h"
  and a0_apply_all_Cons [simp]: "a0_apply_all h (e # es) = a0_apply_all (a0_apply h e) es"
  and a0_apply_all_append: "a0_apply_all h (xs @ ys) = a0_apply_all (a0_apply_all h xs) ys"
  by (simp_all add: a0_apply_all_def)

lemma a0_apply_connected [simp]: "a0_is_connected (a0_apply h e) = a0_is_connected h"
  by (cases e) simp_all

lemma a0_apply_all_connected [simp]: "a0_is_connected (a0_apply_all h effs) = a0_is_connected h"
  by (induction effs arbitrary: h) simp_all

lemma a0_apply_fresh: "a0_keeps_view e \<Longrightarrow> a0_fresh fs (a0_apply h e) = a0_fresh fs h"
  by (cases e) (simp_all add: a0_fresh_def)

lemma a0_apply_all_fresh: "list_all a0_keeps_view effs \<Longrightarrow> a0_fresh fs (a0_apply_all h effs) = a0_fresh fs h"
  by (induction effs arbitrary: h) (simp_all add: a0_apply_fresh)

lemma a0_post_keeps: "list_all a0_keeps_view after \<Longrightarrow> list_all a0_keeps_view (a0_post env r after p)"
  by (simp add: a0_post_def split: option.split)

lemma a0_location_keeps: "list_all a0_keeps_view (fst (a0_location d))"
  by (simp add: a0_location_def split: sum.split)

lemma collect_keeps: "list_all a0_keeps_view (fst (collect_device_info0 d))"
  using a0_location_keeps[of d]
  by (cases "a0_location d"; cases "e_ip d") (simp_all add: collect_device_info0_def Let_def)

lemma initialize_keeps_view: "list_all a0_keeps_view (request_permissions0 env @ send_ping h env)"
proof -
  have "list_all a0_keeps_view (request_permissions0 env)"
    by (simp add: request_permissions0_def split: sum.split)
  moreover have "list_all a0_keeps_view (send_ping h env)"
    using collect_keeps[of "a0_device env"]
    by (cases "collect_device_info0 (a0_device env)")
       (simp add: send_ping_def a0_post_keeps split: sum.split)
  ultimately show ?thesis by simp
qed

lemma app0_init_inv: "app0_inv fs (app0_init fs)"
  by (simp add: app0_inv_def app0_init_def a0_fresh_def)

lemma a0_fresh_updates [simp]:
  "a0_fresh fs (h\<lparr>a0_is_connected := b\<rparr>) = a0_fresh fs h"
  "a0_fresh fs (h\<lparr>a0_bot_token := t\<rparr>) = a0_fresh fs h"
  "a0_fresh fs (h\<lparr>a0_chat_id := t\<rparr>) = a0_fresh fs h"
  by (simp_all add: a0_fresh_def)

lemma app0_step_inv:
  assumes "app0_inv (a0_fs env) s"
  shows "app0_inv (a0_fs env) (fst (app0_step env s e))"
proof (cases e)
  case PressInitialize
  have keep: "a0_fresh fs (a0_apply_all h (request_permissions0 env @ send_ping h' env)) = a0_fresh fs h"
    for fs h h' by (rule a0_apply_all_fresh[OF initialize_keeps_view])
  from assms show ?thesis
    unfolding PressInitialize
    by (cases "a0_interval s") (simp_all add: app0_inv_def Let_def keep)
next
  case IntervalTick
  from assms show ?thesis
    unfolding IntervalTick
    by (cases "a0_interval s") (simp_all add: app0_inv_def Let_def)
qed (use assms in \<open>simp_all add: app0_inv_def split: option.splits\<close>)

lemma app0_run_fst: "fst (app0_run env s (e # es)) = fst (app0_run env (fst (app0_step env s e)) es)"
  by (simp split: prod.split)

lemma app0_run_inv: "app0_inv (a0_fs env) s \<Longrightarrow> app0_inv (a0_fs env) (fst (app0_run env s evs))"
proof (induction evs arbitrary: s)
  case (Cons e evs)
  show ?case unfolding app0_run_fst by (rule Cons.IH[OF app0_step_inv[OF Cons.prems]])
qed simp

lemma app0_reachable_closure:
  assumes "fst (app0_run env (app0_init (a0_fs env)) evs) = s" and "a0_is_connected (a0_hooks s)"
  obtains c where "a0_interval s = Some c" "a0_is_connected c" "a0_fresh (a0_fs env) c"
proof -
  have inv: "app0_inv (a0_fs env) s"
    using app0_run_inv[OF app0_init_inv, of env evs] unfolding assms(1) .
  obtain c where c: "a0_interval s = Some c"
    using inv assms(2) by (cases "a0_interval s") (simp_all add: app0_inv_def)
  show thesis
    by (rule that[OF c]) (use inv c in \<open>simp_all add: app0_inv_def\<close>)
qed

lemma selected_file0_Nil [simp]: "selected_file0 [] d = ''undefined''"
  by (simp add: selected_file0_def split: option.split list.split)

lemma app0_tick:
  "a0_interval s = Some c \<Longrightarrow>
   app0_step env s IntervalTick =
     (s\<lparr>a0_hooks := a0_apply_all (a0_hooks s) (check_telegram_updates c env)\<rparr>, check_telegram_updates c env)"
  by (simp add: Let_def)

lemmas app0_demo_defs = demo_env0_def demo_events0_def demo_server0_def demo_closure0_def app0_init_def
  demo_fs_def demo_dir_info_def

subsection \<open>Properties\<close>

text \<open>
  C37. The poller of the single-file app replays its first batch forever. In every state
  the app reaches, once connected, a tick of the interval requests the updates after
  offset 0 and does exactly what the tick before it did: the interval runs the closure
  of the render that connected, in which \<open>lastUpdateId\<close> is 0 and \<open>processing\<close> is
  false, so every command sent to the bot is answered and executed again every 3 s.
\<close>

theorem poller_replays_first_batch:
  assumes "fst (app0_run env (app0_init (a0_fs env)) evs) = s"
    and "a0_is_connected (a0_hooks s)"
  shows "take 2 (snd (app0_step env s IntervalTick)) = [SetProcessing True, Http (GetUpdates 1)]
    \<and> snd (app0_step env (fst (app0_step env s IntervalTick)) IntervalTick) = snd (app0_step env s IntervalTick)"
proof -
  obtain c where c: "a0_interval s = Some c" "a0_is_connected c" "a0_fresh (a0_fs env) c"
    using app0_reachable_closure[OF assms] .
  show ?thesis
    using c by (simp add: app0_tick check_telegram_updates_def a0_fresh_def Let_def)
qed

theorem poller_replays_first_batch_witness:
  "take 2 (snd (app0_step demo_env0 (fst (app0_run demo_env0 (app0_init (a0_fs demo_env0)) demo_events0)) IntervalTick))
     = [SetProcessing True, Http (GetUpdates 1)]
   \<and> snd (app0_step demo_env0 (fst (app0_step demo_env0 (fst (app0_run demo_env0 (app0_init (a0_fs demo_env0)) demo_events0)) IntervalTick)) IntervalTick)
     = snd (app0_step demo_env0 (fst (app0_run demo_env0 (app0_init (a0_fs demo_env0)) demo_events0)) IntervalTick)"
  by (rule poller_replays_first_batch[OF refl]) (simp add: app0_demo_defs Let_def)

text \<open>
  C38. The file browser of the single-file app never opens a file. In every reachable
  state the interval's closure has an empty \<open>fileList\<close>, the document directory as
  \<open>currentPath\<close> and no history: whatever \<open>file_\<close> button is pressed, the handler opens
  the path \<open>documentDirectory + 'undefined'\<close>, and Back does nothing.
\<close>

theorem file_browser_stuck:
  assumes "fst (app0_run env (app0_init (a0_fs env)) evs) = s"
    and "a0_interval s = Some c"
  shows "handle_file_selection0 c env d = open_file0 c env ''undefined''
    \<and> a0_current_path c = document_directory (a0_fs env) \<and> navigate_back0 c env = []"
proof -
  have "app0_inv (a0_fs env) s"
    using app0_run_inv[OF app0_init_inv, of env evs] unfolding assms(1) .
  then have "a0_fresh (a0_fs env) c"
    using assms(2) by (simp add: app0_inv_def)
  then show ?thesis
    by (simp add: a0_fresh_def handle_file_selection0_def navigate_back0_def)
qed

theorem file_browser_stuck_witness:
  "handle_file_selection0 demo_closure0 demo_env0 ''file_0'' = open_file0 demo_closure0 demo_env0 ''undefined''
   \<and> a0_current_path demo_closure0 = document_directory (a0_fs demo_env0)
   \<and> navigate_back0 demo_closure0 demo_env0 = []"
  by (rule file_browser_stuck[where evs = demo_events0, OF refl]) (simp add: app0_demo_defs Let_def)

end
