(* ===== verification/LegacyApi.thy ===== *)
theory LegacyApi
  imports Outbound
begin

text \<open>
  The earlier \<open>TelegramAPI\<close> (\<open>src/unnamed/part_003\<close>), kept beside the current
  \<open>src/src/api/telegramAPI.js\<close>. It has no reconnection, no polling interval, no
  authorization filter and no error report to the chat: \<open>processUpdate\<close> acknowledges and
  routes callback queries and runs \<open>/command\<close> messages for any chat, and logs whatever
  it catches. Its fields are a record (\<open>legacy_api\<close>, \<open>la_api\<close> standing for
  \<open>this.api !== null\<close>); its methods reuse the dispatcher's blocks (\<open>js_seq\<close>,
  \<open>invoke\<close>), the registry's routing and the outbound texts of the current API.
  \<open>legacy_of\<close> reads the earlier object's fields off the current one, for comparing the
  two dispatchers.
\<close>

record legacy_api =
  la_api :: bool
  la_token :: "string option"
  la_chat_id :: "string option"
  la_last_update_id :: int
  la_connected :: bool
  la_listeners :: "listener_id list"
  la_handlers :: registry

definition legacy_init :: legacy_api where
  "legacy_init =
     \<lparr>la_api = False, la_token = None, la_chat_id = None, la_last_update_id = 0, la_connected = False,
      la_listeners = [], la_handlers = Map.empty\<rparr>"

text \<open>\<open>createTelegramAPI(token)\<close> returns \<open>null\<close> for an empty token.\<close>

definition legacy_create_api :: "string \<Rightarrow> bool" where
  "legacy_create_api tok \<longleftrightarrow> tok \<noteq> []"

text \<open>\<open>setConnected\<close> notifies every listener on every call, changed or not.\<close>

definition legacy_set_connected :: "legacy_api \<Rightarrow> bool \<Rightarrow> legacy_api \<times> effect list" where
  "legacy_set_connected s status =
     (s\<lparr>la_connected := status\<rparr>, map (\<lambda>l. Notify l status) (la_listeners s))"

definition legacy_initialize :: "legacy_api \<Rightarrow> string \<Rightarrow> string \<Rightarrow> (legacy_api \<times> effect list) \<times> bool" where
  "legacy_initialize s tok chat =
     (let s1 = s\<lparr>la_token := Some tok, la_chat_id := Some chat, la_api := legacy_create_api tok\<rparr>;
          (s2, e) = legacy_set_connected s1 (la_api s1 \<and> chat \<noteq> [])
      in ((s2, e), la_connected s2))"

definition legacy_add_listener :: "legacy_api \<Rightarrow> js_value \<Rightarrow> legacy_api" where
  "legacy_add_listener s v =
     (case v of JsFunction l \<Rightarrow> s\<lparr>la_listeners := la_listeners s @ [l]\<rparr> | JsOther \<Rightarrow> s)"

definition legacy_remove_listener :: "legacy_api \<Rightarrow> listener_id \<Rightarrow> legacy_api" where
  "legacy_remove_listener s l = s\<lparr>la_listeners := filter (\<lambda>x. x \<noteq> l) (la_listeners s)\<rparr>"

definition legacy_register :: "legacy_api \<Rightarrow> string \<Rightarrow> js_value \<Rightarrow> legacy_api" where
  "legacy_register s command v = s\<lparr>la_handlers := register_command_handler (la_handlers s) command v\<rparr>"

text \<open>\<open>getUpdates\<close>: a failure (or a missing client) only disconnects.\<close>

definition legacy_get_updates ::
  "legacy_api \<Rightarrow> (int \<Rightarrow> gu_response) \<Rightarrow> (legacy_api \<times> effect list) \<times> tg_update list" where
  "legacy_get_updates s srv =
     (if \<not> la_connected s then ((s, []), [])
      else if \<not> la_api s then (legacy_set_connected s False, [])
      else (let off = la_last_update_id s + 1 in
            case srv off of
              GuOk r \<Rightarrow>
                (let ups = (case r of None \<Rightarrow> [] | Some us \<Rightarrow> us)
                 in ((if ups \<noteq> [] then s\<lparr>la_last_update_id := update_id (last ups)\<rparr> else s,
                      [GetUpdates off]), ups))
            | GuFailed m \<Rightarrow>
                (let (s1, e1) = legacy_set_connected s False in ((s1, GetUpdates off # e1), []))))"

subsection \<open>processUpdate\<close>

definition legacy_dispatch_callback :: "legacy_api \<Rightarrow> dispatch_env \<Rightarrow> callback_query \<Rightarrow> block" where
  "legacy_dispatch_callback s env cq =
     (if \<not> la_api s then ([], Throw (TypeError ''Cannot read properties of null (reading post)''))
      else case ack_outcome env (cq_id cq) of
        Some m \<Rightarrow> ([AnswerCallback (cq_id cq)], Throw (NetworkError m))
      | None \<Rightarrow>
          js_seq ([AnswerCallback (cq_id cq)], Normal)
            (case route_callback (la_handlers s) (cq_data cq) of
               RouteExact t \<Rightarrow> invoke env t (CallbackArgs cq)
             | RouteParam t p \<Rightarrow> invoke env t (CallbackParamArgs cq p)
             | NoParamHandler c \<Rightarrow> ([], Normal)
             | NotImplemented \<Rightarrow> ([], Normal)))"

text \<open>\<open>update.message.text.split(' ')[0].substring(1)\<close>: the first word without its
  slash, case kept; the handler gets the message only.\<close>

definition legacy_dispatch_message :: "legacy_api \<Rightarrow> dispatch_env \<Rightarrow> message \<Rightarrow> block" where
  "legacy_dispatch_message s env m =
     (case msg_text m of
        None \<Rightarrow> ([], Normal)
      | Some text \<Rightarrow>
          if take 1 text = ''/'' then
            (case resolve (la_handlers s) (drop 1 (hd (js_split CHR '' '' text))) of
               Some t \<Rightarrow> invoke env t (MessageOnly m)
             | None \<Rightarrow> ([], Normal))
          else ([], Normal))"

definition legacy_update_body :: "legacy_api \<Rightarrow> dispatch_env \<Rightarrow> tg_update \<Rightarrow> block" where
  "legacy_update_body s env u =
     js_seq (case upd_callback u of None \<Rightarrow> ([], Normal) | Some cq \<Rightarrow> legacy_dispatch_callback s env cq)
       (case upd_message u of None \<Rightarrow> ([], Normal) | Some m \<Rightarrow> legacy_dispatch_message s env m)"

text \<open>The \<open>catch\<close> only logs.\<close>

definition legacy_process_update :: "legacy_api \<Rightarrow> dispatch_env \<Rightarrow> tg_update \<Rightarrow> effect list" where
  "legacy_process_update s env u = fst (legacy_update_body s env u)"

subsection \<open>Sending\<close>

text \<open>A post of \<open>sendMessage\<close>, \<open>sendFile\<close> or the keyboard: nothing while disconnected;
  a rejected post (\<open>ok\<close> false) or a missing client is caught and resolves \<open>false\<close>.\<close>

definition legacy_post :: "legacy_api \<Rightarrow> effect \<Rightarrow> bool \<Rightarrow> effect list \<times> bool" where
  "legacy_post s req ok =
     (if \<not> la_connected s then ([], False) else if \<not> la_api s then ([], False) else ([req], ok))"

definition legacy_send_message :: "legacy_api \<Rightarrow> string \<Rightarrow> bool \<Rightarrow> effect list \<times> bool" where
  "legacy_send_message s text ok = legacy_post s (PostMessage text) ok"

definition legacy_send_file :: "legacy_api \<Rightarrow> string \<Rightarrow> string \<Rightarrow> bool \<Rightarrow> effect list \<times> bool" where
  "legacy_send_file s path caption ok = legacy_post s (PostDocument path (file_name_of path) caption) ok"

text \<open>The texts of \<open>sendDeviceInfo\<close> are the UTF-8 bytes of the file as written, in which
  the emoji and the bullet were mis-decoded (\<open>EF A3 BF C3 BC C3 AC C2 B1\<close> for the phone,
  \<open>E2 80 9A C3 84 C2 A2\<close> for the bullet).\<close>

definition legacy_phone :: string where
  "legacy_phone = [CHR 0xEF, CHR 0xA3, CHR 0xBF, CHR 0xC3, CHR 0xBC, CHR 0xC3, CHR 0xAC, CHR 0xC2, CHR 0xB1]"

definition legacy_bullet :: string where
  "legacy_bullet = [CHR 0xE2, CHR 0x80, CHR 0x9A, CHR 0xC3, CHR 0x84, CHR 0xC2, CHR 0xA2]"

definition legacy_menu :: "(string \<times> string) list list" where
  "legacy_menu =
     (let p = [CHR 0xEF, CHR 0xA3, CHR 0xBF, CHR 0xC3, CHR 0xBC] in
     [[(p @ [CHR 0xC3, CHR 0xAC, CHR 0xC3, CHR 0xBB] @ '' Call Logs'', ''call_logs''),
       (p @ [CHR 0xC3, CHR 0xAD, CHR 0xC2, CHR 0xA8] @ '' SMS Logs'', ''sms_logs'')],
      [(p @ [CHR 0xC3, CHR 0xAB, CHR 0xE2, CHR 0x80, CHR 0xA2] @ '' Contacts'', ''contacts''),
       (p @ [CHR 0xC3, CHR 0xAC, CHR 0xC3, CHR 0x85] @ '' Storage'', ''storage'')],
      [(p @ [CHR 0xC3, CHR 0xAC, CHR 0xC3, CHR 0xA4] @ '' Device Info'', ''device_info''),
       (p @ [CHR 0xC3, CHR 0xAC, CHR 0xE2, CHR 0x88, CHR 0x91] @ '' Take Screenshot'', ''screenshot'')]])"

definition legacy_device_text :: "device_info \<Rightarrow> string \<Rightarrow> string" where
  "legacy_device_text i loc =
     legacy_phone @ '' *Device Connected!*\<newline>\<newline>''
     @ legacy_bullet @ '' Device: '' @ js_String (di_device_name i) @ ''\<newline>''
     @ legacy_bullet @ '' Model: '' @ js_String (di_model i) @ ''\<newline>''
     @ legacy_bullet @ '' OS: Android '' @ js_String (di_os_version i) @ ''\<newline>''
     @ legacy_bullet @ '' Build: '' @ js_String (di_os_build i) @ ''\<newline>''
     @ legacy_bullet @ '' IP: '' @ js_String (di_ip i) @ ''\<newline>''
     @ legacy_bullet @ '' Location: '' @ loc @ ''\<newline>''
     @ legacy_bullet @ '' Uptime: '' @ js_String (di_uptime i) @ ''\<newline>''
     @ legacy_bullet @ '' App Version: '' @ js_String (di_app_version i) @ ''\<newline>''
     @ legacy_bullet @ '' Device ID: '' @ device_id_text (di_device_id i)"

text \<open>\<open>sendDeviceInfo\<close> awaits two \<open>sendMessage\<close> calls, which never throw; it resolves
  \<open>true\<close> once its text is built, whatever they return.\<close>

definition legacy_send_device_info :: "legacy_api \<Rightarrow> device_info option \<Rightarrow> bool \<Rightarrow> effect list \<times> bool" where
  "legacy_send_device_info s d ok =
     (case d of
        None \<Rightarrow> ([], False)
      | Some i \<Rightarrow>
          if \<not> la_connected s then ([], False)
          else (case location_text (di_location i) of
                  Inl _ \<Rightarrow> ([], False)
                | Inr loc \<Rightarrow>
                    (fst (legacy_send_message s (legacy_device_text i loc) ok)
                     @ fst (legacy_post s (PostKeyboard ''Choose an option:'' legacy_menu) ok), True)))"

subsection \<open>The object as a state machine\<close>

datatype legacy_event =
    LInitialize string string
  | LAddListener js_value
  | LRemoveListener listener_id
  | LRegister string js_value
  | LGetUpdates "int \<Rightarrow> gu_response"
  | LProcess dispatch_env tg_update
  | LSendMessage string bool
  | LSendFile string string bool
  | LSendDeviceInfo "device_info option" bool

fun legacy_step :: "legacy_api \<Rightarrow> legacy_event \<Rightarrow> legacy_api \<times> effect list" where
  "legacy_step s (LInitialize tok chat) = fst (legacy_initialize s tok chat)"
| "legacy_step s (LAddListener v) = (legacy_add_listener s v, [])"
| "legacy_step s (LRemoveListener l) = (legacy_remove_listener s l, [])"
| "legacy_step s (LRegister c v) = (legacy_register s c v, [])"
| "legacy_step s (LGetUpdates srv) = fst (legacy_get_updates s srv)"
| "legacy_step s (LProcess env u) = (s, legacy_process_update s env u)"
| "legacy_step s (LSendMessage t ok) = (s, fst (legacy_send_message s t ok))"
| "legacy_step s (LSendFile p c ok) = (s, fst (legacy_send_file s p c ok))"
| "legacy_step s (LSendDeviceInfo d ok) = (s, fst (legacy_send_device_info s d ok))"

fun legacy_run :: "legacy_api \<Rightarrow> legacy_event list \<Rightarrow> legacy_api \<times> effect list" where
  "legacy_run s [] = (s, [])"
| "legacy_run s (e # es) =
     (let (s1, e1) = legacy_step s e; (s2, e2) = legacy_run s1 es in (s2, e1 @ e2))"

text \<open>The fields of the current object that the earlier one has.\<close>

definition legacy_of :: "tg \<Rightarrow> legacy_api" where
  "legacy_of s =
     \<lparr>la_api = api s, la_token = token s, la_chat_id = chat_id s, la_last_update_id = last_update_id s,
      la_connected = connected s, la_listeners = connection_listeners s, la_handlers = command_handlers s\<rparr>"

text \<open>Which events re-initialize the object, and which effects are requests of
  \<open>getUpdates\<close> or of a send method.\<close>

fun legacy_is_initialize :: "legacy_event \<Rightarrow> bool" where
  "legacy_is_initialize (LInitialize tok chat) = True"
| "legacy_is_initialize e = False"

fun legacy_sends :: "effect \<Rightarrow> bool" where
  "legacy_sends (GetUpdates off) = True"
| "legacy_sends (PostMessage t) = True"
| "legacy_sends (PostKeyboard t rows) = True"
| "legacy_sends (PostDocument p n c) = True"
| "legacy_sends e = False"

subsection \<open>Lemmas\<close>

lemma invoke_no_sends: "\<not> list_ex legacy_sends (fst (invoke env t a))"
  by (simp add: invoke_def split: target.split option.split)

lemma legacy_dispatch_callback_no_sends: "\<not> list_ex legacy_sends (fst (legacy_dispatch_callback s env cq))"
  using invoke_no_sends
  by (auto simp: legacy_dispatch_callback_def js_seq_def split: option.split cb_route.split completion.split)

lemma legacy_dispatch_message_no_sends: "\<not> list_ex legacy_sends (fst (legacy_dispatch_message s env m))"
  using invoke_no_sends
  by (simp add: legacy_dispatch_message_def split: option.split)

lemma legacy_process_update_no_sends: "\<not> list_ex legacy_sends (legacy_process_update s env u)"
  using legacy_dispatch_callback_no_sends legacy_dispatch_message_no_sends
  by (auto simp: legacy_process_update_def legacy_update_body_def js_seq_def
      split: option.split completion.split)

lemma legacy_step_disconnected:
  assumes "\<not> la_connected s" and "\<not> legacy_is_initialize e"
  shows "\<not> la_connected (fst (legacy_step s e)) \<and> \<not> list_ex legacy_sends (snd (legacy_step s e))"
  using assms legacy_process_update_no_sends
  by (cases e) (simp_all add: legacy_add_listener_def legacy_remove_listener_def legacy_register_def
      legacy_get_updates_def legacy_send_message_def legacy_send_file_def legacy_send_device_info_def
      legacy_post_def split: js_value.split option.split)

lemma legacy_run_disconnected:
  "\<not> la_connected s \<Longrightarrow> list_all (\<lambda>e. \<not> legacy_is_initialize e) evs \<Longrightarrow>
   \<not> la_connected (fst (legacy_run s evs)) \<and> \<not> list_ex legacy_sends (snd (legacy_run s evs))"
proof (induction evs arbitrary: s)
  case (Cons e evs)
  obtain s1 e1 where st: "legacy_step s e = (s1, e1)" by fastforce
  with legacy_step_disconnected[of s e] Cons.prems have "\<not> la_connected s1" "\<not> list_ex legacy_sends e1"
    by auto
  moreover obtain s2 e2 where r: "legacy_run s1 evs = (s2, e2)" by fastforce
  ultimately show ?case using Cons.IH[of s1] Cons.prems by (simp add: st r)
qed simp

lemma legacy_get_updates_failed:
  "la_connected s \<Longrightarrow> la_api s \<Longrightarrow> srv (la_last_update_id s + 1) = GuFailed m \<Longrightarrow>
   legacy_get_updates s srv =
     ((s\<lparr>la_connected := False\<rparr>, GetUpdates (la_last_update_id s + 1) # map (\<lambda>l. Notify l False) (la_listeners s)), [])"
  by (simp add: legacy_get_updates_def legacy_set_connected_def Let_def)

subsection \<open>Properties\<close>

text \<open>
  The earlier API has no authorization filter: a \<open>/command\<close> message runs the
  registered handler whatever chat it comes from (the current API drops it, C3).
\<close>

theorem legacy_runs_any_chat:
  assumes "la_handlers s cmd = Some h" and "CHR '' '' \<notin> set cmd"
    and "msg_text m = Some (''/'' @ cmd)"
  shows "legacy_process_update s env \<lparr>update_id = i, upd_message = Some m, upd_callback = None\<rparr>
           = [Invoke h (MessageOnly m)]"
proof -
  have "js_split CHR '' '' (''/'' @ cmd) = [''/'' @ cmd]"
    using assms(2) by (simp add: js_split_no_sep)
  with assms show ?thesis
    by (simp add: legacy_process_update_def legacy_update_body_def legacy_dispatch_message_def invoke_def
        split: option.split)
qed

theorem legacy_runs_any_chat_witness:
  "legacy_process_update (legacy_init\<lparr>la_handlers := [''storage'' \<mapsto> 4]\<rparr>) env_ok
     \<lparr>update_id = 9, upd_message = Some \<lparr>msg_chat = 999, msg_text = Some ''/storage''\<rparr>, upd_callback = None\<rparr>
   = [Invoke 4 (MessageOnly \<lparr>msg_chat = 999, msg_text = Some ''/storage''\<rparr>)]"
  by (rule legacy_runs_any_chat) (simp_all add: legacy_init_def)

text \<open>
  C13. In the earlier API a failed \<open>getUpdates\<close> is final: it disconnects and notifies
  the listeners, arms no reconnect, and after it no call short of \<open>initialize\<close> connects
  the object again or makes a request of \<open>getUpdates\<close>, \<open>sendMessage\<close>, \<open>sendFile\<close> or
  \<open>sendDeviceInfo\<close>.
\<close>

theorem legacy_failure_is_final:
  assumes "la_connected s" and "la_api s" and "srv (la_last_update_id s + 1) = GuFailed m"
    and "list_all (\<lambda>e. \<not> legacy_is_initialize e) evs"
  shows "snd (fst (legacy_get_updates s srv)) = GetUpdates (la_last_update_id s + 1) # map (\<lambda>l. Notify l False) (la_listeners s)
    \<and> \<not> la_connected (fst (legacy_run (fst (fst (legacy_get_updates s srv))) evs))
    \<and> \<not> list_ex legacy_sends (snd (legacy_run (fst (fst (legacy_get_updates s srv))) evs))"
  using legacy_run_disconnected[of "s\<lparr>la_connected := False\<rparr>" evs] assms
  by (simp add: legacy_get_updates_failed)

theorem legacy_failure_is_final_witness:
  "snd (fst (legacy_get_updates (legacy_init\<lparr>la_api := True, la_connected := True, la_listeners := [1]\<rparr>) (\<lambda>_. GuFailed ''Network Error'')))
     = GetUpdates (la_last_update_id (legacy_init\<lparr>la_api := True, la_connected := True, la_listeners := [1]\<rparr>) + 1)
       # map (\<lambda>l. Notify l False) (la_listeners (legacy_init\<lparr>la_api := True, la_connected := True, la_listeners := [1]\<rparr>))
   \<and> \<not> la_connected (fst (legacy_run (fst (fst (legacy_get_updates (legacy_init\<lparr>la_api := True, la_connected := True, la_listeners := [1]\<rparr>) (\<lambda>_. GuFailed ''Network Error''))))
        [LGetUpdates (\<lambda>_. GuOk (Some [])), LSendMessage ''hi'' True, LAddListener (JsFunction 2)]))
   \<and> \<not> list_ex legacy_sends (snd (legacy_run (fst (fst (legacy_get_updates (legacy_init\<lparr>la_api := True, la_connected := True, la_listeners := [1]\<rparr>) (\<lambda>_. GuFailed ''Network Error''))))
        [LGetUpdates (\<lambda>_. GuOk (Some [])), LSendMessage ''hi'' True, LAddListener (JsFunction 2)]))"
  by (rule legacy_failure_is_final[where m = "''Network Error''"]) (simp_all add: legacy_init_def)

text \<open>
  C12. The current dispatcher refines the earlier one on authorized callbacks: for a
  callback query from the configured chat whose data has a route, the body of the
  current \<open>processUpdate\<close> makes the same requests and handler calls as the earlier
  one on the same fields, and completes the same way.
\<close>

theorem callback_dispatch_refines_legacy:
  assumes "upd_message u = None" and "upd_callback u = Some cq" and "cq_message cq = Some m"
    and "chat_matches s (msg_chat m) = Inr True"
    and "route_callback (command_handlers s) (cq_data cq) \<noteq> NotImplemented"
  shows "process_update_body s env u = legacy_update_body (legacy_of s) env u"
  using assms
  by (simp add: process_update_body_def legacy_update_body_def callback_chat_guard_def auth_guard_def
      dispatch_callback_def legacy_dispatch_callback_def legacy_of_def split: cb_route.split option.split)

theorem callback_dispatch_refines_legacy_witness:
  "process_update_body tg_demo env_ok (hd demo_batch) = legacy_update_body (legacy_of tg_demo) env_ok (hd demo_batch)"
  by (rule callback_dispatch_refines_legacy[where cq = cq_storage and m = demo_msg])
     (simp_all add: demo_defs chat_matches_def routing_defs)

end
