(* ===== verification/Ui.thy ===== *)
theory Ui
  imports Device Logger Connection
begin

text \<open>
  The display components: \<open>ConnectionStatus\<close> (\<open>src/src/components/ConnectionStatus.js\<close>),
  which subscribes to the API's connection listeners; \<open>ConsoleLog\<close>
  (\<open>src/unnamed/part_004\<close>, lines 287-419), which subscribes to the logger and shows
  the first \<open>maxLogs\<close> entries it is given; and \<open>StatusBar\<close> (the component after the
  API in \<open>src/src/api/telegramAPI.js\<close>, lines 476-601), which formats the props the
  app passes.

  A component is its state and a view: the values its render shows (texts, which icon,
  whether an item is present). Styles and animations are not modelled; for the pulse
  animation of \<open>ConnectionStatus\<close> the view says whether it loops. A subscription is a
  listener id in the subscriber list of the API or the logger, and the component's
  state changes only when a notification addressed to it is delivered.
\<close>

subsection \<open>ConnectionStatus\<close>

text \<open>The mount effect: register the listener (which the API calls at once with the
  current status), then \<open>setIsConnected(telegramAPI.connected)\<close>.\<close>

definition conn_status_mount :: "tg \<Rightarrow> listener_id \<Rightarrow> (tg \<times> effect list) \<times> bool" where
  "conn_status_mount s l =
     (let (s1, e1) = add_connection_listener s (JsFunction l) in ((s1, e1), connected s1))"

text \<open>\<open>handleConnectionChange\<close>: the last status delivered to the listener.\<close>

definition conn_status_deliver :: "listener_id \<Rightarrow> bool \<Rightarrow> effect list \<Rightarrow> bool" where
  "conn_status_deliver l v effs = last (v # notifications l effs)"

definition conn_status_unmount :: "tg \<Rightarrow> listener_id \<Rightarrow> tg" where
  "conn_status_unmount s l = remove_connection_listener s l"

text \<open>The render: the icon, the label when \<open>showLabel\<close>, and whether the pulse loops.\<close>

definition conn_status_view :: "bool \<Rightarrow> bool \<Rightarrow> bool \<Rightarrow> string \<times> string option \<times> bool" where
  "conn_status_view is_connected show_label pulsate =
     (if is_connected then ''md-link'' else ''md-unlink'',
      if show_label then Some (if is_connected then ''CONNECTED'' else ''DISCONNECTED'') else None,
      is_connected \<and> pulsate)"

subsection \<open>ConsoleLog\<close>

record console =
  cl_logger :: logger
  cl_view :: "log_entry list"
  cl_listener :: listener_id
  cl_max :: nat

text \<open>The mount effect: subscribe \<open>handleLogsUpdate\<close>, then show the first \<open>maxLogs\<close>
  entries of \<open>logger.getLogs()\<close>.\<close>

definition console_mount :: "logger \<Rightarrow> listener_id \<Rightarrow> nat \<Rightarrow> console" where
  "console_mount lg f n =
     (let lg1 = logger_subscribe lg (JsFunction f)
      in \<lparr>cl_logger = lg1, cl_view = take n (get_logs lg1), cl_listener = f, cl_max = n\<rparr>)"

text \<open>\<open>setLogs(updatedLogs.slice(0, maxLogs))\<close> for each call addressed to the console.\<close>

definition console_deliver :: "nat \<Rightarrow> listener_id \<Rightarrow> log_entry list \<Rightarrow> log_notification list \<Rightarrow> log_entry list" where
  "console_deliver n f v ns = foldl (\<lambda>w (g, ls). if g = f then take n ls else w) v ns"

text \<open>A call of the logger by the application, with the console mounted; \<open>Clear\<close> is
  also what the console's Clear button (\<open>handleClear\<close>) does.\<close>

definition console_step :: "console \<Rightarrow> logger_op \<Rightarrow> console" where
  "console_step c op =
     (let (lg1, ns) = logger_step (cl_logger c) op
      in c\<lparr>cl_logger := lg1, cl_view := console_deliver (cl_max c) (cl_listener c) (cl_view c) ns\<rparr>)"

definition console_handle_clear :: "console \<Rightarrow> console" where
  "console_handle_clear c = console_step c Clear"

definition console_run :: "console \<Rightarrow> logger_op list \<Rightarrow> console" where
  "console_run c ops = foldl console_step c ops"

definition console_unmount :: "console \<Rightarrow> logger" where
  "console_unmount c = logger_unsubscribe (cl_logger c) (cl_listener c)"

text \<open>The lines shown: \<open>[formattedTime] text\<close> (the time string of an entry is an input,
  a function of its timestamp), or the empty-list text.\<close>

definition console_lines :: "(millis \<Rightarrow> string) \<Rightarrow> bool \<Rightarrow> log_entry list \<Rightarrow> (string \<times> string) list" where
  "console_lines time_text show_ts v =
     (if v = [] then [(''No logs to display'', [])]
      else map (\<lambda>e. ((if show_ts then ''['' @ time_text (log_id e) @ ''] '' else []) @ log_text e, log_color e)) v)"

subsection \<open>StatusBar\<close>

text \<open>\<open>formatLastUpdate\<close>; times in ms, \<open>toLocaleTimeString\<close> an input.\<close>

definition format_last_update :: "int option \<Rightarrow> int \<Rightarrow> (int \<Rightarrow> string) \<Rightarrow> string" where
  "format_last_update last_update now locale_time =
     (case last_update of
        None \<Rightarrow> ''Never''
      | Some t \<Rightarrow>
          (let diff = now - t in
           if diff < 60000 then ''Just now''
           else if diff < 3600000 then string_of_int (diff div 60000) @ ''m ago''
           else locale_time t))"

text \<open>A value as a JSX child: strings and numbers print, \<open>null\<close>, \<open>undefined\<close> and
  booleans render nothing.\<close>

definition jsx_text :: "js_val \<Rightarrow> string" where
  "jsx_text v = (case v of JStr s \<Rightarrow> s | JNum i \<Rightarrow> string_of_int i | _ \<Rightarrow> [])"

text \<open>\<open>{v && <item/>}\<close> directly inside a \<open>View\<close>: a truthy \<open>v\<close> renders the item; a falsy
  string or number is rendered itself, which React Native rejects outside \<open>Text\<close>.\<close>

definition jsx_and_item :: "js_val \<Rightarrow> string \<Rightarrow> string + string option" where
  "jsx_and_item v item =
     (if js_truthy v then Inr (Some item)
      else case v of
        JStr s \<Rightarrow> Inl ''Text strings must be rendered within a <Text> component.''
      | JNum i \<Rightarrow> Inl ''Text strings must be rendered within a <Text> component.''
      | _ \<Rightarrow> Inr None)"

record status_bar_view =
  sb_connection :: string
  sb_processing :: string
  sb_monitoring :: string
  sb_device :: string
  sb_last_update :: string
  sb_network :: "string option"
  sb_ip :: "string option"

definition status_bar :: "device_info \<Rightarrow> bool \<Rightarrow> bool \<Rightarrow> bool \<Rightarrow> int option \<Rightarrow> int \<Rightarrow> (int \<Rightarrow> string)
    \<Rightarrow> string + status_bar_view" where
  "status_bar di is_connected processing monitoring last_update now locale_time =
     (case (jsx_and_item (di_network_type di) (jsx_text (di_network_type di)),
            jsx_and_item (di_ip di) (jsx_text (di_ip di))) of
        (Inl e, _) \<Rightarrow> Inl e
      | (_, Inl e) \<Rightarrow> Inl e
      | (Inr net, Inr ip) \<Rightarrow>
          Inr \<lparr>sb_connection = (if is_connected then ''Connected'' else ''Disconnected''),
               sb_processing = (if processing then ''Processing'' else ''Idle''),
               sb_monitoring = (if monitoring then ''Monitoring'' else ''Standby''),
               sb_device = jsx_text (di_brand di) @ '' '' @ jsx_text (di_model di),
               sb_last_update = ''Last update: '' @ format_last_update last_update now locale_time,
               sb_network = net, sb_ip = ip\<rparr>)"

definition demo_logger :: logger where
  "demo_logger = \<lparr>logs = [], subscribers = [7]\<rparr>"

subsection \<open>ConnectionStatus follows the API\<close>

lemma conn_status_mount_listener:
  "conn_status_mount s l = ((s1, e1), v) \<Longrightarrow> l \<in> set (connection_listeners s1) \<and> v = connected s1"
  by (auto simp: conn_status_mount_def add_connection_listener_def)

text \<open>After the mount, whatever the API does (short of removing the component's
  listener), the status the component shows is the API's \<open>connected\<close>.\<close>

lemma conn_status_sync:
  assumes "conn_status_mount s l = ((s1, e1), v)" and "RemoveListener l \<notin> set es"
  shows "conn_status_deliver l v (snd (conn_run s1 es)) = connected (fst (conn_run s1 es))"
  using conn_run_sync[of l s1 es] conn_status_mount_listener[OF assms(1)] assms(2)
  by (simp add: conn_status_deliver_def)

subsection \<open>ConsoleLog follows the logger\<close>

lemma console_deliver_notify:
  "console_deliver n f v (map (\<lambda>g. (g, L)) gs) = (if f \<in> set gs then take n L else v)"
  by (induction gs arbitrary: v) (auto simp: console_deliver_def)

lemma console_deliver_Nil [simp]: "console_deliver n f v [] = v"
  by (simp add: console_deliver_def)

text \<open>The console's invariant: subscribed, and showing the first \<open>maxLogs\<close> entries.\<close>

definition console_inv :: "console \<Rightarrow> bool" where
  "console_inv c \<longleftrightarrow>
     cl_listener c \<in> set (subscribers (cl_logger c)) \<and> cl_view c = take (cl_max c) (logs (cl_logger c))"

lemma console_step_logger [simp]: "cl_logger (console_step c op) = fst (logger_step (cl_logger c) op)"
  and console_step_listener [simp]: "cl_listener (console_step c op) = cl_listener c"
  and console_step_max [simp]: "cl_max (console_step c op) = cl_max c"
  by (simp_all add: console_step_def case_prod_beta)

lemma console_step_inv:
  assumes "console_inv c" and "op \<noteq> Unsubscribe (cl_listener c)"
  shows "console_inv (console_step c op)"
proof (cases op)
  case (Log m l t)
  then show ?thesis
    using assms(1)
    by (simp add: console_inv_def console_step_def logger_log_eq notify_subscribers_def console_deliver_notify)
next
  case Clear
  then show ?thesis
    using assms(1)
    by (simp add: console_inv_def console_step_def logger_clear_def notify_subscribers_def console_deliver_notify)
next
  case (Subscribe cb)
  then show ?thesis
    using assms(1)
    by (auto simp: console_inv_def console_step_def logger_subscribe_def split: js_value.split)
next
  case (Unsubscribe g)
  then show ?thesis
    using assms by (simp add: console_inv_def console_step_def)
qed

lemma console_run_Cons: "console_run c (op # ops) = console_run (console_step c op) ops"
  by (simp add: console_run_def)

lemma console_run_max [simp]: "cl_max (console_run c ops) = cl_max c"
  by (induction ops arbitrary: c) (simp_all add: console_run_Cons, simp add: console_run_def)

lemma console_run_inv:
  "console_inv c \<Longrightarrow> Unsubscribe (cl_listener c) \<notin> set ops \<Longrightarrow>
   console_inv (console_run c ops) \<and> cl_logger (console_run c ops) = fst (logger_run (cl_logger c) ops)"
proof (induction ops arbitrary: c)
  case (Cons op ops)
  have "console_inv (console_step c op)"
    using Cons.prems by (intro console_step_inv) auto
  with Cons.IH[of "console_step c op"] Cons.prems show ?case
    unfolding console_run_Cons logger_run_fst by simp
qed (simp add: console_run_def)

lemma console_mount_fields [simp]:
  "cl_listener (console_mount lg f n) = f" "cl_max (console_mount lg f n) = n"
  "cl_logger (console_mount lg f n) = logger_subscribe lg (JsFunction f)"
  by (simp_all add: console_mount_def Let_def)

lemma console_mount_inv: "console_inv (console_mount lg f n)"
  by (simp add: console_inv_def console_mount_def logger_subscribe_def get_logs_def)

subsection \<open>Properties\<close>

text \<open>
  C24. The console shows the newest entries. Mount \<open>ConsoleLog\<close> (with \<open>maxLogs\<close> at most
  the logger's 200) on a logger within its bound; after any sequence of logger calls
  that does not unsubscribe the console (logs at any level, other subscriptions,
  \<open>clear\<close> from anywhere, the console's Clear button), it shows the first \<open>maxLogs\<close> of
  the entries written since the last \<open>clear\<close>, newest first.
\<close>

theorem console_shows_newest:
  assumes "length (logs lg) \<le> max_logs" and "n \<le> max_logs" and "Unsubscribe f \<notin> set ops"
  shows "cl_view (console_run (console_mount lg f n) ops) = take n (log_history ops (logs lg))"
proof -
  let ?c = "console_mount lg f n"
  have run: "console_inv (console_run ?c ops) \<and> cl_logger (console_run ?c ops) = fst (logger_run (cl_logger ?c) ops)"
    using console_run_inv[OF console_mount_inv] assms(3) by simp
  have lg1: "logs (cl_logger ?c) = logs lg"
    by simp
  have "logs (fst (logger_run (cl_logger ?c) ops)) = take max_logs (log_history ops (logs lg))"
    using logger_run_logs[of "cl_logger ?c" ops] assms(1) lg1 by simp
  with run assms(2) show ?thesis
    by (simp add: console_inv_def min_def)
qed

theorem console_shows_newest_witness:
  "cl_view (console_run (console_mount demo_logger 3 2) [Log ''a'' ''info'' 1, Log ''b'' ''error'' 2, Subscribe JsOther, Log ''c'' ''debug'' 3])
     = take 2 (log_history [Log ''a'' ''info'' 1, Log ''b'' ''error'' 2, Subscribe JsOther, Log ''c'' ''debug'' 3] (logs demo_logger))"
  by (rule console_shows_newest) (simp_all add: demo_logger_def max_logs_def)

end
