(* ===== verification/Monitor.thy ===== *)
theory Monitor
  imports Prelude
begin

text \<open>
  The monitoring switch of the app component (\<open>src/unnamed/part_002\<close>): the state hooks
  \<open>isConnected\<close>, \<open>monitoringActive\<close>, \<open>updateInterval\<close> and \<open>showSettings\<close>;
  \<open>startMonitoring\<close> and \<open>stopMonitoring\<close>, which arm and clear the 3000 ms polling
  interval; \<open>handleConnect\<close>, which the settings form calls after connecting; the
  connection listener registered by the mount effect with dependencies \<open>[]\<close>; and the
  Start/Stop Monitoring button.

  The callbacks are closures over the hooks of the render that created them
  (\<open>app_hooks\<close>): \<open>startMonitoring\<close> and \<open>stopMonitoring\<close> are passed the hooks they
  read; the listener keeps the callbacks of the first render (\<open>app_hooks_init\<close>) for
  the life of the app. The setters change the current hooks. The running timers are
  part of the state (\<open>mo_intervals\<close>, with the ids \<open>setInterval\<close> hands out), and so is
  whether the API object is connected, which decides whether the API calls the
  listener. Logging and the device report sent when monitoring starts are effects.
  What the polling interval does on each tick is modelled in \<open>Interleave\<close>.
\<close>

record app_hooks =
  ah_is_connected :: bool
  ah_monitoring :: bool
  ah_update_interval :: "nat option"
  ah_show_settings :: bool

record monitor =
  mo_hooks :: app_hooks
  mo_api_connected :: bool
  mo_intervals :: "nat list"
  mo_next_timer :: nat

datatype mon_effect = SetIntervalE nat | ClearIntervalE nat | LogE string | SendDeviceInfoE

definition app_hooks_init :: app_hooks where
  "app_hooks_init =
     \<lparr>ah_is_connected = False, ah_monitoring = False, ah_update_interval = None, ah_show_settings = True\<rparr>"

definition monitor_init :: monitor where
  "monitor_init = \<lparr>mo_hooks = app_hooks_init, mo_api_connected = False, mo_intervals = [], mo_next_timer = 1\<rparr>"

definition clear_interval :: "monitor \<Rightarrow> nat \<Rightarrow> monitor" where
  "clear_interval m i = m\<lparr>mo_intervals := filter (\<lambda>j. j \<noteq> i) (mo_intervals m)\<rparr>"

definition set_hooks :: "monitor \<Rightarrow> (app_hooks \<Rightarrow> app_hooks) \<Rightarrow> monitor" where
  "set_hooks m f = m\<lparr>mo_hooks := f (mo_hooks m)\<rparr>"

text \<open>\<open>startMonitoring\<close> of the render with hooks \<open>c\<close>.\<close>

definition app_start_monitoring :: "app_hooks \<Rightarrow> monitor \<Rightarrow> monitor \<times> mon_effect list" where
  "app_start_monitoring c m =
     (let (m1, e1) = (case ah_update_interval c of
                        Some i \<Rightarrow> (clear_interval m i, [ClearIntervalE i])
                      | None \<Rightarrow> (m, []))
      in if ah_is_connected c then
           (let n = mo_next_timer m1;
                m2 = m1\<lparr>mo_intervals := mo_intervals m1 @ [n], mo_next_timer := Suc n\<rparr>
            in (set_hooks m2 (\<lambda>h. h\<lparr>ah_update_interval := Some n, ah_monitoring := True\<rparr>),
                e1 @ [SetIntervalE n, LogE ''Monitoring started'', SendDeviceInfoE]))
         else (m1, e1))"

text \<open>\<open>stopMonitoring\<close> of the render with hooks \<open>c\<close>.\<close>

definition app_stop_monitoring :: "app_hooks \<Rightarrow> monitor \<Rightarrow> monitor \<times> mon_effect list" where
  "app_stop_monitoring c m =
     (let (m1, e1) = (case ah_update_interval c of
                        Some i \<Rightarrow> (set_hooks (clear_interval m i) (\<lambda>h. h\<lparr>ah_update_interval := None\<rparr>),
                                   [ClearIntervalE i])
                      | None \<Rightarrow> (m, []))
      in (set_hooks m1 (\<lambda>h. h\<lparr>ah_monitoring := False\<rparr>), e1 @ [LogE ''Monitoring stopped'']))"

text \<open>\<open>handleConnectionChange\<close> of the listener the mount effect registers: the setter,
  then the first render's \<open>startMonitoring\<close> or \<open>stopMonitoring\<close>.\<close>

definition handle_connection_change :: "monitor \<Rightarrow> bool \<Rightarrow> monitor \<times> mon_effect list" where
  "handle_connection_change m b =
     (let m1 = set_hooks m (\<lambda>h. h\<lparr>ah_is_connected := b\<rparr>)
      in if b then app_start_monitoring app_hooks_init m1 else app_stop_monitoring app_hooks_init m1)"

text \<open>The API's \<open>setConnected\<close> calls the listener only when the status changes.\<close>

definition api_set_connected :: "monitor \<Rightarrow> bool \<Rightarrow> monitor \<times> mon_effect list" where
  "api_set_connected m b =
     (if mo_api_connected m = b then (m, [])
      else handle_connection_change (m\<lparr>mo_api_connected := b\<rparr>) b)"

text \<open>\<open>handleConnect\<close> of the render with hooks \<open>c\<close>.\<close>

definition app_handle_connect :: "app_hooks \<Rightarrow> monitor \<Rightarrow> monitor \<times> mon_effect list" where
  "app_handle_connect c m =
     app_start_monitoring c (set_hooks m (\<lambda>h. h\<lparr>ah_is_connected := True, ah_show_settings := False\<rparr>))"

datatype mon_event =
    ConnectPressed
  | SavedCredentials
  | ApiDisconnected
  | ApiReconnected
  | MonitorButton

text \<open>
  \<open>ConnectPressed\<close>: the settings form connects the API (whose listener runs) and then
  calls its \<open>onConnect\<close> prop, the \<open>handleConnect\<close> of the render in which the button
  was pressed. \<open>SavedCredentials\<close>: the start-up effect connects with saved credentials,
  then \<open>setIsConnected(true)\<close> and \<open>setShowSettings(false)\<close>. The API events are a
  failed poll and a successful reconnection. The monitoring button is disabled while
  \<open>isConnected\<close> is false and calls \<open>stopMonitoring\<close> or \<open>startMonitoring\<close> of the
  current render.
\<close>

fun monitor_step :: "monitor \<Rightarrow> mon_event \<Rightarrow> monitor \<times> mon_effect list" where
  "monitor_step m ConnectPressed =
     (let c = mo_hooks m; (m1, e1) = api_set_connected m True; (m2, e2) = app_handle_connect c m1
      in (m2, e1 @ e2))"
| "monitor_step m SavedCredentials =
     (let (m1, e1) = api_set_connected m True
      in (set_hooks m1 (\<lambda>h. h\<lparr>ah_is_connected := True, ah_show_settings := False\<rparr>), e1))"
| "monitor_step m ApiDisconnected = api_set_connected m False"
| "monitor_step m ApiReconnected = api_set_connected m True"
| "monitor_step m MonitorButton =
     (let h = mo_hooks m in
      if \<not> ah_is_connected h then (m, [])
      else if ah_monitoring h then app_stop_monitoring h m else app_start_monitoring h m)"

fun monitor_run :: "monitor \<Rightarrow> mon_event list \<Rightarrow> monitor \<times> mon_effect list" where
  "monitor_run m [] = (m, [])"
| "monitor_run m (e # es) =
     (let (m1, e1) = monitor_step m e; (m2, e2) = monitor_run m1 es in (m2, e1 @ e2))"

subsection \<open>The invariant\<close>

text \<open>The app's \<open>isConnected\<close> follows the API; monitoring is on only while connected,
  and then \<open>updateInterval\<close> names a running timer.\<close>

definition monitor_inv :: "monitor \<Rightarrow> bool" where
  "monitor_inv m \<longleftrightarrow>
     ah_is_connected (mo_hooks m) = mo_api_connected m
     \<and> (ah_monitoring (mo_hooks m) \<longrightarrow>
          ah_is_connected (mo_hooks m) \<and> (\<exists>n. ah_update_interval (mo_hooks m) = Some n \<and> n \<in> set (mo_intervals m)))"

lemma set_hooks_simps [simp]:
  "mo_hooks (set_hooks m f) = f (mo_hooks m)" "mo_api_connected (set_hooks m f) = mo_api_connected m"
  "mo_intervals (set_hooks m f) = mo_intervals m" "mo_next_timer (set_hooks m f) = mo_next_timer m"
  by (simp_all add: set_hooks_def)

lemma clear_interval_simps [simp]:
  "mo_hooks (clear_interval m i) = mo_hooks m" "mo_api_connected (clear_interval m i) = mo_api_connected m"
  "mo_intervals (clear_interval m i) = filter (\<lambda>j. j \<noteq> i) (mo_intervals m)"
  by (simp_all add: clear_interval_def)

text \<open>The closure of the first render neither clears nor arms a timer.\<close>

lemma start_monitoring_init [simp]: "app_start_monitoring app_hooks_init m = (m, [])"
  by (simp add: app_start_monitoring_def app_hooks_init_def)

lemma stop_monitoring_init [simp]:
  "app_stop_monitoring app_hooks_init m = (set_hooks m (\<lambda>h. h\<lparr>ah_monitoring := False\<rparr>), [LogE ''Monitoring stopped''])"
  by (simp add: app_stop_monitoring_def app_hooks_init_def)

lemma start_monitoring_unconnected:
  "\<not> ah_is_connected c \<Longrightarrow>
   fst (app_start_monitoring c m) = (case ah_update_interval c of Some i \<Rightarrow> clear_interval m i | None \<Rightarrow> m)
   \<and> (\<forall>n. SetIntervalE n \<notin> set (snd (app_start_monitoring c m)))"
  by (simp add: app_start_monitoring_def split: option.split)

lemma start_monitoring_inv:
  "ah_is_connected c \<Longrightarrow> ah_is_connected (mo_hooks m) \<Longrightarrow> mo_api_connected m \<Longrightarrow>
   monitor_inv (fst (app_start_monitoring c m))"
  by (simp add: app_start_monitoring_def monitor_inv_def Let_def split: option.split)

lemma stop_monitoring_inv:
  "mo_hooks m = c \<Longrightarrow> monitor_inv m \<Longrightarrow> monitor_inv (fst (app_stop_monitoring c m))"
  by (auto simp: app_stop_monitoring_def monitor_inv_def split: option.split)

lemma monitor_step_inv:
  assumes "monitor_inv m"
  shows "monitor_inv (fst (monitor_step m e))"
proof (cases e)
  case ConnectPressed
  show ?thesis
  proof (cases "ah_is_connected (mo_hooks m)")
    case True
    then have api: "mo_api_connected m" using assms by (simp add: monitor_inv_def)
    have "monitor_inv (fst (app_handle_connect (mo_hooks m) m))"
      unfolding app_handle_connect_def using True api by (intro start_monitoring_inv) simp_all
    with api ConnectPressed show ?thesis
      by (simp add: api_set_connected_def case_prod_beta)
  next
    case False
    with assms ConnectPressed show ?thesis
      using start_monitoring_unconnected[OF False]
      by (auto simp: api_set_connected_def handle_connection_change_def monitor_inv_def app_handle_connect_def
          split: option.split)
  qed
next
  case MonitorButton
  show ?thesis
  proof (cases "ah_is_connected (mo_hooks m)")
    case False
    with MonitorButton assms show ?thesis by (simp add: Let_def)
  next
    case True
    then have api: "mo_api_connected m" using assms by (simp add: monitor_inv_def)
    show ?thesis
    proof (cases "ah_monitoring (mo_hooks m)")
      case mon: True
      have "monitor_inv (fst (app_stop_monitoring (mo_hooks m) m))"
        by (rule stop_monitoring_inv[OF refl assms])
      with MonitorButton True mon show ?thesis by (simp add: Let_def)
    next
      case mon: False
      have "monitor_inv (fst (app_start_monitoring (mo_hooks m) m))"
        by (rule start_monitoring_inv[OF True True api])
      with MonitorButton True mon show ?thesis by (simp add: Let_def)
    qed
  qed
qed (use assms in \<open>auto simp: api_set_connected_def handle_connection_change_def monitor_inv_def
      Let_def case_prod_beta\<close>)


lemma monitor_init_inv: "monitor_inv monitor_init"
  by (simp add: monitor_inv_def monitor_init_def app_hooks_init_def)

lemma monitor_run_fst: "fst (monitor_run m (e # es)) = fst (monitor_run (fst (monitor_step m e)) es)"
  by (simp split: prod.split)

lemma monitor_run_inv: "monitor_inv m \<Longrightarrow> monitor_inv (fst (monitor_run m evs))"
proof (induction evs arbitrary: m)
  case (Cons e evs)
  show ?case unfolding monitor_run_fst by (rule Cons.IH[OF monitor_step_inv[OF Cons.prems]])
qed simp

lemma monitor_reachable_inv: "fst (monitor_run monitor_init evs) = m \<Longrightarrow> monitor_inv m"
  using monitor_run_inv[OF monitor_init_inv, of evs] by simp

lemma start_monitoring_unconnected_hooks:
  "\<not> ah_is_connected c \<Longrightarrow>
   mo_hooks (fst (app_start_monitoring c m)) = mo_hooks m \<and> (\<forall>n. SetIntervalE n \<notin> set (snd (app_start_monitoring c m)))"
  by (simp add: app_start_monitoring_def split: option.split)

subsection \<open>Properties\<close>

text \<open>
  C34. Connecting never starts monitoring. In every state the app reaches while it is
  disconnected, connecting through the settings form, restoring the saved credentials,
  or the API reconnecting leaves the app connected but not monitoring, and arms no
  polling interval: the listener runs the first render's \<open>startMonitoring\<close>, and
  \<open>handleConnect\<close> the one of the render before the connection, both with
  \<open>isConnected\<close> false. Only the Start Monitoring button starts it.
\<close>

theorem connecting_never_starts_monitoring:
  assumes "fst (monitor_run monitor_init evs) = m" and "\<not> ah_is_connected (mo_hooks m)"
    and "e \<in> {ConnectPressed, SavedCredentials, ApiReconnected}"
  shows "ah_is_connected (mo_hooks (fst (monitor_step m e))) \<and> \<not> ah_monitoring (mo_hooks (fst (monitor_step m e)))
    \<and> (\<forall>n. SetIntervalE n \<notin> set (snd (monitor_step m e)))"
proof -
  have inv: "monitor_inv m" by (rule monitor_reachable_inv[OF assms(1)])
  with assms(2) have off: "\<not> mo_api_connected m" "\<not> ah_monitoring (mo_hooks m)"
    by (auto simp: monitor_inv_def)
  from assms(3) off assms(2) show ?thesis
    using start_monitoring_unconnected_hooks[OF assms(2)]
    by (auto simp: api_set_connected_def handle_connection_change_def app_handle_connect_def case_prod_beta)
qed

theorem connecting_never_starts_monitoring_witness:
  "ah_is_connected (mo_hooks (fst (monitor_step (fst (monitor_run monitor_init [ConnectPressed, MonitorButton, ApiDisconnected])) ApiReconnected)))
   \<and> \<not> ah_monitoring (mo_hooks (fst (monitor_step (fst (monitor_run monitor_init [ConnectPressed, MonitorButton, ApiDisconnected])) ApiReconnected)))
   \<and> (\<forall>n. SetIntervalE n \<notin> set (snd (monitor_step (fst (monitor_run monitor_init [ConnectPressed, MonitorButton, ApiDisconnected])) ApiReconnected)))"
  by (rule connecting_never_starts_monitoring[OF refl])
     (simp_all add: monitor_init_def app_hooks_init_def api_set_connected_def handle_connection_change_def
        app_handle_connect_def app_start_monitoring_def app_stop_monitoring_def clear_interval_def set_hooks_def)

text \<open>
  C35. A disconnection leaves the poller running. In every reachable state in which
  the app is monitoring, a failed poll of the API (which calls the app's listener with
  \<open>false\<close>) only logs \<open>Monitoring stopped\<close> and shows the app disconnected and not
  monitoring: the first render's \<open>stopMonitoring\<close> sees no \<open>updateInterval\<close>, so the
  running polling timer is not cleared and \<open>updateInterval\<close> still names it.
\<close>

theorem disconnection_keeps_polling:
  assumes "fst (monitor_run monitor_init evs) = m" and "ah_monitoring (mo_hooks m)"
  shows "snd (monitor_step m ApiDisconnected) = [LogE ''Monitoring stopped'']
    \<and> \<not> ah_monitoring (mo_hooks (fst (monitor_step m ApiDisconnected)))
    \<and> \<not> ah_is_connected (mo_hooks (fst (monitor_step m ApiDisconnected)))
    \<and> mo_intervals (fst (monitor_step m ApiDisconnected)) = mo_intervals m \<and> mo_intervals m \<noteq> []
    \<and> ah_update_interval (mo_hooks (fst (monitor_step m ApiDisconnected))) = ah_update_interval (mo_hooks m)"
proof -
  have inv: "monitor_inv m" by (rule monitor_reachable_inv[OF assms(1)])
  with assms(2) obtain n where "mo_api_connected m" "ah_update_interval (mo_hooks m) = Some n"
    "n \<in> set (mo_intervals m)"
    by (auto simp: monitor_inv_def)
  then show ?thesis
    by (auto simp: api_set_connected_def handle_connection_change_def)
qed

theorem disconnection_keeps_polling_witness:
  "snd (monitor_step (fst (monitor_run monitor_init [ConnectPressed, MonitorButton])) ApiDisconnected) = [LogE ''Monitoring stopped'']
   \<and> \<not> ah_monitoring (mo_hooks (fst (monitor_step (fst (monitor_run monitor_init [ConnectPressed, MonitorButton])) ApiDisconnected)))
   \<and> \<not> ah_is_connected (mo_hooks (fst (monitor_step (fst (monitor_run monitor_init [ConnectPressed, MonitorButton])) ApiDisconnected)))
   \<and> mo_intervals (fst (monitor_step (fst (monitor_run monitor_init [ConnectPressed, MonitorButton])) ApiDisconnected))
       = mo_intervals (fst (monitor_run monitor_init [ConnectPressed, MonitorButton]))
   \<and> mo_intervals (fst (monitor_run monitor_init [ConnectPressed, MonitorButton])) \<noteq> []
   \<and> ah_update_interval (mo_hooks (fst (monitor_step (fst (monitor_run monitor_init [ConnectPressed, MonitorButton])) ApiDisconnected)))
       = ah_update_interval (mo_hooks (fst (monitor_run monitor_init [ConnectPressed, MonitorButton])))"
  by (rule disconnection_keeps_polling[OF refl])
     (simp add: monitor_init_def app_hooks_init_def api_set_connected_def handle_connection_change_def
        app_handle_connect_def app_start_monitoring_def app_stop_monitoring_def clear_interval_def set_hooks_def)

end
