(* ===== verification/FileStore.thy ===== *)
theory FileStore
  imports NativeFs "HOL-Library.AList"
begin

text \<open>
  Writing to the device: \<open>createFile\<close>, \<open>createTempFile\<close>, \<open>downloadFile\<close> and
  \<open>saveToMediaLibrary\<close> of the hook \<open>useFileSystem\<close>
  (\<open>src/src/hooks/useFileSystem.js\<close>, lines 172-272) and of its enhanced variant
  (\<open>src/unnamed/part_007\<close>, lines 185-295, the same code line for line), and
  \<open>createFile\<close>, \<open>createDirectory\<close>, \<open>shareFile\<close> and \<open>saveToMediaLibrary\<close> of the
  file service (\<open>src/src/services/fileService.js\<close>).

  The device's storage is a store: an association list from a path key (the path
  without its trailing \<open>/\<close>) to a node, a file with its content and modification
  time or a directory. A text of the model is a list of 8-bit characters, so a file's
  content is its UTF-8 bytes and the size \<open>getInfoAsync\<close> reports is its length. The answers of \<open>expo-file-system\<close> that the read-only model of
  the FileSystem theory takes as an input are computed from the store by
  \<open>store_fs\<close>: \<open>getInfoAsync\<close> reads the node, \<open>readDirectoryAsync\<close> the keys one
  segment below, \<open>readAsStringAsync\<close> a file's content. \<open>writeAsStringAsync\<close> creates
  or replaces a file whose parent is a directory, \<open>makeDirectoryAsync\<close> with
  \<open>intermediates\<close> creates the missing directories below the deepest existing one.
  The download's network answer (the HTTP status and body, or a rejection) and the
  media library (the permission answer, the assets created, the albums with their
  assets) are inputs. Logging is not modelled; the progress callback of
  \<open>downloadFile\<close> only logs.
\<close>

datatype fs_node = FileNode string nat | DirNode nat

record 'k fs_store =
  store_nodes :: "(string \<times> fs_node) list"
  store_doc :: string
  store_cache :: string
  store_now :: nat
  store_collation :: "string \<Rightarrow> 'k"

definition path_key :: "string \<Rightarrow> string" where
  "path_key p = (if ends_with_slash p then butlast p else p)"

definition parent_key :: "string \<Rightarrow> string" where
  "parent_key k = js_substring0 k (js_last_index_of CHR ''/'' k)"

definition store_node :: "'k fs_store \<Rightarrow> string \<Rightarrow> fs_node option" where
  "store_node st p = map_of (store_nodes st) (path_key p)"

fun is_dir_node :: "fs_node option \<Rightarrow> bool" where
  "is_dir_node (Some (DirNode t)) = True"
| "is_dir_node _ = False"

fun is_file_node :: "fs_node option \<Rightarrow> bool" where
  "is_file_node (Some (FileNode c t)) = True"
| "is_file_node _ = False"

definition store_children :: "'k fs_store \<Rightarrow> string \<Rightarrow> string list" where
  "store_children st d =
     map (\<lambda>(k, n). drop (Suc (length d)) k)
       (filter (\<lambda>(k, n). k \<noteq> d \<and> parent_key k = d) (store_nodes st))"

definition store_info :: "'k fs_store \<Rightarrow> string \<Rightarrow> file_info" where
  "store_info st p =
     (case store_node st p of
        None \<Rightarrow> \<lparr>fi_exists = False, fi_is_dir = False, fi_size = 0, fi_mtime = None, fi_uri = p\<rparr>
      | Some (FileNode c t) \<Rightarrow>
          \<lparr>fi_exists = True, fi_is_dir = False, fi_size = length c, fi_mtime = Some t, fi_uri = p\<rparr>
      | Some (DirNode t) \<Rightarrow>
          \<lparr>fi_exists = True, fi_is_dir = True, fi_size = 0, fi_mtime = Some t, fi_uri = p\<rparr>)"

definition store_read_dir :: "'k fs_store \<Rightarrow> string \<Rightarrow> string + string list" where
  "store_read_dir st p =
     (if is_dir_node (store_node st p) then Inr (store_children st (path_key p))
      else Inl (''Directory '' @ p @ '' could not be read.''))"

definition store_read :: "'k fs_store \<Rightarrow> string \<Rightarrow> string + string" where
  "store_read st p =
     (case store_node st p of
        Some (FileNode c t) \<Rightarrow> Inr c
      | _ \<Rightarrow> Inl (''File '' @ p @ '' could not be read.''))"

definition store_write :: "'k fs_store \<Rightarrow> string \<Rightarrow> string \<Rightarrow> string + 'k fs_store" where
  "store_write st p c =
     (let k = path_key p in
      if is_dir_node (store_node st p) then Inl (''Location '' @ p @ '' is a directory.'')
      else if \<not> is_dir_node (map_of (store_nodes st) (parent_key k))
      then Inl (''Location '' @ p @ '' isn't writable.'')
      else Inr (st\<lparr>store_nodes := AList.update k (FileNode c (store_now st)) (store_nodes st)\<rparr>))"

text \<open>The directories of a key, shortest first, the key itself last.\<close>

definition key_chain :: "string \<Rightarrow> string list" where
  "key_chain k = [take i k. i \<leftarrow> [1..<length k], k ! i = CHR ''/''] @ [k]"

fun add_dirs :: "nat \<Rightarrow> (string \<times> fs_node) list \<Rightarrow> string list \<Rightarrow> (string \<times> fs_node) list" where
  "add_dirs t ns [] = ns"
| "add_dirs t ns (a # as) =
     add_dirs t (if map_of ns a = None then AList.update a (DirNode t) ns else ns) as"

definition store_mkdir :: "'k fs_store \<Rightarrow> string \<Rightarrow> string + 'k fs_store" where
  "store_mkdir st p =
     (let chain = key_chain (path_key p);
          below = dropWhile (\<lambda>a. map_of (store_nodes st) a = None) chain in
      if (\<exists>a \<in> set chain. is_file_node (map_of (store_nodes st) a)) \<or> below = []
      then Inl (''Directory '' @ p @ '' could not be created.'')
      else Inr (st\<lparr>store_nodes := add_dirs (store_now st) (store_nodes st) below\<rparr>))"

text \<open>The answers of \<open>expo-file-system\<close> on the store.\<close>

definition store_fs :: "'k fs_store \<Rightarrow> 'k expo_fs" where
  "store_fs st =
     \<lparr>get_info = (\<lambda>p. Inr (store_info st p)), read_dir = store_read_dir st,
      read_string = store_read st,
      write_string = (\<lambda>p c. case store_write st p c of Inl e \<Rightarrow> Some e | Inr st' \<Rightarrow> None),
      document_directory = store_doc st, cache_directory = store_cache st,
      collation = store_collation st\<rparr>"

definition store_wf :: "'k fs_store \<Rightarrow> bool" where
  "store_wf st \<longleftrightarrow> ends_with_slash (store_doc st) \<and> ends_with_slash (store_cache st)
     \<and> is_dir_node (store_node st (store_doc st)) \<and> is_dir_node (store_node st (store_cache st))"

subsection \<open>The hook\<close>

text \<open>\<open>createFile\<close>: write, then refresh the listing of the \<open>currentPath\<close> of the
  render, and resolve with the path; a failed write rethrows and changes nothing.\<close>

definition hook_create_file :: "'a fs_hook_scheme \<Rightarrow> ('k::linorder) fs_store \<Rightarrow> string \<Rightarrow> string \<Rightarrow>
    (string + string) \<times> 'a fs_hook_scheme \<times> 'k fs_store" where
  "hook_create_file s st path content =
     (case store_write st path content of
        Inl e \<Rightarrow> (Inl e, s, st)
      | Inr st' \<Rightarrow> (Inr path, fst (list_files s (store_fs st') (current_path s)), st'))"

definition store_create_temp_file :: "'k fs_store \<Rightarrow> string \<Rightarrow> string \<Rightarrow> (string + string) \<times> 'k fs_store" where
  "store_create_temp_file st content filename =
     (let path = temp_file_path (store_fs st) filename in
      case store_write st path content of
        Inl e \<Rightarrow> (Inl e, st)
      | Inr st' \<Rightarrow> (Inr path, st'))"

text \<open>\<open>downloadFile\<close>: \<open>downloadAsync\<close> writes the response body to the file and
  resolves with the status, which the code does not read.\<close>

definition download_file :: "'k fs_store \<Rightarrow> (string \<Rightarrow> string + nat \<times> string) \<Rightarrow> string \<Rightarrow> string \<Rightarrow>
    (string + string) \<times> 'k fs_store" where
  "download_file st net url filename =
     (let file_uri = store_cache st @ filename in
      case net url of
        Inl e \<Rightarrow> (Inl e, st)
      | Inr (status, body) \<Rightarrow>
          (case store_write st file_uri body of
             Inl e \<Rightarrow> (Inl e, st)
           | Inr st' \<Rightarrow> (Inr file_uri, st')))"

subsection \<open>The file service\<close>

text \<open>\<open>createFile\<close> of the service resolves with the \<open>getInfoAsync\<close> answer after
  the write.\<close>

definition service_create_file :: "'k fs_store \<Rightarrow> string \<Rightarrow> string \<Rightarrow> (string + file_info) \<times> 'k fs_store" where
  "service_create_file st path content =
     (case store_write st path content of
        Inl e \<Rightarrow> (Inl e, st)
      | Inr st' \<Rightarrow> (get_info (store_fs st') path, st'))"

definition create_directory :: "'k fs_store \<Rightarrow> string \<Rightarrow> (string + file_info) \<times> 'k fs_store" where
  "create_directory st path =
     (let np = normalize_path path in
      case get_info (store_fs st) np of
        Inl e \<Rightarrow> (Inl e, st)
      | Inr info \<Rightarrow>
          if fi_exists info then
            (if fi_is_dir info then (Inr info, st)
             else (Inl (''Path exists but is not a directory: '' @ np), st))
          else (case store_mkdir st np of
                  Inl e \<Rightarrow> (Inl e, st)
                | Inr st' \<Rightarrow> (get_info (store_fs st') np, st')))"

text \<open>\<open>shareFile\<close>: the answer of \<open>Sharing.isAvailableAsync\<close> and of
  \<open>Sharing.shareAsync\<close> are inputs; the share requests made are returned as
  (uri, mimeType, UTI). A missing \<open>contentType\<close> is \<open>None\<close>.\<close>

definition share_file :: "bool \<Rightarrow> string + unit \<Rightarrow> string \<Rightarrow> string option \<Rightarrow>
    (string + unit) \<times> (string \<times> string \<times> string) list" where
  "share_file available answer file_uri content_type =
     (let ct = (case content_type of None \<Rightarrow> ''text/plain'' | Some t \<Rightarrow> t) in
      if \<not> available then (Inl ''Sharing is not available on this device'', [])
      else (answer, [(file_uri, ct, ct)]))"

subsection \<open>The media library\<close>

text \<open>The assets created so far (an asset is its index, with the uri it was created
  from) and the albums by title with their assets.\<close>

record media_store =
  ms_permission :: "string + string"
  ms_assets :: "string list"
  ms_albums :: "(string \<times> nat list) list"

definition media_permission_error :: "media_store \<Rightarrow> string option" where
  "media_permission_error ms =
     (case ms_permission ms of
        Inl e \<Rightarrow> Some e
      | Inr status \<Rightarrow> if status \<noteq> ''granted'' then Some ''Media library permission not granted'' else None)"

definition create_asset :: "media_store \<Rightarrow> 'k fs_store \<Rightarrow> string \<Rightarrow> string + nat \<times> media_store" where
  "create_asset ms st file_uri =
     (if is_file_node (store_node st file_uri)
      then Inr (length (ms_assets ms), ms\<lparr>ms_assets := ms_assets ms @ [file_uri]\<rparr>)
      else Inl ''Could not create asset.'')"

text \<open>\<open>getAlbumAsync\<close>, then \<open>createAlbumAsync(album, asset, false)\<close> when it answers
  \<open>null\<close>, \<open>addAssetsToAlbumAsync([asset], albums, false)\<close> otherwise.\<close>

definition add_to_album :: "media_store \<Rightarrow> string \<Rightarrow> nat \<Rightarrow> media_store" where
  "add_to_album ms album a =
     (case map_of (ms_albums ms) album of
        None \<Rightarrow> ms\<lparr>ms_albums := AList.update album [a] (ms_albums ms)\<rparr>
      | Some ids \<Rightarrow> ms\<lparr>ms_albums := AList.update album (ids @ [a]) (ms_albums ms)\<rparr>)"

definition hook_save_to_media_library :: "media_store \<Rightarrow> 'k fs_store \<Rightarrow> string \<Rightarrow> string option \<Rightarrow>
    (string + nat) \<times> media_store" where
  "hook_save_to_media_library ms st file_uri album =
     (case media_permission_error ms of
        Some e \<Rightarrow> (Inl e, ms)
      | None \<Rightarrow>
          (case create_asset ms st file_uri of
             Inl e \<Rightarrow> (Inl e, ms)
           | Inr (a, ms1) \<Rightarrow>
               (Inr a, case album of Some t \<Rightarrow> if t \<noteq> [] then add_to_album ms1 t a else ms1 | None \<Rightarrow> ms1)))"

definition service_save_to_media_library :: "media_store \<Rightarrow> 'k fs_store \<Rightarrow> string \<Rightarrow>
    (string + nat) \<times> media_store" where
  "service_save_to_media_library ms st file_uri =
     (case media_permission_error ms of
        Some e \<Rightarrow> (Inl e, ms)
      | None \<Rightarrow>
          (case create_asset ms st file_uri of
             Inl e \<Rightarrow> (Inl e, ms)
           | Inr (a, ms1) \<Rightarrow> (Inr a, ms1)))"

subsection \<open>The enhanced hook\<close>

text \<open>\<open>readFile\<close>, \<open>createFile\<close>, \<open>createTempFile\<close>, \<open>downloadFile\<close> and
  \<open>saveToMediaLibrary\<close> of \<open>src/unnamed/part_007\<close> are the basic hook's code.\<close>

abbreviation nfs_read_file :: "'k expo_fs \<Rightarrow> string \<Rightarrow> string + string" where
  "nfs_read_file \<equiv> hook_read_file"

abbreviation nfs_create_file :: "nfs_hook \<Rightarrow> ('k::linorder) fs_store \<Rightarrow> string \<Rightarrow> string \<Rightarrow>
    (string + string) \<times> nfs_hook \<times> 'k fs_store" where
  "nfs_create_file \<equiv> hook_create_file"

abbreviation nfs_create_temp_file :: "'k fs_store \<Rightarrow> string \<Rightarrow> string \<Rightarrow> (string + string) \<times> 'k fs_store" where
  "nfs_create_temp_file \<equiv> store_create_temp_file"

abbreviation nfs_download_file :: "'k fs_store \<Rightarrow> (string \<Rightarrow> string + nat \<times> string) \<Rightarrow> string \<Rightarrow> string \<Rightarrow>
    (string + string) \<times> 'k fs_store" where
  "nfs_download_file \<equiv> download_file"

abbreviation nfs_save_to_media_library :: "media_store \<Rightarrow> 'k fs_store \<Rightarrow> string \<Rightarrow> string option \<Rightarrow>
    (string + nat) \<times> media_store" where
  "nfs_save_to_media_library \<equiv> hook_save_to_media_library"

subsection \<open>A device\<close>

definition demo_store :: "string fs_store" where
  "demo_store =
     \<lparr>store_nodes = [(''file:///docs'', DirNode 1), (''file:///cache'', DirNode 1),
                     (''file:///docs/notes.txt'', FileNode ''hi'' 2)],
      store_doc = ''file:///docs/'', store_cache = ''file:///cache/'', store_now = 5,
      store_collation = id\<rparr>"


subsection \<open>Paths and the store\<close>

lemma path_key_child:
  assumes "n \<noteq> []" "CHR ''/'' \<notin> set n"
  shows "path_key (d @ n) = d @ n"
  using assms by (simp add: path_key_def ends_with_slash_def) (metis last_in_set)

lemma parent_key_child:
  assumes "ends_with_slash d" "CHR ''/'' \<notin> set n"
  shows "parent_key (d @ n) = path_key d"
proof -
  have "d \<noteq> []" using assms(1) by (simp add: ends_with_slash_def)
  then show ?thesis
    using js_last_index_of_suffix[OF assms]
    by (simp add: parent_key_def js_substring0_def path_key_def assms(1) butlast_conv_take)
qed

lemma path_key_dir_shorter: "ends_with_slash d \<Longrightarrow> length (path_key d) < length (d @ n)"
  by (cases d) (auto simp: path_key_def ends_with_slash_def)

lemma store_write_ok:
  assumes "\<not> is_dir_node (store_node st p)" "is_dir_node (map_of (store_nodes st) (parent_key (path_key p)))"
  shows "store_write st p c =
    Inr (st\<lparr>store_nodes := AList.update (path_key p) (FileNode c (store_now st)) (store_nodes st)\<rparr>)"
  using assms by (simp add: store_write_def Let_def)

lemma store_write_node:
  assumes "store_write st p c = Inr st'"
  shows "store_node st' q = (if path_key q = path_key p then Some (FileNode c (store_now st)) else store_node st q)"
  using assms by (auto simp: store_write_def Let_def store_node_def update_conv' split: if_splits)

lemma store_write_frame:
  "store_write st p c = Inr st' \<Longrightarrow> store_doc st' = store_doc st \<and> store_cache st' = store_cache st
     \<and> store_now st' = store_now st \<and> store_collation st' = store_collation st"
  by (auto simp: store_write_def Let_def split: if_splits)

lemma store_write_member:
  "store_write st p c = Inr st' \<Longrightarrow> (path_key p, FileNode c (store_now st)) \<in> set (store_nodes st')"
  by (auto simp: store_write_def Let_def update_conv' intro: map_of_SomeD split: if_splits)

lemma store_read_write:
  "store_write st p c = Inr st' \<Longrightarrow> store_read st' p = Inr c"
  by (simp add: store_read_def store_write_node)

lemma store_child_member:
  assumes "ends_with_slash d" "n \<noteq> []" "CHR ''/'' \<notin> set n" "(d @ n, x) \<in> set (store_nodes st)"
  shows "n \<in> set (store_children st (path_key d))"
proof -
  have d: "d \<noteq> []" using assms(1) by (simp add: ends_with_slash_def)
  have "d @ n \<noteq> path_key d" using path_key_dir_shorter[OF assms(1), of n] by (metis less_irrefl)
  moreover have "drop (Suc (length (path_key d))) (d @ n) = n"
    using d by (simp add: path_key_def assms(1))
  ultimately show ?thesis
    using assms parent_key_child[OF assms(1,3)]
    by (force simp: store_children_def)
qed


lemma store_info_dir:
  "is_dir_node (store_node st p) \<Longrightarrow> fi_exists (store_info st p) \<and> fi_is_dir (store_info st p)"
  by (cases "store_node st p" rule: is_dir_node.cases) (simp_all add: store_info_def)

lemma store_info_file:
  "store_node st p = Some (FileNode c t) \<Longrightarrow>
   store_info st p = \<lparr>fi_exists = True, fi_is_dir = False, fi_size = length c, fi_mtime = Some t, fi_uri = p\<rparr>"
  by (simp add: store_info_def)

lemma set_sort_files [simp]: "set (sort_files fs items) = set items"
  by (simp add: sort_files_def)

lemma store_listing:
  assumes "ends_with_slash d" "is_dir_node (store_node st d)"
  shows "hook_listing (store_fs st) d =
    Inr (d, sort_files (store_fs st) (map (hook_file_detail (store_fs st) d) (store_children st (path_key d))))"
proof -
  have "get_info (store_fs st) (normalize_path d) = Inr (store_info st d)"
    by (simp add: store_fs_def normalize_path_slash[OF assms(1)])
  moreover have "read_dir (store_fs st) (normalize_path d) = Inr (store_children st (path_key d))"
    using assms(2) by (simp add: store_fs_def store_read_dir_def normalize_path_slash[OF assms(1)])
  ultimately show ?thesis
    using hook_listing_ok store_info_dir[OF assms(2)] normalize_path_slash[OF assms(1)] by metis
qed

lemma hook_file_detail_file:
  assumes "store_node st (d @ n) = Some (FileNode c t)"
  shows "item_name (hook_file_detail (store_fs st) d n) = n \<and> item_path (hook_file_detail (store_fs st) d n) = d @ n
    \<and> item_size (hook_file_detail (store_fs st) d n) = Some (length c)
    \<and> \<not> item_is_dir (hook_file_detail (store_fs st) d n)"
  by (simp add: hook_file_detail_def Let_def store_fs_def store_info_file[OF assms])


lemma store_write_child:
  assumes "ends_with_slash d" "is_dir_node (store_node st d)" "n \<noteq> []" "CHR ''/'' \<notin> set n"
    "\<not> is_dir_node (store_node st (d @ n))"
  obtains st' where "store_write st (d @ n) c = Inr st'"
    "store_node st' (d @ n) = Some (FileNode c (store_now st))"
    "store_node st' d = store_node st d"
    "n \<in> set (store_children st' (path_key d))"
proof -
  have pk: "path_key (d @ n) = d @ n" using path_key_child[OF assms(3,4)] .
  have "is_dir_node (map_of (store_nodes st) (parent_key (path_key (d @ n))))"
    using assms(2) by (simp add: pk parent_key_child[OF assms(1,4)] store_node_def)
  then obtain st' where w: "store_write st (d @ n) c = Inr st'"
    using store_write_ok[OF assms(5)] by blast
  have "path_key d \<noteq> path_key (d @ n)"
    using path_key_dir_shorter[OF assms(1), of n] pk by (metis less_irrefl)
  then have "store_node st' d = store_node st d" by (simp add: store_write_node[OF w])
  moreover have "store_node st' (d @ n) = Some (FileNode c (store_now st))"
    by (simp add: store_write_node[OF w])
  moreover have "n \<in> set (store_children st' (path_key d))"
    using store_write_member[OF w] store_child_member[OF assms(1,3,4)] pk by metis
  ultimately show ?thesis using w that by blast
qed

text \<open>
  C28. Creating a file in the current directory shows it. When the hook's current
  path is a directory of the device and \<open>createFile\<close> is called with a name in it
  (non-empty, without \<open>/\<close>, not a directory), the write succeeds, \<open>createFile\<close>
  resolves with the path, and its refresh of the listing leaves the current path,
  no error, and a file list holding the new file with its size; reading the path
  back returns the content written.
\<close>

theorem create_file_lists_new_file:
  assumes "ends_with_slash (current_path s)" "is_dir_node (store_node st (current_path s))"
    "name \<noteq> []" "CHR ''/'' \<notin> set name" "\<not> is_dir_node (store_node st (current_path s @ name))"
  shows "\<exists>s' st'. hook_create_file s st (current_path s @ name) c = (Inr (current_path s @ name), s', st')
    \<and> current_path s' = current_path s \<and> hook_error s' = None
    \<and> (\<exists>i \<in> set (file_list s'). item_name i = name \<and> item_path i = current_path s @ name
          \<and> item_size i = Some (length c) \<and> \<not> item_is_dir i)
    \<and> hook_read_file (store_fs st') (current_path s @ name) = Inr c"
proof -
  let ?d = "current_path s"
  obtain st' where w: "store_write st (?d @ name) c = Inr st'"
    and f: "store_node st' (?d @ name) = Some (FileNode c (store_now st))"
    and dir: "store_node st' ?d = store_node st ?d"
    and mem: "name \<in> set (store_children st' (path_key ?d))"
    using store_write_child[OF assms] by blast
  let ?items = "sort_files (store_fs st') (map (hook_file_detail (store_fs st') ?d) (store_children st' (path_key ?d)))"
  have l: "hook_listing (store_fs st') ?d = Inr (?d, ?items)"
    using store_listing[OF assms(1)] assms(2) dir by metis
  let ?s' = "fst (list_files s (store_fs st') ?d)"
  have s': "?s' = s\<lparr>current_path := ?d, file_list := ?items, is_loading := False, hook_error := None\<rparr>"
    by (simp add: list_files_ok[OF l])
  have "hook_file_detail (store_fs st') ?d name \<in> set ?items" using mem by simp
  then have "\<exists>i \<in> set (file_list ?s'). item_name i = name \<and> item_path i = ?d @ name
      \<and> item_size i = Some (length c) \<and> \<not> item_is_dir i"
    using hook_file_detail_file[OF f] s' by force
  moreover have "hook_read_file (store_fs st') (?d @ name) = Inr c"
    by (simp add: hook_read_file_def store_fs_def store_read_write[OF w])
  ultimately show ?thesis by (simp add: hook_create_file_def w s')
qed

theorem create_file_lists_new_file_witness:
  "\<exists>s' st'. hook_create_file (use_file_system (store_fs demo_store)) demo_store
      (''file:///docs/'' @ ''a.txt'') ''abc'' = (Inr (''file:///docs/'' @ ''a.txt''), s', st')
    \<and> current_path s' = ''file:///docs/'' \<and> hook_error s' = None
    \<and> (\<exists>i \<in> set (file_list s'). item_name i = ''a.txt'' \<and> item_path i = ''file:///docs/'' @ ''a.txt''
          \<and> item_size i = Some 3 \<and> \<not> item_is_dir i)
    \<and> hook_read_file (store_fs st') (''file:///docs/'' @ ''a.txt'') = Inr ''abc''"
proof -
  have "current_path (use_file_system (store_fs demo_store)) = ''file:///docs/''"
    by (simp add: use_file_system_def store_fs_def demo_store_def)
  moreover have "ends_with_slash ''file:///docs/''" by (simp add: ends_with_slash_def)
  moreover have "is_dir_node (store_node demo_store ''file:///docs/'')"
    by (simp add: store_node_def demo_store_def path_key_def ends_with_slash_def)
  moreover have "\<not> is_dir_node (store_node demo_store (''file:///docs/'' @ ''a.txt''))"
    by (simp add: store_node_def demo_store_def path_key_def ends_with_slash_def)
  ultimately show ?thesis
    using create_file_lists_new_file[of "use_file_system (store_fs demo_store)" demo_store "''a.txt''" "''abc''"]
    by (simp add: numeral_eq_Suc)
qed


text \<open>
  C30. \<open>downloadFile\<close> does not read the HTTP status. Whatever status the server
  answers (a 404 or 500 included), when the cache directory is writable the body is
  saved under the file name and \<open>downloadFile\<close> resolves with the path as for a
  successful download.
\<close>

theorem download_saves_any_status:
  assumes "net url = Inr (status, body)" "ends_with_slash (store_cache st)"
    "is_dir_node (store_node st (store_cache st))" "filename \<noteq> []" "CHR ''/'' \<notin> set filename"
    "\<not> is_dir_node (store_node st (store_cache st @ filename))"
  shows "\<exists>st'. download_file st net url filename = (Inr (store_cache st @ filename), st')
    \<and> store_read st' (store_cache st @ filename) = Inr body"
proof -
  obtain st' where w: "store_write st (store_cache st @ filename) body = Inr st'"
    using store_write_child[OF assms(2-6)] by blast
  then show ?thesis
    using assms(1) store_read_write[OF w] by (simp add: download_file_def)
qed

theorem download_saves_any_status_witness:
  "\<exists>st'. download_file demo_store (\<lambda>u. Inr (404, ''Not Found'')) ''https://example.org/f'' ''f.bin''
      = (Inr (''file:///cache/'' @ ''f.bin''), st')
    \<and> store_read st' (''file:///cache/'' @ ''f.bin'') = Inr ''Not Found''"
proof -
  have "ends_with_slash (store_cache demo_store)"
    by (simp add: demo_store_def ends_with_slash_def)
  moreover have "is_dir_node (store_node demo_store (store_cache demo_store))"
    by (simp add: store_node_def demo_store_def path_key_def ends_with_slash_def)
  moreover have "\<not> is_dir_node (store_node demo_store (store_cache demo_store @ ''f.bin''))"
    by (simp add: store_node_def demo_store_def path_key_def ends_with_slash_def)
  ultimately show ?thesis
    using download_saves_any_status[of "\<lambda>u. Inr (404, ''Not Found'')" "''https://example.org/f''" 404
        "''Not Found''" demo_store "''f.bin''"]
    by (simp add: demo_store_def)
qed


lemma map_of_add_dirs:
  "map_of (add_dirs t ns as) a =
     (case map_of ns a of Some x \<Rightarrow> Some x | None \<Rightarrow> if a \<in> set as then Some (DirNode t) else None)"
  by (induction as arbitrary: ns) (auto simp: update_conv' split: option.splits)

lemma last_key_chain [simp]: "last (key_chain k) = k"
  by (simp add: key_chain_def)

lemma last_dropWhile: "dropWhile P xs \<noteq> [] \<Longrightarrow> last (dropWhile P xs) = last xs"
  by (metis last_appendR takeWhile_dropWhile_id)

lemma store_mkdir_dir:
  assumes "store_mkdir st p = Inr st'"
  shows "is_dir_node (store_node st' p) \<and> store_doc st' = store_doc st \<and> store_cache st' = store_cache st"
proof -
  let ?chain = "key_chain (path_key p)"
  let ?below = "dropWhile (\<lambda>a. map_of (store_nodes st) a = None) ?chain"
  have ok: "\<not> (\<exists>a \<in> set ?chain. is_file_node (map_of (store_nodes st) a))" "?below \<noteq> []"
    and st': "st' = st\<lparr>store_nodes := add_dirs (store_now st) (store_nodes st) ?below\<rparr>"
    using assms by (simp_all add: store_mkdir_def Let_def split: if_splits)
  have "path_key p \<in> set ?below"
    using last_dropWhile[OF ok(2)] last_in_set[OF ok(2)] by simp
  moreover have "\<not> is_file_node (map_of (store_nodes st) (path_key p))"
  proof -
    have "path_key p \<in> set ?chain" by (simp add: key_chain_def)
    then show ?thesis using ok(1) by blast
  qed
  ultimately have "is_dir_node (map_of (store_nodes st') (path_key p))"
    by (cases "map_of (store_nodes st) (path_key p)" rule: is_dir_node.cases)
       (auto simp: st' map_of_add_dirs)
  then show ?thesis by (simp add: store_node_def st')
qed

lemma create_directory_exists:
  "fi_exists (store_info st (normalize_path p)) \<Longrightarrow>
   create_directory st p =
     (if fi_is_dir (store_info st (normalize_path p)) then (Inr (store_info st (normalize_path p)), st)
      else (Inl (''Path exists but is not a directory: '' @ normalize_path p), st))"
  by (simp add: create_directory_def Let_def store_fs_def)

lemma create_directory_new:
  "\<not> fi_exists (store_info st (normalize_path p)) \<Longrightarrow>
   create_directory st p =
     (case store_mkdir st (normalize_path p) of
        Inl e \<Rightarrow> (Inl e, st) | Inr st1 \<Rightarrow> (Inr (store_info st1 (normalize_path p)), st1))"
  by (simp add: create_directory_def Let_def store_fs_def split: sum.split)

text \<open>
  C29. \<open>createDirectory\<close> is idempotent. When it resolves, its answer is an
  existing directory, and calling it again with the same path on the resulting
  device resolves with the same answer and changes nothing.
\<close>

theorem create_directory_idempotent:
  assumes "create_directory st p = (Inr info, st')"
  shows "fi_exists info \<and> fi_is_dir info \<and> create_directory st' p = (Inr info, st')"
proof -
  let ?np = "normalize_path p"
  have "fi_exists (store_info st' ?np) \<and> fi_is_dir (store_info st' ?np) \<and> info = store_info st' ?np"
  proof (cases "fi_exists (store_info st ?np)")
    case True
    note c = create_directory_exists[OF True]
    have d: "fi_is_dir (store_info st ?np)" using assms c by (simp split: if_splits)
    have "(Inr info, st') = (Inr (store_info st ?np) :: string + file_info, st)"
      using assms c d by metis
    then have "info = store_info st ?np" "st' = st" by simp_all
    then show ?thesis using True d by simp
  next
    case False
    have e: "(case store_mkdir st ?np of Inl e \<Rightarrow> (Inl e, st)
        | Inr st1 \<Rightarrow> (Inr (store_info st1 ?np), st1)) = (Inr info, st')"
      using assms create_directory_new[OF False] by metis
    obtain st1 where m: "store_mkdir st ?np = Inr st1"
      using e by (cases "store_mkdir st ?np") auto
    then have r: "info = store_info st1 ?np" "st' = st1" using e by auto
    have "is_dir_node (store_node st1 ?np)" using store_mkdir_dir[OF m] by simp
    then show ?thesis using store_info_dir[of st1 ?np] r by simp
  qed
  then show ?thesis using create_directory_exists[of st' p] by simp
qed


theorem create_directory_idempotent_witness:
  "\<exists>info st'. create_directory demo_store ''file:///docs/a/b'' = (Inr info, st')
     \<and> fi_exists info \<and> fi_is_dir info \<and> create_directory st' ''file:///docs/a/b'' = (Inr info, st')"
proof -
  have "\<exists>info st'. create_directory demo_store ''file:///docs/a/b'' = (Inr info, st')"
    by (simp add: create_directory_def store_fs_def store_info_def store_node_def demo_store_def
        path_key_def normalize_path_def ends_with_slash_def store_mkdir_def key_chain_def upt_rec)
  then obtain info st' where "create_directory demo_store ''file:///docs/a/b'' = (Inr info, st')" by blast
  with create_directory_idempotent[OF this] show ?thesis by blast
qed


lemma store_create_temp_file_refines:
  "fst (store_create_temp_file st content filename) = create_temp_file (store_fs st) content filename"
  by (simp add: store_create_temp_file_def create_temp_file_def store_fs_def temp_file_path_def Let_def
      split: sum.split)

lemma service_create_file_eq:
  "service_create_file st p c =
     (case store_write st p c of Inl e \<Rightarrow> (Inl e, st) | Inr st1 \<Rightarrow> (Inr (store_info st1 p), st1))"
  by (simp add: service_create_file_def store_fs_def split: sum.split)

lemma service_create_file_ok:
  assumes "service_create_file st p c = (Inr info, st')"
  shows "fi_exists info \<and> \<not> fi_is_dir info \<and> fi_size info = length c \<and> store_read st' p = Inr c"
proof -
  have e: "(case store_write st p c of Inl e \<Rightarrow> (Inl e, st)
      | Inr st1 \<Rightarrow> (Inr (store_info st1 p), st1)) = (Inr info, st')"
    using assms service_create_file_eq by metis
  obtain st1 where w: "store_write st p c = Inr st1"
    using e by (cases "store_write st p c") auto
  then have r: "info = store_info st1 p" "st' = st1" using e by auto
  have "store_node st1 p = Some (FileNode c (store_now st))" by (simp add: store_write_node[OF w])
  then show ?thesis using store_read_write[OF w] by (simp add: r store_info_file)
qed

lemma service_save_is_hook_without_album:
  "service_save_to_media_library ms st file_uri = hook_save_to_media_library ms st file_uri None"
  by (simp add: service_save_to_media_library_def hook_save_to_media_library_def
      split: option.split sum.split prod.split)



end
