(* ===== verification/Spec2Isabelle.thy ===== *)
theory Spec2Isabelle
  imports Dispatcher Transport Logger Csv Interleave Encryption Contacts App Settings NativeFs Permissions ScreenCapture SingleFileApp LegacyApi Ui Monitor FileStore
begin

text \<open>
  \<^bold>\<open>TelegramActionHub: a verification development.\<close>

  \<^bold>\<open>The program.\<close> A React Native app that, given a bot token and a chat id, polls the
  Telegram Bot API for operator commands and answers them through the same API. The
  singleton \<open>TelegramAPI\<close> (\<open>src/src/api/telegramAPI.js\<close>) holds the connection state,
  the command registry, the update dispatcher and its 3000 ms poller, and the
  outbound calls (\<open>sendMessage\<close>, \<open>sendFile\<close>, \<open>sendDeviceInfo\<close>) over an axios
  instance with a retry interceptor. The app component (\<open>App\<close>, \<open>src/unnamed/part_002\<close>)
  restores the saved credentials, registers eight command handlers that call the
  device services (contacts, SMS, file system, device information, screenshots) and
  runs a second poller; the settings form (\<open>src/unnamed/part_004\<close>) saves the
  credentials through the storage utility (\<open>src/unnamed/part_007\<close>) and initializes
  the API object. The services sit on hooks (\<open>useFileSystem\<close>, \<open>useMessageService\<close>,
  \<open>useDeviceInfo\<close>) and on native modules (\<open>NativeSmsAccess\<close>, \<open>NativeFileSystem\<close>).
  Beside them the repository keeps an earlier single-file app (\<open>src/unnamed/part_000\<close>),
  which calls the Bot API with axios directly, and an earlier \<open>TelegramAPI\<close>
  (\<open>src/unnamed/part_003\<close>) without reconnection or authorization filter.

  \<^bold>\<open>The library.\<close> One theory per component; each opens with a text saying what it
  models and how.
  \<^item> \<open>Prelude\<close>: JavaScript built-ins on strings (\<open>split\<close>, \<open>join\<close>, integer
    \<open>toString\<close>, ASCII case mapping, \<open>padStart\<close>), the Telegram update records, the
    JavaScript errors and the \<open>effect\<close> datatype every component emits; shared lemmas.
  \<^item> \<open>Registry\<close>, \<open>Connection\<close>, \<open>Dispatcher\<close>: the \<open>TelegramAPI\<close> object as the record
    \<open>tg\<close> with one function per method, the connection events as the machine
    \<open>conn_step\<close> with its reachable states, and \<open>getUpdates\<close>/\<open>processUpdate\<close>/the
    interval tick, where a JavaScript block yields its effects and a completion.
  \<^item> \<open>Transport\<close>: \<open>createTelegramAPI\<close>'s response interceptor as a recursion on the retry
    counter, refined to an explicit retry policy.
  \<^item> \<open>Interleave\<close>: the two pollers as events on a shared state with an abstract
    Telegram server, responses arriving after later ticks.
  \<^item> \<open>Logger\<close>: the bounded log buffer and its listeners.
  \<^item> \<open>FileSystem\<close>, \<open>Csv\<close>: the \<open>expo-file-system\<close> store, the \<open>useFileSystem\<close> hook
    (listing, navigation history, reads), \<open>fileService\<close> and its CSV writer, with a
    quoted-CSV reader for round trips.
  \<^item> \<open>Sms\<close>, \<open>Device\<close>, \<open>Contacts\<close>, \<open>Outbound\<close>: the SMS native module, hook and
    service, the device-information service and hook and the screenshot paths, the
    contacts service, and the API's \<open>sendFile\<close>/\<open>sendDeviceInfo\<close>.
  \<^item> \<open>App\<close>: every command handler of \<open>App\<close> as a function of the API state and of the
    hook state of the handler's render (React closures see the state of their render),
    and the registration effect.
  \<^item> \<open>Encryption\<close>: the XOR cipher and Base64 helpers on UTF-16 code units.
  \<^item> \<open>NativeFs\<close>: the storage functions of the native module with the media
    library as an input, and the enhanced \<open>useFileSystem\<close> of \<open>part_007\<close>, whose state
    extends the basic hook's record.
  \<^item> \<open>ScreenCapture\<close>: screenshot prevention and its check in both variants of the
    device service and in the native module, with \<open>expo-screen-capture\<close> as a state.
  \<^item> \<open>Permissions\<close>: the \<open>usePermissions\<close> hook with the Expo permission APIs
    as an input, and the start-up race of its mount effect with the app's
    \<open>requestAllPermissions\<close> as two step lists under a schedule.
  \<^item> \<open>Json\<close>, \<open>Storage\<close>, \<open>Settings\<close>: \<open>JSON.parse\<close>/\<open>JSON.stringify\<close>/\<open>ToString\<close>,
    the storage utility with its SecureStore fallback, the settings form as a session
    of events, and the credential restore of the app's start-up.
  \<^item> \<open>Monitor\<close>: the monitoring switch of \<open>App\<close> (\<open>startMonitoring\<close>,
    \<open>stopMonitoring\<close>, \<open>handleConnect\<close>, the connection listener of the mount effect,
    the Start/Stop button) with the running timers as state and the first render's
    closures in the listener.
  \<^item> \<open>Ui\<close>: \<open>ConnectionStatus\<close> and \<open>ConsoleLog\<close> as subscribers of the API and of the
    logger, and the values \<open>StatusBar\<close> renders.
  \<^item> \<open>LegacyApi\<close>: the earlier \<open>TelegramAPI\<close> (\<open>src/unnamed/part_003\<close>) as a state
    machine over its method calls, with \<open>legacy_of\<close> relating it to the current one.
  \<^item> \<open>FileStore\<close>: the device's storage as a store of files and directories from
    which the answers of \<open>expo-file-system\<close> are computed, and the writing operations
    on it: \<open>createFile\<close>, \<open>createTempFile\<close>, \<open>downloadFile\<close> and
    \<open>saveToMediaLibrary\<close> of both file-system hooks, \<open>createFile\<close>,
    \<open>createDirectory\<close>, \<open>shareFile\<close> and \<open>saveToMediaLibrary\<close> of the file service,
    with the media library's assets and albums as state.
  \<^item> \<open>SingleFileApp\<close>: the earlier single-file app (\<open>src/unnamed/part_000\<close>): its hooks,
    every handler as the list of requests, writes, log lines and setters it performs,
    and the interval that keeps the closure of the render that connected.

  \<^bold>\<open>What is proved.\<close> Forty claims C1 to C40, each stated after a text naming it.
  Dispatcher (C1 to C5, C10, C11): the cursor and offset of \<open>getUpdates\<close>, the spec's
  callback scenario, updates from other chats have no effect, a throwing handler does
  not stop the batch, parameterized callback routing, the error paths of a failed fetch
  and of a failed acknowledgement. Connection (C6 to C9, C14): the backoff schedule,
  the bounds of every reachable state, listeners holding the current status, no
  reconnect after giving up, and a liveness answer without bot id ending the reconnect
  chain. The earlier API (C12, C13): the current dispatcher refines it on authorized
  callbacks, and in it a failed fetch disconnects for good. Encryption (C15):
  \<open>decrypt\<close> inverts \<open>encrypt\<close>. Settings and storage (C16 to C18): with a working
  SecureStore the form only holds strings (a type invariant over every session); on
  the fallback a numeric chat id comes back as a number and the form's render throws;
  saved credentials restore the connection at start-up. Transport (C19 to C21): the
  interceptor refines the retry policy, one request is bounded, and its exhaustion.
  Logger and console (C22 to C24): the bound, the window of newest entries, and the
  console showing the newest \<open>maxLogs\<close> of them. File system and CSV (C25 to C31):
  navigation round trip, the service's and the hook's listings agree,
  \<open>generateCSV\<close> reads back, a created file shows in the refreshed listing and reads
  back, \<open>createDirectory\<close> is idempotent, \<open>downloadFile\<close> saves an HTTP error answer
  as the file, saving into an album leaves the asset in it. Pollers and start-up (C32
  to C38): overlapping ticks request the same offset twice, the app's guard reads a
  stale closure; connecting never starts
  the app's monitoring and a disconnection leaves its timer running; the permission
  statuses requested at start-up can be overwritten by the hook's mount check; the
  single-file app replays its first batch forever and its file browser never opens a
  file. Device and commands (C39, C40): \<open>sendDeviceInfo\<close> throws on the service's
  object, every file button fails. Further theorems, not among the claims, show that
  the contacts command never exports, that \<open>areScreenshotsDisabled\<close> answers whether
  capture is enabled, and that the native module's listing agrees with the hook's.

  \<^bold>\<open>Bounds and fuel.\<close> No function needs fuel: loops over batches, lists and texts
  are structural recursions or folds, the JSON lexer and parser are machines over
  the characters and the tokens, the retry interceptor recurses on a counter bounded
  by the code's limit (3 retries), and the reconnect and polling chains are driven by
  explicit events. The constants are the code's: 10 reconnect attempts, the 30000 ms
  delay cap, 200 log entries, 100 SMS messages, 50 MB per file. \<open>ToString\<close> of a
  number prints at most 20 decimals of its fraction (\<open>frac_text\<close>); JavaScript prints the
  shortest text of the nearest double, which agrees for the integers and short
  decimals the claims use.

  \<^bold>\<open>Not modelled.\<close> Logging (dropped from the effects, except in the single-file
  app, whose log is part of its state), render output beyond the values the settings
  form, the display components and the single-file app show, animations, styles and
  scrolling, the download's progress callback (it only logs), the Java source of \<open>NativeFileSystem\<close> kept as a string, the
  service's \<open>formatSmsAsText\<close>, and the build scripts (CI configuration). Module
  loading is not modelled: \<open>SettingsForm\<close> and \<open>ConsoleLog\<close>
  (\<open>src/unnamed/part_004\<close>, lines 239 and 408) read \<open>Platform.OS\<close> in their
  module-level styles without importing \<open>Platform\<close>, which throws a \<open>ReferenceError\<close>
  when the module is evaluated; the settings form and the console are modelled as the
  components they would be with the import in place (C16, C17, C24). Error texts of
  engine exceptions are V8's (Hermes words them differently); a chat id is a string. Texts are
  strings of 8-bit characters except in the encryption utilities, which work on UTF-16
  code units; JavaScript numbers are exact rationals (doubles are not modelled);
  \<open>toLowerCase\<close> is modelled on ASCII.
\<close>

end
